(* ===== verification/Go_Prelude.thy ===== *)
theory Go_Prelude
  imports Main "HOL-Library.AList" "HOL-Library.Sublist" "HOL-Library.Char_ord"
    "HOL-Library.List_Lexorder"
begin

text \<open>
  The part of the Go language and of its standard library that the operator uses, shared by
  every component:
  \<^item> strings as byte lists, with the functions of package \<open>strings\<close> the operator calls
    (\<open>Split\<close>, \<open>SplitN\<close>, \<open>Join\<close>, \<open>Trim\<close>, \<open>TrimSpace\<close>, \<open>HasPrefix\<close>, \<open>Contains\<close>,
    \<open>ReplaceAll\<close>, \<open>ToLower\<close>, \<open>ToUpper\<close>) and \<open>strconv.Itoa\<close>;
  \<^item> maps as association lists with distinct keys, in the order in which a \<open>range\<close> loop visits
    them: Go leaves that order open, so a statement about every association list is a statement
    about every iteration order;
  \<^item> errors as a datatype, and fallible computations on a state as functions
    \<open>'s \<Rightarrow> (go_error + 'a) \<times> 's\<close>, with a small program logic for them.
  Case mapping and white space are those of ASCII: the strings of the operator's own constants
  and of Kubernetes names are ASCII.
\<close>

named_theorems go_strings \<open>rewrite rules for the string functions\<close>
named_theorems go_maps \<open>rewrite rules for maps\<close>
named_theorems go_eff \<open>unfolding of the effect combinators\<close>
named_theorems wp \<open>rules of the program logic\<close>

section \<open>Strings\<close>

subsection \<open>Split and Join\<close>

text \<open>\<open>strings.Split(s, sep)\<close> for a separator of one byte; every call of the operator has one.\<close>

fun strings_Split :: "string \<Rightarrow> char \<Rightarrow> string list" where
  "strings_Split [] c = [[]]"
| "strings_Split (x # xs) c =
     (if x = c then [] # strings_Split xs c
      else (case strings_Split xs c of [] \<Rightarrow> [[x]] | p # ps \<Rightarrow> (x # p) # ps))"

text \<open>\<open>strings.SplitN(s, sep, 2)\<close>: split at the first separator only.\<close>

fun strings_SplitN2 :: "string \<Rightarrow> char \<Rightarrow> string list" where
  "strings_SplitN2 [] c = [[]]"
| "strings_SplitN2 (x # xs) c =
     (if x = c then [[], xs]
      else (case strings_SplitN2 xs c of [] \<Rightarrow> [[x]] | p # ps \<Rightarrow> (x # p) # ps))"

fun strings_Join :: "string list \<Rightarrow> string \<Rightarrow> string" where
  "strings_Join [] sep = []"
| "strings_Join [x] sep = x"
| "strings_Join (x # y # ys) sep = x @ sep @ strings_Join (y # ys) sep"

lemma Split_not_Nil [simp]: "strings_Split s c \<noteq> []"
  by (induction s) (auto split: list.splits)

lemma Split_no_sep [simp]: "c \<notin> set s \<Longrightarrow> strings_Split s c = [s]"
  by (induction s) auto

lemma Split_pieces: "p \<in> set (strings_Split s c) \<Longrightarrow> c \<notin> set p"
  by (induction s arbitrary: p) (fastforce split: if_splits list.splits)+

lemma Split_subset: "p \<in> set (strings_Split s c) \<Longrightarrow> set p \<subseteq> set s"
  by (induction s arbitrary: p) (fastforce split: if_splits list.splits)+

lemma Split_append_sep:
  "c \<notin> set p \<Longrightarrow> strings_Split (p @ c # s) c = p # strings_Split s c"
  by (induction p) auto

lemma Join_Cons: "ys \<noteq> [] \<Longrightarrow> strings_Join (y # ys) sep = y @ sep @ strings_Join ys sep"
  by (cases ys) auto

lemma Join_append:
  "xs \<noteq> [] \<Longrightarrow> ys \<noteq> [] \<Longrightarrow>
   strings_Join (xs @ ys) sep = strings_Join xs sep @ sep @ strings_Join ys sep"
  by (induction xs sep rule: strings_Join.induct) (auto simp: Join_Cons)

text \<open>Joining what a split yields gives the string back, and splitting what a join of
  separator-free pieces yields gives the pieces back.\<close>

lemma Join_Split: "strings_Join (strings_Split s c) [c] = s"
proof (induction s)
  case Nil
  then show ?case by simp
next
  case (Cons x xs)
  obtain p ps where ps: "strings_Split xs c = p # ps"
    by (cases "strings_Split xs c") auto
  with Cons show ?case by (cases ps) (auto simp: Join_Cons)
qed

lemma Split_Join:
  "xs \<noteq> [] \<Longrightarrow> (\<forall>x\<in>set xs. c \<notin> set x) \<Longrightarrow> strings_Split (strings_Join xs [c]) c = xs"
  by (induction xs "[c]" rule: strings_Join.induct) (auto simp: Split_append_sep)

lemma SplitN2_no_sep [simp]: "c \<notin> set s \<Longrightarrow> strings_SplitN2 s c = [s]"
  by (induction s) auto

lemma SplitN2_append_sep: "c \<notin> set p \<Longrightarrow> strings_SplitN2 (p @ c # s) c = [p, s]"
  by (induction p) auto

lemma SplitN2_sep: "c \<in> set s \<Longrightarrow> \<exists>p q. strings_SplitN2 s c = [p, q] \<and> s = p @ c # q \<and> c \<notin> set p"
  by (metis SplitN2_append_sep split_list_first)

lemma SplitN2_length: "length (strings_SplitN2 s c) = (if c \<in> set s then 2 else 1)"
  using SplitN2_sep[of c s] by (cases "c \<in> set s") auto

subsection \<open>Prefixes and substrings\<close>

definition strings_HasPrefix :: "string \<Rightarrow> string \<Rightarrow> bool" where
  "strings_HasPrefix s p \<longleftrightarrow> take (length p) s = p"

lemma HasPrefix_prefix: "strings_HasPrefix s p \<longleftrightarrow> prefix p s"
  by (auto simp: strings_HasPrefix_def prefix_def) (metis append_take_drop_id)

lemma HasPrefix_append [simp]: "strings_HasPrefix (p @ s) p"
  by (simp add: strings_HasPrefix_def)

lemma HasPrefix_refl [simp]: "strings_HasPrefix s s"
  by (simp add: strings_HasPrefix_def)

lemma HasPrefix_append_cancel [simp]:
  "strings_HasPrefix (p @ s) (p @ q) \<longleftrightarrow> strings_HasPrefix s q"
  by (simp add: HasPrefix_prefix)

text \<open>\<open>strings.Contains\<close>.\<close>

fun strings_Contains :: "string \<Rightarrow> string \<Rightarrow> bool" where
  "strings_Contains [] t \<longleftrightarrow> t = []"
| "strings_Contains (x # xs) t \<longleftrightarrow> strings_HasPrefix (x # xs) t \<or> strings_Contains xs t"

lemma Contains_iff: "strings_Contains s t \<longleftrightarrow> (\<exists>a b. s = a @ t @ b)"
proof (induction s)
  case Nil
  then show ?case by auto
next
  case (Cons x xs)
  then show ?case
    by (auto simp: HasPrefix_prefix prefix_def Cons_eq_append_conv)
qed

lemma Contains_char [simp]: "strings_Contains s [c] \<longleftrightarrow> c \<in> set s"
  by (auto simp: Contains_iff in_set_conv_decomp)

subsection \<open>Trimming\<close>

definition trim_by :: "(char \<Rightarrow> bool) \<Rightarrow> string \<Rightarrow> string" where
  "trim_by P s = rev (dropWhile P (rev (dropWhile P s)))"

text \<open>\<open>strings.Trim(s, " ")\<close> and \<open>strings.TrimSpace\<close>.\<close>

definition strings_Trim :: "string \<Rightarrow> string" where
  "strings_Trim s = trim_by (\<lambda>c. c = CHR '' '') s"

definition is_space :: "char \<Rightarrow> bool" where
  "is_space c \<longleftrightarrow> c = CHR '' '' \<or> (9 \<le> (of_char c :: nat) \<and> (of_char c :: nat) \<le> 13)"

definition strings_TrimSpace :: "string \<Rightarrow> string" where
  "strings_TrimSpace s = trim_by is_space s"

lemma trim_by_subset: "set (trim_by P s) \<subseteq> set s"
  by (auto simp: trim_by_def dest!: set_dropWhileD)

lemma trim_by_id: "(s \<noteq> [] \<Longrightarrow> \<not> P (hd s) \<and> \<not> P (last s)) \<Longrightarrow> trim_by P s = s"
proof -
  assume ends: "s \<noteq> [] \<Longrightarrow> \<not> P (hd s) \<and> \<not> P (last s)"
  have "dropWhile P s = s" using ends by (cases s) auto
  moreover have "dropWhile P (rev s) = rev s" using ends by (cases s rule: rev_cases) auto
  ultimately show ?thesis by (simp add: trim_by_def)
qed

lemma dropWhile_hd: "dropWhile P s \<noteq> [] \<Longrightarrow> \<not> P (hd (dropWhile P s))"
  by (induction s) auto

lemma last_dropWhile: "dropWhile P s \<noteq> [] \<Longrightarrow> last (dropWhile P s) = last s"
  by (induction s) auto

lemma trim_by_ends: "trim_by P s \<noteq> [] \<Longrightarrow> \<not> P (hd (trim_by P s)) \<and> \<not> P (last (trim_by P s))"
proof -
  define t where "t = dropWhile P s"
  assume "trim_by P s \<noteq> []"
  then have ne: "dropWhile P (rev t) \<noteq> []"
    by (simp add: trim_by_def t_def)
  then have "t \<noteq> []" by auto
  then have "\<not> P (hd t)" unfolding t_def by (rule dropWhile_hd)
  moreover have "last (dropWhile P (rev t)) = hd t"
    using last_dropWhile[OF ne] \<open>t \<noteq> []\<close> by (simp add: last_rev)
  ultimately show ?thesis
    using ne dropWhile_hd[OF ne] by (simp add: trim_by_def t_def hd_rev last_rev)
qed

lemma trim_by_idem [simp]: "trim_by P (trim_by P s) = trim_by P s"
  by (rule trim_by_id) (use trim_by_ends in blast)

lemma Trim_idem [simp]: "strings_Trim (strings_Trim s) = strings_Trim s"
  by (simp add: strings_Trim_def)

lemma Trim_no_space [simp]: "CHR '' '' \<notin> set s \<Longrightarrow> strings_Trim s = s"
  unfolding strings_Trim_def by (rule trim_by_id) (metis hd_in_set last_in_set)

lemma Trim_pad_left [simp]: "strings_Trim (CHR '' '' # s) = strings_Trim s"
  by (simp add: strings_Trim_def trim_by_def)

lemma Trim_pad_right [simp]: "strings_Trim (s @ '' '') = strings_Trim s"
proof (cases "dropWhile (\<lambda>c. c = CHR '' '') s = []")
  case True
  then have "dropWhile (\<lambda>c. c = CHR '' '') (s @ '' '') = []" by (induction s) (auto split: if_splits)
  with True show ?thesis by (auto simp: strings_Trim_def trim_by_def dest: set_dropWhileD)
next
  case False
  then have "dropWhile (\<lambda>c. c = CHR '' '') (s @ '' '') = dropWhile (\<lambda>c. c = CHR '' '') s @ '' ''"
    by (induction s) (auto split: if_splits)
  then show ?thesis by (simp add: strings_Trim_def trim_by_def)
qed

subsection \<open>Replacement and case\<close>

text \<open>\<open>strings.ReplaceAll\<close> for a non-empty \<open>old\<close>; the operator never passes an empty one.\<close>

fun strings_ReplaceAll :: "string \<Rightarrow> string \<Rightarrow> string \<Rightarrow> string" where
  "strings_ReplaceAll [] old new = []"
| "strings_ReplaceAll (x # xs) old new =
     (if strings_HasPrefix (x # xs) old
      then new @ strings_ReplaceAll (drop (length old - 1) xs) old new
      else x # strings_ReplaceAll xs old new)"

lemma ReplaceAll_char:
  "strings_ReplaceAll s [a] new = concat (map (\<lambda>c. if c = a then new else [c]) s)"
  by (induction s) (auto simp: strings_HasPrefix_def)

lemma ReplaceAll_char_gone: "a \<notin> set new \<Longrightarrow> a \<notin> set (strings_ReplaceAll s [a] new)"
  by (auto simp: ReplaceAll_char)

definition to_lower_char :: "char \<Rightarrow> char" where
  "to_lower_char c = (let n = (of_char c :: nat) in
     if 65 \<le> n \<and> n \<le> 90 then char_of (n + 32) else c)"

definition to_upper_char :: "char \<Rightarrow> char" where
  "to_upper_char c = (let n = (of_char c :: nat) in
     if 97 \<le> n \<and> n \<le> 122 then char_of (n - 32) else c)"

definition strings_ToLower :: "string \<Rightarrow> string" where
  "strings_ToLower s = map to_lower_char s"

definition strings_ToUpper :: "string \<Rightarrow> string" where
  "strings_ToUpper s = map to_upper_char s"

definition strings_EqualFold :: "string \<Rightarrow> string \<Rightarrow> bool" where
  "strings_EqualFold s t \<longleftrightarrow> strings_ToLower s = strings_ToLower t"

lemma to_lower_char_idem [simp]: "to_lower_char (to_lower_char c) = to_lower_char c"
  by (auto simp: to_lower_char_def Let_def of_char_of)

lemma ToLower_idem [simp]: "strings_ToLower (strings_ToLower s) = strings_ToLower s"
  by (simp add: strings_ToLower_def)

subsection \<open>Decimal numbers\<close>

fun itoa_nat :: "nat \<Rightarrow> string" where
  "itoa_nat n = (if n < 10 then [char_of (48 + n)]
                 else itoa_nat (n div 10) @ [char_of (48 + n mod 10)])"

declare itoa_nat.simps [simp del]

definition strconv_Itoa :: "int \<Rightarrow> string" where
  "strconv_Itoa i = (if i < 0 then CHR ''-'' # itoa_nat (nat (- i)) else itoa_nat (nat i))"

definition atoi_nat :: "string \<Rightarrow> nat" where
  "atoi_nat s = foldl (\<lambda>acc c. 10 * acc + (of_char c - 48)) 0 s"

lemma atoi_itoa_nat: "atoi_nat (itoa_nat n) = n"
proof (induction n rule: itoa_nat.induct)
  case (1 n)
  then show ?case
    by (cases "n < 10") (auto simp: itoa_nat.simps[of n] atoi_nat_def of_char_of)
qed

lemma itoa_nat_inj [simp]: "itoa_nat m = itoa_nat n \<longleftrightarrow> m = n"
  by (metis atoi_itoa_nat)

lemma itoa_nat_digits: "c \<in> set (itoa_nat n) \<Longrightarrow> 48 \<le> (of_char c :: nat) \<and> (of_char c :: nat) \<le> 57"
proof (induction n rule: itoa_nat.induct)
  case (1 n)
  then show ?case
    by (cases "n < 10") (auto simp: itoa_nat.simps[of n] of_char_of)
qed

lemma itoa_nat_no_minus: "CHR ''-'' \<notin> set (itoa_nat n)"
  using itoa_nat_digits[of "CHR ''-''" n] by auto

lemma Itoa_inj [simp]: "strconv_Itoa i = strconv_Itoa j \<longleftrightarrow> i = j"
  using itoa_nat_no_minus[of "nat i"] itoa_nat_no_minus[of "nat j"]
  by (auto simp: strconv_Itoa_def) (metis list.set_intros(1))+

definition FormatBool :: "bool \<Rightarrow> string" where
  "FormatBool b = (if b then ''true'' else ''false'')"

section \<open>Maps\<close>

type_synonym 'v gomap = "(string \<times> 'v) list"

abbreviation wf_map :: "('k \<times> 'v) list \<Rightarrow> bool" where
  "wf_map m \<equiv> distinct (map fst m)"

abbreviation mput :: "'k \<Rightarrow> 'v \<Rightarrow> ('k \<times> 'v) list \<Rightarrow> ('k \<times> 'v) list" where
  "mput k v m \<equiv> AList.update k v m"

abbreviation mdel :: "'k \<Rightarrow> ('k \<times> 'v) list \<Rightarrow> ('k \<times> 'v) list" where
  "mdel k m \<equiv> AList.delete k m"

text \<open>\<open>m[k]\<close> on a map of strings: the empty string when the key is absent.\<close>

definition mstr :: "string gomap \<Rightarrow> string \<Rightarrow> string" where
  "mstr m k = (case map_of m k of None \<Rightarrow> [] | Some v \<Rightarrow> v)"

lemma map_of_mput [simp, go_maps]: "map_of (mput k v m) = (map_of m)(k \<mapsto> v)"
  by (rule update_conv')

lemma map_of_mdel [simp, go_maps]: "map_of (mdel k m) = (map_of m)(k := None)"
  by (rule delete_conv')

lemma keys_mput: "set (map fst (mput k v m)) = insert k (set (map fst m))"
  by (induction m) auto

lemma wf_map_mput [simp]: "wf_map (mput k v m) = wf_map m"
proof (induction m)
  case (Cons p m)
  then show ?case using keys_mput[of k v m] by (cases p) auto
qed simp

lemma wf_map_mdel [simp]: "wf_map m \<Longrightarrow> wf_map (mdel k m)"
  by (rule distinct_delete)

lemma mstr_mput [simp, go_maps]: "mstr (mput k v m) k' = (if k' = k then v else mstr m k')"
  by (simp add: mstr_def)

lemma wf_map_length: "wf_map m \<Longrightarrow> length m = card (dom (map_of m))"
  by (metis distinct_card dom_map_of_conv_image_fst length_map set_map)

section \<open>Errors and effects\<close>

text \<open>
  The errors the code tells apart: the two classes of API errors it tests for
  (\<open>errors.IsNotFound\<close>, and the conflict \<open>retry.RetryOnConflict\<close> retries), the deadline of a
  polling loop, any other error with its message, and a run-time panic, which no
  \<open>if err != nil\<close> of the code sees.
\<close>

datatype go_error = NotFound | Conflict | Deadline | Err string | Panic

definition IsNotFound :: "go_error \<Rightarrow> bool" where
  "IsNotFound e \<longleftrightarrow> e = NotFound"

type_synonym ('s, 'a) eff = "'s \<Rightarrow> (go_error + 'a) \<times> 's"

definition returnE :: "'a \<Rightarrow> ('s, 'a) eff" where
  "returnE a = (\<lambda>s. (Inr a, s))"

definition throwE :: "go_error \<Rightarrow> ('s, 'a) eff" where
  "throwE e = (\<lambda>s. (Inl e, s))"

text \<open>\<open>x, err := m(); if err != nil { return err }; f(x)\<close>\<close>

definition bindE :: "('s, 'a) eff \<Rightarrow> ('a \<Rightarrow> ('s, 'b) eff) \<Rightarrow> ('s, 'b) eff" where
  "bindE m f = (\<lambda>s. case m s of (Inl e, s') \<Rightarrow> (Inl e, s') | (Inr a, s') \<Rightarrow> f a s')"

definition thenE :: "('s, 'a) eff \<Rightarrow> ('s, 'b) eff \<Rightarrow> ('s, 'b) eff" where
  "thenE m n = bindE m (\<lambda>_. n)"

text \<open>\<open>x, err := m(); if err != nil { h(err) } else { f(x) }\<close>; a panic is not an error value.\<close>

definition tryE :: "('s, 'a) eff \<Rightarrow> (go_error \<Rightarrow> ('s, 'b) eff) \<Rightarrow> ('a \<Rightarrow> ('s, 'b) eff) \<Rightarrow>
    ('s, 'b) eff" where
  "tryE m h f = (\<lambda>s. case m s of
      (Inl e, s') \<Rightarrow> (if e = Panic then (Inl Panic, s') else h e s')
    | (Inr a, s') \<Rightarrow> f a s')"

definition liftE :: "go_error + 'a \<Rightarrow> ('s, 'a) eff" where
  "liftE r = (\<lambda>s. (r, s))"

text \<open>\<open>*ptr\<close>\<close>

definition deref :: "'a option \<Rightarrow> go_error + 'a" where
  "deref p = (case p of None \<Rightarrow> Inl Panic | Some a \<Rightarrow> Inr a)"

definition getsE :: "('s \<Rightarrow> 'a) \<Rightarrow> ('s, 'a) eff" where
  "getsE f = (\<lambda>s. (Inr (f s), s))"

definition modifyE :: "('s \<Rightarrow> 's) \<Rightarrow> ('s, unit) eff" where
  "modifyE f = (\<lambda>s. (Inr (), f s))"

definition whenE :: "bool \<Rightarrow> ('s, unit) eff \<Rightarrow> ('s, unit) eff" where
  "whenE b m = (if b then m else returnE ())"

fun forE :: "'a list \<Rightarrow> ('a \<Rightarrow> ('s, unit) eff) \<Rightarrow> ('s, unit) eff" where
  "forE [] f = returnE ()"
| "forE (x # xs) f = thenE (f x) (forE xs f)"

lemmas eff_defs [go_eff] = returnE_def throwE_def bindE_def thenE_def tryE_def liftE_def
  getsE_def modifyE_def whenE_def

lemma bindE_assoc: "bindE (bindE m f) g = bindE m (\<lambda>x. bindE (f x) g)"
  by (auto simp: bindE_def fun_eq_iff split: prod.splits sum.splits)

lemma bindE_returnE [simp]: "bindE (returnE a) f = f a"
  by (simp add: bindE_def returnE_def)

lemma bindE_throwE [simp]: "bindE (throwE e) f = throwE e"
  by (simp add: bindE_def throwE_def)

lemma bindE_liftE [simp]: "bindE (liftE (Inr a)) f = f a" "bindE (liftE (Inl e)) f = throwE e"
  by (simp_all add: bindE_def liftE_def throwE_def)

lemma bindE_run: "m s = (Inr a, s') \<Longrightarrow> bindE m f s = f a s'"
  and bindE_fail: "m s = (Inl e, s') \<Longrightarrow> bindE m f s = (Inl e, s')"
  by (simp_all add: bindE_def)

text \<open>Computations on one half of a state.\<close>

definition on_fst :: "('s, 'a) eff \<Rightarrow> ('s \<times> 't, 'a) eff" where
  "on_fst m = (\<lambda>(s, t). case m s of (r, s') \<Rightarrow> (r, (s', t)))"

definition on_snd :: "('t, 'a) eff \<Rightarrow> ('s \<times> 't, 'a) eff" where
  "on_snd m = (\<lambda>(s, t). case m t of (r, t') \<Rightarrow> (r, (s, t')))"

subsection \<open>A program logic\<close>

text \<open>
  \<open>valid P m Q E\<close>: started in a state that satisfies \<open>P\<close>, the computation \<open>m\<close> ends with a
  result and state that satisfy \<open>Q\<close>, or with an error and state that satisfy \<open>E\<close>.
\<close>

definition valid :: "('s \<Rightarrow> bool) \<Rightarrow> ('s, 'a) eff \<Rightarrow> ('a \<Rightarrow> 's \<Rightarrow> bool) \<Rightarrow>
    (go_error \<Rightarrow> 's \<Rightarrow> bool) \<Rightarrow> bool" where
  "valid P m Q E \<longleftrightarrow> (\<forall>s. P s \<longrightarrow>
     (case m s of (Inl e, s') \<Rightarrow> E e s' | (Inr a, s') \<Rightarrow> Q a s'))"

lemma validI:
  "(\<And>s a s'. P s \<Longrightarrow> m s = (Inr a, s') \<Longrightarrow> Q a s') \<Longrightarrow>
   (\<And>s e s'. P s \<Longrightarrow> m s = (Inl e, s') \<Longrightarrow> E e s') \<Longrightarrow> valid P m Q E"
  by (auto simp: valid_def split: prod.splits sum.splits)

lemma validD: "valid P m Q E \<Longrightarrow> P s \<Longrightarrow> m s = (Inr a, s') \<Longrightarrow> Q a s'"
  by (auto simp: valid_def)

lemma validD_err: "valid P m Q E \<Longrightarrow> P s \<Longrightarrow> m s = (Inl e, s') \<Longrightarrow> E e s'"
  by (auto simp: valid_def)

lemma valid_conseq:
  "valid P m Q E \<Longrightarrow> (\<And>s. P' s \<Longrightarrow> P s) \<Longrightarrow> (\<And>a s. Q a s \<Longrightarrow> Q' a s) \<Longrightarrow>
   (\<And>e s. E e s \<Longrightarrow> E' e s) \<Longrightarrow> valid P' m Q' E'"
  by (fastforce simp: valid_def split: prod.splits sum.splits)

lemma valid_return [wp]: "valid (Q a) (returnE a) Q E"
  and valid_throw [wp]: "valid (E e) (throwE e) Q E"
  and valid_modify [wp]: "valid (\<lambda>s. Q () (f s)) (modifyE f) Q E"
  and valid_gets [wp]: "valid (\<lambda>s. Q (g s) s) (getsE g) Q E"
  and valid_lift [wp]: "valid (\<lambda>s. case r of Inl e \<Rightarrow> E e s | Inr a \<Rightarrow> Q a s) (liftE r) Q E"
  by (auto simp: valid_def eff_defs split: sum.splits)

lemma valid_bind [wp]:
  "(\<And>a. valid (R a) (f a) Q E) \<Longrightarrow> valid P m R E \<Longrightarrow> valid P (bindE m f) Q E"
  by (fastforce simp: valid_def bindE_def split: prod.splits sum.splits)

lemma valid_then [wp]: "valid R n Q E \<Longrightarrow> valid P m (\<lambda>_. R) E \<Longrightarrow> valid P (thenE m n) Q E"
  unfolding thenE_def by (rule valid_bind)

lemma valid_try [wp]:
  "(\<And>a. valid (R a) (f a) Q E) \<Longrightarrow> (\<And>e. valid (H e) (h e) Q E) \<Longrightarrow>
   valid P m R (\<lambda>e s. if e = Panic then E e s else H e s) \<Longrightarrow> valid P (tryE m h f) Q E"
  by (fastforce simp: valid_def tryE_def split: prod.splits sum.splits if_splits)

lemma valid_when [wp]:
  "(b \<Longrightarrow> valid P m Q E) \<Longrightarrow> (\<not> b \<Longrightarrow> valid P (returnE ()) Q E) \<Longrightarrow> valid P (whenE b m) Q E"
  by (simp add: whenE_def)

lemma valid_for_inv:
  "(\<And>x. x \<in> set xs \<Longrightarrow> valid I (f x) (\<lambda>_. I) E) \<Longrightarrow> valid I (forE xs f) (\<lambda>_. I) E"
proof (induction xs)
  case Nil
  then show ?case by (simp add: valid_def returnE_def)
next
  case (Cons x xs)
  then show ?case by (auto intro!: valid_then)
qed

text \<open>A state predicate that a computation keeps on every outcome.\<close>

definition keeps :: "('s \<Rightarrow> bool) \<Rightarrow> ('s, 'a) eff \<Rightarrow> bool" where
  "keeps I m \<longleftrightarrow> (\<forall>s. I s \<longrightarrow> I (snd (m s)))"

named_theorems keeps_rules \<open>rules for predicates kept by computations\<close>

lemma keeps_valid: "keeps I m \<longleftrightarrow> valid I m (\<lambda>_. I) (\<lambda>_. I)"
  unfolding keeps_def valid_def
  by (intro all_cong1 imp_cong refl) (auto split: prod.splits sum.splits)

lemma keepsD: "keeps I m \<Longrightarrow> I s \<Longrightarrow> m s = (r, s') \<Longrightarrow> I s'"
  by (fastforce simp: keeps_def)

lemma keeps_return [keeps_rules, intro!, simp]: "keeps I (returnE a)"
  and keeps_throw [keeps_rules, intro!, simp]: "keeps I (throwE e)"
  and keeps_lift [keeps_rules, intro!, simp]: "keeps I (liftE r)"
  and keeps_gets [keeps_rules, intro!, simp]: "keeps I (getsE g)"
  by (auto simp: keeps_def eff_defs)

lemma keeps_modify [keeps_rules]: "(\<And>s. I s \<Longrightarrow> I (f s)) \<Longrightarrow> keeps I (modifyE f)"
  by (auto simp: keeps_def eff_defs)

lemma keeps_bind [keeps_rules]: "keeps I m \<Longrightarrow> (\<And>a. keeps I (f a)) \<Longrightarrow> keeps I (bindE m f)"
  by (fastforce simp: keeps_def bindE_def split: prod.splits sum.splits)

lemma keeps_then [keeps_rules]: "keeps I m \<Longrightarrow> keeps I n \<Longrightarrow> keeps I (thenE m n)"
  unfolding thenE_def by (rule keeps_bind)

lemma keeps_try [keeps_rules]:
  "keeps I m \<Longrightarrow> (\<And>e. keeps I (h e)) \<Longrightarrow> (\<And>a. keeps I (f a)) \<Longrightarrow> keeps I (tryE m h f)"
  by (fastforce simp: keeps_def tryE_def split: prod.splits sum.splits)

text \<open>Where the continuation depends on what the result can be.\<close>

lemma keeps_bind_result:
  "keeps I m \<Longrightarrow> (\<And>s a s'. m s = (Inr a, s') \<Longrightarrow> keeps I (f a)) \<Longrightarrow> keeps I (bindE m f)"
  by (fastforce simp: keeps_def bindE_def split: prod.splits sum.splits)

lemma keeps_try_result:
  "keeps I m \<Longrightarrow> (\<And>e. keeps I (h e)) \<Longrightarrow> (\<And>s a s'. m s = (Inr a, s') \<Longrightarrow> keeps I (f a)) \<Longrightarrow> keeps I (tryE m h f)"
  by (fastforce simp: keeps_def tryE_def split: prod.splits sum.splits)

lemma keeps_when [keeps_rules]: "(b \<Longrightarrow> keeps I m) \<Longrightarrow> keeps I (whenE b m)"
  by (simp add: whenE_def)

lemma keeps_for [keeps_rules]: "(\<And>x. x \<in> set xs \<Longrightarrow> keeps I (f x)) \<Longrightarrow> keeps I (forE xs f)"
  by (induction xs) (auto intro!: keeps_then)

lemma keeps_if [keeps_rules]:
  "(b \<Longrightarrow> keeps I m) \<Longrightarrow> (\<not> b \<Longrightarrow> keeps I n) \<Longrightarrow> keeps I (if b then m else n)"
  by simp

lemma keeps_case_option [keeps_rules]:
  "(x = None \<Longrightarrow> keeps I m) \<Longrightarrow> (\<And>y. x = Some y \<Longrightarrow> keeps I (f y)) \<Longrightarrow>
   keeps I (case x of None \<Rightarrow> m | Some y \<Rightarrow> f y)"
  by (cases x) auto

lemma keeps_case_prod:
  "(\<And>a b. x = (a, b) \<Longrightarrow> keeps I (f a b)) \<Longrightarrow> keeps I (case x of (a, b) \<Rightarrow> f a b)"
  by (cases x) auto

lemma keeps_let: "(\<And>x. x = v \<Longrightarrow> keeps I (f x)) \<Longrightarrow> keeps I (let x = v in f x)"
  by simp

lemma keeps_on_fst [keeps_rules]: "keeps (\<lambda>(s, t). I t) (on_fst m)"
  by (auto simp: keeps_def on_fst_def split: prod.splits)

lemma keeps_on_snd [keeps_rules]: "keeps I m \<Longrightarrow> keeps (\<lambda>(s, t). I t) (on_snd m)"
  by (fastforce simp: keeps_def on_snd_def split: prod.splits)

end
