(* ===== verification/Operator_Util.thy ===== *)
theory Operator_Util
  imports Go_Prelude "HOL-Library.Word"
begin

text \<open>
  The helpers of \<open>operator/util\<close>: comparison of slices and maps, the parser of Mirror Maker
  property files, names and defaults. A slice that may be nil is an option, since
  \<open>EqualSlices\<close> tells a nil slice from an empty one.
\<close>

section \<open>Definitions\<close>

definition DefaultIfEmpty :: "string \<Rightarrow> string \<Rightarrow> string" where
  "DefaultIfEmpty value defaultValue = (if value = [] then defaultValue else value)"

fun util_Contains :: "string \<Rightarrow> string list \<Rightarrow> bool" where
  "util_Contains value [] = False"
| "util_Contains value (element # rest) = (if value = element then True else util_Contains value rest)"

abbreviation slice_of :: "string list option \<Rightarrow> string list" where
  "slice_of s \<equiv> (case s of None \<Rightarrow> [] | Some xs \<Rightarrow> xs)"

fun all_contained :: "string list \<Rightarrow> string list \<Rightarrow> bool" where
  "all_contained [] expected = True"
| "all_contained (e # es) expected =
     (if \<not> util_Contains e expected then False else all_contained es expected)"

definition EqualSlices :: "string list option \<Rightarrow> string list option \<Rightarrow> bool" where
  "EqualSlices actualSlice expectedSlice =
     (if actualSlice = None then False
      else if length (slice_of actualSlice) \<noteq> length (slice_of expectedSlice) then False
      else all_contained (slice_of actualSlice) (slice_of expectedSlice))"

definition EqualSlicesNil :: "string list option \<Rightarrow> string list option \<Rightarrow> bool" where
  "EqualSlicesNil actualSlice expectedSlice =
     (if expectedSlice = None \<and> actualSlice = None then True
      else EqualSlices actualSlice expectedSlice)"

text \<open>The loop of the map comparisons, over the entries of the first map in iteration order.\<close>

fun entries_agree :: "('v \<Rightarrow> 'v \<Rightarrow> bool) \<Rightarrow> 'v gomap \<Rightarrow> 'v gomap \<Rightarrow> bool" where
  "entries_agree eq [] expected = True"
| "entries_agree eq ((key, v) # rest) expected =
     (case map_of expected key of
        None \<Rightarrow> False
      | Some v' \<Rightarrow> (if \<not> eq v v' then False else entries_agree eq rest expected))"

definition EqualPlainMaps :: "string gomap \<Rightarrow> string gomap \<Rightarrow> bool" where
  "EqualPlainMaps actualMap expectedMap =
     (if length actualMap \<noteq> length expectedMap then False
      else entries_agree (=) actualMap expectedMap)"

definition EqualIntMaps :: "64 word gomap \<Rightarrow> 64 word gomap \<Rightarrow> bool" where
  "EqualIntMaps actualMap expectedMap =
     (if length actualMap \<noteq> length expectedMap then False
      else entries_agree (=) actualMap expectedMap)"

definition EqualComplexMaps :: "string list option gomap \<Rightarrow> string list option gomap \<Rightarrow> bool" where
  "EqualComplexMaps actualMap expectedMap =
     (if length actualMap \<noteq> length expectedMap then False
      else entries_agree EqualSlices actualMap expectedMap)"

definition AreMapsEqual :: "string gomap \<Rightarrow> string gomap \<Rightarrow> bool" where
  "AreMapsEqual first second =
     (if length first \<noteq> length second then False
      else entries_agree (=) first second)"

text \<open>
  \<open>operatorName[:len(operatorName)-17]\<close> panics on a name shorter than 17 bytes; the argument is
  the value of the environment variable \<open>OPERATOR_NAME\<close>.
\<close>

definition cut_operator_name :: "string \<Rightarrow> go_error + string" where
  "cut_operator_name operatorName =
     (if length operatorName < 17 then Inl Panic
      else Inr (take (length operatorName - 17) operatorName))"

definition GetKmmSecretName :: "string \<Rightarrow> go_error + string" where
  "GetKmmSecretName operatorName =
     map_sum id (\<lambda>n. n @ ''-mirror-maker-secret'') (cut_operator_name operatorName)"

definition GetKmmConfigMapName :: "string \<Rightarrow> go_error + string" where
  "GetKmmConfigMapName operatorName =
     map_sum id (\<lambda>n. n @ ''-mirror-maker-configuration'') (cut_operator_name operatorName)"

text \<open>A property value: a string, or a slice when the text has a comma.\<close>

datatype prop_value = PString string | PSlice "string list"

definition getTrimmedPropertyValue :: "string \<Rightarrow> prop_value" where
  "getTrimmedPropertyValue property =
     (let values = strings_Split property (CHR '','')
      in if length values = 1 then PString (strings_Trim property)
         else PSlice (map strings_Trim values))"

text \<open>The loop of \<open>GetProperties\<close> over the rows; \<open>pair[1]\<close> panics on a row without \<open>=\<close>.\<close>

fun read_rows :: "string list \<Rightarrow> prop_value gomap \<Rightarrow> go_error + prop_value gomap" where
  "read_rows [] properties = Inr properties"
| "read_rows (row # rows) properties =
     (if row \<noteq> [] \<and> \<not> strings_HasPrefix row ''#'' then
        (case strings_Split row (CHR ''='') of
           k # v # _ \<Rightarrow> read_rows rows (mput (strings_Trim k) (getTrimmedPropertyValue v) properties)
         | _ \<Rightarrow> Inl Panic)
      else read_rows rows properties)"

definition GetProperties :: "string \<Rightarrow> go_error + prop_value gomap" where
  "GetProperties configMapContent = read_rows (strings_Split configMapContent (CHR ''\<newline>'')) []"

text \<open>\<open>JoinMaps\<close> writes the entries of the side map, then those of the main map.\<close>

fun put_all :: "'v gomap \<Rightarrow> 'v gomap \<Rightarrow> 'v gomap" where
  "put_all res [] = res"
| "put_all res ((key, value) # rest) = put_all (mput key value res) rest"

definition JoinMaps :: "string gomap \<Rightarrow> string gomap \<Rightarrow> string gomap" where
  "JoinMaps sideMap mainMap = put_all (put_all [] sideMap) mainMap"

definition JoinNames :: "string list \<Rightarrow> string" where
  "JoinNames names = strings_Join (filter (\<lambda>name. name \<noteq> []) names) ''-''"

definition DefaultIfEmptyInt32 :: "32 word option \<Rightarrow> 32 word \<Rightarrow> 32 word" where
  "DefaultIfEmptyInt32 value defaultValue =
     (case value of None \<Rightarrow> defaultValue | Some v \<Rightarrow> v)"

definition util_Min :: "32 word \<Rightarrow> 32 word \<Rightarrow> 32 word" where
  "util_Min a b = (if sint a < sint b then a else b)"

section \<open>Slices and maps\<close>

lemma util_Contains_iff [simp]: "util_Contains v xs \<longleftrightarrow> v \<in> set xs"
  by (induction xs) auto

lemma all_contained_iff [simp]: "all_contained xs ys \<longleftrightarrow> set xs \<subseteq> set ys"
  by (induction xs) auto

lemma EqualSlices_iff:
  "EqualSlices (Some xs) (Some ys) \<longleftrightarrow> length xs = length ys \<and> set xs \<subseteq> set ys"
  by (simp add: EqualSlices_def)

lemma EqualSlices_distinct:
  assumes "distinct xs"
  shows "EqualSlices (Some xs) (Some ys) \<longleftrightarrow> distinct ys \<and> set xs = set ys"
proof
  assume eq: "EqualSlices (Some xs) (Some ys)"
  then have len: "length xs = length ys" and sub: "set xs \<subseteq> set ys"
    by (simp_all add: EqualSlices_iff)
  have "card (set ys) \<le> card (set xs)"
    using len assms by (metis card_length distinct_card)
  with sub have set: "set xs = set ys" by (meson List.finite_set card_seteq)
  then have "distinct ys" using len assms by (metis card_distinct distinct_card)
  with set show "distinct ys \<and> set xs = set ys" by simp
next
  assume "distinct ys \<and> set xs = set ys"
  then show "EqualSlices (Some xs) (Some ys)"
    using assms by (metis EqualSlices_iff distinct_card order_refl)
qed

lemma entries_agree_iff:
  "entries_agree eq m n \<longleftrightarrow> (\<forall>(k, v)\<in>set m. \<exists>v'. map_of n k = Some v' \<and> eq v v')"
  by (induction m) (auto split: option.splits if_splits)

lemma entries_agree_eq:
  "wf_map m \<Longrightarrow> entries_agree (=) m n \<longleftrightarrow> map_of m \<subseteq>\<^sub>m map_of n"
  unfolding entries_agree_iff map_le_def
  by (fastforce simp: dom_map_of_conv_image_fst map_of_is_SomeI)

lemma maps_equal_iff:
  assumes "wf_map m" "wf_map n"
  shows "length m = length n \<and> entries_agree (=) m n \<longleftrightarrow> map_of m = map_of n"
proof
  assume *: "length m = length n \<and> entries_agree (=) m n"
  then have le: "map_of m \<subseteq>\<^sub>m map_of n" using assms entries_agree_eq by blast
  moreover have "dom (map_of m) = dom (map_of n)"
    using le * assms by (intro card_subset_eq) (auto simp: wf_map_length finite_dom_map_of dest: map_le_implies_dom_le)
  ultimately show "map_of m = map_of n"
    by (metis map_le_def map_le_antisym)
next
  assume "map_of m = map_of n"
  then show "length m = length n \<and> entries_agree (=) m n"
    using assms by (simp add: wf_map_length entries_agree_eq)
qed

lemma map_of_put_all: "wf_map m \<Longrightarrow> map_of (put_all res m) = map_of res ++ map_of m"
proof (induction m arbitrary: res)
  case (Cons p m)
  obtain k v where p: "p = (k, v)" by force
  with Cons.prems have "map_of m k = None" by (auto simp: map_of_eq_None_iff)
  with Cons p show ?case
    by (auto simp: map_add_def fun_eq_iff split: option.splits)
qed simp

lemma wf_map_put_all [simp]: "wf_map res \<Longrightarrow> wf_map (put_all res m)"
  by (induction m arbitrary: res) auto

lemma wf_map_JoinMaps [simp]: "wf_map (JoinMaps m n)"
  by (simp add: JoinMaps_def)

lemma map_of_JoinMaps:
  "wf_map m \<Longrightarrow> wf_map n \<Longrightarrow> map_of (JoinMaps m n) = map_of m ++ map_of n"
  by (simp add: JoinMaps_def map_of_put_all)

section \<open>Property files\<close>

text \<open>The text the operator prints for a property, and what \<open>GetProperties\<close> reads from it.\<close>

definition property_line :: "string \<times> string \<Rightarrow> string" where
  "property_line kv = fst kv @ '' = '' @ snd kv"

definition plain_key :: "string \<Rightarrow> bool" where
  "plain_key k \<longleftrightarrow> k \<noteq> [] \<and> hd k \<noteq> CHR ''#'' \<and>
     set k \<inter> {CHR ''='', CHR '' '', CHR ''\<newline>''} = {}"

definition plain_value :: "string \<Rightarrow> bool" where
  "plain_value v \<longleftrightarrow> set v \<inter> {CHR ''='', CHR ''\<newline>''} = {}"

lemma Trim_space_value: "getTrimmedPropertyValue (CHR '' '' # v) = getTrimmedPropertyValue v"
proof (cases "CHR '','' \<in> set v")
  case True
  obtain p q where "strings_Split v (CHR '','') = p # q"
    by (cases "strings_Split v (CHR '','')") auto
  then show ?thesis by (auto simp: getTrimmedPropertyValue_def)
next
  case False
  then show ?thesis by (simp add: getTrimmedPropertyValue_def)
qed

text \<open>
  What a file says: the entry of a row (\<open>None\<close> where reading it panics, no entry for a comment or
  an empty row), and the value of a key, which is that of its last row.
\<close>

definition row_entry :: "string \<Rightarrow> (string \<times> prop_value) list option" where
  "row_entry row =
     (if row \<noteq> [] \<and> \<not> strings_HasPrefix row ''#'' then
        (case strings_Split row (CHR ''='') of
           k # v # _ \<Rightarrow> Some [(strings_Trim k, getTrimmedPropertyValue v)] | _ \<Rightarrow> None)
      else Some [])"

fun file_lookup :: "string list \<Rightarrow> string \<Rightarrow> prop_value option" where
  "file_lookup [] key = None"
| "file_lookup (row # rows) key = (case file_lookup rows key of
      Some v \<Rightarrow> Some v
    | None \<Rightarrow> (case row_entry row of None \<Rightarrow> None | Some es \<Rightarrow> map_of es key))"

definition readable :: "string list \<Rightarrow> bool" where
  "readable rows \<longleftrightarrow> (\<forall>row\<in>set rows. row_entry row \<noteq> None)"

lemma readable_simps [simp]:
  "readable []" "readable (r # rs) \<longleftrightarrow> row_entry r \<noteq> None \<and> readable rs"
  "readable (xs @ ys) \<longleftrightarrow> readable xs \<and> readable ys"
  by (auto simp: readable_def)

lemma read_rows_Cons:
  "read_rows (row # rows) p = (case row_entry row of
      None \<Rightarrow> Inl Panic | Some [] \<Rightarrow> read_rows rows p | Some ((k, v) # _) \<Rightarrow> read_rows rows (mput k v p))"
  by (auto simp: row_entry_def split: list.splits)

lemma row_entry_cases:
  obtains "row_entry row = None" | "row_entry row = Some []" | k v where "row_entry row = Some [(k, v)]"
  by (cases "row_entry row") (auto simp: row_entry_def split: if_splits list.splits)

lemma read_rows_lookup:
  "read_rows rows p = Inr m \<longleftrightarrow> readable rows \<and> read_rows rows p = Inr m"
  "readable rows \<Longrightarrow> \<exists>m. read_rows rows p = Inr m \<and>
     map_of m = (\<lambda>k. case file_lookup rows k of Some v \<Rightarrow> Some v | None \<Rightarrow> map_of p k)"
proof -
  show "read_rows rows p = Inr m \<longleftrightarrow> readable rows \<and> read_rows rows p = Inr m"
  proof (induction rows arbitrary: p)
    case (Cons row rows)
    then show ?case
      by (cases rule: row_entry_cases[of row]) (auto simp: read_rows_Cons simp del: read_rows.simps(2))
  qed simp
  show "readable rows \<Longrightarrow> \<exists>m. read_rows rows p = Inr m \<and>
     map_of m = (\<lambda>k. case file_lookup rows k of Some v \<Rightarrow> Some v | None \<Rightarrow> map_of p k)"
  proof (induction rows arbitrary: p)
    case (Cons row rows)
    show ?case
    proof (cases rule: row_entry_cases[of row])
      case 1
      then show ?thesis using Cons.prems by simp
    next
      case 2
      have "readable rows" using Cons.prems by simp
      from Cons.IH[OF this, of p] 2 show ?thesis
        by (auto simp: read_rows_Cons fun_eq_iff simp del: read_rows.simps(2) split: option.split)
    next
      case (3 k v)
      have "readable rows" using Cons.prems by simp
      from Cons.IH[OF this, of "mput k v p"] 3 show ?thesis
        by (auto simp: read_rows_Cons fun_eq_iff simp del: read_rows.simps(2) split: option.split)
    qed
  qed simp
qed

lemma read_rows_file: "readable rows \<Longrightarrow> \<exists>m. read_rows rows [] = Inr m \<and> map_of m = file_lookup rows"
proof -
  have "(\<lambda>k. case file_lookup rows k of Some v \<Rightarrow> Some v | None \<Rightarrow> map_of [] k) = file_lookup rows"
    by (auto simp: fun_eq_iff split: option.split)
  then show "readable rows \<Longrightarrow> ?thesis" using read_rows_lookup(2)[of rows "[]"] by auto
qed

lemma row_entry_property_line:
  "plain_key k \<Longrightarrow> plain_value v \<Longrightarrow> row_entry (property_line (k, v)) = Some [(k, getTrimmedPropertyValue v)]"
proof -
  assume k: "plain_key k" and v: "plain_value v"
  from k have start: "k \<noteq> []" "\<not> strings_HasPrefix (property_line (k, v)) ''#''"
    by (cases k; auto simp: plain_key_def property_line_def strings_HasPrefix_def)+
  have "strings_Split (property_line (k, v)) (CHR ''='') = [k @ '' '', CHR '' '' # v]"
    using k v Split_append_sep[of "CHR ''=''" "k @ '' ''" "CHR '' '' # v"]
    by (auto simp: plain_key_def plain_value_def property_line_def)
  moreover have "strings_Trim (k @ '' '') = k"
    using k by (simp add: plain_key_def)
  ultimately show ?thesis
    using start by (simp add: row_entry_def Trim_space_value property_line_def)
qed

lemma file_lookup_append:
  "file_lookup (xs @ ys) k = (case file_lookup ys k of Some v \<Rightarrow> Some v | None \<Rightarrow> file_lookup xs k)"
  by (induction xs) (auto split: option.splits)

lemma read_rows_line:
  assumes "plain_key k" "plain_value v"
  shows "read_rows (property_line (k, v) # rows) props =
    read_rows rows (mput k (getTrimmedPropertyValue v) props)"
  using assms by (simp add: read_rows_Cons row_entry_property_line del: read_rows.simps(2))

lemma read_rows_lines:
  "(\<forall>(k, v)\<in>set kvs. plain_key k \<and> plain_value v) \<Longrightarrow>
   read_rows (map property_line kvs) props =
   Inr (put_all props (map (\<lambda>(k, v). (k, getTrimmedPropertyValue v)) kvs))"
  by (induction kvs arbitrary: props) (auto simp: read_rows_line simp del: read_rows.simps(2))

text \<open>
  C29. Round trip of property files: for any list of properties whose keys are non-empty, do not
  start a comment and have no space, equals sign or newline, and whose values have no equals
  sign and no newline, \<open>GetProperties\<close> of the printed lines \<open>key = value\<close> does not panic and
  maps each key to its value, trimmed and split at commas.
\<close>

theorem GetProperties_roundtrip:
  assumes "kvs \<noteq> []" and "wf_map kvs"
    and "\<forall>(k, v)\<in>set kvs. plain_key k \<and> plain_value v"
  shows "\<exists>props. GetProperties (strings_Join (map property_line kvs) ''\<newline>'') = Inr props \<and>
    map_of props = map_option getTrimmedPropertyValue \<circ> map_of kvs"
proof -
  let ?vs = "map (\<lambda>(k, v). (k, getTrimmedPropertyValue v)) kvs"
  have "\<forall>l\<in>set (map property_line kvs). CHR ''\<newline>'' \<notin> set l"
    using assms(3) by (auto simp: property_line_def plain_key_def plain_value_def)
  then have "GetProperties (strings_Join (map property_line kvs) ''\<newline>'') =
      read_rows (map property_line kvs) []"
    using assms(1) by (simp add: GetProperties_def Split_Join)
  also have "\<dots> = Inr (put_all [] ?vs)"
    using assms(3) by (rule read_rows_lines)
  finally have "GetProperties (strings_Join (map property_line kvs) ''\<newline>'') =
      Inr (put_all [] ?vs)" .
  moreover have "map fst ?vs = map fst kvs" by auto
  then have "wf_map ?vs" using assms(2) by (simp only:)
  then have "map_of (put_all [] ?vs) = map_of ?vs" by (simp add: map_of_put_all)
  moreover have "map_of ?vs = map_option getTrimmedPropertyValue \<circ> map_of kvs"
    by (induction kvs) (auto simp: fun_eq_iff)
  ultimately show ?thesis by simp
qed

theorem GetProperties_roundtrip_witness:
  "\<exists>props. GetProperties ''clusters = dc1, dc2\<newline>tasks.max = 4'' = Inr props
     \<and> map_of props ''clusters'' = Some (PSlice [''dc1'', ''dc2'']) \<and> map_of props ''tasks.max'' = Some (PString ''4'')"
proof -
  have "strings_Join (map property_line [(''clusters'', ''dc1, dc2''), (''tasks.max'', ''4'')]) ''\<newline>''
      = ''clusters = dc1, dc2\<newline>tasks.max = 4''"
    by code_simp
  moreover have "getTrimmedPropertyValue ''dc1, dc2'' = PSlice [''dc1'', ''dc2'']"
    "getTrimmedPropertyValue ''4'' = PString ''4''"
    by code_simp+
  ultimately show ?thesis
    using GetProperties_roundtrip[of "[(''clusters'', ''dc1, dc2''), (''tasks.max'', ''4'')]"]
    by (auto simp: plain_key_def plain_value_def)
qed

end
