(* ===== verification/Float64.thy ===== *)
theory Float64
  imports Complex_Main "HOL-Library.Log_Nat"
begin

text \<open>
  Go's \<open>float64\<close> arithmetic as far as the skew computation of \<open>controllers/kafka_client.go\<close>
  uses it. A finite value is the rational it denotes; every operation is the exact operation
  followed by rounding to 53 significant bits, ties to even, which is IEEE 754 binary64 away from
  overflow and underflow. The operands are partition counts, their quotients and hundredths, so
  neither occurs. \<open>math.Round\<close> (half away from zero) and the truncating conversion to an integer
  are exact.
\<close>

section \<open>Definitions\<close>

type_synonym float64 = rat

text \<open>The integer part of the binary logarithm of a positive rational.\<close>

definition flog2 :: "rat \<Rightarrow> int" where
  "flog2 x = (let (n, d) = quotient_of x; e = bitlen n - bitlen d
              in if 2 powi e \<le> x then e else e - 1)"

definition round_even :: "rat \<Rightarrow> int" where
  "round_even x = (let f = \<lfloor>x\<rfloor>; r = x - of_int f
     in if r < 1 / 2 then f else if r > 1 / 2 then f + 1 else if even f then f else f + 1)"

definition ulp :: "rat \<Rightarrow> rat" where
  "ulp x = 2 powi (flog2 \<bar>x\<bar> - 52)"

definition fl :: "rat \<Rightarrow> float64" where
  "fl x = (if x = 0 then 0 else of_int (round_even (x / ulp x)) * ulp x)"

definition math_Round :: "float64 \<Rightarrow> int" where
  "math_Round x = (if x < 0 then - \<lfloor>- x + 1 / 2\<rfloor> else \<lfloor>x + 1 / 2\<rfloor>)"

definition trunc_int :: "float64 \<Rightarrow> int" where
  "trunc_int x = (if x < 0 then - \<lfloor>- x\<rfloor> else \<lfloor>x\<rfloor>)"

section \<open>Binary logarithm\<close>

lemma flog2_bounds:
  assumes "0 < x"
  shows "2 powi flog2 x \<le> x" and "x < 2 powi (flog2 x + 1)"
proof -
  obtain n d where q: "quotient_of x = (n, d)" by fastforce
  then have x: "x = of_int n / of_int d" by (rule quotient_of_div)
  have d: "0 < d" using q by (rule quotient_of_denom_pos)
  have n: "0 < n" using assms x d by (simp add: zero_less_divide_iff)
  define e where "e = bitlen n - bitlen d"
  have bn: "(of_int n :: rat) < 2 powi bitlen n" "2 powi (bitlen n - 1) \<le> (of_int n :: rat)"
    and bd: "(of_int d :: rat) < 2 powi bitlen d" "2 powi (bitlen d - 1) \<le> (of_int d :: rat)"
  proof -
    have *: "(of_int k :: rat) < 2 powi bitlen k \<and> 2 powi (bitlen k - 1) \<le> (of_int k :: rat)"
      if "0 < k" for k :: int
    proof -
      have "1 \<le> bitlen k" using that bitlen_eq_zero_iff[of k] bitlen_nonneg[of k] by linarith
      moreover have "2 ^ nat (bitlen k - 1) \<le> k" "k < 2 ^ nat (bitlen k)"
        using bitlen_bounds[OF that] by auto
      then have "(2 ^ nat (bitlen k - 1) :: rat) \<le> of_int k" "(of_int k :: rat) < 2 ^ nat (bitlen k)"
        by (metis of_int_le_iff of_int_less_iff of_int_numeral of_int_power)+
      ultimately show ?thesis by (simp add: power_int_def)
    qed
    from *[OF n] *[OF d] show "(of_int n :: rat) < 2 powi bitlen n"
      "2 powi (bitlen n - 1) \<le> (of_int n :: rat)" "(of_int d :: rat) < 2 powi bitlen d"
      "2 powi (bitlen d - 1) \<le> (of_int d :: rat)" by auto
  qed
  have lo: "2 powi (e - 1) \<le> x"
  proof -
    have "2 powi (e - 1) * of_int d \<le> (2 powi (e - 1) * 2 powi bitlen d :: rat)"
      using bd(1) by (intro mult_left_mono) auto
    also have "\<dots> = 2 powi (bitlen n - 1)" by (simp add: e_def flip: power_int_add)
    also have "\<dots> \<le> of_int n" by (rule bn(2))
    finally show ?thesis using d by (simp add: x field_simps)
  qed
  have hi: "x < 2 powi (e + 1)"
  proof -
    have "(of_int n :: rat) < 2 powi bitlen n" by (rule bn(1))
    also have "\<dots> = 2 powi (e + 1) * 2 powi (bitlen d - 1)" by (simp add: e_def flip: power_int_add)
    also have "\<dots> \<le> 2 powi (e + 1) * of_int d" using bd(2) by (intro mult_left_mono) auto
    finally show ?thesis using d by (simp add: x field_simps)
  qed
  have "flog2 x = (if 2 powi e \<le> x then e else e - 1)"
    by (simp add: flog2_def q e_def Let_def)
  then show "2 powi flog2 x \<le> x" "x < 2 powi (flog2 x + 1)"
    using lo hi by (auto split: if_splits)
qed

lemma flog2_unique:
  assumes "0 < x" "2 powi e \<le> x" "x < 2 powi (e + 1)"
  shows "flog2 x = e"
proof -
  have "(2 :: rat) powi e < 2 powi (flog2 x + 1)" "(2 :: rat) powi flog2 x < 2 powi (e + 1)"
    using assms flog2_bounds[OF assms(1)] by auto
  then have "e < flog2 x + 1" "flog2 x < e + 1"
    by (meson not_less one_le_numeral power_int_increasing)+
  then show ?thesis by simp
qed

lemma flog2_mono:
  assumes "0 < x" "x \<le> y"
  shows "flog2 x \<le> flog2 y"
proof -
  have "(2 :: rat) powi flog2 x < 2 powi (flog2 y + 1)"
    using assms flog2_bounds[of x] flog2_bounds[of y] by simp
  then have "flog2 x < flog2 y + 1"
    by (meson not_less one_le_numeral power_int_increasing)
  then show ?thesis by simp
qed

lemma ulp_pos [simp]: "0 < ulp x"
  by (simp add: ulp_def)

lemma ulp_minus [simp]: "ulp (- x) = ulp x"
  by (simp add: ulp_def)

section \<open>Rounding\<close>

lemma round_even_mono: "x \<le> y \<Longrightarrow> round_even x \<le> round_even y"
proof -
  assume le: "x \<le> y"
  have bounds: "\<lfloor>z\<rfloor> \<le> round_even z \<and> round_even z \<le> \<lfloor>z\<rfloor> + 1" for z
    by (simp add: round_even_def Let_def)
  show ?thesis
  proof (cases "\<lfloor>x\<rfloor> = \<lfloor>y\<rfloor>")
    case True
    then show ?thesis using le by (auto simp: round_even_def Let_def)
  next
    case False
    then have "\<lfloor>x\<rfloor> + 1 \<le> \<lfloor>y\<rfloor>" using floor_mono[OF le] by simp
    then show ?thesis using bounds[of x] bounds[of y] by simp
  qed
qed

lemma round_even_of_int [simp]: "round_even (of_int n) = n"
  by (simp add: round_even_def)

lemma round_even_minus: "round_even (- x) = - round_even x"
proof (cases "of_int \<lfloor>x\<rfloor> = x")
  case True
  then show ?thesis by (metis of_int_minus round_even_of_int)
next
  case False
  then have "of_int \<lfloor>x\<rfloor> < x" "x < of_int \<lfloor>x\<rfloor> + 1"
    using of_int_floor_le[of x] floor_correct[of x] by (auto simp: le_less)
  then have "\<lfloor>- x\<rfloor> = - \<lfloor>x\<rfloor> - 1" by (intro floor_unique) auto
  then show ?thesis by (simp add: round_even_def Let_def)
qed

lemma fl_zero [simp]: "fl 0 = 0"
  by (simp add: fl_def)

lemma fl_minus: "fl (- x) = - fl x"
  by (simp add: fl_def round_even_minus)

lemma scaled_bounds:
  assumes "0 < x"
  shows "2 ^ 52 \<le> x / ulp x" "x / ulp x \<le> 2 ^ 53"
proof -
  have "(2 :: rat) ^ 52 * ulp x = 2 powi flog2 x"
    using assms by (simp add: ulp_def power_int_diff)
  with flog2_bounds[OF assms] show "2 ^ 52 \<le> x / ulp x"
    by (simp add: le_divide_eq)
  have "(2 :: rat) ^ 53 * ulp x = 2 powi (flog2 x + 1)"
    using assms by (simp add: ulp_def power_int_diff power_int_add)
  with flog2_bounds[OF assms] show "x / ulp x \<le> 2 ^ 53"
    by (simp add: divide_le_eq)
qed

lemma fl_pos_bounds:
  assumes "0 < x"
  shows "2 powi flog2 x \<le> fl x" "fl x \<le> 2 powi (flog2 x + 1)"
proof -
  have eq: "fl x = of_int (round_even (x / ulp x)) * ulp x" using assms by (simp add: fl_def)
  have "round_even (of_int (2 ^ 52)) \<le> round_even (x / ulp x)"
    using scaled_bounds(1)[OF assms] by (intro round_even_mono) simp
  then have "(of_int (2 ^ 52) :: rat) \<le> of_int (round_even (x / ulp x))"
    by (simp only: round_even_of_int of_int_le_iff)
  then have "2 ^ 52 * ulp x \<le> fl x" unfolding eq by (intro mult_right_mono) (auto simp: less_imp_le)
  then show "2 powi flog2 x \<le> fl x" using assms by (simp add: ulp_def power_int_diff)
  have "round_even (x / ulp x) \<le> round_even (of_int (2 ^ 53))"
    using scaled_bounds(2)[OF assms] by (intro round_even_mono) simp
  then have "(of_int (round_even (x / ulp x)) :: rat) \<le> of_int (2 ^ 53)"
    by (simp only: round_even_of_int of_int_le_iff)
  then have "fl x \<le> 2 ^ 53 * ulp x" unfolding eq by (intro mult_right_mono) (auto simp: less_imp_le)
  then show "fl x \<le> 2 powi (flog2 x + 1)"
    using assms by (simp add: ulp_def power_int_diff power_int_add)
qed

lemma fl_pos: "0 < x \<Longrightarrow> 0 < fl x"
  by (rule less_le_trans[OF _ fl_pos_bounds(1)[of x]]) auto

lemma fl_mono_pos:
  assumes "0 < x" "x \<le> y"
  shows "fl x \<le> fl y"
proof (cases "flog2 x = flog2 y")
  case True
  then have u: "ulp x = ulp y" using assms by (simp add: ulp_def)
  have "round_even (x / ulp x) \<le> round_even (y / ulp y)"
    using assms u by (intro round_even_mono) (simp add: divide_right_mono less_imp_le)
  then have "(of_int (round_even (x / ulp x)) :: rat) * ulp x \<le> of_int (round_even (y / ulp y)) * ulp y"
    by (simp add: u mult_right_mono less_imp_le)
  then show ?thesis using assms by (simp add: fl_def)
next
  case False
  then have "flog2 x + 1 \<le> flog2 y" using flog2_mono[OF assms] by simp
  then have "(2 :: rat) powi (flog2 x + 1) \<le> 2 powi flog2 y" by (rule power_int_increasing) auto
  moreover have "fl x \<le> 2 powi (flog2 x + 1)" using fl_pos_bounds(2)[OF assms(1)] .
  moreover have "2 powi flog2 y \<le> fl y" using assms fl_pos_bounds(1)[of y] by simp
  ultimately show ?thesis by (meson order_trans)
qed

lemma fl_nonneg: "0 \<le> x \<Longrightarrow> 0 \<le> fl x"
  using fl_pos[of x] by (cases "x = 0") auto

text \<open>Rounding is monotone, so comparisons of exact values survive it.\<close>

lemma fl_mono: "x \<le> y \<Longrightarrow> fl x \<le> fl y"
proof -
  assume le: "x \<le> y"
  consider "0 < x" | "x \<le> 0" "0 \<le> y" | "y < 0" by linarith
  then show ?thesis
  proof cases
    case 1
    then show ?thesis using le by (rule fl_mono_pos)
  next
    case 2
    have "fl x \<le> 0" using fl_nonneg[of "- x"] 2(1) by (simp add: fl_minus)
    also have "0 \<le> fl y" using 2(2) by (rule fl_nonneg)
    finally show ?thesis .
  next
    case 3
    then have "fl (- y) \<le> fl (- x)" using le by (intro fl_mono_pos) auto
    then show ?thesis by (simp add: fl_minus)
  qed
qed

lemma fl_eq_0_iff [simp]: "fl x = 0 \<longleftrightarrow> x = 0"
  using fl_pos[of x] fl_pos[of "- x"] by (cases x "0 :: rat" rule: linorder_cases) (auto simp: fl_minus)

text \<open>A value with at most 53 significant bits is exact.\<close>

lemma fl_dyadic:
  assumes "x = of_int m * 2 powi e" "\<bar>m\<bar> < 2 ^ 53"
  shows "fl x = x"
proof (cases "m = 0")
  case False
  have *: "fl (of_int k * 2 powi e) = of_int k * 2 powi e" if k: "0 < k" "k < 2 ^ 53" for k :: int
  proof -
    let ?x = "of_int k * 2 powi e :: rat"
    have x0: "0 < ?x" using k by simp
    have "(of_int k :: rat) < of_int (2 ^ 53)" using k(2) by (simp only: of_int_less_iff)
    then have "?x < 2 powi (e + 53)" by (simp add: power_int_add)
    then have "(2 :: rat) powi flog2 ?x < 2 powi (e + 53)" using flog2_bounds(1)[OF x0] by simp
    then have "flog2 ?x < e + 53" by (meson not_less one_le_numeral power_int_increasing)
    define j where "j = nat (e - (flog2 ?x - 52))"
    with \<open>flog2 ?x < e + 53\<close> have j: "e = (flog2 ?x - 52) + int j" by simp
    define u where "u = ulp ?x"
    have u: "0 < u" "2 powi e = u * 2 ^ j"
      using x0 by (simp_all add: u_def) (subst j, simp add: ulp_def power_int_add)
    have "fl ?x = of_int (round_even (?x / u)) * u" using k by (simp add: fl_def u_def)
    also have "?x / u = of_int (k * 2 ^ j)" using u by (simp add: field_simps)
    also have "of_int (round_even (of_int (k * 2 ^ j))) * u = ?x"
      unfolding round_even_of_int using u by simp
    finally show ?thesis .
  qed
  show ?thesis
  proof (cases "0 < m")
    case True
    then show ?thesis using *[of m] assms by simp
  next
    case neg: False
    then have "fl (of_int (- m) * 2 powi e) = of_int (- m) * 2 powi e" using False assms by (intro *) auto
    then have "fl (- x) = - x" by (simp add: assms(1))
    then show ?thesis by (simp add: fl_minus)
  qed
qed (simp add: assms)

lemma fl_of_int: "\<bar>n\<bar> < 2 ^ 53 \<Longrightarrow> fl (of_int n) = of_int n"
  by (rule fl_dyadic[where m = n and e = 0]) auto

lemma fl_one [simp]: "fl 1 = 1"
  using fl_of_int[of 1] by simp

lemma fl_numeral: "(numeral k :: int) < 2 ^ 53 \<Longrightarrow> fl (numeral k) = numeral k"
  using fl_of_int[of "numeral k"] by simp

text \<open>What rounding yields has 53 significant bits, so rounding again changes nothing.\<close>

lemma fl_idem_pos:
  assumes "0 < x"
  shows "fl (fl x) = fl x"
proof -
  define m where "m = round_even (x / ulp x)"
  define e where "e = flog2 x - 52"
  have fx: "fl x = of_int m * 2 powi e"
    using assms by (simp add: fl_def m_def e_def ulp_def)
  have "round_even (of_int (2 ^ 52)) \<le> m" "m \<le> round_even (of_int (2 ^ 53))"
    unfolding m_def using scaled_bounds[OF assms] by (auto intro!: round_even_mono)
  then have m: "2 ^ 52 \<le> m" "m \<le> 2 ^ 53"
    by (auto simp only: round_even_of_int)
  show ?thesis
  proof (cases "m = 2 ^ 53")
    case True
    then have "fl x = of_int 1 * 2 powi (e + 53)"
      by (simp add: fx power_int_add)
    then show ?thesis by (rule fl_dyadic) simp
  next
    case False
    with m have "\<bar>m\<bar> < 2 ^ 53" by auto
    with fx show ?thesis by (rule fl_dyadic)
  qed
qed

lemma fl_idem [simp]: "fl (fl x) = fl x"
  using fl_idem_pos[of x] fl_idem_pos[of "- x"] by (cases x "0::rat" rule: linorder_cases) (auto simp: fl_minus)

section \<open>Integers\<close>

lemma math_Round_of_int [simp]: "math_Round (of_int n) = n"
  by (auto simp: math_Round_def floor_eq_iff)

lemma math_Round_mono: "x \<le> y \<Longrightarrow> math_Round x \<le> math_Round y"
proof -
  assume le: "x \<le> y"
  show ?thesis
  proof (cases "x < 0 \<and> 0 \<le> y")
    case True
    then have "0 \<le> \<lfloor>- x + 1 / 2\<rfloor>" "0 \<le> \<lfloor>y + 1 / 2\<rfloor>" by auto
    then have "- \<lfloor>- x + 1 / 2\<rfloor> \<le> \<lfloor>y + 1 / 2\<rfloor>" by linarith
    then show ?thesis using True unfolding math_Round_def by simp
  next
    case False
    then show ?thesis using le by (auto simp: math_Round_def intro!: floor_mono)
  qed
qed

lemma trunc_int_mono: "x \<le> y \<Longrightarrow> trunc_int x \<le> trunc_int y"
proof -
  assume le: "x \<le> y"
  show ?thesis
  proof (cases "x < 0 \<and> 0 \<le> y")
    case True
    then have "0 \<le> \<lfloor>- x\<rfloor>" "0 \<le> \<lfloor>y\<rfloor>" by auto
    then have "- \<lfloor>- x\<rfloor> \<le> \<lfloor>y\<rfloor>" by linarith
    then show ?thesis using True unfolding trunc_int_def by simp
  next
    case False
    then show ?thesis using le by (auto simp: trunc_int_def intro!: floor_mono)
  qed
qed

lemma trunc_int_of_int [simp]: "trunc_int (of_int n) = n"
  by (auto simp: trunc_int_def floor_eq_iff)

end
