(* ===== verification/Partition_Reassign.thy ===== *)
theory Partition_Reassign
  imports Go_Prelude Operator_Util Float64 "HOL-Library.Multiset"
begin

text \<open>
  \<open>operator/controllers/kafka_client.go\<close>: the Kafka client of the operator, which waits for the
  brokers and moves partition replicas from overloaded to underloaded brokers.

  The sarama \<open>ClusterAdmin\<close>, the clock and \<open>sort.Slice\<close> (whose order of equal elements Go leaves
  open) are arguments. The admin client is a record of operations on a state \<open>'w\<close> of the Kafka
  cluster; \<open>ca_Sleep\<close> is what happens to that state while the operator sleeps. Broker ids and
  partition counts are integers; \<open>skew_in_percent\<close> below shows that the \<open>int32\<close> skew stays
  within \<open>-100 .. 100\<close>.
\<close>

section \<open>Data\<close>

record saslSettings =
  Mechanism :: string
  sasl_Username :: string
  sasl_Password :: string

record sslCertificates =
  CaCert :: string
  TlsCert :: string
  TlsKey :: string

record brokerInfo =
  brokerId :: int
  partitionsCount :: int
  rack :: string
  skew :: int

record topicDetail =
  NumPartitions :: int
  ReplicationFactor :: int
  ReplicaAssignment :: "int \<rightharpoonup> int list"

record topicInfo =
  topicName :: string
  configs :: topicDetail

record kafkaClient =
  serviceName :: string
  clientUsername :: string
  clientPassword :: string
  newBrokersCount :: int
  allBrokersStartTimeoutSeconds :: int
  topicReassignmentTimeoutSeconds :: int
  controllerId :: int
  racksEnabled :: bool
  brokerRacks :: "int \<rightharpoonup> string"

text \<open>A broker of the cluster description (\<open>sarama.Broker\<close>), and the admin client.\<close>

record sbroker =
  broker_ID :: int
  broker_Rack :: string

record 'w clusterAdmin =
  ca_DescribeCluster :: "('w, sbroker list \<times> int) eff"
  ca_ListTopics :: "('w, topicDetail gomap) eff"
  ca_DescribeTopics :: "string list \<Rightarrow> ('w, int list list) eff"
  ca_AlterPartitionReassignments :: "string \<Rightarrow> int list list \<Rightarrow> ('w, unit) eff"
  ca_ListPartitionReassignments :: "string \<Rightarrow> int list \<Rightarrow> ('w, nat gomap) eff"
  ca_Sleep :: "int \<Rightarrow> 'w \<Rightarrow> 'w"

text \<open>\<open>sort.Slice(x, less)\<close>.\<close>

type_synonym sorter = "(brokerInfo \<Rightarrow> brokerInfo \<Rightarrow> bool) \<Rightarrow> brokerInfo list \<Rightarrow> brokerInfo list"

section \<open>Client configuration\<close>

text \<open>
  The fields of \<open>sarama.Config\<close> that \<open>NewKafkaClientConfig\<close> sets. The certificate pool is the PEM
  text appended to it; \<open>x509KeyPair\<close> stands for \<open>tls.X509KeyPair\<close>, \<open>newConfig\<close> for
  \<open>sarama.NewConfig()\<close>.
\<close>

record 'c tlsConfig =
  RootCAs :: string
  Certificates :: "'c list"

record 'c saramaConfig =
  SASL_Enable :: bool
  SASL_Mechanism :: string
  SASL_User :: string
  SASL_Password :: string
  SASL_SCRAMClientGenerator :: bool
  TLS_Enable :: bool
  TLS_Config :: "'c tlsConfig option"
  Version :: string

definition SASLTypeSCRAMSHA512 :: string where
  "SASLTypeSCRAMSHA512 = ''SCRAM-SHA-512''"

definition SASLTypePlaintext :: string where
  "SASLTypePlaintext = ''PLAIN''"

definition sasl_config :: "saslSettings \<Rightarrow> 'c saramaConfig \<Rightarrow> go_error + 'c saramaConfig" where
  "sasl_config saslSettings config =
     (if sasl_Username saslSettings \<noteq> [] \<and> sasl_Password saslSettings \<noteq> [] then
        let mechanism = DefaultIfEmpty (Mechanism saslSettings) SASLTypeSCRAMSHA512
        in if mechanism \<noteq> SASLTypePlaintext \<and> mechanism \<noteq> SASLTypeSCRAMSHA512
           then Inl (Err (''cannot use given SASL Mechanism: '' @ mechanism))
           else Inr (config\<lparr>SASL_Enable := True, SASL_Mechanism := mechanism,
                  SASL_User := sasl_Username saslSettings, SASL_Password := sasl_Password saslSettings,
                  SASL_SCRAMClientGenerator :=
                    (if mechanism = SASLTypeSCRAMSHA512 then True else SASL_SCRAMClientGenerator config)\<rparr>)
      else Inr config)"

definition tls_config :: "(string \<Rightarrow> string \<Rightarrow> go_error + 'c) \<Rightarrow> bool \<Rightarrow> sslCertificates \<Rightarrow>
    'c saramaConfig \<Rightarrow> go_error + 'c saramaConfig" where
  "tls_config x509KeyPair sslEnabled certs config =
     (if sslEnabled then
        (if CaCert certs \<noteq> [] then
           (if TlsCert certs \<noteq> [] \<and> TlsKey certs \<noteq> [] then
              (case x509KeyPair (TlsCert certs) (TlsKey certs) of
                 Inl err \<Rightarrow> Inl err
               | Inr cert \<Rightarrow> Inr (config\<lparr>TLS_Config :=
                     Some \<lparr>RootCAs = CaCert certs, Certificates = [cert]\<rparr>, TLS_Enable := True\<rparr>))
            else Inr (config\<lparr>TLS_Config := Some \<lparr>RootCAs = CaCert certs, Certificates = []\<rparr>,
                        TLS_Enable := True\<rparr>))
         else Inr (config\<lparr>TLS_Enable := True\<rparr>))
      else Inr config)"

definition NewKafkaClientConfig :: "(string \<Rightarrow> string \<Rightarrow> go_error + 'c) \<Rightarrow> 'c saramaConfig \<Rightarrow>
    saslSettings \<Rightarrow> bool \<Rightarrow> sslCertificates \<Rightarrow> go_error + 'c saramaConfig" where
  "NewKafkaClientConfig x509KeyPair newConfig saslSettings sslEnabled sslCertificates =
     (case sasl_config saslSettings newConfig of
        Inl err \<Rightarrow> Inl err
      | Inr config \<Rightarrow>
          (case tls_config x509KeyPair sslEnabled sslCertificates config of
             Inl err \<Rightarrow> Inl err
           | Inr config \<Rightarrow> Inr (config\<lparr>Version := ''3.6.0.0''\<rparr>)))"

text \<open>
  \<open>NewKafkaAdminClient\<close> and \<open>NewKafkaClient\<close>; \<open>newClusterAdmin\<close> stands for
  \<open>sarama.NewClusterAdmin(address, config)\<close>. The client comes with the admin client it uses.
\<close>

definition NewKafkaAdminClient :: "(string \<Rightarrow> string \<Rightarrow> go_error + 'c) \<Rightarrow> 'c saramaConfig \<Rightarrow>
    (string list \<Rightarrow> 'c saramaConfig \<Rightarrow> ('w, 'a) eff) \<Rightarrow> string \<Rightarrow> saslSettings \<Rightarrow> bool \<Rightarrow>
    sslCertificates \<Rightarrow> ('w, 'a) eff" where
  "NewKafkaAdminClient x509KeyPair newConfig newClusterAdmin bootstrapServers saslSettings
      sslEnabled sslCertificates =
     bindE (liftE (NewKafkaClientConfig x509KeyPair newConfig saslSettings sslEnabled sslCertificates))
       (\<lambda>config. newClusterAdmin (strings_Split bootstrapServers (CHR '','')) config)"

definition NewKafkaClient :: "(string \<Rightarrow> string \<Rightarrow> go_error + 'c) \<Rightarrow> 'c saramaConfig \<Rightarrow>
    (string list \<Rightarrow> 'c saramaConfig \<Rightarrow> ('w, 'a) eff) \<Rightarrow> string \<Rightarrow> string \<Rightarrow> string \<Rightarrow> bool \<Rightarrow>
    sslCertificates \<Rightarrow> int \<Rightarrow> int \<Rightarrow> int \<Rightarrow> ('w, kafkaClient \<times> 'a) eff" where
  "NewKafkaClient x509KeyPair newConfig newClusterAdmin service username password sslEnabled
      sslCertificates brokersCount startTimeout reassignmentTimeout =
     bindE (NewKafkaAdminClient x509KeyPair newConfig newClusterAdmin (service @ '':9092'')
              \<lparr>Mechanism = SASLTypeSCRAMSHA512, sasl_Username = username, sasl_Password = password\<rparr>
              sslEnabled sslCertificates)
       (\<lambda>adminClient. returnE
          (\<lparr>serviceName = service, clientUsername = username, clientPassword = password,
            newBrokersCount = brokersCount, allBrokersStartTimeoutSeconds = startTimeout,
            topicReassignmentTimeoutSeconds = reassignmentTimeout, controllerId = 0,
            racksEnabled = False, brokerRacks = Map.empty\<rparr>, adminClient))"

section \<open>Skew of the brokers\<close>

definition go_Max :: "float64 \<Rightarrow> float64 \<Rightarrow> float64" where
  "go_Max x y = (if x < y then y else x)"

definition RoundFloatTo2Decimals :: "float64 \<Rightarrow> float64" where
  "RoundFloatTo2Decimals x = fl (of_int (math_Round (fl (x * 100))) / 100)"

definition go_Abs :: "int \<Rightarrow> int" where
  "go_Abs x = (if x < 0 then - x else x)"

definition averageNumOfPartitionsPerBroker :: "kafkaClient \<Rightarrow> brokerInfo list \<Rightarrow> float64" where
  "averageNumOfPartitionsPerBroker kc brokersInfo =
     RoundFloatTo2Decimals (fl (fl (of_int (sum_list (map partitionsCount brokersInfo)))
                                / fl (of_int (newBrokersCount kc))))"

definition skew_percent :: "float64 \<Rightarrow> float64 \<Rightarrow> int" where
  "skew_percent brokerSkew maxPossibleSkew =
     (if brokerSkew = 0 \<or> maxPossibleSkew = 0 then 0
      else trunc_int (fl (RoundFloatTo2Decimals (fl (brokerSkew / maxPossibleSkew)) * 100)))"

definition calculateBrokersSkew :: "kafkaClient \<Rightarrow> int \<Rightarrow> brokerInfo list \<Rightarrow> brokerInfo list" where
  "calculateBrokersSkew kc globalPartitionCount brokersInfo =
     (let average = averageNumOfPartitionsPerBroker kc brokersInfo;
          maxPossibleSkew = go_Max (fl (fl (of_int globalPartitionCount) - average)) average;
          brokersSkew = fold (\<lambda>broker m. m(brokerId broker :=
              skew_percent (fl (fl (of_int (partitionsCount broker)) - average)) maxPossibleSkew))
            brokersInfo (\<lambda>_. 0)
      in map (\<lambda>broker. broker\<lparr>skew := brokersSkew (brokerId broker)\<rparr>) brokersInfo)"

fun checkBrokersSkewIsNormal :: "brokerInfo list \<Rightarrow> bool" where
  "checkBrokersSkewIsNormal [] = True"
| "checkBrokersSkewIsNormal (broker # rest) =
     (if go_Abs (skew broker) > 5 then False else checkBrokersSkewIsNormal rest)"

definition newBrokerInfo :: "kafkaClient \<Rightarrow> int \<Rightarrow> int \<Rightarrow> brokerInfo" where
  "newBrokerInfo kc bid cnt = \<lparr>brokerId = bid, partitionsCount = cnt,
     rack = (case brokerRacks kc bid of None \<Rightarrow> [] | Some r \<Rightarrow> r), skew = 0\<rparr>"

section \<open>Choosing the brokers to swap\<close>

fun containsString :: "string list \<Rightarrow> string \<Rightarrow> bool" where
  "containsString [] element = False"
| "containsString (a # rest) element = (if a = element then True else containsString rest element)"

fun containsInt32 :: "int list \<Rightarrow> int \<Rightarrow> bool" where
  "containsInt32 [] element = False"
| "containsInt32 (a # rest) element = (if a = element then True else containsInt32 rest element)"

text \<open>The racks of the first \<open>len(brokers)\<close> broker numbers, as the code computes them.\<close>

definition getRacksForBrokers :: "kafkaClient \<Rightarrow> int list \<Rightarrow> string list" where
  "getRacksForBrokers kc brokers =
     map (\<lambda>broker. case brokerRacks kc (int broker) of None \<Rightarrow> [] | Some r \<Rightarrow> r) [0..<length brokers]"

text \<open>Fewer than \<open>newBrokersCount\<close> brokers are an index out of range, a negative count a negative
  length of a slice.\<close>

definition PrepareBrokersWithMostAndLeastPartitions :: "sorter \<Rightarrow> kafkaClient \<Rightarrow> brokerInfo list \<Rightarrow>
    go_error + (brokerInfo list \<times> brokerInfo list)" where
  "PrepareBrokersWithMostAndLeastPartitions sort_Slice kc brokersInfo =
     (if newBrokersCount kc < 0 \<or> int (length brokersInfo) < newBrokersCount kc then Inl Panic
      else let brokers = take (nat (newBrokersCount kc)) brokersInfo;
               threshold = length (takeWhile (\<lambda>b. \<not> skew b < 0) brokers)
           in Inr (take threshold brokers,
                   sort_Slice (\<lambda>a b. skew a < skew b) (drop threshold brokers)))"

fun find_replica :: "int \<Rightarrow> int \<Rightarrow> int list \<Rightarrow> (int \<times> int) option" where
  "find_replica bid idx [] = None"
| "find_replica bid idx (replica # rest) =
     (if bid = replica then Some (replica, idx) else find_replica bid (idx + 1) rest)"

fun CalcBrokerWithMostPartitionsToSwap :: "brokerInfo list \<Rightarrow> int list \<Rightarrow> int \<times> int" where
  "CalcBrokerWithMostPartitionsToSwap [] replicas = (- 1, - 1)"
| "CalcBrokerWithMostPartitionsToSwap (broker # rest) replicas =
     (case find_replica (brokerId broker) 0 replicas of
        Some r \<Rightarrow> r
      | None \<Rightarrow> CalcBrokerWithMostPartitionsToSwap rest replicas)"

definition CalcBrokerWithLeastPartitionsToSwap :: "kafkaClient \<Rightarrow> brokerInfo list \<Rightarrow> int list \<Rightarrow> int \<Rightarrow> int" where
  "CalcBrokerWithLeastPartitionsToSwap kc brokersWithLeastPartitions replicas brokerWithMost =
     (let free = (\<lambda>b. \<not> containsInt32 replicas (brokerId b));
          currentRacks = getRacksForBrokers kc replicas;
          mostRack = (case brokerRacks kc brokerWithMost of None \<Rightarrow> [] | Some r \<Rightarrow> r);
          byRack = (if racksEnabled kc then
              (case find (\<lambda>b. \<not> containsString currentRacks (rack b) \<and> free b) brokersWithLeastPartitions of
                 Some b \<Rightarrow> Some b
               | None \<Rightarrow> find (\<lambda>b. mostRack = rack b \<and> free b) brokersWithLeastPartitions)
            else None)
      in case byRack of
           Some b \<Rightarrow> brokerId b
         | None \<Rightarrow> (case find free brokersWithLeastPartitions of Some b \<Rightarrow> brokerId b | None \<Rightarrow> - 1))"

definition UpdateBrokersInfoWithNewPartitionsDistribution :: "brokerInfo list \<Rightarrow> int \<Rightarrow> int \<Rightarrow> brokerInfo list" where
  "UpdateBrokersInfoWithNewPartitionsDistribution brokersInfo most least =
     map (\<lambda>broker. if brokerId broker = most then broker\<lparr>partitionsCount := partitionsCount broker - 1\<rparr>
            else if brokerId broker = least then broker\<lparr>partitionsCount := partitionsCount broker + 1\<rparr>
            else broker) brokersInfo"

section \<open>The new assignment of a topic\<close>

text \<open>
  \<open>CopyCurrentReplicaAssignment\<close> panics on a negative number of partitions and where a partition
  has fewer replicas than the replication factor of the topic.
\<close>

definition CopyCurrentReplicaAssignment :: "topicInfo \<Rightarrow> go_error + int list list" where
  "CopyCurrentReplicaAssignment topic =
     (let np = NumPartitions (configs topic); rf = ReplicationFactor (configs topic);
          row = (\<lambda>part. case ReplicaAssignment (configs topic) (int part) of None \<Rightarrow> [] | Some r \<Rightarrow> r)
      in if np < 0 then Inl Panic
         else if \<exists>part \<in> set [0..<nat np]. rf < 0 \<or> int (length (row part)) < rf then Inl Panic
         else Inr (map (\<lambda>part. take (nat rf) (row part)) [0..<nat np]))"

record reassignState =
  st_brokersInfo :: "brokerInfo list"
  st_assignment :: "int list list"
  st_previousAssignment :: int

text \<open>One round of the loop over the partitions, and the loop.\<close>

definition reassign_step :: "sorter \<Rightarrow> kafkaClient \<Rightarrow> topicDetail \<Rightarrow> int \<Rightarrow> nat \<Rightarrow> reassignState \<Rightarrow>
    go_error + reassignState" where
  "reassign_step sort_Slice kc config globalPartitionCount part st =
     (let brokersInfo = sort_Slice (\<lambda>a b. skew a > skew b)
            (calculateBrokersSkew kc globalPartitionCount (st_brokersInfo st));
          st = st\<lparr>st_brokersInfo := brokersInfo\<rparr>;
          replicas = st_assignment st ! part
      in case PrepareBrokersWithMostAndLeastPartitions sort_Slice kc brokersInfo of
           Inl e \<Rightarrow> Inl e
         | Inr (brokersWithMost, brokersWithLeast) \<Rightarrow>
             (let (most, idx) = CalcBrokerWithMostPartitionsToSwap brokersWithMost replicas
              in if most = - 1 then Inr st
                 else let least = CalcBrokerWithLeastPartitionsToSwap kc brokersWithLeast replicas most
                 in if least = - 1 then Inr st
                 else if ReplicationFactor config = 1 \<and> st_previousAssignment st = least
                 then Inr (st\<lparr>st_previousAssignment := - 1\<rparr>)
                 else Inr (st\<lparr>st_previousAssignment := least,
                        st_assignment := (st_assignment st)[part := replicas[nat idx := least]],
                        st_brokersInfo :=
                          UpdateBrokersInfoWithNewPartitionsDistribution brokersInfo most least\<rparr>)))"

fun reassign_loop :: "sorter \<Rightarrow> kafkaClient \<Rightarrow> topicDetail \<Rightarrow> int \<Rightarrow> nat list \<Rightarrow> reassignState \<Rightarrow>
    go_error + reassignState" where
  "reassign_loop sort_Slice kc config global [] st = Inr st"
| "reassign_loop sort_Slice kc config global (part # rest) st =
     (case reassign_step sort_Slice kc config global part st of
        Inl e \<Rightarrow> Inl e
      | Inr st \<Rightarrow> reassign_loop sort_Slice kc config global rest st)"

definition new_assignment :: "sorter \<Rightarrow> kafkaClient \<Rightarrow> topicInfo \<Rightarrow> brokerInfo list \<Rightarrow> int \<Rightarrow> go_error + int list list" where
  "new_assignment sort_Slice kc topic brokersInfo globalPartitionCount =
     (case CopyCurrentReplicaAssignment topic of
        Inl e \<Rightarrow> Inl e
      | Inr a \<Rightarrow> map_sum id st_assignment
          (reassign_loop sort_Slice kc (configs topic) globalPartitionCount
            [0..<nat (NumPartitions (configs topic))]
            \<lparr>st_brokersInfo = brokersInfo, st_assignment = a, st_previousAssignment = - 1\<rparr>))"

section \<open>Waiting and the whole procedure\<close>

function wait_reassignment :: "'w clusterAdmin \<Rightarrow> topicInfo \<Rightarrow> int \<Rightarrow> 'w \<Rightarrow> 'w" where
  "wait_reassignment ca topic remaining w =
     (let (r, w) = ca_ListPartitionReassignments ca (topicName topic)
                     (map int [0..<nat (NumPartitions (configs topic))]) w
      in if (case r of Inr status \<Rightarrow> map_of status (topicName topic) \<in> {None, Some 0} | Inl _ \<Rightarrow> False) then w
         else let w = ca_Sleep ca 2 w; remaining = remaining - 2
         in if remaining \<le> 0 then w else wait_reassignment ca topic remaining w)"
  by pat_completeness auto
termination
  by (relation "measure (\<lambda>(ca, topic, remaining, w). nat remaining)") auto

declare wait_reassignment.simps [simp del]

definition WaitUntilPartitionsReassignmentFinished :: "'w clusterAdmin \<Rightarrow> kafkaClient \<Rightarrow> topicInfo \<Rightarrow> 'w \<Rightarrow> 'w" where
  "WaitUntilPartitionsReassignmentFinished ca kc topic w =
     wait_reassignment ca topic (topicReassignmentTimeoutSeconds kc) w"

definition ReassignPartitionsForTopic :: "sorter \<Rightarrow> 'w clusterAdmin \<Rightarrow> kafkaClient \<Rightarrow> topicInfo \<Rightarrow>
    brokerInfo list \<Rightarrow> int \<Rightarrow> ('w, unit) eff" where
  "ReassignPartitionsForTopic sort_Slice ca kc topic brokersInfo globalPartitionCount =
     bindE (liftE (new_assignment sort_Slice kc topic brokersInfo globalPartitionCount))
       (\<lambda>newReplicaAssignment.
          thenE (tryE (ca_AlterPartitionReassignments ca (topicName topic) newReplicaAssignment)
                      (\<lambda>_. returnE ()) returnE)
            (modifyE (WaitUntilPartitionsReassignmentFinished ca kc topic)))"

function wait_brokers :: "'w clusterAdmin \<Rightarrow> kafkaClient \<Rightarrow> int \<Rightarrow> ('w, kafkaClient) eff" where
  "wait_brokers ca kc remainingTime w =
     (let (r, w) = ca_DescribeCluster ca w;
          (cnt, brokers, controller) =
            (case r of Inl _ \<Rightarrow> (- 1, [], 0) | Inr (bs, c) \<Rightarrow> (int (length bs), bs, c))
      in if cnt \<ge> newBrokersCount kc then
           (Inr (kc\<lparr>controllerId := controller,
              brokerRacks := fold (\<lambda>b m. m(broker_ID b \<mapsto> broker_Rack b)) brokers Map.empty,
              racksEnabled := (\<exists>b \<in> set brokers. broker_Rack b \<noteq> [])\<rparr>), w)
         else let w = ca_Sleep ca 10 w; remainingTime = remainingTime - 10
         in if remainingTime \<le> 0
            then (Inl (Err ''not all brokers are started, timeout is expired''), w)
            else wait_brokers ca kc remainingTime w)"
  by pat_completeness auto
termination
  by (relation "measure (\<lambda>(ca, kc, remaining, w). nat remaining)") auto

declare wait_brokers.simps [simp del]

definition WaitUntilAllBrokersAreUp :: "'w clusterAdmin \<Rightarrow> kafkaClient \<Rightarrow> ('w, kafkaClient) eff" where
  "WaitUntilAllBrokersAreUp ca kc = wait_brokers ca kc (allBrokersStartTimeoutSeconds kc)"

text \<open>
  The retry loop of \<open>calculatePartitionsCount\<close>: exceeding \<open>MaxRetryAttempts\<close> is only logged, so the
  loop ends only when \<open>DescribeTopics\<close> succeeds. \<open>None\<close> is a loop that does not end.
\<close>

partial_function (option) describe_topics :: "'w clusterAdmin \<Rightarrow> string list \<Rightarrow> nat \<Rightarrow> 'w \<Rightarrow> (int list list \<times> 'w) option" where
  "describe_topics ca topicsTitles attempt w =
     (case ca_DescribeTopics ca topicsTitles w of
        (Inr metadata, w') \<Rightarrow> Some (metadata, w')
      | (Inl e, w') \<Rightarrow> describe_topics ca topicsTitles (attempt + 1) (ca_Sleep ca 60 w'))"

definition count_partitions :: "kafkaClient \<Rightarrow> int list list \<Rightarrow> int \<times> brokerInfo list" where
  "count_partitions kc metadata =
     (let leaders = concat metadata
      in (int (length leaders),
          map (\<lambda>bid. newBrokerInfo kc bid (int (count_list leaders bid))) [1..newBrokersCount kc]))"

definition calculatePartitionsCount :: "'w clusterAdmin \<Rightarrow> kafkaClient \<Rightarrow> topicDetail gomap \<Rightarrow> 'w \<Rightarrow>
    ((go_error + int \<times> brokerInfo list) \<times> 'w) option" where
  "calculatePartitionsCount ca kc topics w =
     (if newBrokersCount kc < 0 then Some (Inl Panic, w)
      else map_option (\<lambda>(metadata, w'). (Inr (count_partitions kc metadata), w'))
             (describe_topics ca (map fst topics) 0 w))"

text \<open>The loop over the topics; its outcome is the error with which the code stops.\<close>

fun reassign_topics :: "sorter \<Rightarrow> 'w clusterAdmin \<Rightarrow> kafkaClient \<Rightarrow> topicDetail gomap \<Rightarrow> topicDetail gomap \<Rightarrow>
    'w \<Rightarrow> ((go_error + unit) \<times> 'w) option" where
  "reassign_topics sort_Slice ca kc topics [] w = Some (Inr (), w)"
| "reassign_topics sort_Slice ca kc topics ((topic, config) # rest) w =
     (case calculatePartitionsCount ca kc topics w of
        None \<Rightarrow> None
      | Some (Inl e, w) \<Rightarrow> Some (Inl e, w)
      | Some (Inr (globalPartitionCount, brokersInfo), w) \<Rightarrow>
          (let brokersInfo = calculateBrokersSkew kc globalPartitionCount brokersInfo
           in if checkBrokersSkewIsNormal brokersInfo then Some (Inr (), w)
              else (case ReassignPartitionsForTopic sort_Slice ca kc
                           \<lparr>topicName = topic, configs = config\<rparr> brokersInfo globalPartitionCount w of
                      (Inl e, w) \<Rightarrow> (if e = Panic then Some (Inl Panic, w)
                                     else reassign_topics sort_Slice ca kc topics rest w)
                    | (Inr _, w) \<Rightarrow> reassign_topics sort_Slice ca kc topics rest w)))"

definition ReassignPartitions :: "sorter \<Rightarrow> 'w clusterAdmin \<Rightarrow> kafkaClient \<Rightarrow> 'w \<Rightarrow> ((go_error + unit) \<times> 'w) option" where
  "ReassignPartitions sort_Slice ca kc w =
     (case WaitUntilAllBrokersAreUp ca kc w of
        (Inl e, w) \<Rightarrow> Some (Inl e, w)
      | (Inr kc, w) \<Rightarrow>
          (case ca_ListTopics ca w of
             (Inl e, w) \<Rightarrow> Some (Inl e, w)
           | (Inr topics, w) \<Rightarrow> reassign_topics sort_Slice ca kc topics topics w))"

section \<open>Skews\<close>

lemma containsInt32_iff [simp]: "containsInt32 xs x \<longleftrightarrow> x \<in> set xs"
  by (induction xs) auto

lemma containsString_iff [simp]: "containsString ss s \<longleftrightarrow> s \<in> set ss"
  by (induction ss) auto

lemma skews_same [simp]:
  "map brokerId (calculateBrokersSkew kc g bs) = map brokerId bs"
  "map partitionsCount (calculateBrokersSkew kc g bs) = map partitionsCount bs"
  "length (calculateBrokersSkew kc g bs) = length bs"
  by (auto simp: calculateBrokersSkew_def Let_def)

lemma fold_update_notin:
  "k \<notin> f ` set xs \<Longrightarrow> fold (\<lambda>x m. m(f x := g x)) xs m k = m k"
  by (induction xs arbitrary: m) auto

lemma fold_update_distinct:
  "distinct (map f xs) \<Longrightarrow> x \<in> set xs \<Longrightarrow> fold (\<lambda>x m. m(f x := g x)) xs m (f x) = g x"
  by (induction xs arbitrary: m) (auto simp: fold_update_notin)

definition broker_skew :: "kafkaClient \<Rightarrow> int \<Rightarrow> brokerInfo list \<Rightarrow> int \<Rightarrow> int" where
  "broker_skew kc g bs cnt =
     (let average = averageNumOfPartitionsPerBroker kc bs
      in skew_percent (fl (fl (of_int cnt) - average)) (go_Max (fl (fl (of_int g) - average)) average))"

lemma skews_distinct:
  "distinct (map brokerId bs) \<Longrightarrow>
   calculateBrokersSkew kc g bs = map (\<lambda>b. b\<lparr>skew := broker_skew kc g bs (partitionsCount b)\<rparr>) bs"
  by (auto simp: calculateBrokersSkew_def broker_skew_def Let_def
      fold_update_distinct[where f = brokerId])

lemma Round2_mono: "x \<le> y \<Longrightarrow> RoundFloatTo2Decimals x \<le> RoundFloatTo2Decimals y"
  unfolding RoundFloatTo2Decimals_def
  by (intro fl_mono divide_right_mono) (auto intro!: math_Round_mono fl_mono mult_right_mono)

lemma Round2_0 [simp]: "RoundFloatTo2Decimals 0 = 0"
  using math_Round_of_int[of 0] by (simp add: RoundFloatTo2Decimals_def)

lemma Round2_1 [simp]: "RoundFloatTo2Decimals 1 = 1"
  using math_Round_of_int[of 100] by (simp add: RoundFloatTo2Decimals_def fl_numeral)

lemma average_fl [simp]: "fl (averageNumOfPartitionsPerBroker kc bs) = averageNumOfPartitionsPerBroker kc bs"
  by (simp add: averageNumOfPartitionsPerBroker_def RoundFloatTo2Decimals_def)

lemma average_nonneg:
  "0 \<le> newBrokersCount kc \<Longrightarrow> (\<forall>b\<in>set bs. 0 \<le> partitionsCount b) \<Longrightarrow>
   0 \<le> averageNumOfPartitionsPerBroker kc bs"
  unfolding averageNumOfPartitionsPerBroker_def
  by (subst Round2_0[symmetric], rule Round2_mono)
     (auto intro!: fl_nonneg divide_nonneg_nonneg sum_list_nonneg)

lemma skew_percent_sign:
  assumes "0 \<le> m"
  shows "0 \<le> s \<Longrightarrow> 0 \<le> skew_percent s m" "s \<le> 0 \<Longrightarrow> skew_percent s m \<le> 0"
proof -
  have *: "trunc_int (fl (RoundFloatTo2Decimals (fl 0) * 100)) = 0"
    using trunc_int_of_int[of 0] by simp
  show "0 \<le> s \<Longrightarrow> 0 \<le> skew_percent s m" "s \<le> 0 \<Longrightarrow> skew_percent s m \<le> 0"
    unfolding skew_percent_def using assms
    by (auto simp: * simp del: fl_zero intro!: trunc_int_mono fl_mono mult_right_mono Round2_mono
        divide_nonneg_nonneg divide_nonpos_nonneg
        order_trans[OF eq_refl[OF *[symmetric]]] order_trans[OF _ eq_refl[OF *]])
qed

lemma skew_percent_mono:
  assumes "0 \<le> m" "s \<le> t"
  shows "skew_percent s m \<le> skew_percent t m"
proof (cases "s = 0 \<or> t = 0 \<or> m = 0")
  case True
  then show ?thesis
    using skew_percent_sign[OF assms(1), of s] skew_percent_sign[OF assms(1), of t] assms
    by (auto simp: skew_percent_def)
next
  case False
  with assms show ?thesis
    by (auto simp: skew_percent_def intro!: trunc_int_mono fl_mono mult_right_mono Round2_mono divide_right_mono)
qed

lemma skew_percent_bounds:
  assumes "\<bar>s\<bar> \<le> m"
  shows "- 100 \<le> skew_percent s m \<and> skew_percent s m \<le> 100"
proof (cases "s = 0 \<or> m = 0")
  case True
  then show ?thesis by (auto simp: skew_percent_def)
next
  case False
  with assms have m: "0 < m" by auto
  with assms have "s / m \<le> 1" "- 1 \<le> s / m"
    by (auto simp: abs_le_iff field_simps)
  then have "fl (s / m) \<le> fl 1" "fl (- 1) \<le> fl (s / m)"
    by (auto intro!: fl_mono simp del: fl_one)
  then have "RoundFloatTo2Decimals (fl (s / m)) \<le> RoundFloatTo2Decimals 1"
    "RoundFloatTo2Decimals (- 1) \<le> RoundFloatTo2Decimals (fl (s / m))"
    by (auto intro!: Round2_mono simp del: Round2_1 simp: fl_minus)
  moreover have "RoundFloatTo2Decimals (- 1) = - 1"
    using math_Round_of_int[of "- 100"] by (simp add: RoundFloatTo2Decimals_def fl_minus fl_numeral)
  ultimately have "fl (RoundFloatTo2Decimals (fl (s / m)) * 100) \<le> fl (of_int 100)"
    "fl (of_int (- 100)) \<le> fl (RoundFloatTo2Decimals (fl (s / m)) * 100)"
    by (auto intro!: fl_mono)
  then have "fl (RoundFloatTo2Decimals (fl (s / m)) * 100) \<le> of_int 100"
    "of_int (- 100) \<le> fl (RoundFloatTo2Decimals (fl (s / m)) * 100)"
    using fl_of_int[of 100] fl_of_int[of "- 100"] by auto
  from this[THEN trunc_int_mono] have
    "trunc_int (fl (RoundFloatTo2Decimals (fl (s / m)) * 100)) \<le> 100"
    "- 100 \<le> trunc_int (fl (RoundFloatTo2Decimals (fl (s / m)) * 100))"
    by (simp_all only: trunc_int_of_int)
  then show ?thesis using False by (simp add: skew_percent_def)
qed

lemma skew_in_percent:
  assumes "0 \<le> newBrokersCount kc" "\<forall>b\<in>set bs. 0 \<le> partitionsCount b" "0 \<le> cnt" "cnt \<le> g"
  shows "- 100 \<le> broker_skew kc g bs cnt \<and> broker_skew kc g bs cnt \<le> 100"
proof -
  let ?a = "averageNumOfPartitionsPerBroker kc bs"
  have "fl (fl (of_int cnt) - ?a) \<le> fl (fl (of_int g) - ?a)"
    using assms(4) by (auto intro!: fl_mono)
  moreover have "fl (- ?a) \<le> fl (fl (of_int cnt) - ?a)"
    using assms(3) by (auto intro!: fl_mono fl_nonneg)
  ultimately have "\<bar>fl (fl (of_int cnt) - ?a)\<bar> \<le> go_Max (fl (fl (of_int g) - ?a)) ?a"
    by (auto simp: go_Max_def fl_minus abs_le_iff)
  then show ?thesis
    unfolding broker_skew_def Let_def by (rule skew_percent_bounds)
qed

lemma broker_skew_mono:
  assumes "0 \<le> newBrokersCount kc" "\<forall>b\<in>set bs. 0 \<le> partitionsCount b" "c \<le> d"
  shows "broker_skew kc g bs c \<le> broker_skew kc g bs d"
  using average_nonneg[OF assms(1,2)] assms(3)
  by (auto simp: broker_skew_def Let_def go_Max_def intro!: skew_percent_mono fl_mono)

lemma Round2_of_int: "\<bar>c\<bar> * 100 < 2 ^ 53 \<Longrightarrow> RoundFloatTo2Decimals (of_int c) = of_int c"
proof -
  assume c: "\<bar>c\<bar> * 100 < 2 ^ 53"
  then have "fl (of_int c * 100) = of_int (c * 100)"
    using fl_of_int[of "c * 100"] by (simp add: abs_mult)
  moreover have "math_Round (of_int (c * 100)) = c * 100" by (rule math_Round_of_int)
  ultimately show ?thesis
    using c by (simp add: RoundFloatTo2Decimals_def fl_of_int)
qed

lemma average_even:
  assumes n: "0 < newBrokersCount kc" "int (length bs) = newBrokersCount kc"
    and c: "\<forall>b\<in>set bs. partitionsCount b = c" "0 \<le> c"
    and small: "newBrokersCount kc * c < 2 ^ 53" "c * 100 < 2 ^ 53" "newBrokersCount kc < 2 ^ 53"
  shows "averageNumOfPartitionsPerBroker kc bs = of_int c"
proof -
  have "map partitionsCount bs = replicate (length bs) c"
    using c(1) by (induction bs) auto
  then have "sum_list (map partitionsCount bs) = newBrokersCount kc * c"
    using n(2) by (simp add: sum_list_replicate)
  then have "averageNumOfPartitionsPerBroker kc bs = RoundFloatTo2Decimals (fl (of_int c))"
    using n small c(2) fl_of_int[of "newBrokersCount kc * c"] fl_of_int[of "newBrokersCount kc"]
    by (simp add: averageNumOfPartitionsPerBroker_def abs_mult)
  also have "\<dots> = of_int c"
    using small(2) c(2) by (simp add: fl_of_int Round2_of_int)
  finally show ?thesis .
qed

section \<open>Sorting\<close>

text \<open>
  What \<open>sort.Slice\<close> promises: a permutation of the slice, in the order of the key that \<open>less\<close>
  compares. Equal elements come in any order.
\<close>

locale slice_sort =
  fixes sort_Slice :: sorter
  assumes permutes: "mset (sort_Slice lt xs) = mset xs"
    and sorts: "(\<And>a b. lt a b \<longleftrightarrow> key a < (key b :: int)) \<Longrightarrow>
      sorted_wrt (\<lambda>a b. \<not> lt b a) (sort_Slice lt xs)"
begin

lemma set_sorted [simp]: "set (sort_Slice lt xs) = set xs"
  using permutes[of lt xs] by (rule mset_eq_setD)

lemma length_sorted [simp]: "length (sort_Slice lt xs) = length xs"
  using permutes[of lt xs] by (rule mset_eq_length)

lemma mset_map_sorted: "mset (map f (sort_Slice lt xs)) = mset (map f xs)"
  using permutes[of lt xs] by simp

lemma distinct_map_sorted [simp]: "distinct (map f (sort_Slice lt xs)) = distinct (map f xs)"
  using mset_map_sorted[of f lt xs] by (rule mset_eq_imp_distinct_iff)

lemma sum_sorted [simp]: "sum_list (map f (sort_Slice lt xs)) = sum_list (map (f :: _ \<Rightarrow> int) xs)"
  by (metis mset_map_sorted sum_mset_sum_list)

end

text \<open>
  Up to twelve elements Go's \<open>sort.Slice\<close> is an insertion sort: every element moves to the left
  while it is less than its neighbour. The sorted part is kept reversed.
\<close>

fun insert_left :: "('a \<Rightarrow> 'a \<Rightarrow> bool) \<Rightarrow> 'a \<Rightarrow> 'a list \<Rightarrow> 'a list" where
  "insert_left lt x [] = [x]"
| "insert_left lt x (y # ys) = (if lt x y then y # insert_left lt x ys else x # y # ys)"

definition insertionSort :: "('a \<Rightarrow> 'a \<Rightarrow> bool) \<Rightarrow> 'a list \<Rightarrow> 'a list" where
  "insertionSort lt xs = rev (fold (insert_left lt) xs [])"

lemma mset_insert_left: "mset (insert_left lt x ys) = add_mset x (mset ys)"
  by (induction ys) auto

lemma insert_left_sorted:
  assumes "\<And>a b. lt a b \<longleftrightarrow> key a < (key b :: int)"
  shows "sorted_wrt (\<lambda>a b. key b \<le> key a) ys \<Longrightarrow> sorted_wrt (\<lambda>a b. key b \<le> key a) (insert_left lt x ys)"
proof (induction ys)
  case (Cons y ys)
  have "set (insert_left lt x ys) = insert x (set ys)"
    using mset_insert_left[of lt x ys] by (metis set_mset_add_mset_insert set_mset_mset)
  moreover have "lt = (\<lambda>a b. key a < key b)" by (simp add: assms fun_eq_iff)
  ultimately show ?case using Cons by auto
qed simp

lemma fold_insert_left:
  "mset (fold (insert_left lt) xs acc) = mset xs + mset acc"
  by (induction xs arbitrary: acc) (auto simp: mset_insert_left)

lemma fold_insert_left_sorted:
  assumes "\<And>a b. lt a b \<longleftrightarrow> key a < (key b :: int)"
  shows "sorted_wrt (\<lambda>a b. key b \<le> key a) acc \<Longrightarrow>
    sorted_wrt (\<lambda>a b. key b \<le> key a) (fold (insert_left lt) xs acc)"
  by (induction xs arbitrary: acc) (auto simp: insert_left_sorted[OF assms])

interpretation insertion: slice_sort insertionSort
proof
  fix lt and xs :: "brokerInfo list" and key :: "brokerInfo \<Rightarrow> int"
  show "mset (insertionSort lt xs) = mset xs"
    by (simp add: insertionSort_def fold_insert_left)
  assume key: "\<And>a b. lt a b \<longleftrightarrow> key a < key b"
  then show "sorted_wrt (\<lambda>a b. \<not> lt b a) (insertionSort lt xs)"
    using fold_insert_left_sorted[where key = key and acc = "[]" and lt = lt and xs = xs]
    by (simp add: insertionSort_def sorted_wrt_rev not_less)
qed

section \<open>One move\<close>

lemma find_replica_SomeD:
  "find_replica b k replicas = Some (r, idx) \<Longrightarrow>
   r = b \<and> k \<le> idx \<and> nat (idx - k) < length replicas \<and> replicas ! nat (idx - k) = b"
proof (induction replicas arbitrary: k)
  case (Cons x replicas)
  show ?case
  proof (cases "b = x")
    case False
    with Cons.prems have "r = b \<and> k + 1 \<le> idx \<and> nat (idx - (k + 1)) < length replicas
        \<and> replicas ! nat (idx - (k + 1)) = b"
      by (intro Cons.IH) simp
    moreover from this have "nat (idx - k) = Suc (nat (idx - (k + 1)))" by linarith
    ultimately show ?thesis by auto
  qed (use Cons.prems in auto)
qed simp

lemma most_SomeD:
  "CalcBrokerWithMostPartitionsToSwap ms replicas = (m, idx) \<Longrightarrow> m \<noteq> - 1 \<Longrightarrow>
   m \<in> brokerId ` set ms \<and> nat idx < length replicas \<and> replicas ! nat idx = m"
proof (induction ms)
  case (Cons b ms)
  then show ?case
    using find_replica_SomeD[of "brokerId b" 0 replicas m idx] by (auto split: option.splits)
qed simp

lemma find_SomeD: "find P xs = Some x \<Longrightarrow> x \<in> set xs \<and> P x"
  by (induction xs) (auto split: if_splits)

lemma least_SomeD:
  "CalcBrokerWithLeastPartitionsToSwap kc ls replicas m = l \<Longrightarrow> l \<noteq> - 1 \<Longrightarrow>
   l \<in> brokerId ` set ls \<and> l \<notin> set replicas"
  unfolding CalcBrokerWithLeastPartitionsToSwap_def Let_def
  by (auto split: option.splits if_splits dest!: find_SomeD)

lemma Update_ids [simp]:
  "map brokerId (UpdateBrokersInfoWithNewPartitionsDistribution bs m l) = map brokerId bs"
  "length (UpdateBrokersInfoWithNewPartitionsDistribution bs m l) = length bs"
  by (auto simp: UpdateBrokersInfoWithNewPartitionsDistribution_def)

text \<open>The effect of a move on any sum over the partition counts.\<close>

lemma Update_sum:
  fixes h :: "int \<Rightarrow> int"
  assumes d: "distinct (map brokerId bs)" and bm: "bm \<in> set bs" and bl: "bl \<in> set bs"
    and ne: "brokerId bm \<noteq> brokerId bl"
  shows "sum_list (map (\<lambda>b. h (partitionsCount b))
      (UpdateBrokersInfoWithNewPartitionsDistribution bs (brokerId bm) (brokerId bl)))
    = sum_list (map (\<lambda>b. h (partitionsCount b)) bs)
      - h (partitionsCount bm) - h (partitionsCount bl)
      + h (partitionsCount bm - 1) + h (partitionsCount bl + 1)"
proof -
  define f where "f b = h (if brokerId b = brokerId bm then partitionsCount b - 1
      else if brokerId b = brokerId bl then partitionsCount b + 1 else partitionsCount b)" for b :: brokerInfo
  have db: "distinct bs" and inj: "inj_on brokerId (set bs)"
    using d by (auto simp: distinct_map)
  have rest: "sum f (set bs - {bm, bl}) = sum (\<lambda>b. h (partitionsCount b)) (set bs - {bm, bl})"
    using inj bm bl by (intro sum.cong) (auto simp: f_def dest: inj_onD)
  have split: "sum k (set bs) = k bm + k bl + sum k (set bs - {bm, bl})" for k :: "brokerInfo \<Rightarrow> int"
    using sum.subset_diff[of "{bm, bl}" "set bs" k] bm bl ne by (cases "bm = bl") auto
  have "map (\<lambda>b. h (partitionsCount b))
      (UpdateBrokersInfoWithNewPartitionsDistribution bs (brokerId bm) (brokerId bl)) = map f bs"
    by (auto simp: UpdateBrokersInfoWithNewPartitionsDistribution_def f_def)
  moreover have "sum_list (map f bs) = sum f (set bs)"
    "sum_list (map (\<lambda>b. h (partitionsCount b)) bs) = sum (\<lambda>b. h (partitionsCount b)) (set bs)"
    using db by (simp_all add: sum_list_distinct_conv_sum_set)
  moreover have "f bm = h (partitionsCount bm - 1)" "f bl = h (partitionsCount bl + 1)"
    using ne by (auto simp: f_def)
  ultimately show ?thesis
    by (simp add: split rest)
qed

definition swap_row :: "int set \<Rightarrow> int list \<Rightarrow> int list \<Rightarrow> bool" where
  "swap_row ids r r' \<longleftrightarrow> r' = r \<or> (\<exists>i<length r. \<exists>b\<in>ids. b \<notin> set r \<and> r' = r[i := b])"

lemma swap_row_length: "swap_row ids r r' \<Longrightarrow> length r' = length r"
  by (auto simp: swap_row_def)

lemma swap_row_distinct: "swap_row ids r r' \<Longrightarrow> distinct r \<Longrightarrow> distinct r'"
  by (auto simp: swap_row_def distinct_list_update)

text \<open>
  The three outcomes of a round: nothing is moved; nothing is moved and the memory of the last
  target is cleared; or the replica of one broker moves to another.
\<close>

definition moved :: "kafkaClient \<Rightarrow> int \<Rightarrow> nat \<Rightarrow> reassignState \<Rightarrow> reassignState \<Rightarrow> brokerInfo list \<Rightarrow> bool" where
  "moved kc g part st st' bs \<longleftrightarrow>
     (\<exists>bm\<in>set bs. \<exists>bl\<in>set bs. \<exists>i<length (st_assignment st ! part).
        0 \<le> skew bm \<and> skew bl < 0 \<and> brokerId bl \<notin> set (st_assignment st ! part)
        \<and> st_assignment st ! part ! i = brokerId bm
        \<and> st_assignment st' = (st_assignment st)[part := (st_assignment st ! part)[i := brokerId bl]]
        \<and> st_brokersInfo st' =
            UpdateBrokersInfoWithNewPartitionsDistribution bs (brokerId bm) (brokerId bl))"

lemma moved_row:
  "moved kc g part st st' bs \<Longrightarrow>
   swap_row (brokerId ` set bs) (st_assignment st ! part) (st_assignment st' ! part)
   \<and> length (st_assignment st') = length (st_assignment st)
   \<and> (\<forall>p. p \<noteq> part \<longrightarrow> st_assignment st' ! p = st_assignment st ! p)
   \<and> map brokerId (st_brokersInfo st') = map brokerId bs"
  by (cases "part < length (st_assignment st)") (fastforce simp: moved_def swap_row_def list_update_beyond)+

text \<open>The sum of the partition counts, and the sum of their squares, which measures how uneven they are.\<close>

definition total_partitions :: "brokerInfo list \<Rightarrow> int" where
  "total_partitions bs = sum_list (map partitionsCount bs)"

definition unevenness :: "brokerInfo list \<Rightarrow> int" where
  "unevenness bs = sum_list (map (\<lambda>b. (partitionsCount b)\<^sup>2) bs)"

lemma move_balance:
  assumes d: "distinct (map brokerId bs)" and bm: "bm \<in> set bs" and bl: "bl \<in> set bs"
    and gt: "partitionsCount bl < partitionsCount bm" and nn: "\<forall>b\<in>set bs. 0 \<le> partitionsCount b"
  defines "bs' \<equiv> UpdateBrokersInfoWithNewPartitionsDistribution bs (brokerId bm) (brokerId bl)"
  shows "total_partitions bs' = total_partitions bs" "unevenness bs' \<le> unevenness bs"
    "\<forall>b\<in>set bs'. 0 \<le> partitionsCount b"
proof -
  have ne: "brokerId bm \<noteq> brokerId bl"
    using d bm bl gt by (auto simp: distinct_map dest: inj_onD)
  show "total_partitions bs' = total_partitions bs"
    using Update_sum[OF d bm bl ne, of "\<lambda>x. x"] by (simp add: bs'_def total_partitions_def)
  show "unevenness bs' \<le> unevenness bs"
    using Update_sum[OF d bm bl ne, of "\<lambda>x. x\<^sup>2"] gt
    by (simp add: bs'_def unevenness_def power2_eq_square algebra_simps)
  have only: "b = bm" if "b \<in> set bs" "brokerId b = brokerId bm" for b
    using d that bm by (auto simp: distinct_map dest: inj_onD)
  show "\<forall>b\<in>set bs'. 0 \<le> partitionsCount b"
    using nn gt bl only
    by (force simp: bs'_def UpdateBrokersInfoWithNewPartitionsDistribution_def)
qed

context slice_sort
begin

lemma prepare_ok:
  assumes "0 \<le> newBrokersCount kc" "newBrokersCount kc \<le> int (length bs)"
  shows "\<exists>ms ls. PrepareBrokersWithMostAndLeastPartitions sort_Slice kc bs = Inr (ms, ls)"
  using assms by (auto simp: PrepareBrokersWithMostAndLeastPartitions_def Let_def)

lemma prepareD:
  assumes "PrepareBrokersWithMostAndLeastPartitions sort_Slice kc bs = Inr (ms, ls)"
  shows "set ms \<subseteq> set bs" "set ls \<subseteq> set bs" "b \<in> set ms \<Longrightarrow> 0 \<le> skew b"
    "sorted_wrt (\<lambda>a b. \<not> skew b > skew a) bs \<Longrightarrow> b \<in> set ls \<Longrightarrow> skew b < 0"
proof -
  let ?brokers = "take (nat (newBrokersCount kc)) bs"
  let ?P = "\<lambda>b. \<not> skew b < 0"
  have ms: "ms = takeWhile ?P ?brokers" and ls: "set ls = set (dropWhile ?P ?brokers)"
    using assms by (auto simp: PrepareBrokersWithMostAndLeastPartitions_def Let_def 
        takeWhile_eq_take[symmetric] dropWhile_eq_drop[symmetric] split: if_splits)
  show "set ms \<subseteq> set bs" "b \<in> set ms \<Longrightarrow> 0 \<le> skew b"
    using ms by (auto dest!: set_takeWhileD in_set_takeD)
  show "set ls \<subseteq> set bs"
    using ls by (auto dest!: set_dropWhileD in_set_takeD)
  assume sorted: "sorted_wrt (\<lambda>a b. \<not> skew b > skew a) bs" and b: "b \<in> set ls"
  have "sorted_wrt (\<lambda>a b. \<not> skew b > skew a) (dropWhile ?P ?brokers)"
    using sorted by (subst dropWhile_eq_drop) (simp add: sorted_wrt_take sorted_wrt_drop)
  moreover obtain c cs where "dropWhile ?P ?brokers = c # cs"
    using b ls by (cases "dropWhile ?P ?brokers") auto
  moreover from this have "skew c < 0"
    using hd_dropWhile[of ?P ?brokers] by auto
  ultimately show "skew b < 0" using b ls by auto
qed

lemma step_cases:
  assumes n: "0 \<le> newBrokersCount kc" "newBrokersCount kc \<le> int (length (st_brokersInfo st))"
  obtains st' bs where
    "reassign_step sort_Slice kc cfg g part st = Inr st'"
    "mset bs = mset (calculateBrokersSkew kc g (st_brokersInfo st))"
    "st_assignment st' = st_assignment st \<and> st_brokersInfo st' = bs \<or> moved kc g part st st' bs"
proof -
  define bs where "bs = sort_Slice (\<lambda>a b. skew a > skew b) (calculateBrokersSkew kc g (st_brokersInfo st))"
  have mset: "mset bs = mset (calculateBrokersSkew kc g (st_brokersInfo st))"
    by (simp add: bs_def permutes)
  then have "length bs = length (st_brokersInfo st)"
    by (metis mset_eq_length skews_same(3))
  then obtain ms ls where prep: "PrepareBrokersWithMostAndLeastPartitions sort_Slice kc bs = Inr (ms, ls)"
    using prepare_ok[of kc bs] n by auto
  obtain m idx where mi: "CalcBrokerWithMostPartitionsToSwap ms (st_assignment st ! part) = (m, idx)"
    by fastforce
  define l where "l = CalcBrokerWithLeastPartitionsToSwap kc ls (st_assignment st ! part) m"
  have sorted: "sorted_wrt (\<lambda>a b. \<not> skew b > skew a) bs"
    unfolding bs_def by (rule sorts[where key = "\<lambda>b. - skew b"]) auto
  have "moved kc g part st (st\<lparr>st_previousAssignment := l,
      st_assignment := (st_assignment st)[part := (st_assignment st ! part)[nat idx := l]],
      st_brokersInfo := UpdateBrokersInfoWithNewPartitionsDistribution bs m l\<rparr>) bs"
    if ml: "m \<noteq> - 1" "l \<noteq> - 1"
  proof -
    obtain bm where bm: "bm \<in> set ms" "brokerId bm = m" using most_SomeD[OF mi ml(1)] by auto
    obtain bl where bl: "bl \<in> set ls" "brokerId bl = l"
      using least_SomeD[OF l_def[symmetric] ml(2)] by auto
    show ?thesis
      unfolding moved_def
    proof (intro bexI exI conjI)
      show "0 \<le> skew bm" "skew bl < 0" "bm \<in> set bs" "bl \<in> set bs"
        using prepareD[OF prep] sorted bm bl by auto
      show "nat idx < length (st_assignment st ! part)" "st_assignment st ! part ! nat idx = brokerId bm"
        using most_SomeD[OF mi ml(1)] bm by auto
      show "brokerId bl \<notin> set (st_assignment st ! part)"
        using least_SomeD[OF l_def[symmetric] ml(2)] bl by auto
    qed (use bm bl in auto)
  qed
  moreover have "\<exists>st'. reassign_step sort_Slice kc cfg g part st = Inr st' \<and>
      (st_assignment st' = st_assignment st \<and> st_brokersInfo st' = bs \<or>
       m \<noteq> - 1 \<and> l \<noteq> - 1 \<and> st' = st\<lparr>st_previousAssignment := l,
         st_assignment := (st_assignment st)[part := (st_assignment st ! part)[nat idx := l]],
         st_brokersInfo := UpdateBrokersInfoWithNewPartitionsDistribution bs m l\<rparr>)"
    by (auto simp: reassign_step_def Let_def prep mi bs_def[symmetric] l_def[symmetric])
  ultimately show ?thesis using that mset by blast
qed

lemma step_assignment:
  assumes n: "0 \<le> newBrokersCount kc" "newBrokersCount kc \<le> int (length (st_brokersInfo st))"
  obtains st' where "reassign_step sort_Slice kc cfg g part st = Inr st'"
    "mset (map brokerId (st_brokersInfo st')) = mset (map brokerId (st_brokersInfo st))"
    "length (st_assignment st') = length (st_assignment st)"
    "\<forall>p. p \<noteq> part \<longrightarrow> st_assignment st' ! p = st_assignment st ! p"
    "swap_row (brokerId ` set (st_brokersInfo st)) (st_assignment st ! part) (st_assignment st' ! part)"
proof -
  obtain st' bs where st': "reassign_step sort_Slice kc cfg g part st = Inr st'"
    and mset: "mset bs = mset (calculateBrokersSkew kc g (st_brokersInfo st))"
    and out: "st_assignment st' = st_assignment st \<and> st_brokersInfo st' = bs \<or> moved kc g part st st' bs"
    by (rule step_cases[OF n])
  have ids: "mset (map brokerId bs) = mset (map brokerId (st_brokersInfo st))"
    by (metis mset mset_map skews_same(1))
  then have "brokerId ` set bs = brokerId ` set (st_brokersInfo st)"
    by (metis list.set_map mset_eq_setD)
  moreover have "map brokerId (st_brokersInfo st') = map brokerId bs"
    "length (st_assignment st') = length (st_assignment st)"
    "\<forall>p. p \<noteq> part \<longrightarrow> st_assignment st' ! p = st_assignment st ! p"
    "swap_row (brokerId ` set bs) (st_assignment st ! part) (st_assignment st' ! part)"
    using out moved_row[of kc g part st st' bs] by (auto simp: swap_row_def)
  ultimately show ?thesis using that[OF st'] ids by simp
qed

lemma loop_assignment:
  assumes "0 \<le> newBrokersCount kc" "newBrokersCount kc \<le> int (length (st_brokersInfo st))" "distinct parts"
  shows "\<exists>st'. reassign_loop sort_Slice kc cfg g parts st = Inr st'
    \<and> length (st_assignment st') = length (st_assignment st)
    \<and> (\<forall>p. if p \<in> set parts then swap_row (brokerId ` set (st_brokersInfo st))
              (st_assignment st ! p) (st_assignment st' ! p)
            else st_assignment st' ! p = st_assignment st ! p)"
  using assms
proof (induction parts arbitrary: st)
  case (Cons part parts)
  obtain st1 where st1: "reassign_step sort_Slice kc cfg g part st = Inr st1"
    and ids: "mset (map brokerId (st_brokersInfo st1)) = mset (map brokerId (st_brokersInfo st))"
    and row: "length (st_assignment st1) = length (st_assignment st)"
      "\<forall>p. p \<noteq> part \<longrightarrow> st_assignment st1 ! p = st_assignment st ! p"
      "swap_row (brokerId ` set (st_brokersInfo st)) (st_assignment st ! part) (st_assignment st1 ! part)"
    by (rule step_assignment[OF Cons.prems(1,2), of cfg g part])
  have "length (st_brokersInfo st1) = length (st_brokersInfo st)"
    "brokerId ` set (st_brokersInfo st1) = brokerId ` set (st_brokersInfo st)"
    using ids by (metis length_map mset_eq_length) (metis ids list.set_map mset_eq_setD)
  with Cons.IH[of st1] Cons.prems st1 row show ?case by (auto split: if_splits) metis+
qed simp

lemma sum_mset_eq: "mset bs = mset cs \<Longrightarrow> sum_list (map (f :: brokerInfo \<Rightarrow> int) bs) = sum_list (map f cs)"
  by (metis mset_map sum_mset_sum_list)

lemma step_balance:
  assumes n: "0 \<le> newBrokersCount kc" "newBrokersCount kc \<le> int (length (st_brokersInfo st))"
    and d: "distinct (map brokerId (st_brokersInfo st))"
    and nn: "\<forall>b\<in>set (st_brokersInfo st). 0 \<le> partitionsCount b"
  obtains st' where "reassign_step sort_Slice kc cfg g part st = Inr st'"
    "total_partitions (st_brokersInfo st') = total_partitions (st_brokersInfo st)"
    "unevenness (st_brokersInfo st') \<le> unevenness (st_brokersInfo st)"
    "\<forall>b\<in>set (st_brokersInfo st'). 0 \<le> partitionsCount b"
    "distinct (map brokerId (st_brokersInfo st'))"
    "length (st_brokersInfo st') = length (st_brokersInfo st)"
proof -
  let ?old = "st_brokersInfo st" and ?skewed = "calculateBrokersSkew kc g (st_brokersInfo st)"
  obtain st' bs where st': "reassign_step sort_Slice kc cfg g part st = Inr st'"
    and mset: "mset bs = mset ?skewed"
    and out: "st_assignment st' = st_assignment st \<and> st_brokersInfo st' = bs \<or> moved kc g part st st' bs"
    by (rule step_cases[OF n])
  have set: "set bs = set ?skewed" and len: "length bs = length ?old"
    using mset by (auto dest: mset_eq_setD mset_eq_length)
  have bs: "total_partitions bs = total_partitions ?old" "unevenness bs = unevenness ?old"
    using sum_mset_eq[OF mset, of partitionsCount] sum_mset_eq[OF mset, of "\<lambda>b. (partitionsCount b)\<^sup>2"]
    by (simp_all add: total_partitions_def unevenness_def skews_distinct[OF d] o_def)
  have dbs: "distinct (map brokerId bs)"
    using d mset by (metis mset_eq_imp_distinct_iff mset_map skews_same(1))
  have nnbs: "\<forall>b\<in>set bs. 0 \<le> partitionsCount b"
    using nn by (auto simp: set skews_distinct[OF d])
  show ?thesis
    using out
  proof
    assume "st_assignment st' = st_assignment st \<and> st_brokersInfo st' = bs"
    then show ?thesis using that[OF st'] bs dbs nnbs len by simp
  next
    assume "moved kc g part st st' bs"
    then obtain bm bl where b: "bm \<in> set bs" "bl \<in> set bs" "skew bl < skew bm"
      and st'_bs: "st_brokersInfo st' = UpdateBrokersInfoWithNewPartitionsDistribution bs (brokerId bm) (brokerId bl)"
      by (force simp: moved_def)
    have "broker_skew kc g ?old (partitionsCount bl) < broker_skew kc g ?old (partitionsCount bm)"
      using b by (auto simp: set skews_distinct[OF d])
    then have "partitionsCount bl < partitionsCount bm"
      using broker_skew_mono[OF n(1) nn] by (meson linorder_not_less)
    from move_balance[OF dbs b(1,2) this nnbs] show ?thesis
      using that[OF st'] bs dbs len by (simp add: st'_bs)
  qed
qed

lemma loop_balance:
  assumes "0 \<le> newBrokersCount kc" "newBrokersCount kc \<le> int (length (st_brokersInfo st))"
    "distinct (map brokerId (st_brokersInfo st))" "\<forall>b\<in>set (st_brokersInfo st). 0 \<le> partitionsCount b"
  shows "\<exists>st'. reassign_loop sort_Slice kc cfg g parts st = Inr st'
    \<and> total_partitions (st_brokersInfo st') = total_partitions (st_brokersInfo st)
    \<and> unevenness (st_brokersInfo st') \<le> unevenness (st_brokersInfo st)
    \<and> (\<forall>b\<in>set (st_brokersInfo st'). 0 \<le> partitionsCount b)"
  using assms
proof (induction parts arbitrary: st)
  case (Cons part parts)
  from Cons.prems obtain st1 where "reassign_step sort_Slice kc cfg g part st = Inr st1"
    "total_partitions (st_brokersInfo st1) = total_partitions (st_brokersInfo st)"
    "unevenness (st_brokersInfo st1) \<le> unevenness (st_brokersInfo st)"
    "\<forall>b\<in>set (st_brokersInfo st1). 0 \<le> partitionsCount b"
    "distinct (map brokerId (st_brokersInfo st1))"
    "length (st_brokersInfo st1) = length (st_brokersInfo st)"
    by (rule step_balance)
  with Cons.IH[of st1] Cons.prems show ?case by fastforce
qed simp

end

section \<open>Properties of the assignment\<close>

lemma Copy_length:
  "CopyCurrentReplicaAssignment topic = Inr a \<Longrightarrow>
   length a = nat (NumPartitions (configs topic)) \<and>
   (\<forall>p<length a. int (length (a ! p)) = ReplicationFactor (configs topic))"
  by (auto simp: CopyCurrentReplicaAssignment_def Let_def not_le not_less min_def split: if_splits)
     (drule_tac x = p in bspec, auto)

lemma new_assignment_rows:
  assumes "slice_sort sort_Slice" "CopyCurrentReplicaAssignment topic = Inr a"
    "0 \<le> newBrokersCount kc" "newBrokersCount kc \<le> int (length bs)"
  shows "\<exists>a'. new_assignment sort_Slice kc topic bs g = Inr a' \<and> length a' = length a \<and>
    (\<forall>p<length a. swap_row (brokerId ` set bs) (a ! p) (a' ! p))"
proof -
  let ?st = "\<lparr>st_brokersInfo = bs, st_assignment = a, st_previousAssignment = - 1\<rparr>"
  have "distinct [0..<nat (NumPartitions (configs topic))]" by simp
  from slice_sort.loop_assignment[OF assms(1), of kc ?st, OF _ _ this, of "configs topic" g] assms(3,4)
  obtain st' where st': "reassign_loop sort_Slice kc (configs topic) g
      [0..<nat (NumPartitions (configs topic))] ?st = Inr st'"
    "length (st_assignment st') = length a"
    "\<And>p. p \<in> set [0..<nat (NumPartitions (configs topic))] \<Longrightarrow>
       swap_row (brokerId ` set bs) (a ! p) (st_assignment st' ! p)"
    by (metis reassignState.select_convs(1,2))
  then have "new_assignment sort_Slice kc topic bs g = Inr (st_assignment st')"
    by (simp add: new_assignment_def assms(2))
  with st'(2,3) Copy_length[OF assms(2)] show ?thesis by auto
qed

text \<open>
  C3. The new assignment of a topic is always a safe change of the current one: the computation
  does not panic, every partition keeps its number of replicas, the replicas of a partition stay
  on pairwise different brokers, and a partition either keeps its replicas or has exactly one of
  them moved, to one of the counted brokers that had no replica of it.
\<close>

theorem new_assignment_safe:
  assumes "slice_sort sort_Slice"
    and "CopyCurrentReplicaAssignment topic = Inr a" "\<forall>r\<in>set a. distinct r"
    and "0 \<le> newBrokersCount kc" "int (length brokersInfo) = newBrokersCount kc"
  shows "\<exists>a'. new_assignment sort_Slice kc topic brokersInfo globalPartitionCount = Inr a'
    \<and> length a' = length a
    \<and> (\<forall>p<length a. length (a' ! p) = length (a ! p) \<and> distinct (a' ! p)
        \<and> (a' ! p = a ! p \<or> (\<exists>i b. i < length (a ! p) \<and> b \<in> brokerId ` set brokersInfo
             \<and> b \<notin> set (a ! p) \<and> a' ! p = (a ! p)[i := b])))"
proof -
  from new_assignment_rows[OF assms(1,2,4), of brokersInfo globalPartitionCount] assms(5)
  obtain a' where a': "new_assignment sort_Slice kc topic brokersInfo globalPartitionCount = Inr a'"
    "length a' = length a" "\<forall>p<length a. swap_row (brokerId ` set brokersInfo) (a ! p) (a' ! p)"
    by auto
  have "length (a' ! p) = length (a ! p) \<and> distinct (a' ! p)
        \<and> (a' ! p = a ! p \<or> (\<exists>i b. i < length (a ! p) \<and> b \<in> brokerId ` set brokersInfo
             \<and> b \<notin> set (a ! p) \<and> a' ! p = (a ! p)[i := b]))" if p: "p < length a" for p
  proof -
    have row: "swap_row (brokerId ` set brokersInfo) (a ! p) (a' ! p)" using a'(3) p by blast
    moreover have "distinct (a ! p)" using assms(3) p by auto
    ultimately show ?thesis
      using swap_row_length[OF row] swap_row_distinct[OF row] by (auto simp: swap_row_def)
  qed
  with a'(1,2) show ?thesis by blast
qed

definition sample_client :: kafkaClient where
  "sample_client = \<lparr>serviceName = ''kafka'', clientUsername = ''u'', clientPassword = ''p'',
     newBrokersCount = 3, allBrokersStartTimeoutSeconds = 60, topicReassignmentTimeoutSeconds = 60,
     controllerId = 1, racksEnabled = False, brokerRacks = Map.empty\<rparr>"

definition sample_topic :: topicInfo where
  "sample_topic = \<lparr>topicName = ''orders'', configs = \<lparr>NumPartitions = 4, ReplicationFactor = 2,
     ReplicaAssignment = [0 \<mapsto> [1, 2], 1 \<mapsto> [2, 1], 2 \<mapsto> [1, 2], 3 \<mapsto> [1, 2]]\<rparr>\<rparr>"

definition sample_brokers :: "brokerInfo list" where
  "sample_brokers = [newBrokerInfo sample_client 1 3, newBrokerInfo sample_client 2 1,
     newBrokerInfo sample_client 3 0]"

lemma sample_copy:
  "CopyCurrentReplicaAssignment sample_topic = Inr [[1, 2], [2, 1], [1, 2], [1, 2]]"
  by code_simp

theorem new_assignment_safe_witness:
  "\<exists>a'. new_assignment insertionSort sample_client sample_topic sample_brokers 4 = Inr a' \<and> length a' = 4"
  using new_assignment_safe[OF insertion.slice_sort_axioms sample_copy,
      of sample_client sample_brokers 4]
  by (auto simp: sample_client_def sample_brokers_def)

text \<open>
  C8. Rebalancing never makes the distribution worse: over any run of the loop the sum of the
  partition counts of the brokers stays the same, no count becomes negative, and the sum of the
  squares of the counts does not grow, since every move goes from a broker with strictly more
  partitions to one with fewer. Rounding in the \<open>float64\<close> skews does not break this.
\<close>

theorem rebalancing_never_worse:
  assumes "slice_sort sort_Slice"
    and "0 \<le> newBrokersCount kc" "int (length (st_brokersInfo st)) = newBrokersCount kc"
    and "distinct (map brokerId (st_brokersInfo st))"
    and "\<forall>b\<in>set (st_brokersInfo st). 0 \<le> partitionsCount b"
  shows "\<exists>st'. reassign_loop sort_Slice kc config globalPartitionCount parts st = Inr st'
    \<and> total_partitions (st_brokersInfo st') = total_partitions (st_brokersInfo st)
    \<and> unevenness (st_brokersInfo st') \<le> unevenness (st_brokersInfo st)
    \<and> (\<forall>b\<in>set (st_brokersInfo st'). 0 \<le> partitionsCount b)"
  using slice_sort.loop_balance[OF assms(1,2) _ assms(4,5)] assms(3) by simp

theorem rebalancing_never_worse_witness:
  "\<exists>st'. reassign_loop insertionSort sample_client (configs sample_topic) 4 [0, 1, 2, 3]
        \<lparr>st_brokersInfo = sample_brokers, st_assignment = [[1, 2], [2, 1], [1, 2], [1, 2]],
         st_previousAssignment = - 1\<rparr> = Inr st'
     \<and> total_partitions (st_brokersInfo st') = 4 \<and> unevenness (st_brokersInfo st') \<le> 10"
  using rebalancing_never_worse[OF insertion.slice_sort_axioms, of sample_client
      "\<lparr>st_brokersInfo = sample_brokers, st_assignment = [[1, 2], [2, 1], [1, 2], [1, 2]],
        st_previousAssignment = - 1\<rparr>" "configs sample_topic" 4 "[0, 1, 2, 3]"]
  by (auto simp: sample_client_def sample_brokers_def newBrokerInfo_def total_partitions_def unevenness_def)

text \<open>
  The skew of a broker is a percentage: with counts between zero and the global count it lies
  between -100 and 100, so the conversion to \<open>int32\<close> is exact, and a broker with at least as many
  partitions as another has at least its skew.
\<close>

theorem skews_are_percentages:
  assumes "0 \<le> newBrokersCount kc" "distinct (map brokerId brokersInfo)"
    and "\<forall>b\<in>set brokersInfo. 0 \<le> partitionsCount b \<and> partitionsCount b \<le> globalPartitionCount"
  shows "\<forall>b\<in>set (calculateBrokersSkew kc globalPartitionCount brokersInfo).
     - 100 \<le> skew b \<and> skew b \<le> 100 \<and>
     (\<forall>c\<in>set (calculateBrokersSkew kc globalPartitionCount brokersInfo).
        partitionsCount b \<le> partitionsCount c \<longrightarrow> skew b \<le> skew c)"
  using assms skew_in_percent[OF assms(1), of brokersInfo] broker_skew_mono[OF assms(1), of brokersInfo]
  by (auto simp: skews_distinct)

theorem skews_are_percentages_witness:
  "list_all (\<lambda>b. - 100 \<le> skew b \<and> skew b \<le> 100) (calculateBrokersSkew sample_client 4 sample_brokers)"
  using skews_are_percentages[of sample_client sample_brokers 4]
  by (auto simp: list_all_iff sample_client_def sample_brokers_def newBrokerInfo_def)

lemma normal_iff: "checkBrokersSkewIsNormal bs \<longleftrightarrow> (\<forall>b\<in>set bs. \<bar>skew b\<bar> \<le> 5)"
  by (induction bs) (auto simp: go_Abs_def)

text \<open>
  An evenly loaded cluster is left alone: when every counted broker leads the same number of
  partitions, \<open>ReassignPartitions\<close> stops before the first topic, with no error and without any
  change to the cluster after the topics were described.
\<close>

theorem even_cluster_untouched:
  assumes "calculatePartitionsCount ca kc topics w = Some (Inr (globalPartitionCount, brokersInfo), w')"
    and "0 < newBrokersCount kc" "newBrokersCount kc < 2 ^ 31"
    and "\<forall>b\<in>set brokersInfo. partitionsCount b = c" "0 \<le> c" "c < 2 ^ 22"
  shows "reassign_topics sort_Slice ca kc topics (t # rest) w = Some (Inr (), w')"
proof -
  from assms(1) obtain metadata where "brokersInfo = snd (count_partitions kc metadata)"
    by (auto simp: calculatePartitionsCount_def split: if_splits) (metis snd_conv)
  then have len: "int (length brokersInfo) = newBrokersCount kc"
    and ids: "map brokerId brokersInfo = [1..newBrokersCount kc]"
    using assms(2) by (auto simp: count_partitions_def Let_def newBrokerInfo_def o_def)
  have "newBrokersCount kc * c < 2 ^ 31 * 2 ^ 22"
    using assms(2,3,5,6) by (intro mult_strict_mono') auto
  then have "averageNumOfPartitionsPerBroker kc brokersInfo = of_int c"
    using assms len by (intro average_even) auto
  then have "\<forall>b\<in>set (calculateBrokersSkew kc globalPartitionCount brokersInfo). skew b = 0"
    using assms(4-6) ids by (auto simp: skews_distinct broker_skew_def skew_percent_def fl_of_int)
  then have "checkBrokersSkewIsNormal (calculateBrokersSkew kc globalPartitionCount brokersInfo)"
    by (simp add: normal_iff)
  then show ?thesis
    using assms(1) by (cases t) (simp add: Let_def)
qed

definition sample_admin :: "(string \<times> int list list) list clusterAdmin" where
  "sample_admin = \<lparr>
     ca_DescribeCluster = returnE (map (\<lambda>i. \<lparr>broker_ID = i, broker_Rack = []\<rparr>) [1, 2, 3], 1),
     ca_ListTopics = returnE [(''orders'', configs sample_topic)],
     ca_DescribeTopics = (\<lambda>_. returnE [[1, 2], [3]]),
     ca_AlterPartitionReassignments = (\<lambda>t a. modifyE (\<lambda>w. w @ [(t, a)])),
     ca_ListPartitionReassignments = (\<lambda>_ _. returnE []),
     ca_Sleep = (\<lambda>_ w. w)\<rparr>"

lemma sample_describe: "describe_topics sample_admin ts n w = Some ([[1, 2], [3]], w)"
  by (subst describe_topics.simps) (simp add: sample_admin_def returnE_def)

theorem even_cluster_untouched_witness:
  "reassign_topics insertionSort sample_admin sample_client [(''orders'', configs sample_topic)]
     [(''orders'', configs sample_topic)] [] = Some (Inr (), [])"
  using even_cluster_untouched[of sample_admin sample_client "[(''orders'', configs sample_topic)]" "[]"
      3 "snd (count_partitions sample_client [[1, 2], [3]])" "[]" 1 insertionSort "(''orders'', configs sample_topic)" "[]"]
  by (simp add: calculatePartitionsCount_def sample_describe count_partitions_def sample_client_def
      newBrokerInfo_def Let_def upto.simps)

section \<open>Waiting\<close>

text \<open>The cluster after \<open>k\<close> polls that were each followed by a pause of ten seconds.\<close>

fun poll_world :: "'w clusterAdmin \<Rightarrow> nat \<Rightarrow> 'w \<Rightarrow> 'w" where
  "poll_world ca 0 w = w"
| "poll_world ca (Suc k) w = poll_world ca k (ca_Sleep ca 10 (snd (ca_DescribeCluster ca w)))"

definition enough_brokers :: "'w clusterAdmin \<Rightarrow> kafkaClient \<Rightarrow> 'w \<Rightarrow> bool" where
  "enough_brokers ca kc w \<longleftrightarrow> newBrokersCount kc \<le>
     (case fst (ca_DescribeCluster ca w) of Inl _ \<Rightarrow> - 1 | Inr (brokers, _) \<Rightarrow> int (length brokers))"

lemma wait_brokers_step:
  "\<not> enough_brokers ca kc w \<Longrightarrow> wait_brokers ca kc t w =
     (if t - 10 \<le> 0 then (Inl (Err ''not all brokers are started, timeout is expired''),
                          poll_world ca 1 w)
      else wait_brokers ca kc (t - 10) (poll_world ca 1 w))"
  by (subst wait_brokers.simps)
     (auto simp: enough_brokers_def Let_def split: prod.splits sum.splits)

lemma wait_brokers_enough:
  "enough_brokers ca kc w \<Longrightarrow> \<exists>kc'. wait_brokers ca kc t w = (Inr kc', snd (ca_DescribeCluster ca w))"
  by (subst wait_brokers.simps)
     (auto simp: enough_brokers_def Let_def split: prod.splits sum.splits)

lemma wait_brokers_poll:
  "(\<exists>kc'. fst (wait_brokers ca kc t w) = Inr kc') \<longleftrightarrow>
   (\<exists>k. (k = 0 \<or> 10 * int k < t) \<and> enough_brokers ca kc (poll_world ca k w))"
proof (induction "nat t" arbitrary: t w rule: less_induct)
  case less
  show ?case
  proof (cases "enough_brokers ca kc w")
    case True
    then show ?thesis using wait_brokers_enough[OF True, of t] by (metis fst_conv poll_world.simps(1))
  next
    case no: False
    have shift: "(\<exists>k. (k = 0 \<or> 10 * int k < t) \<and> enough_brokers ca kc (poll_world ca k w)) \<longleftrightarrow>
      (\<exists>k. 10 * int (Suc k) < t \<and> enough_brokers ca kc (poll_world ca (Suc k) w))"
      using no by (metis nat.exhaust nat.simps(3) poll_world.simps(1))
    show ?thesis
    proof (cases "t - 10 \<le> 0")
      case True
      with no show ?thesis unfolding shift by (simp add: wait_brokers_step)
    next
      case False
      then have bound: "(k = 0 \<or> 10 * int k < t - 10) \<longleftrightarrow> 10 * int (Suc k) < t" for k by auto
      have "nat (t - 10) < nat t" using False by linarith
      from less[OF this, of "poll_world ca 1 w"] no False show ?thesis
        unfolding shift bound by (simp add: wait_brokers_step)
    qed
  qed
qed

text \<open>
  C27. \<open>WaitUntilAllBrokersAreUp\<close> always ends, and it succeeds exactly when one of its polls, made
  every ten seconds while the timeout has not run out (the first one in any case), sees at least
  as many brokers as the client expects; otherwise it reports that the timeout has expired.
\<close>

theorem wait_brokers_spec:
  "(\<exists>kc'. fst (WaitUntilAllBrokersAreUp ca kc w) = Inr kc') =
     (\<exists>k. (k = 0 \<or> 10 * int k < allBrokersStartTimeoutSeconds kc)
          \<and> enough_brokers ca kc (poll_world ca k w))"
  unfolding WaitUntilAllBrokersAreUp_def by (rule wait_brokers_poll)

text \<open>The cluster after \<open>k\<close> failed descriptions of the topics, each followed by a minute's pause.\<close>

fun describe_world :: "'w clusterAdmin \<Rightarrow> string list \<Rightarrow> nat \<Rightarrow> 'w \<Rightarrow> 'w" where
  "describe_world ca ts 0 w = w"
| "describe_world ca ts (Suc k) w = describe_world ca ts k (ca_Sleep ca 60 (snd (ca_DescribeTopics ca ts w)))"

lemma describe_topics_failed:
  "\<not> isl (fst (ca_DescribeTopics ca ts w)) \<or> describe_topics ca ts n w =
     describe_topics ca ts (n + 1) (ca_Sleep ca 60 (snd (ca_DescribeTopics ca ts w)))"
  by (subst describe_topics.simps) (auto split: prod.splits sum.splits)

lemma describe_topics_later:
  "\<not> isl (fst (ca_DescribeTopics ca ts (describe_world ca ts k w))) \<Longrightarrow> describe_topics ca ts n w \<noteq> None"
proof (induction k arbitrary: w n)
  case 0
  then show ?case by (subst describe_topics.simps) (auto split: prod.splits sum.splits)
next
  case (Suc k)
  show ?case
  proof (cases "isl (fst (ca_DescribeTopics ca ts w))")
    case True
    then show ?thesis using Suc describe_topics_failed[of ca ts w n] by simp
  next
    case False
    then show ?thesis by (subst describe_topics.simps) (auto split: prod.splits sum.splits)
  qed
qed

lemma describe_topics_found:
  assumes "describe_topics ca ts n w = Some y"
  shows "\<exists>k. \<not> isl (fst (ca_DescribeTopics ca ts (describe_world ca ts k w)))"
proof (rule describe_topics.raw_induct[where P = "\<lambda>ca ts n w y. \<exists>k. \<not> isl (fst (ca_DescribeTopics ca ts
      (describe_world ca ts k w)))", OF _ assms])
  fix f and ca :: "'a clusterAdmin" and ts and n :: nat and w y
  assume IH: "\<And>ca ts n w y. f ca ts n w = Some y \<Longrightarrow>
      \<exists>k. \<not> isl (fst (ca_DescribeTopics ca ts (describe_world ca ts k w)))"
    and body: "(case ca_DescribeTopics ca ts w of
        (Inl e, w') \<Rightarrow> f ca ts (n + 1) (ca_Sleep ca 60 w')
      | (Inr metadata, w') \<Rightarrow> Some (metadata, w')) = Some y"
  obtain r w1 where r: "ca_DescribeTopics ca ts w = (r, w1)" by fastforce
  show "\<exists>k. \<not> isl (fst (ca_DescribeTopics ca ts (describe_world ca ts k w)))"
  proof (cases r)
    case (Inl e)
    with body r have "f ca ts (n + 1) (ca_Sleep ca 60 w1) = Some y" by simp
    from IH[OF this] obtain k where
      "\<not> isl (fst (ca_DescribeTopics ca ts (describe_world ca ts k (ca_Sleep ca 60 w1))))"
      by blast
    then have "\<not> isl (fst (ca_DescribeTopics ca ts (describe_world ca ts (Suc k) w)))"
      using r by simp
    then show ?thesis by blast
  next
    case (Inr a)
    then show ?thesis using r by (auto intro!: exI[of _ 0])
  qed
qed

text \<open>
  C28. The loop that describes the topics ends exactly when one of its attempts succeeds: the
  number of attempts is not bounded, although the code counts them and compares the count with
  \<open>MaxRetryAttempts\<close>. A cluster that never answers blocks the reassignment for good.
\<close>

theorem describe_topics_ends_iff:
  "(describe_topics ca topicsTitles attempt w \<noteq> None) =
     (\<exists>k. \<not> isl (fst (ca_DescribeTopics ca topicsTitles (describe_world ca topicsTitles k w))))"
  using describe_topics_later describe_topics_found by (metis not_None_eq)

text \<open>
  The racks the rebalancing takes for those of the current replicas depend only on how many
  replicas there are, not on which brokers hold them. With racks enabled the code can therefore
  prefer a broker in the rack of the only other replica to one in a free rack.
\<close>

theorem racks_ignore_the_replicas:
  "getRacksForBrokers kc replicas = getRacksForBrokers kc (replicate (length replicas) anyBroker)
   \<and> (\<exists>(kc'::kafkaClient) least. racksEnabled kc'
        \<and> brokerRacks kc' 3 = Some ''c'' \<and> brokerRacks kc' 4 = Some ''c'' \<and> brokerRacks kc' 5 = Some ''a''
        \<and> least = map (\<lambda>b. newBrokerInfo kc' b 0) [4, 5]
        \<and> CalcBrokerWithLeastPartitionsToSwap kc' least [1, 3] 1 = 4)"
proof -
  let ?kc = "sample_client\<lparr>racksEnabled := True, brokerRacks := [1 \<mapsto> ''b'', 3 \<mapsto> ''c'', 4 \<mapsto> ''c'', 5 \<mapsto> ''a'']\<rparr>"
  have "CalcBrokerWithLeastPartitionsToSwap ?kc (map (\<lambda>b. newBrokerInfo ?kc b 0) [4, 5]) [1, 3] 1 = 4"
    by code_simp
  then show ?thesis
    by (auto simp: getRacksForBrokers_def intro!: exI[of _ ?kc])
qed

section \<open>The whole procedure\<close>

text \<open>An assignment that differs from the current one of a topic in at most one replica per
  partition, moved to one of the brokers \<open>1, ..., n\<close> that had none.\<close>

definition safe_assignment :: "int \<Rightarrow> topicDetail \<Rightarrow> int list list \<Rightarrow> bool" where
  "safe_assignment n config a' \<longleftrightarrow>
     (\<exists>a. CopyCurrentReplicaAssignment \<lparr>topicName = [], configs = config\<rparr> = Inr a
        \<and> length a' = length a \<and> (\<forall>p<length a. swap_row {1..n} (a ! p) (a' ! p)))"

lemma Copy_name: "CopyCurrentReplicaAssignment \<lparr>topicName = t, configs = config\<rparr> =
    CopyCurrentReplicaAssignment \<lparr>topicName = [], configs = config\<rparr>"
  by (simp add: CopyCurrentReplicaAssignment_def)

lemma new_assignment_is_safe:
  assumes "slice_sort sort_Slice" "0 \<le> newBrokersCount kc"
    and "map brokerId bs = [1..newBrokersCount kc]"
    and "new_assignment sort_Slice kc \<lparr>topicName = t, configs = config\<rparr> bs g = Inr a'"
  shows "safe_assignment (newBrokersCount kc) config a'"
proof -
  have len: "newBrokersCount kc \<le> int (length bs)"
    using arg_cong[OF assms(3), of length] by simp
  have ids: "brokerId ` set bs = {1..newBrokersCount kc}"
    using arg_cong[OF assms(3), of set] by simp
  obtain a where "CopyCurrentReplicaAssignment \<lparr>topicName = t, configs = config\<rparr> = Inr a"
    using assms(4) by (auto simp: new_assignment_def split: sum.splits)
  from new_assignment_rows[OF assms(1) this assms(2) len, of g] this assms(4) ids show ?thesis
    unfolding safe_assignment_def by (auto simp flip: Copy_name[of t])
qed

text \<open>A cluster whose reading operations and pauses keep \<open>I\<close>, and whose listed topics are \<open>listed\<close>.\<close>

definition reads_keep :: "('w \<Rightarrow> bool) \<Rightarrow> (string \<Rightarrow> topicDetail \<Rightarrow> bool) \<Rightarrow> 'w clusterAdmin \<Rightarrow> bool" where
  "reads_keep I listed ca \<longleftrightarrow>
     keeps I (ca_DescribeCluster ca) \<and> keeps I (ca_ListTopics ca) \<and>
     (\<forall>ts. keeps I (ca_DescribeTopics ca ts)) \<and>
     (\<forall>t ps. keeps I (ca_ListPartitionReassignments ca t ps)) \<and>
     (\<forall>n w. I w \<longrightarrow> I (ca_Sleep ca n w)) \<and>
     (\<forall>w topics w'. I w \<longrightarrow> ca_ListTopics ca w = (Inr topics, w') \<longrightarrow> (\<forall>(t, config)\<in>set topics. listed t config))"

lemma reads_keepD:
  assumes "reads_keep I listed ca" "I w"
  shows "ca_DescribeCluster ca w = (q, w1) \<Longrightarrow> I w1"
    and "ca_ListTopics ca w = (ts, w1) \<Longrightarrow> I w1"
    and "ca_DescribeTopics ca names w = (m, w1) \<Longrightarrow> I w1"
    and "ca_ListPartitionReassignments ca t ps w = (l, w1) \<Longrightarrow> I w1"
    and "I (ca_Sleep ca n w)"
    and "ca_ListTopics ca w = (Inr topics, w1) \<Longrightarrow> (t, config) \<in> set topics \<Longrightarrow> listed t config"
proof -
  from assms(1) have k: "keeps I (ca_DescribeCluster ca)" "keeps I (ca_ListTopics ca)"
    "keeps I (ca_DescribeTopics ca names)" "keeps I (ca_ListPartitionReassignments ca t ps)"
    by (simp_all add: reads_keep_def)
  show "ca_DescribeCluster ca w = (q, w1) \<Longrightarrow> I w1" "ca_ListTopics ca w = (ts, w1) \<Longrightarrow> I w1"
    "ca_DescribeTopics ca names w = (m, w1) \<Longrightarrow> I w1"
    "ca_ListPartitionReassignments ca t ps w = (l, w1) \<Longrightarrow> I w1"
    using k[THEN keepsD, OF assms(2)] by blast+
  show "I (ca_Sleep ca n w)" using assms by (simp add: reads_keep_def)
  show "ca_ListTopics ca w = (Inr topics, w1) \<Longrightarrow> (t, config) \<in> set topics \<Longrightarrow> listed t config"
    using assms by (fastforce simp: reads_keep_def)
qed

lemma keeps_wait_reassignment:
  assumes "reads_keep I listed ca"
  shows "I w \<Longrightarrow> I (wait_reassignment ca topic remaining w)"
proof (induction "nat remaining" arbitrary: remaining w rule: less_induct)
  case less
  obtain r w1 where r: "ca_ListPartitionReassignments ca (topicName topic)
      (map int [0..<nat (NumPartitions (configs topic))]) w = (r, w1)" by fastforce
  have "I w1" "I (ca_Sleep ca 2 w1)"
    using reads_keepD[OF assms] less.prems r by blast+
  then show ?case
    using less.hyps[of "remaining - 2" "ca_Sleep ca 2 w1"]
    by (subst wait_reassignment.simps) (auto simp: r Let_def)
qed

lemma keeps_wait_brokers:
  assumes "reads_keep I listed ca"
  shows "I w \<Longrightarrow> wait_brokers ca kc t w = (r, w') \<Longrightarrow>
    I w' \<and> (\<forall>kc'. r = Inr kc' \<longrightarrow> newBrokersCount kc' = newBrokersCount kc)"
proof (induction "nat t" arbitrary: t w rule: less_induct)
  case less
  obtain q w1 where q: "ca_DescribeCluster ca w = (q, w1)" by fastforce
  have I: "I w1" "I (ca_Sleep ca 10 w1)"
    using reads_keepD[OF assms] less.prems q by blast+
  show ?case
  proof (cases "enough_brokers ca kc w")
    case True
    with less.prems(2) I q show ?thesis
      by (subst (asm) wait_brokers.simps)
         (auto simp: enough_brokers_def Let_def split: prod.splits sum.splits)
  next
    case False
    with less.prems less.hyps[of "t - 10" "ca_Sleep ca 10 w1"] I q show ?thesis
      by (auto simp: wait_brokers_step split: if_splits)
  qed
qed

lemma keeps_describe_topics:
  assumes "reads_keep I listed ca" and "I w" and "describe_topics ca ts n w = Some (m, w')"
  shows "I w'"
proof -
  have "reads_keep I listed ca \<longrightarrow> I w \<longrightarrow> I (snd (m, w'))"
  proof (rule describe_topics.raw_induct[where P = "\<lambda>ca ts n w y. reads_keep I listed ca \<longrightarrow> I w \<longrightarrow> I (snd y)",
        OF _ assms(3)], intro impI)
    fix f and ca :: "'a clusterAdmin" and ts and n :: nat and w y
    assume IH: "\<And>ca ts n w y. f ca ts n w = Some y \<Longrightarrow> reads_keep I listed ca \<longrightarrow> I w \<longrightarrow> I (snd y)"
      and body: "(case ca_DescribeTopics ca ts w of
          (Inl e, w') \<Rightarrow> f ca ts (n + 1) (ca_Sleep ca 60 w')
        | (Inr metadata, w') \<Rightarrow> Some (metadata, w')) = Some y"
      and I: "reads_keep I listed ca" "I w"
    obtain r w1 where r: "ca_DescribeTopics ca ts w = (r, w1)" by fastforce
    have "I w1" "I (ca_Sleep ca 60 w1)"
      using reads_keepD[OF I(1)] I(2) r by blast+
    then show "I (snd y)" using body r IH I(1) by (auto split: sum.splits)
  qed
  with assms show ?thesis by simp
qed

lemma count_partitions_ids [simp]:
  "map brokerId (snd (count_partitions kc metadata)) = [1..newBrokersCount kc]"
  by (simp add: count_partitions_def Let_def newBrokerInfo_def o_def)

lemma keeps_reassign_topic:
  assumes "slice_sort sort_Slice" "0 \<le> newBrokersCount kc" "reads_keep I listed ca"
    and alter: "\<And>a. safe_assignment (newBrokersCount kc) config a \<Longrightarrow> keeps I (ca_AlterPartitionReassignments ca t a)"
    and "map brokerId bs = [1..newBrokersCount kc]"
  shows "keeps I (ReassignPartitionsForTopic sort_Slice ca kc \<lparr>topicName = t, configs = config\<rparr> bs g)"
proof (cases "new_assignment sort_Slice kc \<lparr>topicName = t, configs = config\<rparr> bs g")
  case (Inl e)
  then show ?thesis by (simp add: ReassignPartitionsForTopic_def keeps_def eff_defs)
next
  case (Inr a)
  from alter[OF new_assignment_is_safe[OF assms(1,2,5) Inr]] keeps_wait_reassignment[OF assms(3)]
  show ?thesis
    by (auto simp: ReassignPartitionsForTopic_def Inr liftE_def bindE_def
        WaitUntilPartitionsReassignmentFinished_def intro!: keeps_rules)
qed

lemma keeps_reassign_topics:
  assumes "slice_sort sort_Slice" "reads_keep I listed ca"
    and alter: "\<And>t config a. listed t config \<Longrightarrow> safe_assignment (newBrokersCount kc) config a \<Longrightarrow>
      keeps I (ca_AlterPartitionReassignments ca t a)"
  shows "\<forall>(t, config)\<in>set rest. listed t config \<Longrightarrow> I w \<Longrightarrow>
    reassign_topics sort_Slice ca kc topics rest w = Some (r, w') \<Longrightarrow> I w'"
proof (induction rest arbitrary: w)
  case (Cons tc rest)
  obtain t config where tc: "tc = (t, config)" by fastforce
  show ?case
  proof (cases "newBrokersCount kc < 0")
    case True
    with Cons.prems tc show ?thesis by (simp add: calculatePartitionsCount_def)
  next
    case False
    with Cons.prems(3) tc obtain m w1 where m: "describe_topics ca (map fst topics) 0 w = Some (m, w1)"
      by (auto simp: calculatePartitionsCount_def split: option.splits)
    obtain g bs where gb: "count_partitions kc m = (g, bs)" by fastforce
    have I1: "I w1" using keeps_describe_topics[OF assms(2) Cons.prems(2) m] .
    let ?bs = "calculateBrokersSkew kc g bs"
    have "map brokerId ?bs = [1..newBrokersCount kc]"
      using count_partitions_ids[of kc m] gb by simp
    with False Cons.prems(1) tc have "keeps I (ReassignPartitionsForTopic sort_Slice ca kc
        \<lparr>topicName = t, configs = config\<rparr> ?bs g)"
      by (intro keeps_reassign_topic[OF assms(1) _ assms(2)] alter) auto
    moreover obtain q w2 where q: "ReassignPartitionsForTopic sort_Slice ca kc
        \<lparr>topicName = t, configs = config\<rparr> ?bs g w1 = (q, w2)" by fastforce
    ultimately have "I w2" using I1 by (blast dest: keepsD)
    with Cons.prems Cons.IH[of w2] False m gb q I1 tc show ?thesis
      by (auto simp: calculatePartitionsCount_def Let_def split: if_splits sum.splits)
  qed
qed simp

text \<open>
  C4. The whole procedure issues only safe changes. Take any predicate \<open>I\<close> on the cluster that
  reading and waiting keep and that every safe reassignment of a listed topic keeps: waiting for
  the brokers, counting, and reassigning all topics keeps it as well, so \<open>ReassignPartitions\<close>
  never asks the cluster for any other reassignment.
\<close>

theorem ReassignPartitions_only_safe_changes:
  assumes "slice_sort sort_Slice" "reads_keep I listed ca"
    and "\<And>t config a. listed t config \<Longrightarrow> safe_assignment (newBrokersCount kc) config a \<Longrightarrow>
      keeps I (ca_AlterPartitionReassignments ca t a)"
    and "I w"
  shows "case ReassignPartitions sort_Slice ca kc w of None \<Rightarrow> True | Some (r, w') \<Rightarrow> I w'"
proof (cases "ReassignPartitions sort_Slice ca kc w")
  case (Some rw)
  obtain q w1 where q: "WaitUntilAllBrokersAreUp ca kc w = (q, w1)" by fastforce
  obtain ts w2 where ts: "ca_ListTopics ca w1 = (ts, w2)" by fastforce
  have I1: "I w1" and n: "\<And>kc'. q = Inr kc' \<Longrightarrow> newBrokersCount kc' = newBrokersCount kc"
    using keeps_wait_brokers[OF assms(2,4)] q by (auto simp: WaitUntilAllBrokersAreUp_def)
  have I2: "I w2" and listed: "\<And>topics. ts = Inr topics \<Longrightarrow> \<forall>(t, config)\<in>set topics. listed t config"
    using reads_keepD[OF assms(2) I1] ts by blast+
  show ?thesis
    using Some q ts I1 I2 n listed assms(3)
      keeps_reassign_topics[OF assms(1,2), of "projr q" "projr ts" w2]
    by (auto simp: ReassignPartitions_def split: sum.splits)
qed simp

definition sample_listed :: "string \<Rightarrow> topicDetail \<Rightarrow> bool" where
  "sample_listed t config \<longleftrightarrow> t = ''orders'' \<and> config = configs sample_topic"

definition sample_safe :: "(string \<times> int list list) list \<Rightarrow> bool" where
  "sample_safe calls \<longleftrightarrow> (\<forall>(t, a)\<in>set calls. t = ''orders'' \<and> safe_assignment 3 (configs sample_topic) a)"

theorem ReassignPartitions_only_safe_changes_witness:
  "case ReassignPartitions insertionSort sample_admin sample_client [] of
     None \<Rightarrow> True | Some (r, calls) \<Rightarrow> sample_safe calls"
proof (rule ReassignPartitions_only_safe_changes[where listed = sample_listed])
  show "slice_sort insertionSort" by (rule insertion.slice_sort_axioms)
  show "reads_keep sample_safe sample_listed sample_admin"
    by (auto simp: reads_keep_def sample_admin_def sample_listed_def keeps_def eff_defs)
  show "sample_safe []" by (simp add: sample_safe_def)
  show "keeps sample_safe (ca_AlterPartitionReassignments sample_admin t a)"
    if "sample_listed t config" "safe_assignment (newBrokersCount sample_client) config a" for t config a
    using that by (auto simp: keeps_def sample_safe_def sample_admin_def sample_listed_def
        sample_client_def eff_defs)
qed

end
