(* ===== verification/Kube_Objects.thy ===== *)
theory Kube_Objects
  imports Go_Prelude "HOL-Library.Word"
begin

text \<open>
  The Kubernetes objects that the operator reads and builds (\<open>k8s.io/api\<close>), with the fields that its code
  names. An object is a record that extends the common metadata. The parts of a pod specification that
  the code passes on without looking into them (tolerations, the security context of a pod, the rules
  of an affinity other than the one it sets) are texts, and so are quantities of resources that the code
  does not compare.
\<close>

section \<open>Metadata\<close>

record ownerReference =
  or_Name :: string
  or_APIVersion :: string
  or_Kind :: string
  or_Controller :: bool

record k8sObject =
  obj_Name :: string
  obj_Namespace :: string
  obj_Labels :: "string gomap"
  obj_Annotations :: "string gomap"
  obj_ResourceVersion :: string
  obj_OwnerReferences :: "ownerReference list"

section \<open>Services, claims, configuration\<close>

record serviceAccount = k8sObject +
  sa_ImagePullSecrets :: "string list"

datatype protocol = ProtocolTCP | ProtocolUDP

record servicePort =
  sp_Name :: string
  sp_Port :: int
  sp_Protocol :: protocol

record service = k8sObject +
  svc_Type :: string
  svc_ClusterIP :: string
  svc_Selector :: "string gomap"
  svc_Ports :: "servicePort list"
  svc_PublishNotReadyAddresses :: bool

record persistentVolumeClaim = k8sObject +
  pvc_Requests :: "int gomap option"
  pvc_StorageClass :: "string option"
  pvc_VolumeName :: string
  pvc_Selector :: "string gomap"
  pvc_AccessModes :: "string list"
  pvc_Capacity :: "int gomap"
  pvc_Conditions :: "string list"

record configMap = k8sObject +
  cm_Data :: "string gomap"
  cm_BinaryData :: "string gomap"

record secret = k8sObject +
  sec_Data :: "string gomap option"
  sec_StringData :: "string gomap option"

section \<open>Pods and deployments\<close>

datatype envVarSource = FieldRef string | ConfigMapKeyRef string string

record envVar =
  env_Name :: string
  env_Value :: string
  env_ValueFrom :: "envVarSource option"

record containerPort =
  cp_Name :: string
  cp_ContainerPort :: int
  cp_Protocol :: protocol

record volumeMount =
  vm_Name :: string
  vm_MountPath :: string
  vm_ReadOnly :: bool

datatype probeHandler = ExecAction "string list" | TCPSocketAction int | HTTPGetAction string int string

record probe =
  pr_Handler :: probeHandler
  pr_InitialDelaySeconds :: "32 word"
  pr_TimeoutSeconds :: "32 word"
  pr_PeriodSeconds :: "32 word"
  pr_SuccessThreshold :: "32 word"
  pr_FailureThreshold :: "32 word"

record resourceRequirements =
  res_Requests :: "string gomap"
  res_Limits :: "string gomap"

record securityContext =
  sc_AllowPrivilegeEscalation :: bool
  sc_ReadOnlyRootFilesystem :: bool
  sc_Drop :: "string list"

record container =
  ctr_Name :: string
  ctr_Image :: string
  ctr_Command :: "string list"
  ctr_Args :: "string list"
  ctr_Ports :: "containerPort list"
  ctr_LivenessProbe :: "probe option"
  ctr_ReadinessProbe :: "probe option"
  ctr_Env :: "envVar list"
  ctr_Resources :: resourceRequirements
  ctr_VolumeMounts :: "volumeMount list"
  ctr_ImagePullPolicy :: string
  ctr_SecurityContext :: "securityContext option"

text \<open>The items of a volume are pairs of a key and a path.\<close>

datatype volumeProjection = SecretProjection string "(string \<times> string) list" | ConfigMapProjection string

datatype volumeSource =
    EmptyDirVolume "string option"
  | PersistentVolumeClaimVolume string
  | SecretVolume string "32 word option" "(string \<times> string) list"
  | ConfigMapVolume string "(string \<times> string) list"
  | ProjectedVolume "32 word option" "volumeProjection list"

record volume =
  vol_Name :: string
  vol_Source :: volumeSource

record nodeSelectorRequirement =
  nsr_Key :: string
  nsr_Operator :: string
  nsr_Values :: "string list"

text \<open>\<open>aff_NodeAffinity\<close> is the required node affinity as its terms, \<open>aff_Other\<close> the rest.\<close>

record affinity =
  aff_NodeAffinity :: "nodeSelectorRequirement list list option"
  aff_Other :: string

record deployment = k8sObject +
  dep_Strategy :: string
  dep_Replicas :: "32 word option"
  dep_ProgressDeadlineSeconds :: "32 word option"
  dep_Selector :: "string gomap"
  dep_TemplateLabels :: "string gomap"
  dep_TemplateAnnotations :: "string gomap"
  dep_Volumes :: "volume list"
  dep_InitContainers :: "container list"
  dep_Containers :: "container list"
  dep_SecurityContext :: string
  dep_ServiceAccountName :: string
  dep_TerminationGracePeriodSeconds :: "64 word option"
  dep_Hostname :: string
  dep_Subdomain :: string
  dep_Affinity :: affinity
  dep_Tolerations :: string
  dep_PriorityClassName :: string
  dep_ReadyReplicas :: "32 word"
  dep_UpdatedReplicas :: "32 word"

record podCondition =
  pc_Type :: string
  pc_Status :: string

record pod = k8sObject +
  pod_Conditions :: "podCondition list"
  pod_Containers :: "container list"

section \<open>Zero values\<close>

text \<open>What a composite literal leaves in the fields it does not name.\<close>

definition new_service :: "string \<Rightarrow> string \<Rightarrow> string gomap \<Rightarrow> service" where
  "new_service name namespace labels = \<lparr>obj_Name = name, obj_Namespace = namespace, obj_Labels = labels, obj_Annotations = [],
     obj_ResourceVersion = [], obj_OwnerReferences = [], svc_Type = [], svc_ClusterIP = [], svc_Selector = [], svc_Ports = [],
     svc_PublishNotReadyAddresses = False\<rparr>"

definition new_serviceAccount :: "string \<Rightarrow> string \<Rightarrow> string gomap \<Rightarrow> serviceAccount" where
  "new_serviceAccount name namespace labels = \<lparr>obj_Name = name, obj_Namespace = namespace, obj_Labels = labels, obj_Annotations = [],
     obj_ResourceVersion = [], obj_OwnerReferences = [], sa_ImagePullSecrets = []\<rparr>"

definition new_persistentVolumeClaim :: "string \<Rightarrow> string \<Rightarrow> string gomap \<Rightarrow> persistentVolumeClaim" where
  "new_persistentVolumeClaim name namespace labels = \<lparr>obj_Name = name, obj_Namespace = namespace, obj_Labels = labels,
     obj_Annotations = [], obj_ResourceVersion = [], obj_OwnerReferences = [], pvc_Requests = None, pvc_StorageClass = None,
     pvc_VolumeName = [], pvc_Selector = [], pvc_AccessModes = [], pvc_Capacity = [], pvc_Conditions = []\<rparr>"

definition new_secret :: "string \<Rightarrow> string \<Rightarrow> string gomap \<Rightarrow> secret" where
  "new_secret name namespace labels = \<lparr>obj_Name = name, obj_Namespace = namespace, obj_Labels = labels, obj_Annotations = [],
     obj_ResourceVersion = [], obj_OwnerReferences = [], sec_Data = None, sec_StringData = None\<rparr>"

definition new_configMap :: "string \<Rightarrow> string \<Rightarrow> string gomap \<Rightarrow> configMap" where
  "new_configMap name namespace labels = \<lparr>obj_Name = name, obj_Namespace = namespace, obj_Labels = labels, obj_Annotations = [],
     obj_ResourceVersion = [], obj_OwnerReferences = [], cm_Data = [], cm_BinaryData = []\<rparr>"

definition new_container :: "string \<Rightarrow> string \<Rightarrow> container" where
  "new_container name img = \<lparr>ctr_Name = name, ctr_Image = img, ctr_Command = [], ctr_Args = [], ctr_Ports = [],
     ctr_LivenessProbe = None, ctr_ReadinessProbe = None, ctr_Env = [], ctr_Resources = \<lparr>res_Requests = [], res_Limits = []\<rparr>,
     ctr_VolumeMounts = [], ctr_ImagePullPolicy = [], ctr_SecurityContext = None\<rparr>"

definition new_deployment :: "string \<Rightarrow> string \<Rightarrow> string gomap \<Rightarrow> deployment" where
  "new_deployment name namespace labels = \<lparr>obj_Name = name, obj_Namespace = namespace, obj_Labels = labels, obj_Annotations = [],
     obj_ResourceVersion = [], obj_OwnerReferences = [], dep_Strategy = [], dep_Replicas = None, dep_ProgressDeadlineSeconds = None,
     dep_Selector = [], dep_TemplateLabels = [], dep_TemplateAnnotations = [], dep_Volumes = [], dep_InitContainers = [],
     dep_Containers = [], dep_SecurityContext = [], dep_ServiceAccountName = [], dep_TerminationGracePeriodSeconds = None,
     dep_Hostname = [], dep_Subdomain = [], dep_Affinity = \<lparr>aff_NodeAffinity = None, aff_Other = []\<rparr>, dep_Tolerations = [],
     dep_PriorityClassName = [], dep_ReadyReplicas = 0, dep_UpdatedReplicas = 0\<rparr>"

lemmas new_object_defs = new_service_def new_serviceAccount_def new_persistentVolumeClaim_def new_secret_def new_configMap_def
  new_container_def new_deployment_def

section \<open>Well-formed deployments\<close>

text \<open>
  What the API server demands of a deployment beyond the types of its fields, as far as the code
  determines it: the labels of the pod template satisfy the selector, every mount of a container refers
  to a volume of the pod, and the names of the volumes and of the containers are distinct.
\<close>

definition selects :: "string gomap \<Rightarrow> string gomap \<Rightarrow> bool" where
  "selects selector labels \<longleftrightarrow> (\<forall>(k, v)\<in>set selector. map_of labels k = Some v)"

definition mounts_declared :: "volume list \<Rightarrow> container \<Rightarrow> bool" where
  "mounts_declared vs c \<longleftrightarrow> set (map vm_Name (ctr_VolumeMounts c)) \<subseteq> set (map vol_Name vs)"

definition wf_deployment :: "deployment \<Rightarrow> bool" where
  "wf_deployment d \<longleftrightarrow> selects (dep_Selector d) (dep_TemplateLabels d)
     \<and> (\<forall>c\<in>set (dep_InitContainers d @ dep_Containers d). mounts_declared (dep_Volumes d) c)
     \<and> distinct (map vol_Name (dep_Volumes d)) \<and> distinct (map ctr_Name (dep_InitContainers d @ dep_Containers d))
     \<and> dep_Containers d \<noteq> []"

end
