(* ===== verification/Kube_Reconciler.thy ===== *)
theory Kube_Reconciler
  imports Go_Prelude Kube_Objects Operator_Util Partition_Reassign
begin

text \<open>
  \<open>operator/controllers/reconciler.go\<close>: the operations every reconciler of the operator uses to
  bring Kubernetes objects into the desired state, \<open>condition.go\<close> and \<open>status_update.go\<close> of the
  \<open>kafka\<close> and \<open>kafkaservice\<close> controllers, and \<open>deployment_secret_restart.go\<close>.

  The Kubernetes client is a record of operations on a state \<open>'w\<close> of the cluster, one group of
  operations for each kind of object. An object is a record that extends the common metadata. A
  map that is \<open>nil\<close> is the empty map, except where the code writes to it without a check.
\<close>

section \<open>The client\<close>

text \<open>The client's operations on one kind of object. \<open>Get\<close> takes the name and the namespace.\<close>

record ('o, 'w) crud =
  c_Get :: "string \<Rightarrow> string \<Rightarrow> ('w, 'o) eff"
  c_Create :: "'o \<Rightarrow> ('w, unit) eff"
  c_Update :: "'o \<Rightarrow> ('w, unit) eff"
  c_Delete :: "'o \<Rightarrow> ('w, unit) eff"
  c_List :: "string \<Rightarrow> string gomap \<Rightarrow> ('w, 'o list) eff"

record 'w kubeClient =
  k_serviceAccounts :: "(serviceAccount, 'w) crud"
  k_services :: "(service, 'w) crud"
  k_persistentVolumeClaims :: "(persistentVolumeClaim, 'w) crud"
  k_deployments :: "(deployment, 'w) crud"
  k_configMaps :: "(configMap, 'w) crud"
  k_secrets :: "(secret, 'w) crud"
  k_pods :: "(pod, 'w) crud"

text \<open>The result of a \<open>Reconcile\<close> call: the seconds after which it asks to be called again, 0 for never.\<close>

record reconcileResult =
  rr_RequeueAfter :: int

definition done_result :: reconcileResult where
  "done_result = \<lparr>rr_RequeueAfter = 0\<rparr>"

text \<open>The environment of the operator process.\<close>

record operatorEnv =
  OPERATOR_NAME :: string
  OPERATOR_NAMESPACE :: string
  KMM_CONFIG_RECONCILE_PERIOD_SECONDS :: int

section \<open>Pods and labels\<close>

definition FindPodList :: "'w kubeClient \<Rightarrow> string \<Rightarrow> string gomap \<Rightarrow> ('w, pod list) eff" where
  "FindPodList k namespace podLabels = c_List (k_pods k) namespace podLabels"

definition pod_ready :: "pod \<Rightarrow> bool" where
  "pod_ready p \<longleftrightarrow> (\<exists>c\<in>set (pod_Conditions p). pc_Type c = ''Ready'' \<and> pc_Status c = ''True'')"

definition GetFirstAvailablePod :: "pod list \<Rightarrow> pod option" where
  "GetFirstAvailablePod pods = find pod_ready pods"

definition GetPodNames :: "pod list \<Rightarrow> string list" where
  "GetPodNames pods = map (\<lambda>p. mstr (obj_Labels p) ''name'') pods"

definition GetActualPodNames :: "pod list \<Rightarrow> string list" where
  "GetActualPodNames pods = map obj_Name pods"

definition ApiGroupMatches :: "string \<Rightarrow> string \<Rightarrow> bool" where
  "ApiGroupMatches apiVersion targetApiGroup \<longleftrightarrow> hd (strings_Split apiVersion (CHR ''/'')) = targetApiGroup"

text \<open>\<open>getNode\<close> stands for the client set made from the cluster configuration.\<close>

definition GetNodeLabel :: "(string \<Rightarrow> ('w, string gomap) eff) \<Rightarrow> string \<Rightarrow> string \<Rightarrow> ('w, string) eff" where
  "GetNodeLabel getNode nodeName labelName =
     bindE (getNode nodeName) (\<lambda>nodeLabels.
       let labelValue = mstr nodeLabels labelName
       in if labelValue = [] then
            throwE (Err (''Node ['' @ nodeName @ ''] does not have label ['' @ labelName @ '']''))
          else returnE labelValue)"

definition GetKafkaLabels :: "string \<Rightarrow> string gomap" where
  "GetKafkaLabels customResourceName = [(''component'', ''kafka''), (''clusterName'', customResourceName)]"

definition GetMirrorMakerLabels :: "string \<Rightarrow> string gomap" where
  "GetMirrorMakerLabels customResourceName =
     [(''component'', ''kafka-mm''), (''clusterName'', customResourceName @ ''-mirror-maker'')]"

definition GetBackupDaemonLabels :: "string \<Rightarrow> string gomap" where
  "GetBackupDaemonLabels customResourceName =
     [(''component'', ''kafka-backup-daemon''), (''name'', customResourceName @ ''-backup-daemon'')]"

section \<open>Service accounts and services\<close>

definition CreateOrUpdateServiceAccount :: "'w kubeClient \<Rightarrow> serviceAccount \<Rightarrow> ('w, unit) eff" where
  "CreateOrUpdateServiceAccount k serviceAccount =
     tryE (c_Get (k_serviceAccounts k) (obj_Name serviceAccount) (obj_Namespace serviceAccount))
       (\<lambda>err. if IsNotFound err then c_Create (k_serviceAccounts k) serviceAccount else throwE err)
       (\<lambda>foundService. c_Update (k_serviceAccounts k)
          (foundService\<lparr>obj_Labels := JoinMaps (obj_Labels foundService) (obj_Labels serviceAccount)\<rparr>))"

definition CreateOrUpdateService :: "'w kubeClient \<Rightarrow> service \<Rightarrow> ('w, unit) eff" where
  "CreateOrUpdateService k service =
     tryE (c_Get (k_services k) (obj_Name service) (obj_Namespace service))
       (\<lambda>err. if IsNotFound err then c_Create (k_services k) service else throwE err)
       (\<lambda>foundService.
          let service = service\<lparr>obj_ResourceVersion := obj_ResourceVersion foundService\<rparr>;
              service = (if svc_Type foundService = ''ClusterIP''
                         then service\<lparr>svc_ClusterIP := svc_ClusterIP foundService\<rparr> else service)
          in c_Update (k_services k) service)"

definition DeleteService :: "'w kubeClient \<Rightarrow> service \<Rightarrow> ('w, unit) eff" where
  "DeleteService k service =
     tryE (c_Get (k_services k) (obj_Name service) (obj_Namespace service))
       (\<lambda>err. if IsNotFound err then returnE () else throwE err)
       (\<lambda>foundService. c_Delete (k_services k)
          (service\<lparr>obj_ResourceVersion := obj_ResourceVersion foundService\<rparr>))"

definition GetServiceIp :: "'w kubeClient \<Rightarrow> string \<Rightarrow> string \<Rightarrow> ('w, string) eff" where
  "GetServiceIp k namespace svcName =
     bindE (c_Get (k_services k) svcName namespace) (\<lambda>foundService. returnE (svc_ClusterIP foundService))"

section \<open>Persistent volume claims\<close>

definition GetPersistentVolumeClaim :: "'w kubeClient \<Rightarrow> string \<Rightarrow> string \<Rightarrow> ('w, persistentVolumeClaim) eff" where
  "GetPersistentVolumeClaim k name namespace = c_Get (k_persistentVolumeClaims k) name namespace"

text \<open>\<open>maps.Equal\<close> and \<open>maps.Copy\<close> of the standard library; the storage request of a claim.\<close>

definition maps_Equal :: "string gomap \<Rightarrow> string gomap \<Rightarrow> bool" where
  "maps_Equal m n \<longleftrightarrow> length m = length n \<and> entries_agree (=) m n"

definition storage_request :: "persistentVolumeClaim \<Rightarrow> int" where
  "storage_request pvc = (case pvc_Requests pvc of None \<Rightarrow> 0 | Some requests \<Rightarrow>
     (case map_of requests ''storage'' of None \<Rightarrow> 0 | Some q \<Rightarrow> q))"

definition managed_annotations :: "string gomap \<Rightarrow> string gomap \<Rightarrow> string gomap \<Rightarrow> string gomap" where
  "managed_annotations desired previouslyManaged found =
     (if maps_Equal desired previouslyManaged then found
      else fold (\<lambda>key annotations. if key \<in> fst ` set desired then annotations else mdel key annotations)
             (map fst previouslyManaged) (put_all found desired))"

definition updatePersistentVolumeClaim :: "'w kubeClient \<Rightarrow> persistentVolumeClaim \<Rightarrow> persistentVolumeClaim \<Rightarrow>
    string gomap \<Rightarrow> ('w, unit) eff" where
  "updatePersistentVolumeClaim k found pvc previouslyManagedAnnotations =
     (let found = found\<lparr>obj_OwnerReferences := [],
            obj_Labels := JoinMaps (obj_Labels found) (obj_Labels pvc),
            obj_Annotations := managed_annotations (obj_Annotations pvc) previouslyManagedAnnotations
              (obj_Annotations found)\<rparr>;
          desired = storage_request pvc; current = storage_request found
      in if desired < current then
           throwE (Err (''PVC shrinking is forbidden, current PVC size is '' @ strconv_Itoa current
             @ '', desired is '' @ strconv_Itoa desired))
         else case pvc_Requests found of
             None \<Rightarrow> throwE Panic
           | Some requests \<Rightarrow>
               tryE (c_Update (k_persistentVolumeClaims k)
                       (found\<lparr>pvc_Requests := Some (mput ''storage'' desired requests)\<rparr>))
                 (\<lambda>_. returnE ()) returnE)"

definition CreatePersistentVolumeClaim :: "'w kubeClient \<Rightarrow> persistentVolumeClaim \<Rightarrow> string gomap \<Rightarrow>
    ('w, unit) eff" where
  "CreatePersistentVolumeClaim k pvc previouslyManagedAnnotations =
     tryE (GetPersistentVolumeClaim k (obj_Name pvc) (obj_Namespace pvc))
       (\<lambda>err. if IsNotFound err then c_Create (k_persistentVolumeClaims k) pvc else throwE err)
       (\<lambda>found. updatePersistentVolumeClaim k found pvc previouslyManagedAnnotations)"

definition DeletePersistentVolumeClaim :: "'w kubeClient \<Rightarrow> persistentVolumeClaim \<Rightarrow> ('w, unit) eff" where
  "DeletePersistentVolumeClaim k pvc =
     tryE (GetPersistentVolumeClaim k (obj_Name pvc) (obj_Namespace pvc))
       (\<lambda>err. if IsNotFound err then returnE () else throwE err)
       (\<lambda>found. c_Delete (k_persistentVolumeClaims k) found)"

section \<open>Deployments\<close>

text \<open>
  \<open>retryOnConflict\<close> stands for \<open>retry.RetryOnConflict(retry.DefaultRetry, fn)\<close>, which runs \<open>fn\<close>
  again while it ends with a conflict, a bounded number of times.
\<close>

type_synonym 'w retrier = "('w, unit) eff \<Rightarrow> ('w, unit) eff"

definition FindDeployment :: "'w kubeClient \<Rightarrow> string \<Rightarrow> string \<Rightarrow> ('w, deployment) eff" where
  "FindDeployment k name namespace = c_Get (k_deployments k) name namespace"

definition update_deployment :: "'w kubeClient \<Rightarrow> deployment \<Rightarrow> ('w, unit) eff" where
  "update_deployment k desired =
     bindE (FindDeployment k (obj_Name desired) (obj_Namespace desired))
       (\<lambda>foundDeployment. c_Update (k_deployments k)
          (desired\<lparr>obj_ResourceVersion := obj_ResourceVersion foundDeployment,
             obj_Annotations := JoinMaps (obj_Annotations foundDeployment) (obj_Annotations desired)\<rparr>))"

definition CreateOrUpdateDeployment :: "'w kubeClient \<Rightarrow> 'w retrier \<Rightarrow> deployment \<Rightarrow> ('w, unit) eff" where
  "CreateOrUpdateDeployment k retryOnConflict deployment =
     tryE (FindDeployment k (obj_Name deployment) (obj_Namespace deployment))
       (\<lambda>err. if IsNotFound err then c_Create (k_deployments k) deployment else throwE err)
       (\<lambda>_. retryOnConflict (update_deployment k deployment))"

definition DeleteDeployment :: "'w kubeClient \<Rightarrow> deployment \<Rightarrow> ('w, unit) eff" where
  "DeleteDeployment k deployment =
     tryE (FindDeployment k (obj_Name deployment) (obj_Namespace deployment))
       (\<lambda>err. if IsNotFound err then returnE () else throwE err)
       (\<lambda>_. c_Delete (k_deployments k) deployment)"

definition FindDeploymentList :: "'w kubeClient \<Rightarrow> string \<Rightarrow> string gomap \<Rightarrow> ('w, deployment list) eff" where
  "FindDeploymentList k namespace deploymentLabels = c_List (k_deployments k) namespace deploymentLabels"

definition FindKafkaDeployments :: "'w kubeClient \<Rightarrow> string \<Rightarrow> string \<Rightarrow> ('w, deployment list) eff" where
  "FindKafkaDeployments k crName crNamespace = FindDeploymentList k crNamespace (GetKafkaLabels crName)"

text \<open>A deployment without containers is an index out of range.\<close>

definition GetDeploymentParameterWithDefault :: "deployment \<Rightarrow> string \<Rightarrow> string \<Rightarrow> go_error + string" where
  "GetDeploymentParameterWithDefault deployment parameterName defaultValue =
     (case dep_Containers deployment of
        [] \<Rightarrow> Inl Panic
      | c # _ \<Rightarrow> Inr (case find (\<lambda>e. env_Name e = parameterName) (ctr_Env c) of
                       None \<Rightarrow> defaultValue | Some e \<Rightarrow> env_Value e))"

definition GetDeploymentParameter :: "deployment \<Rightarrow> string \<Rightarrow> go_error + string" where
  "GetDeploymentParameter deployment parameterName =
     GetDeploymentParameterWithDefault deployment parameterName []"

text \<open>\<open>*deployment.Spec.Replicas\<close> is a nil dereference where the number of replicas is not set.\<close>

definition IsDeploymentReady :: "deployment \<Rightarrow> go_error + bool" where
  "IsDeploymentReady deployment =
     (case dep_Replicas deployment of
        None \<Rightarrow> Inl Panic
      | Some replicas \<Rightarrow> Inr (replicas = util_Min (dep_ReadyReplicas deployment) (dep_UpdatedReplicas deployment)))"

fun all_ready :: "deployment list \<Rightarrow> go_error + bool" where
  "all_ready [] = Inr True"
| "all_ready (d # ds) = (case IsDeploymentReady d of
      Inl e \<Rightarrow> Inl e | Inr ready \<Rightarrow> (if \<not> ready then Inr False else all_ready ds))"

definition AreDeploymentsReady :: "'w kubeClient \<Rightarrow> string gomap \<Rightarrow> string \<Rightarrow> ('w, bool) eff" where
  "AreDeploymentsReady k deploymentLabels namespace =
     tryE (FindDeploymentList k namespace deploymentLabels) (\<lambda>_. returnE False) (\<lambda>ds. liftE (all_ready ds))"

definition ScaleDeployment :: "'w kubeClient \<Rightarrow> string \<Rightarrow> 32 word \<Rightarrow> string \<Rightarrow> ('w, unit) eff" where
  "ScaleDeployment k name replicas namespace =
     bindE (FindDeployment k name namespace)
       (\<lambda>foundDeployment. c_Update (k_deployments k) (foundDeployment\<lparr>dep_Replicas := Some replicas\<rparr>))"

section \<open>Config maps\<close>

definition FindConfigMap :: "'w kubeClient \<Rightarrow> string \<Rightarrow> string \<Rightarrow> ('w, configMap) eff" where
  "FindConfigMap k name namespace = c_Get (k_configMaps k) name namespace"

definition CreateOrUpdateConfigMap :: "'w kubeClient \<Rightarrow> configMap \<Rightarrow> ('w, unit) eff" where
  "CreateOrUpdateConfigMap k configMap =
     tryE (FindConfigMap k (obj_Name configMap) (obj_Namespace configMap))
       (\<lambda>err. if IsNotFound err then c_Create (k_configMaps k) configMap else throwE err)
       (\<lambda>_. c_Update (k_configMaps k) configMap)"

definition CreateConfigMapIfNotExist :: "'w kubeClient \<Rightarrow> configMap \<Rightarrow> ('w, unit) eff" where
  "CreateConfigMapIfNotExist k configMap =
     tryE (FindConfigMap k (obj_Name configMap) (obj_Namespace configMap))
       (\<lambda>err. if IsNotFound err then c_Create (k_configMaps k) configMap else throwE err)
       (\<lambda>_. returnE ())"

definition GetAllConfigMapsFromNamespace :: "'w kubeClient \<Rightarrow> string \<Rightarrow> ('w, configMap list) eff" where
  "GetAllConfigMapsFromNamespace k namespace = c_List (k_configMaps k) namespace []"

definition DeleteConfigMapByName :: "'w kubeClient \<Rightarrow> string \<Rightarrow> string \<Rightarrow> ('w, unit) eff" where
  "DeleteConfigMapByName k name namespace =
     tryE (FindConfigMap k name namespace)
       (\<lambda>err. if IsNotFound err then returnE () else throwE err)
       (\<lambda>cm. c_Delete (k_configMaps k) cm)"

section \<open>Secrets\<close>

definition FindSecret :: "'w kubeClient \<Rightarrow> string \<Rightarrow> string \<Rightarrow> ('w, secret) eff" where
  "FindSecret k name namespace = c_Get (k_secrets k) name namespace"

definition CreateSecret :: "'w kubeClient \<Rightarrow> secret \<Rightarrow> ('w, unit) eff" where
  "CreateSecret k secret =
     tryE (FindSecret k (obj_Name secret) (obj_Namespace secret))
       (\<lambda>err. if IsNotFound err then c_Create (k_secrets k) secret else throwE err)
       (\<lambda>_. returnE ())"

definition secret_data :: "secret \<Rightarrow> string \<Rightarrow> string" where
  "secret_data s key = (case sec_Data s of None \<Rightarrow> [] | Some d \<Rightarrow> mstr d key)"

text \<open>Writing to the \<open>nil\<close> map of a secret without string data panics.\<close>

definition RestoreSpecFields :: "'w kubeClient \<Rightarrow> secret \<Rightarrow> string list \<Rightarrow> ('w, secret) eff" where
  "RestoreSpecFields k secret keys =
     tryE (FindSecret k (obj_Name secret) (obj_Namespace secret))
       (\<lambda>err. if IsNotFound err then returnE secret else throwE err)
       (\<lambda>oldSecret. if keys = [] then returnE secret
          else case sec_StringData secret of
              None \<Rightarrow> throwE Panic
            | Some secData \<Rightarrow> returnE (secret\<lparr>sec_StringData :=
                Some (fold (\<lambda>key d. mput key (secret_data oldSecret key) d) keys secData)\<rparr>))"

definition CreateOrUpdateSecret :: "'w kubeClient \<Rightarrow> secret \<Rightarrow> ('w, unit) eff" where
  "CreateOrUpdateSecret k secret =
     tryE (FindSecret k (obj_Name secret) (obj_Namespace secret))
       (\<lambda>err. if IsNotFound err then c_Create (k_secrets k) secret else throwE err)
       (\<lambda>_. c_Update (k_secrets k) secret)"

text \<open>The loop of \<open>UpdateSecret\<close> over the desired data, with the flag \<open>modified\<close>.\<close>

fun merge_secret_data :: "string gomap \<Rightarrow> string gomap \<Rightarrow> bool \<Rightarrow> string gomap \<times> bool" where
  "merge_secret_data [] latest modified = (latest, modified)"
| "merge_secret_data ((key, value) # rest) latest modified =
     (if mstr latest key \<noteq> value then merge_secret_data rest (mput key value latest) True
      else merge_secret_data rest latest modified)"

definition update_secret :: "'w kubeClient \<Rightarrow> secret \<Rightarrow> ('w, unit) eff" where
  "update_secret k desired =
     bindE (c_Get (k_secrets k) (obj_Name desired) (obj_Namespace desired)) (\<lambda>latest.
       let refs = obj_OwnerReferences latest \<noteq> obj_OwnerReferences desired;
           latest = latest\<lparr>obj_OwnerReferences := obj_OwnerReferences desired\<rparr>;
           (latest, modified) = (case sec_Data desired of
               None \<Rightarrow> (latest, refs)
             | Some d \<Rightarrow>
                 (let (data, modified) = merge_secret_data d
                        (case sec_Data latest of None \<Rightarrow> [] | Some l \<Rightarrow> l) refs
                  in (if data = [] then latest else latest\<lparr>sec_Data := Some data\<rparr>, modified)))
       in if \<not> modified then returnE () else c_Update (k_secrets k) latest)"

definition UpdateSecret :: "'w kubeClient \<Rightarrow> 'w retrier \<Rightarrow> secret \<Rightarrow> ('w, unit) eff" where
  "UpdateSecret k retryOnConflict desired = retryOnConflict (update_secret k desired)"

definition CleanSecretData :: "'w kubeClient \<Rightarrow> secret \<Rightarrow> ('w, unit) eff" where
  "CleanSecretData k secret = c_Update (k_secrets k) (secret\<lparr>sec_Data := None\<rparr>)"

definition GetSslCertificates :: "'w kubeClient \<Rightarrow> string \<Rightarrow> string \<Rightarrow> ('w, sslCertificates) eff" where
  "GetSslCertificates k secretName namespace =
     bindE (FindSecret k secretName namespace) (\<lambda>foundSecret.
       let caCert = secret_data foundSecret ''ca.crt'';
           tlsCert = secret_data foundSecret ''tls.crt'';
           tlsKey = secret_data foundSecret ''tls.key''
       in if length caCert = 0
          then throwE (Err (''TLS certificates must be provided by secret with name: '' @ secretName))
          else returnE \<lparr>CaCert = caCert, TlsCert = tlsCert, TlsKey = tlsKey\<rparr>)"

section \<open>Owner references\<close>

text \<open>
  \<open>SetControllerReference\<close> and \<open>WatchSecret\<close>. \<open>toUnstructured\<close> hands back an object that is
  already unstructured, and makes a new unstructured object from any other one; \<open>convert\<close> stands
  for the conversion, which can fail, and \<open>setControllerReference\<close> for the function of the
  \<open>controllerutil\<close> package, on the owner references of the object it is given. The result is
  the object the caller passed, as it is after the call: the references of a converted object
  are set on the converted object only.
\<close>

record crRef =
  cr_Name :: string
  cr_Namespace :: string
  cr_APIVersion :: string
  cr_Kind :: string

type_synonym refSetter = "crRef \<Rightarrow> ownerReference list \<Rightarrow> go_error + ownerReference list"

text \<open>\<open>schema.ParseGroupVersion\<close>: the group is what comes before the slash, empty without one, and
  more than one slash is an error.\<close>

definition ParseGroup :: "string \<Rightarrow> go_error + string" where
  "ParseGroup gv = (if gv = [] \<or> gv = ''/'' then Inr []
     else case strings_Split gv (CHR ''/'') of
         [_] \<Rightarrow> Inr []
       | [g, _] \<Rightarrow> Inr g
       | _ \<Rightarrow> Inl (Err (''unexpected GroupVersion string: '' @ gv)))"

definition ReferSameObject :: "string \<Rightarrow> string \<Rightarrow> string \<Rightarrow> string \<Rightarrow> string \<Rightarrow> string \<Rightarrow> bool" where
  "ReferSameObject aName aGroup aKind bName bGroup bKind =
     (case ParseGroup aGroup of
        Inl _ \<Rightarrow> False
      | Inr aGV \<Rightarrow> (case ParseGroup bGroup of
            Inl _ \<Rightarrow> False
          | Inr bGV \<Rightarrow> aGV = bGV \<and> aKind = bKind \<and> aName = bName))"

definition GetControllerOf :: "ownerReference list \<Rightarrow> ownerReference option" where
  "GetControllerOf refs = find or_Controller refs"

text \<open>The new references of the object the function works on.\<close>

definition controller_references :: "refSetter \<Rightarrow> crRef \<Rightarrow> ownerReference list \<Rightarrow> go_error + ownerReference list" where
  "controller_references setControllerReference owner refs =
     (let refs = (case GetControllerOf refs of
            Some existing \<Rightarrow>
              (if ReferSameObject (or_Name existing) (or_APIVersion existing) (or_Kind existing)
                    (cr_Name owner) (cr_APIVersion owner) (cr_Kind owner) then refs else [])
          | None \<Rightarrow> refs)
      in setControllerReference owner refs)"

datatype 'o runtimeObject = Unstructured 'o | NilObject | Typed 'o

definition toUnstructured :: "('o \<Rightarrow> go_error + 'o) \<Rightarrow> 'o runtimeObject \<Rightarrow> go_error + 'o" where
  "toUnstructured convert obj = (case obj of
      Unstructured u \<Rightarrow> Inr u
    | NilObject \<Rightarrow> Inl (Err ''to unstructured: nil object'')
    | Typed t \<Rightarrow> (case convert t of
          Inl (Err e) \<Rightarrow> Inl (Err (''to unstructured: '' @ e)) | Inl e \<Rightarrow> Inl e | Inr u \<Rightarrow> Inr u))"

definition SetControllerReference :: "refSetter \<Rightarrow> ('o k8sObject_scheme \<Rightarrow> go_error + 'o k8sObject_scheme) \<Rightarrow>
    crRef \<Rightarrow> 'o k8sObject_scheme runtimeObject \<Rightarrow> go_error + 'o k8sObject_scheme runtimeObject" where
  "SetControllerReference setControllerReference convert owner controlled =
     (case toUnstructured convert controlled of
        Inl e \<Rightarrow> Inl e
      | Inr u \<Rightarrow> (case controller_references setControllerReference owner (obj_OwnerReferences u) of
            Inl e \<Rightarrow> Inl e
          | Inr refs \<Rightarrow> Inr (case controlled of
                Unstructured _ \<Rightarrow> Unstructured (u\<lparr>obj_OwnerReferences := refs\<rparr>)
              | other \<Rightarrow> other)))"

definition WatchSecret :: "'w kubeClient \<Rightarrow> 'w retrier \<Rightarrow> refSetter \<Rightarrow> (secret \<Rightarrow> go_error + secret) \<Rightarrow>
    string \<Rightarrow> crRef \<Rightarrow> ('w, secret) eff" where
  "WatchSecret k retryOnConflict setControllerReference convert secretName cr =
     bindE (FindSecret k secretName (cr_Namespace cr)) (\<lambda>secret.
       bindE (liftE (SetControllerReference setControllerReference convert cr (Typed secret))) (\<lambda>controlled.
         let ownerReferencesBefore = obj_OwnerReferences secret;
             secret = (case controlled of Typed s \<Rightarrow> s | _ \<Rightarrow> secret)
         in if ownerReferencesBefore \<noteq> obj_OwnerReferences secret then
              thenE (UpdateSecret k retryOnConflict secret) (FindSecret k secretName (cr_Namespace cr))
            else returnE secret))"

section \<open>Conditions and status\<close>

definition statusFalse :: string where "statusFalse = ''False''"
definition statusTrue :: string where "statusTrue = ''True''"
definition typeInProgress :: string where "typeInProgress = ''In progress''"
definition typeFailed :: string where "typeFailed = ''Failed''"
definition typeReady :: string where "typeReady = ''Ready''"
definition typeSuccessful :: string where "typeSuccessful = ''Successful''"

record statusCondition =
  sc_Type :: string
  sc_Status :: string
  sc_Reason :: string
  sc_Message :: string
  sc_LastTransitionTime :: string

definition NewCondition :: "string \<Rightarrow> string \<Rightarrow> string \<Rightarrow> string \<Rightarrow> statusCondition" where
  "NewCondition conditionStatus conditionType conditionReason conditionMessage =
     \<lparr>sc_Type = conditionType, sc_Status = conditionStatus, sc_Reason = conditionReason,
      sc_Message = conditionMessage, sc_LastTransitionTime = []\<rparr>"

fun addCondition :: "statusCondition list \<Rightarrow> statusCondition \<Rightarrow> statusCondition list" where
  "addCondition [] condition = [condition]"
| "addCondition (currentCondition # rest) condition =
     (if sc_Reason currentCondition = sc_Reason condition then
        (if sc_Type currentCondition \<noteq> sc_Type condition \<or> sc_Status currentCondition \<noteq> sc_Status condition
            \<or> sc_Message currentCondition \<noteq> sc_Message condition
         then condition else currentCondition) # rest
      else currentCondition # addCondition rest condition)"

definition hasFailedConditions :: "statusCondition list \<Rightarrow> bool" where
  "hasFailedConditions conditions \<longleftrightarrow> (\<exists>c\<in>set conditions. sc_Type c = typeFailed)"

text \<open>
  A status updater works on one custom resource: \<open>su_Get\<close> reloads it, \<open>su_UpdateStatus\<close> writes its
  status. The same code serves the \<open>Kafka\<close> and the \<open>KafkaService\<close> resource; \<open>setConditions\<close> is the
  field update of the resource in question.
\<close>

record ('cr, 'w) statusUpdater =
  su_Get :: "string \<Rightarrow> string \<Rightarrow> ('w, 'cr) eff"
  su_UpdateStatus :: "'cr \<Rightarrow> ('w, unit) eff"
  su_name :: string
  su_namespace :: string

definition reloadCR :: "('cr, 'w) statusUpdater \<Rightarrow> ('w, 'cr) eff" where
  "reloadCR su = su_Get su (su_name su) (su_namespace su)"

definition UpdateStatusWithRetry :: "('cr, 'w) statusUpdater \<Rightarrow> 'w retrier \<Rightarrow> ('cr \<Rightarrow> 'cr) \<Rightarrow> ('w, unit) eff" where
  "UpdateStatusWithRetry su retryOnConflict statusUpdateFunc =
     retryOnConflict (bindE (reloadCR su) (\<lambda>instance. su_UpdateStatus su (statusUpdateFunc instance)))"

definition GetStatus :: "('cr, 'w) statusUpdater \<Rightarrow> ('cr \<Rightarrow> 'status) \<Rightarrow> ('w, 'status) eff" where
  "GetStatus su status = bindE (reloadCR su) (\<lambda>instance. returnE (status instance))"

definition updateConditions :: "('cr, 'w) statusUpdater \<Rightarrow> 'w retrier \<Rightarrow>
    ((statusCondition list \<Rightarrow> statusCondition list) \<Rightarrow> 'cr \<Rightarrow> 'cr) \<Rightarrow> string \<Rightarrow> statusCondition \<Rightarrow> ('w, unit) eff" where
  "updateConditions su retryOnConflict mapConditions now condition =
     UpdateStatusWithRetry su retryOnConflict
       (mapConditions (\<lambda>cs. addCondition cs (condition\<lparr>sc_LastTransitionTime := now\<rparr>)))"

definition clearAllConditions :: "('cr, 'w) statusUpdater \<Rightarrow> 'w retrier \<Rightarrow>
    ((statusCondition list \<Rightarrow> statusCondition list) \<Rightarrow> 'cr \<Rightarrow> 'cr) \<Rightarrow> ('w, unit) eff" where
  "clearAllConditions su retryOnConflict mapConditions =
     UpdateStatusWithRetry su retryOnConflict (mapConditions (\<lambda>_. []))"

section \<open>Polling\<close>

text \<open>\<open>wait.PollImmediate\<close>: the condition is tried at once and then after every interval until it holds
  or the time is up; an error of the condition ends the loop. \<open>Some\<close> is a condition that holds, with
  the values of the variables it has set. \<open>retries interval timeout\<close> is the number of further attempts that the
  clock allows after the first one.\<close>

fun poll_attempts :: "nat \<Rightarrow> ('w, 'a option) eff \<Rightarrow> ('w, 'a) eff" where
  "poll_attempts 0 condition = throwE Deadline"
| "poll_attempts (Suc n) condition =
     bindE condition (\<lambda>result. case result of Some a \<Rightarrow> returnE a | None \<Rightarrow> poll_attempts n condition)"

definition PollImmediate :: "(int \<Rightarrow> int \<Rightarrow> 'w \<Rightarrow> nat) \<Rightarrow> int \<Rightarrow> int \<Rightarrow> ('w, 'a option) eff \<Rightarrow> ('w, 'a) eff" where
  "PollImmediate retries interval timeout condition =
     (\<lambda>w. poll_attempts (Suc (retries interval timeout w)) condition w)"

lemma poll_attempts_keeps: "keeps I condition \<Longrightarrow> keeps I (poll_attempts n condition)"
  by (induction n) (auto intro!: keeps_bind split: option.split)

lemma PollImmediate_keeps: "keeps I condition \<Longrightarrow> keeps I (PollImmediate retries interval timeout condition)"
  using poll_attempts_keeps[of I condition] unfolding keeps_def PollImmediate_def by blast

lemma poll_attempts_never:
  assumes "\<And>w a w'. condition w \<noteq> (Inr (Some a), w')"
  shows "fst (poll_attempts n condition w) \<noteq> Inr a"
proof (induction n arbitrary: w)
  case (Suc n)
  obtain r w' where "condition w = (r, w')" by fastforce
  then show ?case using Suc assms[of w _ w'] by (cases r) (auto simp: bindE_def split: option.split)
qed (simp add: throwE_def)

lemma PollImmediate_never:
  "(\<And>w a w'. condition w \<noteq> (Inr (Some a), w')) \<Longrightarrow> fst (PollImmediate retries interval timeout condition w) \<noteq> Inr a"
  unfolding PollImmediate_def by (rule poll_attempts_never)

section \<open>Restarting deployments after a change of a secret\<close>

definition autoRestartAnnotation :: string where
  "autoRestartAnnotation = ''kafkaservice.netcracker.com/auto-restart''"

definition resourceVersionAnnotation :: "string \<Rightarrow> string" where
  "resourceVersionAnnotation secretName = secretName @ ''/resource-version''"

fun applyAutoRestartSecretAnnotations :: "string gomap \<Rightarrow> secret option list \<Rightarrow> string gomap \<times> bool" where
  "applyAutoRestartSecretAnnotations annotations [] = (annotations, False)"
| "applyAutoRestartSecretAnnotations annotations (s # secrets) =
     (case s of
        None \<Rightarrow> applyAutoRestartSecretAnnotations annotations secrets
      | Some secret \<Rightarrow>
          (if obj_Name secret = [] \<or> mstr (obj_Annotations secret) autoRestartAnnotation \<noteq> ''true''
           then applyAutoRestartSecretAnnotations annotations secrets
           else let annotationName = resourceVersionAnnotation (obj_Name secret)
                in if mstr annotations annotationName = obj_ResourceVersion secret
                   then applyAutoRestartSecretAnnotations annotations secrets
                   else (fst (applyAutoRestartSecretAnnotations
                                (mput annotationName (obj_ResourceVersion secret) annotations) secrets), True)))"

definition updateDeploymentSecretRestartAnnotations :: "'w kubeClient \<Rightarrow> 'w retrier \<Rightarrow> string \<Rightarrow> string \<Rightarrow>
    secret option list \<Rightarrow> ('w, unit) eff" where
  "updateDeploymentSecretRestartAnnotations k retryOnConflict namespace deploymentName secrets =
     retryOnConflict
       (tryE (c_Get (k_deployments k) deploymentName namespace)
          (\<lambda>err. if IsNotFound err then returnE () else throwE err)
          (\<lambda>deployment.
             let (annotations, modified) = applyAutoRestartSecretAnnotations (dep_TemplateAnnotations deployment) secrets
             in if \<not> modified then returnE ()
                else c_Update (k_deployments k) (deployment\<lparr>dep_TemplateAnnotations := annotations\<rparr>)))"

section \<open>What the API server promises\<close>

text \<open>
  The documented behaviour of the API server for one kind of object, on a view of the cluster
  that maps a name and a namespace to the object stored there: reading does not change the
  objects, \<open>NotFound\<close> means that the object is absent, a successful write stores the object up
  to its resource version and touches no other object, and a failed write changes nothing.
\<close>

type_synonym ('o, 'w) store_view = "'w \<Rightarrow> string \<times> string \<rightharpoonup> 'o"

definition obj_key :: "'o k8sObject_scheme \<Rightarrow> string \<times> string" where
  "obj_key obj = (obj_Name obj, obj_Namespace obj)"

definition stored_as :: "'o k8sObject_scheme \<Rightarrow> 'o k8sObject_scheme \<Rightarrow> bool" where
  "stored_as obj obj' \<longleftrightarrow> obj'\<lparr>obj_ResourceVersion := []\<rparr> = obj\<lparr>obj_ResourceVersion := []\<rparr>"

definition crud_store :: "('o k8sObject_scheme, 'w) store_view \<Rightarrow> ('o k8sObject_scheme, 'w) crud \<Rightarrow> bool" where
  "crud_store view crud \<longleftrightarrow>
     (\<forall>n ns w r w'. c_Get crud n ns w = (r, w') \<longrightarrow> view w' = view w \<and>
        (case r of Inr obj \<Rightarrow> view w (n, ns) = Some obj \<and> obj_key obj = (n, ns)
                 | Inl e \<Rightarrow> e = NotFound \<longrightarrow> view w (n, ns) = None)) \<and>
     (\<forall>obj w r w'. c_Create crud obj w = (r, w') \<longrightarrow>
        (case r of Inr _ \<Rightarrow> \<exists>obj'. stored_as obj obj' \<and> view w' = (view w)(obj_key obj \<mapsto> obj')
                 | Inl e \<Rightarrow> view w' = view w)) \<and>
     (\<forall>obj w r w'. c_Update crud obj w = (r, w') \<longrightarrow>
        (case r of Inr _ \<Rightarrow> \<exists>obj'. stored_as obj obj' \<and> view w' = (view w)(obj_key obj \<mapsto> obj')
                 | Inl e \<Rightarrow> view w' = view w)) \<and>
     (\<forall>obj w r w'. c_Delete crud obj w = (r, w') \<longrightarrow>
        (case r of Inr _ \<Rightarrow> view w' = (view w)(obj_key obj := None) | Inl e \<Rightarrow> view w' = view w))"

lemma stored_as_refl [simp]: "stored_as obj obj"
  by (simp add: stored_as_def)

lemma stored_as_fields:
  assumes "stored_as obj obj'"
  shows "obj_Name obj' = obj_Name obj" "obj_Namespace obj' = obj_Namespace obj"
    "obj_Labels obj' = obj_Labels obj" "obj_Annotations obj' = obj_Annotations obj"
    "obj_OwnerReferences obj' = obj_OwnerReferences obj" "k8sObject.more obj' = k8sObject.more obj"
  using assms by (cases obj; cases obj'; simp add: stored_as_def)+

lemma stored_as_key: "stored_as obj obj' \<Longrightarrow> obj_key obj' = obj_key obj"
  by (simp add: obj_key_def stored_as_fields)

lemma stored_asI:
  "obj_Name obj' = obj_Name obj \<Longrightarrow> obj_Namespace obj' = obj_Namespace obj \<Longrightarrow>
   obj_Labels obj' = obj_Labels obj \<Longrightarrow> obj_Annotations obj' = obj_Annotations obj \<Longrightarrow>
   obj_OwnerReferences obj' = obj_OwnerReferences obj \<Longrightarrow> k8sObject.more obj' = k8sObject.more obj \<Longrightarrow>
   stored_as obj obj'"
  by (cases obj; cases obj') (simp add: stored_as_def)

lemma crud_store_get:
  assumes "crud_store view crud" "c_Get crud n ns w = (r, w')"
  shows "view w' = view w" "r = Inr obj \<Longrightarrow> view w (n, ns) = Some obj \<and> obj_key obj = (n, ns)"
    "r = Inl NotFound \<Longrightarrow> view w (n, ns) = None"
proof -
  from assms have "view w' = view w \<and>
        (case r of Inr obj \<Rightarrow> view w (n, ns) = Some obj \<and> obj_key obj = (n, ns)
                 | Inl e \<Rightarrow> e = NotFound \<longrightarrow> view w (n, ns) = None)"
    unfolding crud_store_def by blast
  then show "view w' = view w" "r = Inr obj \<Longrightarrow> view w (n, ns) = Some obj \<and> obj_key obj = (n, ns)"
    "r = Inl NotFound \<Longrightarrow> view w (n, ns) = None" by auto
qed

lemma crud_store_write:
  assumes "crud_store view crud" "c_Create crud obj w = (r, w') \<or> c_Update crud obj w = (r, w')"
  shows "r = Inl e \<Longrightarrow> view w' = view w"
    "r = Inr u \<Longrightarrow> \<exists>obj'. stored_as obj obj' \<and> view w' = (view w)(obj_key obj \<mapsto> obj')"
proof -
  from assms have "case r of Inr _ \<Rightarrow> \<exists>obj'. stored_as obj obj' \<and> view w' = (view w)(obj_key obj \<mapsto> obj')
                 | Inl e \<Rightarrow> view w' = view w"
    unfolding crud_store_def by blast
  then show "r = Inl e \<Longrightarrow> view w' = view w"
    "r = Inr u \<Longrightarrow> \<exists>obj'. stored_as obj obj' \<and> view w' = (view w)(obj_key obj \<mapsto> obj')" by auto
qed

section \<open>The contract of the create-or-update operations\<close>

text \<open>
  What a reconciler may rely on when it calls one of the create-or-update operations: on success
  the store holds the desired object, merged with the one that was found, and every other object
  is as before; on failure the store is as before.
\<close>

locale create_or_update =
  fixes crud :: "('o k8sObject_scheme, 'w) crud"
    and upsert :: "'o k8sObject_scheme \<Rightarrow> ('w, unit) eff"
    and merge :: "'o k8sObject_scheme \<Rightarrow> 'o k8sObject_scheme \<Rightarrow> 'o k8sObject_scheme"
  assumes establishes: "crud_store view crud \<Longrightarrow> upsert desired w = (Inr u, w') \<Longrightarrow>
      \<exists>obj'. view w' = (view w)(obj_key desired \<mapsto> obj') \<and>
        stored_as (case view w (obj_key desired) of None \<Rightarrow> desired | Some found \<Rightarrow> merge found desired) obj'"
    and unchanged: "crud_store view crud \<Longrightarrow> upsert desired w = (Inl e, w') \<Longrightarrow> view w' = view w"
begin

text \<open>The object is there afterwards, and the operation touches nothing else.\<close>

lemma exists_after:
  "crud_store view crud \<Longrightarrow> upsert desired w = (Inr u, w') \<Longrightarrow> view w' (obj_key desired) \<noteq> None"
  using establishes by fastforce

lemma frame:
  "crud_store view crud \<Longrightarrow> upsert desired w = (r, w') \<Longrightarrow> key \<noteq> obj_key desired \<Longrightarrow> view w' key = view w key"
  using establishes[of view desired w _ w'] unchanged[of view desired w _ w'] by (cases r) fastforce+

text \<open>Applying a list of operations: on success every object of the list is there, and an
  object outside of the list is untouched on every outcome.\<close>

lemma all_exist_after:
  "crud_store view crud \<Longrightarrow> forE ds upsert w = (Inr u, w') \<Longrightarrow> d \<in> set ds \<Longrightarrow> view w' (obj_key d) \<noteq> None"
proof (induction ds arbitrary: w)
  case (Cons x ds)
  obtain r w1 where x: "upsert x w = (r, w1)" by fastforce
  with Cons.prems obtain v where r: "r = Inr v" and rest: "forE ds upsert w1 = (Inr u, w')"
    by (cases r) (auto simp: thenE_def bindE_def)
  have later: "view w2 key \<noteq> None \<Longrightarrow> forE xs upsert w2 = (Inr u', w3) \<Longrightarrow> view w3 key \<noteq> None"
    for xs w2 u' w3 key
  proof (induction xs arbitrary: w2)
    case (Cons y ys)
    obtain q w4 where y: "upsert y w2 = (q, w4)" by fastforce
    with Cons.prems obtain v' where q: "q = Inr v'" and more: "forE ys upsert w4 = (Inr u', w3)"
      by (cases q) (auto simp: thenE_def bindE_def)
    have "view w4 key \<noteq> None"
      using frame[OF \<open>crud_store view crud\<close> y] exists_after[OF \<open>crud_store view crud\<close>] y q Cons.prems(1)
      by (metis (full_types))
    with Cons.IH more show ?case by blast
  qed (auto simp: returnE_def)
  show ?case
  proof (cases "d \<in> set ds")
    case True
    then show ?thesis using Cons.IH[OF Cons.prems(1) rest] by blast
  next
    case False
    then have "d = x" using Cons.prems by simp
    then show ?thesis
      using exists_after[OF Cons.prems(1)] x r later[OF _ rest] by blast
  qed
qed simp

lemma all_frame:
  "crud_store view crud \<Longrightarrow> forE ds upsert w = (r, w') \<Longrightarrow> key \<notin> obj_key ` set ds \<Longrightarrow> view w' key = view w key"
proof (induction ds arbitrary: w)
  case (Cons x ds)
  obtain q w1 where x: "upsert x w = (q, w1)" by fastforce
  have "view w1 key = view w key" using frame[OF Cons.prems(1) x] Cons.prems(3) by auto
  with Cons x show ?case by (cases q) (auto simp: thenE_def bindE_def)
qed (simp add: returnE_def)

end

text \<open>The shape all of them share: create when absent, otherwise update the merged object.\<close>

lemma upsert_establishes:
  assumes "crud_store view crud"
    and op: "upsert = (\<lambda>desired. tryE (c_Get crud (obj_Name desired) (obj_Namespace desired))
       (\<lambda>err. if IsNotFound err then c_Create crud desired else throwE err)
       (\<lambda>found. c_Update crud (merge found desired)))"
    and key: "\<And>found desired. obj_key found = obj_key desired \<Longrightarrow> obj_key (merge found desired) = obj_key desired"
  shows "upsert desired w = (Inr u, w') \<Longrightarrow> \<exists>obj'. view w' = (view w)(obj_key desired \<mapsto> obj') \<and>
        stored_as (case view w (obj_key desired) of None \<Rightarrow> desired | Some found \<Rightarrow> merge found desired) obj'"
    and "upsert desired w = (Inl e, w') \<Longrightarrow> view w' = view w"
proof -
  obtain r w1 where get: "c_Get crud (obj_Name desired) (obj_Namespace desired) w = (r, w1)" by fastforce
  note v = crud_store_get[OF assms(1) get] and wr = crud_store_write[OF assms(1)]
  show "\<exists>obj'. view w' = (view w)(obj_key desired \<mapsto> obj') \<and>
        stored_as (case view w (obj_key desired) of None \<Rightarrow> desired | Some found \<Rightarrow> merge found desired) obj'"
    if ok: "upsert desired w = (Inr u, w')"
  proof (cases r)
    case (Inl e)
    with ok get have "e = NotFound" "c_Create crud desired w1 = (Inr u, w')"
      by (auto simp: op tryE_def IsNotFound_def throwE_def split: if_splits)
    with v Inl wr(2)[of desired w1 "Inr u" w' u] show ?thesis
      by (auto simp: obj_key_def)
  next
    case (Inr found)
    with ok get have "c_Update crud (merge found desired) w1 = (Inr u, w')"
      by (simp add: op tryE_def)
    moreover have "obj_key found = obj_key desired" "view w (obj_key desired) = Some found"
      using v(2)[OF Inr] by (auto simp: obj_key_def)
    ultimately show ?thesis
      using v(1) key wr(2)[of "merge found desired" w1 "Inr u" w' u] by auto
  qed
  show "view w' = view w" if err: "upsert desired w = (Inl e, w')"
  proof (cases r)
    case (Inl e')
    with err get v(1) wr(1)[of desired w1 "Inl e" w' e] show ?thesis
      by (auto simp: op tryE_def throwE_def split: if_splits)
  next
    case (Inr found)
    with err get v(1) wr(1)[of "merge found desired" w1 "Inl e" w' e] show ?thesis
      by (auto simp: op tryE_def)
  qed
qed

lemma create_or_updateI:
  assumes "upsert = (\<lambda>desired. tryE (c_Get crud (obj_Name desired) (obj_Namespace desired))
       (\<lambda>err. if IsNotFound err then c_Create crud desired else throwE err)
       (\<lambda>found. c_Update crud (merge found desired)))"
    and "\<And>found desired. obj_key found = obj_key desired \<Longrightarrow> obj_key (merge found desired) = obj_key desired"
  shows "create_or_update crud upsert merge"
  using upsert_establishes[OF _ assms] by unfold_locales blast+

definition merge_serviceAccount :: "serviceAccount \<Rightarrow> serviceAccount \<Rightarrow> serviceAccount" where
  "merge_serviceAccount found desired =
     found\<lparr>obj_Labels := JoinMaps (obj_Labels found) (obj_Labels desired)\<rparr>"

definition merge_service :: "service \<Rightarrow> service \<Rightarrow> service" where
  "merge_service found desired =
     (let desired = desired\<lparr>obj_ResourceVersion := obj_ResourceVersion found\<rparr>
      in if svc_Type found = ''ClusterIP'' then desired\<lparr>svc_ClusterIP := svc_ClusterIP found\<rparr> else desired)"

definition merge_deployment :: "deployment \<Rightarrow> deployment \<Rightarrow> deployment" where
  "merge_deployment found desired =
     desired\<lparr>obj_ResourceVersion := obj_ResourceVersion found,
       obj_Annotations := JoinMaps (obj_Annotations found) (obj_Annotations desired)\<rparr>"

lemmas merge_defs = merge_serviceAccount_def merge_service_def merge_deployment_def

interpretation serviceAccounts: create_or_update "k_serviceAccounts k" "CreateOrUpdateServiceAccount k" merge_serviceAccount
  for k :: "'w kubeClient"
  by (rule create_or_updateI)
     (auto simp: CreateOrUpdateServiceAccount_def merge_defs obj_key_def fun_eq_iff)

interpretation services: create_or_update "k_services k" "CreateOrUpdateService k" merge_service
  for k :: "'w kubeClient"
  by (rule create_or_updateI)
     (auto simp: CreateOrUpdateService_def merge_defs obj_key_def fun_eq_iff Let_def)

interpretation configMaps: create_or_update "k_configMaps k" "CreateOrUpdateConfigMap k" "\<lambda>found desired. desired"
  for k :: "'w kubeClient"
  by (rule create_or_updateI) (auto simp: CreateOrUpdateConfigMap_def FindConfigMap_def fun_eq_iff)

interpretation secrets: create_or_update "k_secrets k" "CreateOrUpdateSecret k" "\<lambda>found desired. desired"
  for k :: "'w kubeClient"
  by (rule create_or_updateI) (auto simp: CreateOrUpdateSecret_def FindSecret_def fun_eq_iff)

subsection \<open>Retrying on conflicts\<close>

fun run_again :: "('w, 'a) eff \<Rightarrow> nat \<Rightarrow> ('w, 'a) eff" where
  "run_again f 0 w = f w"
| "run_again f (Suc n) w = (case f w of (Inl Conflict, w') \<Rightarrow> run_again f n w' | r \<Rightarrow> r)"

text \<open>\<open>retry.RetryOnConflict\<close>: the function is run again while it ends with a conflict, some number
  of times; with \<open>retry.DefaultRetry\<close> up to five runs.\<close>

locale conflict_retry =
  fixes retryOnConflict :: "'w retrier"
  assumes runs: "\<exists>n. retryOnConflict f w = run_again f n w"
begin

text \<open>What holds of a run of the function that started in a world with the same view holds of
  the whole.\<close>

lemma retry_view:
  assumes same: "\<And>w e w'. f w = (Inl e, w') \<Longrightarrow> view w' = (view w :: 'v)"
    and "retryOnConflict f w = (r, w')"
  shows "\<exists>w1. view w1 = view w \<and> f w1 = (r, w')"
proof -
  obtain n where "run_again f n w = (r, w')" using assms(2) runs by metis
  then show ?thesis
  proof (induction n arbitrary: w)
    case (Suc n)
    obtain q w1 where q: "f w = (q, w1)" by fastforce
    show ?case
    proof (cases "q = Inl Conflict")
      case True
      with Suc.prems q have "run_again f n w1 = (r, w')" by simp
      from Suc.IH[OF this] same[of w Conflict w1] q True show ?thesis by auto
    next
      case False
      then have "f w = (r, w')" using Suc.prems q by (cases q) (auto split: go_error.splits)
      then show ?thesis by blast
    qed
  qed auto
qed

lemma retry_keeps: "keeps I f \<Longrightarrow> keeps I (retryOnConflict f)"
proof -
  assume f: "keeps I f"
  have "I w \<Longrightarrow> I (snd (run_again f n w))" for n w
    using f by (induction n arbitrary: w) (fastforce simp: keeps_def split: prod.splits sum.splits go_error.splits)+
  then show ?thesis using runs by (metis keeps_def)
qed

end

lemma update_deployment_result:
  assumes "crud_store view (k_deployments k)" "update_deployment k desired w = (r, w')"
  shows "r = Inl e \<Longrightarrow> view w' = view w"
    and "r = Inr u \<Longrightarrow> \<exists>found obj'. view w (obj_key desired) = Some found \<and>
      view w' = (view w)(obj_key desired \<mapsto> obj') \<and> stored_as (merge_deployment found desired) obj'"
proof -
  obtain q w1 where get: "c_Get (k_deployments k) (obj_Name desired) (obj_Namespace desired) w = (q, w1)"
    by fastforce
  note v = crud_store_get[OF assms(1) get] and wr = crud_store_write[OF assms(1)]
  have key: "obj_key (merge_deployment found desired) = obj_key desired" for found
    by (simp add: merge_defs obj_key_def)
  show "view w' = view w" if "r = Inl e"
  proof (cases q)
    case (Inl e')
    then show ?thesis
      using assms(2) that get v(1) by (auto simp: update_deployment_def FindDeployment_def bindE_def)
  next
    case (Inr found)
    then show ?thesis
      using assms(2) that get v(1) wr(1)[of "merge_deployment found desired" w1 r w' e]
      by (auto simp: update_deployment_def FindDeployment_def bindE_def merge_defs)
  qed
  show "\<exists>found obj'. view w (obj_key desired) = Some found \<and>
      view w' = (view w)(obj_key desired \<mapsto> obj') \<and> stored_as (merge_deployment found desired) obj'" if "r = Inr u"
  proof (cases q)
    case (Inl e')
    then show ?thesis
      using assms(2) that get by (auto simp: update_deployment_def FindDeployment_def bindE_def)
  next
    case (Inr found)
    then have "c_Update (k_deployments k) (merge_deployment found desired) w1 = (r, w')"
      using assms(2) get by (auto simp: update_deployment_def FindDeployment_def bindE_def merge_defs)
    with wr(2)[of "merge_deployment found desired" w1 r w' u] that v(1) v(2)[OF Inr] key show ?thesis
      by (auto simp: obj_key_def)
  qed
qed

sublocale conflict_retry \<subseteq> deployments: create_or_update "k_deployments k"
  "CreateOrUpdateDeployment k retryOnConflict" merge_deployment for k
proof
  fix view and desired :: deployment and w and u :: unit and e w'
  assume store: "crud_store view (k_deployments k)"
  obtain r w1 where get: "c_Get (k_deployments k) (obj_Name desired) (obj_Namespace desired) w = (r, w1)"
    by fastforce
  note v = crud_store_get[OF store get]
    and op = CreateOrUpdateDeployment_def FindDeployment_def tryE_def throwE_def IsNotFound_def
  have update: "\<exists>w2. view w2 = view w1 \<and> update_deployment k desired w2 = (q, w')"
    if "retryOnConflict (update_deployment k desired) w1 = (q, w')" for q
    using retry_view[OF _ that] update_deployment_result(1)[OF store] by blast
  show "\<exists>obj'. view w' = (view w)(obj_key desired \<mapsto> obj') \<and>
      stored_as (case view w (obj_key desired) of None \<Rightarrow> desired
                 | Some found \<Rightarrow> merge_deployment found desired) obj'"
    if ok: "CreateOrUpdateDeployment k retryOnConflict desired w = (Inr u, w')"
  proof (cases r)
    case (Inl err)
    with ok get have "err = NotFound" "c_Create (k_deployments k) desired w1 = (Inr u, w')"
      by (auto simp: op split: if_splits)
    with v Inl crud_store_write(2)[OF store, of desired w1 "Inr u" w' u] show ?thesis
      by (auto simp: obj_key_def)
  next
    case (Inr found)
    with ok get have "retryOnConflict (update_deployment k desired) w1 = (Inr u, w')" by (simp add: op)
    from update[OF this] obtain w2 where "view w2 = view w" "update_deployment k desired w2 = (Inr u, w')"
      using v(1) by auto
    with update_deployment_result(2)[OF store, of desired w2 "Inr u" w' u] show ?thesis by auto
  qed
  show "view w' = view w" if err: "CreateOrUpdateDeployment k retryOnConflict desired w = (Inl e, w')"
  proof (cases r)
    case (Inl err')
    with err get v(1) crud_store_write(1)[OF store, of desired w1 "Inl e" w' e] show ?thesis
      by (auto simp: op split: if_splits)
  next
    case (Inr found)
    with err get have "retryOnConflict (update_deployment k desired) w1 = (Inl e, w')" by (simp add: op)
    from update[OF this] v(1) update_deployment_result(1)[OF store] show ?thesis by metis
  qed
qed

context conflict_retry
begin

lemmas all_deployments_exist = deployments.all_exist_after
lemmas other_deployments_same = deployments.all_frame

end

definition DefaultRetry :: "'w retrier" where
  "DefaultRetry f = run_again f 4"

interpretation defaultRetry: conflict_retry DefaultRetry
  by unfold_locales (auto simp: DefaultRetry_def)

section \<open>A cluster in memory\<close>

text \<open>
  An instance of the client on lists of objects, on which concrete runs are evaluated. It has
  the documented behaviour.
\<close>

record cluster =
  cl_serviceAccounts :: "serviceAccount list"
  cl_services :: "service list"
  cl_persistentVolumeClaims :: "persistentVolumeClaim list"
  cl_deployments :: "deployment list"
  cl_configMaps :: "configMap list"
  cl_secrets :: "secret list"
  cl_pods :: "pod list"

definition list_view :: "('w \<Rightarrow> 'o k8sObject_scheme list) \<Rightarrow> ('o k8sObject_scheme, 'w) store_view" where
  "list_view get w key = find (\<lambda>obj. obj_key obj = key) (get w)"

definition list_crud :: "('w \<Rightarrow> 'o k8sObject_scheme list) \<Rightarrow> (('o k8sObject_scheme list \<Rightarrow> 'o k8sObject_scheme list) \<Rightarrow> 'w \<Rightarrow> 'w) \<Rightarrow>
    ('o k8sObject_scheme, 'w) crud" where
  "list_crud get upd = \<lparr>
     c_Get = (\<lambda>n ns w. (case list_view get w (n, ns) of None \<Rightarrow> Inl NotFound | Some obj \<Rightarrow> Inr obj, w)),
     c_Create = (\<lambda>obj w. if list_view get w (obj_key obj) = None then (Inr (), upd (\<lambda>objs. objs @ [obj]) w)
                         else (Inl (Err ''already exists''), w)),
     c_Update = (\<lambda>obj w. if list_view get w (obj_key obj) = None then (Inl NotFound, w)
                         else (Inr (), upd (map (\<lambda>x. if obj_key x = obj_key obj then obj else x)) w)),
     c_Delete = (\<lambda>obj w. if list_view get w (obj_key obj) = None then (Inl NotFound, w)
                         else (Inr (), upd (filter (\<lambda>x. obj_key x \<noteq> obj_key obj)) w)),
     c_List = (\<lambda>ns ls w. (Inr (filter (\<lambda>x. obj_Namespace x = ns \<and>
                 (\<forall>(l, v)\<in>set ls. map_of (obj_Labels x) l = Some v)) (get w)), w))\<rparr>"

definition sample_kube :: "cluster kubeClient" where
  "sample_kube = \<lparr>
     k_serviceAccounts = list_crud cl_serviceAccounts cl_serviceAccounts_update,
     k_services = list_crud cl_services cl_services_update,
     k_persistentVolumeClaims = list_crud cl_persistentVolumeClaims cl_persistentVolumeClaims_update,
     k_deployments = list_crud cl_deployments cl_deployments_update,
     k_configMaps = list_crud cl_configMaps cl_configMaps_update,
     k_secrets = list_crud cl_secrets cl_secrets_update,
     k_pods = list_crud cl_pods cl_pods_update\<rparr>"

definition empty_cluster :: cluster where
  "empty_cluster = \<lparr>cl_serviceAccounts = [], cl_services = [], cl_persistentVolumeClaims = [],
     cl_deployments = [], cl_configMaps = [], cl_secrets = [], cl_pods = []\<rparr>"

lemma find_key_key: "find (\<lambda>obj. obj_key obj = key) objs = Some obj \<Longrightarrow> obj_key obj = key"
  by (induction objs) (auto split: if_splits)

lemma find_append_new:
  "find (\<lambda>x. obj_key x = obj_key obj) objs = None \<Longrightarrow>
   (\<lambda>key. find (\<lambda>x. obj_key x = key) (objs @ [obj])) =
   (\<lambda>key. find (\<lambda>x. obj_key x = key) objs)(obj_key obj \<mapsto> obj)"
  by (induction objs) (auto simp: fun_eq_iff split: if_splits)

lemma find_map_replace:
  "find (\<lambda>x. obj_key x = obj_key obj) objs \<noteq> None \<Longrightarrow>
   (\<lambda>key. find (\<lambda>x. obj_key x = key) (map (\<lambda>x. if obj_key x = obj_key obj then obj else x) objs)) =
   (\<lambda>key. find (\<lambda>x. obj_key x = key) objs)(obj_key obj \<mapsto> obj)"
proof -
  have other: "key \<noteq> obj_key obj \<Longrightarrow>
      find (\<lambda>x. obj_key x = key) (map (\<lambda>x. if obj_key x = obj_key obj then obj else x) objs) =
      find (\<lambda>x. obj_key x = key) objs" for key
    by (induction objs) auto
  have same: "find (\<lambda>x. obj_key x = obj_key obj) objs \<noteq> None \<Longrightarrow>
      find (\<lambda>x. obj_key x = obj_key obj) (map (\<lambda>x. if obj_key x = obj_key obj then obj else x) objs) = Some obj"
    by (induction objs) auto
  assume "find (\<lambda>x. obj_key x = obj_key obj) objs \<noteq> None"
  with other same show ?thesis by (auto simp: fun_eq_iff)
qed

lemma find_filter_key:
  "(\<lambda>key. find (\<lambda>x. obj_key x = key) (filter (\<lambda>x. obj_key x \<noteq> k) objs)) =
   (\<lambda>key. find (\<lambda>x. obj_key x = key) objs)(k := None)"
  by (induction objs) (auto simp: fun_eq_iff split: if_splits)

lemma list_crud_store:
  assumes "\<And>f w. get (upd f w) = f (get w)"
  shows "crud_store (list_view get) (list_crud get upd)"
  unfolding crud_store_def
proof (intro conjI allI impI, goal_cases)
  case (1 n ns w r w')
  then show ?case by (auto simp: list_crud_def split: option.splits)
next
  case (2 n ns w r w')
  then show ?case
    using find_key_key[of "(n, ns)" "get w"]
    by (cases "list_view get w (n, ns)") (auto simp: list_crud_def list_view_def)
next
  case (3 obj w r w')
  then show ?case
    using find_append_new[of obj "get w"]
    by (cases "list_view get w (obj_key obj)")
       (auto simp: list_crud_def list_view_def[abs_def] assms intro!: exI[of _ obj])
next
  case (4 obj w r w')
  then show ?case
    using find_map_replace[of obj "get w"]
    by (cases "list_view get w (obj_key obj)")
       (auto simp: list_crud_def list_view_def[abs_def] assms simp del: not_None_eq intro!: exI[of _ obj])
next
  case (5 obj w r w')
  then show ?case
    by (cases "list_view get w (obj_key obj)")
       (auto simp: list_crud_def list_view_def[abs_def] assms find_filter_key)
qed

lemma sample_kube_store:
  "crud_store (list_view cl_serviceAccounts) (k_serviceAccounts sample_kube)"
  "crud_store (list_view cl_services) (k_services sample_kube)"
  "crud_store (list_view cl_persistentVolumeClaims) (k_persistentVolumeClaims sample_kube)"
  "crud_store (list_view cl_deployments) (k_deployments sample_kube)"
  "crud_store (list_view cl_configMaps) (k_configMaps sample_kube)"
  "crud_store (list_view cl_secrets) (k_secrets sample_kube)"
  by (simp_all add: sample_kube_def list_crud_store)

section \<open>Properties\<close>


definition sample_service :: "string \<Rightarrow> string \<Rightarrow> service" where
  "sample_service ip label = \<lparr>obj_Name = ''kafka'', obj_Namespace = ''ns'', obj_Labels = [(''app'', label)],
     obj_Annotations = [], obj_ResourceVersion = ''7'', obj_OwnerReferences = [], svc_Type = ''ClusterIP'',
     svc_ClusterIP = ip, svc_Selector = [], svc_Ports = [\<lparr>sp_Name = ''client'', sp_Port = 9092, sp_Protocol = ProtocolTCP\<rparr>],
     svc_PublishNotReadyAddresses = False\<rparr>"


text \<open>
  Creating or updating a list of deployments, with retries on conflicts, as the reconcilers do
  it: when it succeeds every deployment of the list exists on the server, and on every outcome a
  deployment that is not in the list is untouched. This rests on the documented behaviour of the
  API server and of \<open>retry.RetryOnConflict\<close>.
\<close>

theorem deployments_all_upserted:
  assumes "conflict_retry retryOnConflict" "crud_store view (k_deployments k)"
    and "forE ds (CreateOrUpdateDeployment k retryOnConflict) w = (r, w')"
  shows "(isl r \<or> (\<forall>d\<in>set ds. view w' (obj_key d) \<noteq> None))
    \<and> (\<forall>key. key \<notin> obj_key ` set ds \<longrightarrow> view w' key = view w key)"
  using conflict_retry.all_deployments_exist[OF assms(1,2), of ds w _ w']
    conflict_retry.other_deployments_same[OF assms(1,2,3)] assms(3)
  by (cases r) auto

definition sample_deployment :: "string \<Rightarrow> deployment" where
  "sample_deployment name = (new_deployment name ''ns'' [])\<lparr>dep_Replicas := Some 1, dep_ReadyReplicas := 1, dep_UpdatedReplicas := 1\<rparr>"

theorem deployments_all_upserted_witness:
  "\<exists>w'. forE [sample_deployment ''kafka-1'', sample_deployment ''kafka-2'']
          (CreateOrUpdateDeployment sample_kube DefaultRetry)
          (empty_cluster\<lparr>cl_deployments := [sample_deployment ''kafka-1'', sample_deployment ''other'']\<rparr>) = (Inr (), w')
     \<and> list_view cl_deployments w' (''kafka-2'', ''ns'') \<noteq> None
     \<and> list_view cl_deployments w' (''other'', ''ns'') = Some (sample_deployment ''other'')"
proof -
  let ?w = "empty_cluster\<lparr>cl_deployments := [sample_deployment ''kafka-1'', sample_deployment ''other'']\<rparr>"
  let ?ds = "[sample_deployment ''kafka-1'', sample_deployment ''kafka-2'']"
  obtain r w' where run: "forE ?ds (CreateOrUpdateDeployment sample_kube DefaultRetry) ?w = (r, w')" by fastforce
  then have "r = Inr ()"
    by (auto simp: CreateOrUpdateDeployment_def FindDeployment_def update_deployment_def DefaultRetry_def
        sample_kube_def list_crud_def list_view_def empty_cluster_def sample_deployment_def new_deployment_def obj_key_def
        tryE_def bindE_def thenE_def returnE_def IsNotFound_def numeral_eq_Suc JoinMaps_def)
  with deployments_all_upserted[OF defaultRetry.conflict_retry_axioms sample_kube_store(4) run] run
  show ?thesis
    by (auto simp: obj_key_def sample_deployment_def new_deployment_def list_view_def empty_cluster_def)
qed

text \<open>
  \<open>SetControllerReference\<close> has no effect on a typed object: it sets the owner reference on the
  unstructured copy it made of the object, and the caller's object stays as it is. \<open>WatchSecret\<close>
  therefore never writes a secret: whatever predicate on the cluster reading secrets keeps, it
  keeps, and what it returns is the secret as it was found.
\<close>

theorem WatchSecret_never_writes:
  assumes "\<And>n ns. keeps I (c_Get (k_secrets k) n ns)" and "I w"
  shows "case WatchSecret k retryOnConflict setControllerReference convert secretName cr w of
     (r, w') \<Rightarrow> I w' \<and> (isl r \<or> FindSecret k secretName (cr_Namespace cr) w = (r, w'))"
proof -
  obtain q w1 where q: "c_Get (k_secrets k) secretName (cr_Namespace cr) w = (q, w1)" by fastforce
  have "I w1" using assms q by (blast dest: keepsD)
  show ?thesis
  proof (cases q)
    case (Inl e)
    then show ?thesis using q \<open>I w1\<close> by (simp add: WatchSecret_def FindSecret_def bindE_def)
  next
    case (Inr s)
    have "(\<exists>e. SetControllerReference setControllerReference convert cr (Typed s) = Inl e) \<or>
        SetControllerReference setControllerReference convert cr (Typed s) = Inr (Typed s)"
      by (auto simp: SetControllerReference_def split: sum.splits)
    then show ?thesis
      using Inr q \<open>I w1\<close> by (auto simp: WatchSecret_def FindSecret_def bindE_def liftE_def returnE_def)
  qed
qed

definition sample_secret :: secret where
  "sample_secret = \<lparr>obj_Name = ''kafka-secret'', obj_Namespace = ''ns'', obj_Labels = [], obj_Annotations = [],
     obj_ResourceVersion = ''3'', obj_OwnerReferences = [], sec_Data = Some [(''k'', ''v'')], sec_StringData = None\<rparr>"

definition sample_ref_setter :: refSetter where
  "sample_ref_setter owner refs = Inr (\<lparr>or_Name = cr_Name owner, or_APIVersion = cr_APIVersion owner,
     or_Kind = cr_Kind owner, or_Controller = True\<rparr> # refs)"

theorem WatchSecret_never_writes_witness:
  "case WatchSecret sample_kube DefaultRetry sample_ref_setter Inr ''kafka-secret''
       \<lparr>cr_Name = ''kafka'', cr_Namespace = ''ns'', cr_APIVersion = ''g/v1'', cr_Kind = ''Kafka''\<rparr>
       (empty_cluster\<lparr>cl_secrets := [sample_secret]\<rparr>) of
     (r, w') \<Rightarrow> cl_secrets w' = [sample_secret]"
proof -
  have "keeps (\<lambda>w. cl_secrets w = [sample_secret]) (c_Get (k_secrets sample_kube) n ns)" for n ns
    by (simp add: keeps_def sample_kube_def list_crud_def)
  moreover have "cl_secrets (empty_cluster\<lparr>cl_secrets := [sample_secret]\<rparr>) = [sample_secret]" by simp
  ultimately have "case WatchSecret sample_kube DefaultRetry sample_ref_setter Inr ''kafka-secret''
       \<lparr>cr_Name = ''kafka'', cr_Namespace = ''ns'', cr_APIVersion = ''g/v1'', cr_Kind = ''Kafka''\<rparr>
       (empty_cluster\<lparr>cl_secrets := [sample_secret]\<rparr>) of
     (r, w') \<Rightarrow> cl_secrets w' = [sample_secret] \<and> (isl r \<or> FindSecret sample_kube ''kafka-secret''
       (cr_Namespace \<lparr>cr_Name = ''kafka'', cr_Namespace = ''ns'', cr_APIVersion = ''g/v1'', cr_Kind = ''Kafka''\<rparr>)
       (empty_cluster\<lparr>cl_secrets := [sample_secret]\<rparr>) = (r, w'))"
    by (rule WatchSecret_never_writes)
  then show ?thesis by (auto split: prod.splits)
qed

lemma addCondition_reasons:
  "map sc_Reason (addCondition cs c) =
     (if sc_Reason c \<in> sc_Reason ` set cs then map sc_Reason cs else map sc_Reason cs @ [sc_Reason c])"
  by (induction cs) auto

lemma addCondition_other:
  "r \<noteq> sc_Reason c \<Longrightarrow> filter (\<lambda>x. sc_Reason x = r) (addCondition cs c) = filter (\<lambda>x. sc_Reason x = r) cs"
  by (induction cs) auto

lemma addCondition_same:
  "distinct (map sc_Reason cs) \<Longrightarrow>
   \<exists>x. filter (\<lambda>x. sc_Reason x = sc_Reason c) (addCondition cs c) = [x] \<and>
     sc_Type x = sc_Type c \<and> sc_Status x = sc_Status c \<and> sc_Message x = sc_Message c \<and>
     (x = c \<or> x \<in> set cs)"
proof (induction cs)
  case (Cons y cs)
  show ?case
  proof (cases "sc_Reason y = sc_Reason c")
    case True
    then have "filter (\<lambda>x. sc_Reason x = sc_Reason c) cs = []"
      using Cons.prems by (auto simp: filter_empty_conv image_iff)
    with True show ?thesis by auto
  qed (use Cons in auto)
qed simp

text \<open>
  C30. The conditions of a resource have at most one entry for a reason. \<open>addCondition\<close> keeps that,
  leaves the entries for other reasons and their order alone, and makes the entry for its reason
  carry the new type, status and message; an entry that says the same already is not replaced, so
  its transition time stays.
\<close>

theorem addCondition_spec:
  assumes "distinct (map sc_Reason conditions)"
  shows "distinct (map sc_Reason (addCondition conditions condition))
    \<and> (\<forall>reason. reason \<noteq> sc_Reason condition \<longrightarrow>
         filter (\<lambda>c. sc_Reason c = reason) (addCondition conditions condition)
         = filter (\<lambda>c. sc_Reason c = reason) conditions)
    \<and> (\<exists>c. filter (\<lambda>c. sc_Reason c = sc_Reason condition) (addCondition conditions condition) = [c]
         \<and> sc_Type c = sc_Type condition \<and> sc_Status c = sc_Status condition
         \<and> sc_Message c = sc_Message condition \<and> (c = condition \<or> c \<in> set conditions))"
  using assms addCondition_same[OF assms, of condition] addCondition_other
  by (auto simp: addCondition_reasons)

theorem addCondition_spec_witness:
  "distinct (map sc_Reason (addCondition [NewCondition statusFalse typeInProgress ''Kafka'' ''m'',
       NewCondition statusTrue typeReady ''Akhq'' ''n''] (NewCondition statusFalse typeFailed ''Kafka'' ''e'')))
   \<and> hasFailedConditions (addCondition [NewCondition statusFalse typeInProgress ''Kafka'' ''m'',
       NewCondition statusTrue typeReady ''Akhq'' ''n''] (NewCondition statusFalse typeFailed ''Kafka'' ''e''))"
  using addCondition_spec[of "[NewCondition statusFalse typeInProgress ''Kafka'' ''m'',
       NewCondition statusTrue typeReady ''Akhq'' ''n'']" "NewCondition statusFalse typeFailed ''Kafka'' ''e''"]
  by (simp add: NewCondition_def hasFailedConditions_def typeFailed_def typeInProgress_def statusFalse_def statusTrue_def)

lemma fold_mdel:
  "map_of (fold (\<lambda>key a. if key \<in> K then a else mdel key a) ks m) k =
     (if k \<in> set ks \<and> k \<notin> K then None else map_of m k)"
  by (induction ks arbitrary: m) auto


definition sample_pvc :: "int \<Rightarrow> string gomap \<Rightarrow> persistentVolumeClaim" where
  "sample_pvc bytes annotations = (new_persistentVolumeClaim ''pvc-1'' ''ns'' [])\<lparr>obj_Annotations := annotations,
     pvc_Requests := Some [(''storage'', bytes)]\<rparr>"


lemma apply_annotations:
  "snd (applyAutoRestartSecretAnnotations annotations secrets) = False \<longleftrightarrow>
   (\<forall>s. Some s \<in> set secrets \<longrightarrow> obj_Name s = [] \<or> mstr (obj_Annotations s) autoRestartAnnotation \<noteq> ''true'' \<or>
      mstr annotations (resourceVersionAnnotation (obj_Name s)) = obj_ResourceVersion s)"
  by (induction annotations secrets rule: applyAutoRestartSecretAnnotations.induct)
     (auto simp: Let_def split: option.splits)

lemma resourceVersionAnnotation_inj [simp]:
  "resourceVersionAnnotation a = resourceVersionAnnotation b \<longleftrightarrow> a = b"
  by (simp add: resourceVersionAnnotation_def)

text \<open>The annotations are those of the secrets that ask for a restart, written over the old ones.\<close>

definition restart_entries :: "secret option list \<Rightarrow> string gomap" where
  "restart_entries secrets = List.map_filter (\<lambda>x. case x of None \<Rightarrow> None | Some s \<Rightarrow>
     (if obj_Name s = [] \<or> mstr (obj_Annotations s) autoRestartAnnotation \<noteq> ''true'' then None
      else Some (resourceVersionAnnotation (obj_Name s), obj_ResourceVersion s))) secrets"

lemma restart_entries_iff:
  "(n, v) \<in> set (restart_entries secrets) \<longleftrightarrow> (\<exists>s. Some s \<in> set secrets \<and> obj_Name s \<noteq> []
     \<and> mstr (obj_Annotations s) autoRestartAnnotation = ''true''
     \<and> n = resourceVersionAnnotation (obj_Name s) \<and> v = obj_ResourceVersion s)"
proof (induction secrets)
  case (Cons x secrets)
  then show ?case
    by (cases x) (auto simp: restart_entries_def List.map_filter_simps)
qed (simp add: restart_entries_def List.map_filter_simps)

lemma applied_annotations:
  "(\<forall>k. mstr a k = mstr a' k) \<Longrightarrow>
   mstr (fst (applyAutoRestartSecretAnnotations a secrets)) k = mstr (put_all a' (restart_entries secrets)) k"
proof (induction a secrets arbitrary: a' rule: applyAutoRestartSecretAnnotations.induct)
  case (2 a x secrets)
  show ?case
  proof (cases x)
    case None
    with 2 show ?thesis by (simp add: restart_entries_def List.map_filter_simps)
  next
    case (Some s)
    let ?skip = "obj_Name s = [] \<or> mstr (obj_Annotations s) autoRestartAnnotation \<noteq> ''true''"
    let ?n = "resourceVersionAnnotation (obj_Name s)"
    have entries: "restart_entries (x # secrets) = (if ?skip then restart_entries secrets
        else (?n, obj_ResourceVersion s) # restart_entries secrets)"
      using Some by (auto simp: restart_entries_def List.map_filter_simps)
    consider "?skip" | "\<not> ?skip" "mstr a ?n = obj_ResourceVersion s" | "\<not> ?skip" "mstr a ?n \<noteq> obj_ResourceVersion s"
      by blast
    then show ?thesis
    proof cases
      case 1
      then show ?thesis using "2.IH"(2)[OF Some 1] "2.prems" Some entries by simp
    next
      case c: 2
      then have "\<forall>k. mstr a k = mstr (mput ?n (obj_ResourceVersion s) a') k" using "2.prems" by auto
      from "2.IH"(3)[OF Some c(1) refl c(2) this] c Some entries show ?thesis by (simp add: Let_def)
    next
      case c: 3
      then have "\<forall>k. mstr (mput ?n (obj_ResourceVersion s) a) k = mstr (mput ?n (obj_ResourceVersion s) a') k"
        using "2.prems" by auto
      from "2.IH"(4)[OF Some c(1) refl c(2) this] c Some entries show ?thesis by (simp add: Let_def)
    qed
  qed
qed (simp add: restart_entries_def List.map_filter_simps)

lemma mstr_put_all_const:
  "(k, v) \<in> set es \<Longrightarrow> \<forall>v'. (k, v') \<in> set es \<longrightarrow> v' = v \<Longrightarrow> mstr (put_all a es) k = v"
proof (induction es arbitrary: a)
  case (Cons e es)
  obtain k' v' where e: "e = (k', v')" by fastforce
  have keep: "\<forall>v'. (k, v') \<in> set es \<longrightarrow> v' = v \<Longrightarrow> mstr a k = v \<Longrightarrow> mstr (put_all a es) k = v" for a
    by (induction es arbitrary: a) auto
  show ?case
  proof (cases "(k, v) \<in> set es")
    case True
    have "mstr (put_all (mput k' v' a) es) k = v"
      using Cons.prems(2) by (intro Cons.IH[OF True]) simp
    then show ?thesis using e by simp
  next
    case False
    with Cons.prems e have "k' = k" "v' = v" by auto
    then show ?thesis using keep[of "mput k v a"] Cons.prems(2) e by auto
  qed
qed simp

text \<open>
  C31. Restart annotations do not restart a deployment for ever: once the annotations of the secrets
  have been applied to a deployment, applying them again changes nothing, so the deployment is
  updated again only after the resource version of a secret has changed.
\<close>

theorem restart_annotations_settle:
  assumes "\<forall>s t. Some s \<in> set secrets \<and> Some t \<in> set secrets \<and> obj_Name s = obj_Name t \<longrightarrow>
      obj_ResourceVersion s = obj_ResourceVersion t"
  shows "\<not> snd (applyAutoRestartSecretAnnotations
      (fst (applyAutoRestartSecretAnnotations annotations secrets)) secrets)"
proof -
  have "mstr (fst (applyAutoRestartSecretAnnotations annotations secrets)) (resourceVersionAnnotation (obj_Name s))
      = obj_ResourceVersion s"
    if s: "Some s \<in> set secrets" "obj_Name s \<noteq> []" "mstr (obj_Annotations s) autoRestartAnnotation = ''true''" for s
  proof -
    have "(resourceVersionAnnotation (obj_Name s), obj_ResourceVersion s) \<in> set (restart_entries secrets)"
      using s by (auto simp: restart_entries_iff)
    moreover have "\<forall>v. (resourceVersionAnnotation (obj_Name s), v) \<in> set (restart_entries secrets) \<longrightarrow>
        v = obj_ResourceVersion s"
    proof (intro allI impI)
      fix v
      assume "(resourceVersionAnnotation (obj_Name s), v) \<in> set (restart_entries secrets)"
      then obtain t where "Some t \<in> set secrets" "obj_Name s = obj_Name t" "v = obj_ResourceVersion t"
        unfolding restart_entries_iff resourceVersionAnnotation_inj by blast
      then show "v = obj_ResourceVersion s" using assms s(1) by metis
    qed
    ultimately have "mstr (put_all annotations (restart_entries secrets)) (resourceVersionAnnotation (obj_Name s))
        = obj_ResourceVersion s" by (rule mstr_put_all_const)
    then show ?thesis using applied_annotations[of annotations annotations] by simp
  qed
  then show ?thesis using apply_annotations[of _ secrets] by blast
qed

theorem restart_annotations_settle_witness:
  "applyAutoRestartSecretAnnotations [] [Some (sample_secret\<lparr>obj_Annotations := [(autoRestartAnnotation, ''true'')]\<rparr>)]
     = ([(''kafka-secret/resource-version'', ''3'')], True)
   \<and> \<not> snd (applyAutoRestartSecretAnnotations [(''kafka-secret/resource-version'', ''3'')]
       [Some (sample_secret\<lparr>obj_Annotations := [(autoRestartAnnotation, ''true'')]\<rparr>)])"
proof -
  have *: "applyAutoRestartSecretAnnotations [] [Some (sample_secret\<lparr>obj_Annotations := [(autoRestartAnnotation, ''true'')]\<rparr>)]
     = ([(''kafka-secret/resource-version'', ''3'')], True)"
    by (simp add: sample_secret_def mstr_def resourceVersionAnnotation_def)
  with restart_annotations_settle[of "[Some (sample_secret\<lparr>obj_Annotations := [(autoRestartAnnotation, ''true'')]\<rparr>)]" "[]"]
  show ?thesis unfolding * by (simp del: applyAutoRestartSecretAnnotations.simps)
qed

end
