(* ===== verification/Kmm_Config.thy ===== *)
theory Kmm_Config
  imports Go_Prelude Operator_Util Kube_Reconciler
begin

text \<open>
  \<open>operator/controllers/kmmconfig\<close>: the controller that writes the topics and transformations of
  a \<open>KmmConfig\<close> resource into the configuration of Kafka Mirror Maker, a property file in a config
  map.
\<close>

section \<open>Data\<close>

record transform =
  tr_Name :: string
  tr_Type :: string
  tr_Predicate :: string
  tr_Negate :: "bool option"
  tr_Params :: "string gomap"

record predicate =
  pr_Name :: string
  pr_Type :: string
  pr_Params :: "string gomap"

record transformation =
  Transforms :: "transform list"
  Predicates :: "predicate list"

record kmmTopics =
  kt_Topics :: string
  kt_SourceDc :: string
  kt_TargetDc :: string
  kt_Transformation :: "transformation option"

record kmmConfig = k8sObject +
  kmm_APIVersion :: string
  kmm_KmmTopics :: "kmmTopics option"
  kmm_IsProcessed :: bool
  kmm_ProblemTopics :: string

definition NewReplicationFlow :: "string \<Rightarrow> string \<Rightarrow> string" where
  "NewReplicationFlow sourceClusterName targetClusterName = sourceClusterName @ ''->'' @ targetClusterName"

section \<open>Transformations\<close>

record transformationDefinition =
  td_replicationFlow :: string
  td_transformationConfig :: "string list"
  td_transformNames :: "string list"
  td_predicateNames :: "string list"

record transformationConfigurator =
  tc_transformation :: "transformation option"
  tc_transformationNamePrefix :: string

definition NewTransformationConfigurator :: "transformation option \<Rightarrow> string \<Rightarrow> transformationConfigurator" where
  "NewTransformationConfigurator t namePrefix =
     \<lparr>tc_transformation = t, tc_transformationNamePrefix = namePrefix\<rparr>"

definition transformationName :: "transformationConfigurator \<Rightarrow> string \<Rightarrow> string" where
  "transformationName tc name = tc_transformationNamePrefix tc @ name"

definition addParams :: "string list \<Rightarrow> string gomap \<Rightarrow> string \<Rightarrow> string \<Rightarrow> string list" where
  "addParams transformationConfig params paramPrefix replicationPrefix =
     transformationConfig @ map (\<lambda>key. paramPrefix @ ''.'' @ key @ '' = '' @
        strings_ReplaceAll (mstr params key) ''${replication_prefix}'' replicationPrefix)
       (sort (map fst params))"

definition transform_lines :: "transformationConfigurator \<Rightarrow> string \<Rightarrow> string \<Rightarrow> transform \<Rightarrow> string list" where
  "transform_lines tc replicationFlow replicationPrefix tr =
     (let transformPrefix = replicationFlow @ ''.transforms.'' @ transformationName tc (tr_Name tr)
      in addParams ([transformPrefix @ ''.type = '' @ tr_Type tr]
           @ (if tr_Predicate tr \<noteq> [] then [transformPrefix @ ''.predicate = '' @ transformationName tc (tr_Predicate tr)] else [])
           @ (case tr_Negate tr of None \<Rightarrow> [] | Some b \<Rightarrow> [transformPrefix @ ''.negate = '' @ FormatBool b]))
         (tr_Params tr) transformPrefix replicationPrefix)"

definition predicate_lines :: "transformationConfigurator \<Rightarrow> string \<Rightarrow> string \<Rightarrow> predicate \<Rightarrow> string list" where
  "predicate_lines tc replicationFlow replicationPrefix p =
     (let predicatePrefix = replicationFlow @ ''.predicates.'' @ transformationName tc (pr_Name p)
      in addParams [predicatePrefix @ ''.type = '' @ pr_Type p] (pr_Params p) predicatePrefix replicationPrefix)"

definition getTransformationDefinition :: "transformationConfigurator \<Rightarrow> string \<Rightarrow> string \<Rightarrow> bool \<Rightarrow>
    transformationDefinition option" where
  "getTransformationDefinition tc sourceClusterName targetClusterName identityReplicationEnabled =
     (case tc_transformation tc of
        None \<Rightarrow> None
      | Some t \<Rightarrow>
          (if Transforms t = [] then None
           else let replicationFlow = NewReplicationFlow sourceClusterName targetClusterName;
                    replicationPrefix = (if identityReplicationEnabled then [] else sourceClusterName @ ''.'')
                in Some \<lparr>td_replicationFlow = replicationFlow,
                     td_transformationConfig =
                       concat (map (transform_lines tc replicationFlow replicationPrefix) (Transforms t))
                       @ concat (map (predicate_lines tc replicationFlow replicationPrefix) (Predicates t)),
                     td_transformNames = map (\<lambda>tr. transformationName tc (tr_Name tr)) (Transforms t),
                     td_predicateNames = map (\<lambda>p. transformationName tc (pr_Name p)) (Predicates t)\<rparr>))"

text \<open>\<open>enrichWithTransformationProperties\<close>; the extra names are empty where the code passes \<open>nil\<close>.\<close>

definition names_line :: "string \<Rightarrow> string \<Rightarrow> string list \<Rightarrow> string list" where
  "names_line replicationFlow property names =
     (if length names > 0 then [replicationFlow @ ''.'' @ property @ '' = '' @ strings_Join (sort names) '','']
      else [])"

definition enrichWithTransformationProperties :: "string list \<Rightarrow> transformationDefinition \<Rightarrow> string list \<Rightarrow>
    string list \<Rightarrow> string list" where
  "enrichWithTransformationProperties replicationConfig td extraTransformNames extraPredicateNames =
     (if length (td_transformationConfig td) = 0 then replicationConfig
      else replicationConfig @ td_transformationConfig td
        @ names_line (td_replicationFlow td) ''transforms'' (td_transformNames td @ extraTransformNames)
        @ names_line (td_replicationFlow td) ''predicates'' (td_predicateNames td @ extraPredicateNames))"

definition AddTransformationProperties :: "transformationConfigurator \<Rightarrow> string list \<Rightarrow> string \<Rightarrow> string \<Rightarrow> bool \<Rightarrow>
    string list" where
  "AddTransformationProperties tc replicationConfig sourceClusterName targetClusterName identityReplicationEnabled =
     (case getTransformationDefinition tc sourceClusterName targetClusterName identityReplicationEnabled of
        None \<Rightarrow> replicationConfig
      | Some td \<Rightarrow> enrichWithTransformationProperties replicationConfig td [] [])"

definition getFilteredNames :: "transformationConfigurator \<Rightarrow> string \<Rightarrow> string \<Rightarrow> string list" where
  "getFilteredNames tc line propertyPrefix =
     filter (\<lambda>name. \<not> strings_HasPrefix name (tc_transformationNamePrefix tc))
       (map strings_TrimSpace (strings_Split (drop (length propertyPrefix) line) (CHR '','')))"

text \<open>The loop of \<open>UpdateTransformationProperties\<close> over the lines, and its local variables.\<close>

record lineSplit =
  ls_before :: "string list"
  ls_after :: "string list"
  ls_extraTransformNames :: "string list"
  ls_extraPredicateNames :: "string list"
  ls_enabledPropertyPosition :: "nat option"

definition place_line :: "nat \<Rightarrow> string \<Rightarrow> lineSplit \<Rightarrow> lineSplit" where
  "place_line i line acc = (case ls_enabledPropertyPosition acc of
      Some position \<Rightarrow> (if i > position then acc\<lparr>ls_after := ls_after acc @ [line]\<rparr>
                        else acc\<lparr>ls_before := ls_before acc @ [line]\<rparr>)
    | None \<Rightarrow> acc\<lparr>ls_before := ls_before acc @ [line]\<rparr>)"

fun split_lines :: "transformationConfigurator \<Rightarrow> string \<Rightarrow> nat \<Rightarrow> string list \<Rightarrow> lineSplit \<Rightarrow> lineSplit" where
  "split_lines tc flow i [] acc = acc"
| "split_lines tc flow i (line # rest) acc =
     split_lines tc flow (i + 1) rest
       (if strings_HasPrefix line flow then
          (if line = flow @ ''.enabled = true''
           then place_line i line (acc\<lparr>ls_enabledPropertyPosition := Some i\<rparr>)
           else if strings_HasPrefix line (flow @ ''.transforms = '')
           then acc\<lparr>ls_extraTransformNames := ls_extraTransformNames acc
                      @ getFilteredNames tc line (flow @ ''.transforms = '')\<rparr>
           else if strings_HasPrefix line (flow @ ''.predicates = '')
           then acc\<lparr>ls_extraPredicateNames := ls_extraPredicateNames acc
                      @ getFilteredNames tc line (flow @ ''.predicates = '')\<rparr>
           else if strings_HasPrefix line (flow @ ''.transforms.'' @ tc_transformationNamePrefix tc)
                 \<or> strings_HasPrefix line (flow @ ''.predicates.'' @ tc_transformationNamePrefix tc)
           then acc
           else place_line i line acc)
        else place_line i line acc)"

definition UpdateTransformationProperties :: "transformationConfigurator \<Rightarrow> string list \<Rightarrow> string \<Rightarrow> string \<Rightarrow> bool \<Rightarrow>
    string list" where
  "UpdateTransformationProperties tc replicationConfig sourceClusterName targetClusterName identityReplicationEnabled =
     (case getTransformationDefinition tc sourceClusterName targetClusterName identityReplicationEnabled of
        None \<Rightarrow> replicationConfig
      | Some td \<Rightarrow>
          (let acc = split_lines tc (td_replicationFlow td) 0 replicationConfig
                 \<lparr>ls_before = [], ls_after = [], ls_extraTransformNames = [], ls_extraPredicateNames = [],
                  ls_enabledPropertyPosition = None\<rparr>;
               result = ls_before acc;
               result = (if ls_enabledPropertyPosition acc \<noteq> None
                         then enrichWithTransformationProperties result td (ls_extraTransformNames acc)
                                (ls_extraPredicateNames acc)
                         else result)
           in result @ ls_after acc))"

section \<open>Data centers\<close>

type_synonym errorsMap = "string list gomap"

definition configurationError :: go_error where
  "configurationError = Err ''configuration error occurred''"

definition getTrimmedSlice :: "string \<Rightarrow> string list" where
  "getTrimmedSlice source = map strings_Trim (strings_Split source (CHR '',''))"

definition addMessageToErrorMap :: "string \<Rightarrow> string \<Rightarrow> errorsMap \<Rightarrow> errorsMap" where
  "addMessageToErrorMap key message m =
     (case map_of m key of None \<Rightarrow> m | Some valueSlice \<Rightarrow> mput key (valueSlice @ [message]) m)"

text \<open>Report a configuration error under a key and fail.\<close>

definition fail_dc :: "string \<Rightarrow> string \<Rightarrow> (errorsMap, 'a) eff" where
  "fail_dc key message = thenE (modifyE (addMessageToErrorMap key message)) (throwE configurationError)"

fun kmm_contains :: "string \<Rightarrow> string list \<Rightarrow> bool" where
  "kmm_contains value [] = False"
| "kmm_contains value (tmp # rest) = (if value = tmp then True else kmm_contains value rest)"

definition checkTargetDc :: "string list \<Rightarrow> string list option \<Rightarrow> string set \<Rightarrow> (errorsMap, unit) eff" where
  "checkTargetDc crDc configMapDc clustersSet =
     (case configMapDc of
        None \<Rightarrow> forE crDc (\<lambda>dc. if dc \<notin> clustersSet then
            fail_dc ''targetDc'' (dc @ '' - neither 'target.dc' property nor 'clusters' property contains current target dc'')
          else returnE ())
      | Some dcs \<Rightarrow> forE crDc (\<lambda>cr. if \<not> kmm_contains cr dcs then
            fail_dc ''targetDc'' (cr @ '' - target.dc property does not contain target dc'')
          else returnE ()))"

definition recognizeTargetAndSourceDc :: "kmmTopics \<Rightarrow> prop_value gomap \<Rightarrow>
    (errorsMap, string list \<times> string list) eff" where
  "recognizeTargetAndSourceDc spec properties =
     (let targetDcCM = (case map_of properties ''target.dc'' of
              None \<Rightarrow> None | Some (PString value) \<Rightarrow> Some [value] | Some (PSlice value) \<Rightarrow> Some value)
      in case map_of properties ''clusters'' of
           Some (PSlice clusters) \<Rightarrow>
             bindE (if kt_TargetDc spec \<noteq> [] then
                      (let targetDcCr = getTrimmedSlice (kt_TargetDc spec)
                       in thenE (checkTargetDc targetDcCr targetDcCM (set clusters)) (returnE targetDcCr))
                    else (case targetDcCM of
                        Some dcs \<Rightarrow> returnE dcs
                      | None \<Rightarrow> fail_dc ''targetDc'' ''Can not resolve target data center''))
               (\<lambda>targetDc.
                  if kt_SourceDc spec \<noteq> [] then
                    (let sourceDcCr = getTrimmedSlice (kt_SourceDc spec)
                     in thenE (forE sourceDcCr (\<lambda>dc. if dc \<notin> set clusters then
                            fail_dc ''sourceDc'' (dc @ '' - 'clusters' property does not contain current source dc'')
                          else returnE ()))
                          (returnE (targetDc, sourceDcCr)))
                  else returnE (targetDc, filter (\<lambda>dc. \<not> kmm_contains dc targetDc) clusters))
         | _ \<Rightarrow> throwE Panic)"

section \<open>The new content\<close>

definition getDcPairs :: "string list \<Rightarrow> string list \<Rightarrow> string list" where
  "getDcPairs targetDc sourceDc =
     concat (map (\<lambda>source. map (NewReplicationFlow source) (filter (\<lambda>target. source \<noteq> target) targetDc)) sourceDc)"

definition makeSlice :: "prop_value \<Rightarrow> string list" where
  "makeSlice v = (case v of PString value \<Rightarrow> [value] | PSlice value \<Rightarrow> value)"

definition mergeTopics :: "string list \<Rightarrow> string list \<Rightarrow> string" where
  "mergeTopics oldTopics newTopics =
     strings_Join (oldTopics @ filter (\<lambda>newTopic. newTopic \<notin> set oldTopics) newTopics) '',''"

record contentUpdate =
  cu_turnOnReplicationPairs :: "string list"
  cu_updateTopicLines :: "string gomap"
  cu_newLines :: "string list"

text \<open>One round of the loop over the pairs; \<open>value.(string)\<close> panics on a value with a comma.\<close>

definition update_pair :: "prop_value gomap \<Rightarrow> string \<Rightarrow> string \<Rightarrow> contentUpdate \<Rightarrow> go_error + contentUpdate" where
  "update_pair properties topics pair cu =
     (let enabledPair = pair @ ''.enabled''; topicsPair = pair @ ''.topics''
      in case (case map_of properties enabledPair of
            Some (PSlice _) \<Rightarrow> Inl Panic
          | Some (PString value) \<Rightarrow> Inr (if value = ''false''
              then cu\<lparr>cu_turnOnReplicationPairs := cu_turnOnReplicationPairs cu @ [enabledPair]\<rparr> else cu)
          | None \<Rightarrow> Inr (cu\<lparr>cu_newLines := cu_newLines cu @ [enabledPair @ '' = true'']\<rparr>)) of
        Inl e \<Rightarrow> Inl e
      | Inr cu \<Rightarrow> Inr (case map_of properties topicsPair of
            Some existsTopics \<Rightarrow> cu\<lparr>cu_updateTopicLines := mput topicsPair
                (mergeTopics (makeSlice existsTopics) (getTrimmedSlice topics)) (cu_updateTopicLines cu)\<rparr>
          | None \<Rightarrow> cu\<lparr>cu_newLines := cu_newLines cu @ [topicsPair @ '' = '' @ topics]\<rparr>))"

fun update_pairs :: "prop_value gomap \<Rightarrow> string \<Rightarrow> string list \<Rightarrow> contentUpdate \<Rightarrow> go_error + contentUpdate" where
  "update_pairs properties topics [] cu = Inr cu"
| "update_pairs properties topics (pair # pairs) cu =
     (case update_pair properties topics pair cu of
        Inl e \<Rightarrow> Inl e | Inr cu \<Rightarrow> update_pairs properties topics pairs cu)"

definition getUpdatedContent :: "string list \<Rightarrow> string list \<Rightarrow> prop_value gomap \<Rightarrow> string \<Rightarrow>
    go_error + (string list \<times> string gomap \<times> string)" where
  "getUpdatedContent targetDc sourceDc properties topics =
     (case update_pairs properties topics (getDcPairs targetDc sourceDc)
        \<lparr>cu_turnOnReplicationPairs = [], cu_updateTopicLines = [], cu_newLines = []\<rparr> of
        Inl e \<Rightarrow> Inl e
      | Inr cu \<Rightarrow> Inr (cu_turnOnReplicationPairs cu, cu_updateTopicLines cu, strings_Join (cu_newLines cu) ''\<newline>''))"

definition replace_lines :: "string \<Rightarrow> string \<Rightarrow> string list \<Rightarrow> string list" where
  "replace_lines key newLine lines = map (\<lambda>line. if strings_HasPrefix line key then newLine else line) lines"

definition setEnabledReplication :: "string list \<Rightarrow> string list \<Rightarrow> string list" where
  "setEnabledReplication turnOnReplicationPairs cmLines =
     fold (\<lambda>enabledReplication. replace_lines enabledReplication (enabledReplication @ '' = true''))
       turnOnReplicationPairs cmLines"

definition updateTopics :: "string gomap \<Rightarrow> string list \<Rightarrow> string list" where
  "updateTopics topicsUpdatePairs cmLines =
     fold (\<lambda>(key, value). replace_lines key (key @ '' = '' @ value)) topicsUpdatePairs cmLines"

definition setNewProperties :: "string \<Rightarrow> string list \<Rightarrow> string list" where
  "setNewProperties updateContent cmLines =
     (let updateContentAsSlice = strings_Split updateContent (CHR ''\<newline>'');
          isBlackList = (\<lambda>line. strings_HasPrefix line ''topics.blacklist'')
      in if \<exists>line\<in>set cmLines. isBlackList line
         then takeWhile (\<lambda>l. \<not> isBlackList l) cmLines @ updateContentAsSlice @ dropWhile (\<lambda>l. \<not> isBlackList l) cmLines
         else cmLines @ updateContentAsSlice)"

text \<open>\<open>iter\<close> is the order in which the loop of \<open>updateTopics\<close> visits the map.\<close>

definition setUpdatedContent :: "(string gomap \<Rightarrow> string gomap) \<Rightarrow> string list \<Rightarrow> string gomap \<Rightarrow> string \<Rightarrow> string \<Rightarrow>
    string list" where
  "setUpdatedContent iter turnOnReplicationPairs topicsUpdatePairs updateContent configMapContent =
     (let cmLines = strings_Split configMapContent (CHR ''\<newline>'');
          cmLines = setEnabledReplication turnOnReplicationPairs cmLines;
          cmLines = updateTopics (iter topicsUpdatePairs) cmLines
      in if updateContent \<noteq> [] then setNewProperties updateContent cmLines else cmLines)"

section \<open>The controller\<close>

definition ReplicationPolicyClassConfig :: string where
  "ReplicationPolicyClassConfig = ''replication.policy.class''"

definition IdentityReplicationPolicy :: string where
  "IdentityReplicationPolicy = ''io.strimzi.kafka.connect.mirror.IdentityReplicationPolicy''"

text \<open>The new lines of the configuration, transformations included.\<close>

definition new_config_lines :: "(string gomap \<Rightarrow> string gomap) \<Rightarrow> kmmConfig \<Rightarrow> kmmTopics \<Rightarrow> prop_value gomap \<Rightarrow> string \<Rightarrow>
    string list \<Rightarrow> string list \<Rightarrow> go_error + string list" where
  "new_config_lines iter instnce spec properties configMapContent targetClusterNames sourceClusterNames =
     (case getUpdatedContent targetClusterNames sourceClusterNames properties (kt_Topics spec) of
        Inl e \<Rightarrow> Inl e
      | Inr (turnOnReplicationPairs, topicsUpdatePairs, updateContent) \<Rightarrow>
          (let replicationConfig = setUpdatedContent iter turnOnReplicationPairs topicsUpdatePairs updateContent configMapContent;
               identityReplicationEnabled =
                 (map_of properties ReplicationPolicyClassConfig = Some (PString IdentityReplicationPolicy));
               tc = NewTransformationConfigurator (kt_Transformation spec)
                      (obj_Name instnce @ ''_'' @ obj_Namespace instnce @ ''_'')
           in Inr (fold (\<lambda>source config. fold (\<lambda>target config.
                  if source \<noteq> target
                  then UpdateTransformationProperties tc config source target identityReplicationEnabled
                  else config) targetClusterNames config) sourceClusterNames replicationConfig)))"

definition UpdateKmmConfigMap :: "'w kubeClient \<Rightarrow> operatorEnv \<Rightarrow> (string gomap \<Rightarrow> string gomap) \<Rightarrow> kmmConfig \<Rightarrow>
    (errorsMap \<times> 'w, unit) eff" where
  "UpdateKmmConfigMap k env iter instnce =
     (case kmm_KmmTopics instnce of
        None \<Rightarrow> throwE Panic
      | Some spec \<Rightarrow>
          bindE (liftE (GetKmmConfigMapName (OPERATOR_NAME env))) (\<lambda>name.
          bindE (on_snd (c_Get (k_configMaps k) name (OPERATOR_NAMESPACE env))) (\<lambda>kmmConfigMap.
          let configMapContent = mstr (cm_Data kmmConfigMap) ''config'' in
          bindE (liftE (GetProperties configMapContent)) (\<lambda>properties.
          bindE (on_fst (recognizeTargetAndSourceDc spec properties)) (\<lambda>(targetClusterNames, sourceClusterNames).
          bindE (liftE (new_config_lines iter instnce spec properties configMapContent targetClusterNames sourceClusterNames))
            (\<lambda>replicationConfig.
               on_snd (c_Update (k_configMaps k) (kmmConfigMap\<lparr>cm_Data :=
                 mput ''config'' (strings_Join replicationConfig ''\<newline>'') (cm_Data kmmConfigMap)\<rparr>))))))))"

definition generateErrorMessage :: "bool \<Rightarrow> errorsMap \<Rightarrow> string" where
  "generateErrorMessage failed errorsMap =
     (let errs = (\<lambda>key. strings_Join (case map_of errorsMap key of None \<Rightarrow> [] | Some es \<Rightarrow> es) ''\<newline>'');
          message = (if failed then ''topics were not added'' else []);
          targetErrs = errs ''targetDc'';
          message = (if targetErrs \<noteq> [] then message @ ''; Problem target dc: '' @ targetErrs else message);
          sourceErrs = errs ''targetDc''
      in if sourceErrs \<noteq> [] then message @ ''; Problem source dc: '' @ sourceErrs else message)"

definition updateCrStatus :: "(kmmConfig \<Rightarrow> ('w, unit) eff) \<Rightarrow> kmmConfig \<Rightarrow> bool \<Rightarrow> errorsMap \<Rightarrow> ('w, unit) eff" where
  "updateCrStatus updateStatus instnce failed errorsMap =
     updateStatus (instnce\<lparr>kmm_IsProcessed := True, kmm_ProblemTopics := generateErrorMessage failed errorsMap\<rparr>)"

text \<open>
  \<open>getKmm\<close> and \<open>updateStatus\<close> are the client's operations on \<open>KmmConfig\<close> resources. A panic in
  \<open>UpdateKmmConfigMap\<close> ends the call.
\<close>

definition kmm_Reconcile :: "'w kubeClient \<Rightarrow> (string \<Rightarrow> string \<Rightarrow> ('w, kmmConfig) eff) \<Rightarrow> (kmmConfig \<Rightarrow> ('w, unit) eff) \<Rightarrow>
    operatorEnv \<Rightarrow> (string gomap \<Rightarrow> string gomap) \<Rightarrow> string \<Rightarrow> string \<Rightarrow> string \<Rightarrow> ('w, reconcileResult) eff" where
  "kmm_Reconcile k getKmm updateStatus env iter apiGroup name namespace =
     tryE (getKmm name namespace)
       (\<lambda>err. if IsNotFound err then returnE done_result else throwE err)
       (\<lambda>instnce.
          if \<not> ApiGroupMatches (kmm_APIVersion instnce) apiGroup then returnE done_result
          else (\<lambda>w. case UpdateKmmConfigMap k env iter instnce ([(''sourceDc'', []), (''targetDc'', [])], w) of
              (Inl Panic, (_, w)) \<Rightarrow> (Inl Panic, w)
            | (r, (errorsMap, w)) \<Rightarrow>
                tryE (updateCrStatus updateStatus instnce (isl r) errorsMap)
                  (\<lambda>_. returnE \<lparr>rr_RequeueAfter = KMM_CONFIG_RECONCILE_PERIOD_SECONDS env\<rparr>)
                  (\<lambda>_. returnE (if isl r then \<lparr>rr_RequeueAfter = KMM_CONFIG_RECONCILE_PERIOD_SECONDS env\<rparr>
                                else done_result)) w))"

text \<open>The predicate of \<open>SetupWithManager\<close>: an update event passes when the generation changed, a
  deletion when the final state is known.\<close>

definition kmm_UpdateFunc :: "int \<Rightarrow> int \<Rightarrow> bool" where
  "kmm_UpdateFunc oldGeneration newGeneration \<longleftrightarrow> oldGeneration \<noteq> newGeneration"

definition kmm_DeleteFunc :: "bool \<Rightarrow> bool" where
  "kmm_DeleteFunc deleteStateUnknown \<longleftrightarrow> \<not> deleteStateUnknown"

section \<open>Replacing the line of a property\<close>

text \<open>A key owns its lines: the lines that start with it are exactly those that set it.\<close>

definition owns :: "string \<Rightarrow> string list \<Rightarrow> bool" where
  "owns key rows \<longleftrightarrow> (\<forall>row\<in>set rows. strings_HasPrefix row key \<longleftrightarrow> (\<exists>x. row_entry row = Some [(key, x)]))"

lemma owns_code [code]:
  "owns key rows \<longleftrightarrow> list_all (\<lambda>row. strings_HasPrefix row key \<longleftrightarrow>
     (case row_entry row of Some [(k, x)] \<Rightarrow> k = key | _ \<Rightarrow> False)) rows"
proof -
  have "(case row_entry row of Some [(k, x)] \<Rightarrow> k = key | _ \<Rightarrow> False) \<longleftrightarrow> (\<exists>x. row_entry row = Some [(key, x)])"
    for row
    by (auto split: option.splits list.splits)
  then show ?thesis by (simp add: owns_def list_all_iff)
qed

lemma replace_lines_simps [simp]:
  "replace_lines key new [] = []"
  "replace_lines key new (r # rs) = (if strings_HasPrefix r key then new else r) # replace_lines key new rs"
  by (simp_all add: replace_lines_def)

lemma replace_lines_readable:
  "readable rows \<Longrightarrow> row_entry new \<noteq> None \<Longrightarrow> readable (replace_lines key new rows)"
  by (induction rows) auto

lemma replace_lines_lookup:
  assumes "owns key rows" "row_entry new = Some [(key, v)]"
  shows "file_lookup (replace_lines key new rows) k =
    (if k = key \<and> file_lookup rows key \<noteq> None then Some v else file_lookup rows k)"
  using assms(1)
proof (induction rows)
  case (Cons row rows)
  from Cons.prems have own: "owns key rows"
    and row: "strings_HasPrefix row key \<longleftrightarrow> (\<exists>x. row_entry row = Some [(key, x)])"
    by (auto simp: owns_def)
  note IH = Cons.IH[OF own]
  show ?case
  proof (cases rule: row_entry_cases[of row])
    case (3 k' x)
    then have "strings_HasPrefix row key \<longleftrightarrow> k' = key" using row by auto
    then show ?thesis using 3 IH assms(2) by (auto split: option.splits if_splits)
  qed (use row IH assms(2) in \<open>auto split: option.splits if_splits\<close>)
qed simp

lemma prefix_no_space:
  assumes "CHR '' '' \<notin> set p" "strings_HasPrefix (a @ CHR '' '' # b) p"
  shows "strings_HasPrefix a p"
proof -
  have take: "take (length p) (a @ CHR '' '' # b) = p"
    using assms(2) by (simp add: strings_HasPrefix_def)
  have "length p \<le> length a"
  proof (rule ccontr)
    assume "\<not> length p \<le> length a"
    then have "p ! length a = CHR '' ''" "length a < length p"
      using arg_cong[OF take, of "\<lambda>s. s ! length a"] by (auto simp: nth_append)
    then show False using assms(1) by (metis nth_mem)
  qed
  with take show ?thesis by (simp add: strings_HasPrefix_def)
qed

lemma property_line_prefix [simp]: "strings_HasPrefix (property_line (key, v)) key"
  by (simp add: property_line_def)

lemma owns_replace:
  assumes "owns key rows" "owns key' rows" "key \<noteq> key'" "plain_key key" "plain_key key'" "plain_value v"
  shows "owns key' (replace_lines key (property_line (key, v)) rows)"
proof (cases "\<exists>row\<in>set rows. strings_HasPrefix row key")
  case False
  then have "replace_lines key (property_line (key, v)) rows = rows"
    by (auto simp: replace_lines_def intro!: map_idI)
  then show ?thesis using assms(2) by simp
next
  case True
  then obtain row x where row: "row \<in> set rows" "strings_HasPrefix row key" "row_entry row = Some [(key, x)]"
    using assms(1) by (auto simp: owns_def)
  have "\<not> strings_HasPrefix (property_line (key, v)) key'"
  proof
    assume "strings_HasPrefix (property_line (key, v)) key'"
    then have "strings_HasPrefix key key'"
      using prefix_no_space[of key' key "''= '' @ v"] assms(5) by (auto simp: property_line_def plain_key_def)
    then have "strings_HasPrefix row key'"
      using row(2) by (meson HasPrefix_prefix prefix_order.trans)
    then show False using assms(2,3) row by (auto simp: owns_def)
  qed
  then show ?thesis
    using assms by (auto simp: owns_def replace_lines_def row_entry_property_line)
qed

lemma owns_replace_self:
  assumes "owns key rows" "plain_key key" "plain_value v"
  shows "owns key (replace_lines key (property_line (key, v)) rows)"
  using assms by (auto simp: owns_def replace_lines_def row_entry_property_line)

text \<open>Several replacements, one for each key of an association list.\<close>

definition replace_all :: "string gomap \<Rightarrow> string list \<Rightarrow> string list" where
  "replace_all kvs rows = fold (\<lambda>(key, value). replace_lines key (property_line (key, value))) kvs rows"

lemma replace_all_lookup:
  assumes "readable rows" "wf_map kvs" "\<forall>(k, v)\<in>set kvs. plain_key k \<and> plain_value v \<and> owns k rows"
    and "\<forall>k\<in>K. plain_key k \<and> owns k rows"
  shows "readable (replace_all kvs rows)
    \<and> (\<forall>k. file_lookup (replace_all kvs rows) k =
        (case map_of kvs k of
           Some v \<Rightarrow> if file_lookup rows k \<noteq> None then Some (getTrimmedPropertyValue v) else None
         | None \<Rightarrow> file_lookup rows k))
    \<and> (\<forall>k\<in>K. owns k (replace_all kvs rows))"
  using assms
proof (induction kvs arbitrary: rows)
  case (Cons kv kvs)
  obtain key v where kv: "kv = (key, v)" by fastforce
  let ?rows = "replace_lines key (property_line (key, v)) rows"
  from Cons.prems kv have key: "plain_key key" "plain_value v" "owns key rows" by auto
  note entry = row_entry_property_line[OF key(1,2)]
  have 1: "readable ?rows"
    using Cons.prems(1) entry by (simp add: replace_lines_readable)
  have 2: "\<forall>(k, v)\<in>set kvs. plain_key k \<and> plain_value v \<and> owns k ?rows"
  proof (intro ballI, clarify)
    fix k u
    assume "(k, u) \<in> set kvs"
    moreover from this have "k \<noteq> key" using Cons.prems(2) kv by force
    ultimately have "plain_key k" "plain_value u" "owns k rows" "key \<noteq> k" using Cons.prems(3) by auto
    then show "plain_key k \<and> plain_value u \<and> owns k ?rows"
      using owns_replace[OF key(3) _ _ key(1)] key(2) by blast
  qed
  have 3: "\<forall>k\<in>K. plain_key k \<and> owns k ?rows"
  proof
    fix k
    assume "k \<in> K"
    with Cons.prems(4) key show "plain_key k \<and> owns k ?rows"
      by (cases "k = key") (auto intro: owns_replace owns_replace_self)
  qed
  have none: "map_of kvs key = None" using Cons.prems(2) kv by (auto simp: map_of_eq_None_iff)
  have wf: "wf_map kvs" using Cons.prems(2) kv by simp
  from Cons.IH[OF 1 wf 2 3] none kv show ?case
    by (auto simp: replace_all_def replace_lines_lookup[OF key(3) entry] split: option.splits)
qed (auto simp: replace_all_def)

section \<open>Topics\<close>

lemma makeSlice_trimmed: "makeSlice (getTrimmedPropertyValue s) = getTrimmedSlice s"
proof (cases "CHR '','' \<in> set s")
  case True
  then have "length (strings_Split s (CHR '','')) \<noteq> 1"
    by (metis Join_Split Split_pieces length_0_conv length_Suc_conv list.set_intros(1) One_nat_def strings_Join.simps(2))
  then show ?thesis by (simp add: makeSlice_def getTrimmedPropertyValue_def getTrimmedSlice_def Let_def)
next
  case False
  then show ?thesis by (simp add: makeSlice_def getTrimmedPropertyValue_def getTrimmedSlice_def Let_def)
qed

lemma getTrimmedSlice_Join:
  "xs \<noteq> [] \<Longrightarrow> \<forall>x\<in>set xs. CHR '','' \<notin> set x \<Longrightarrow> getTrimmedSlice (strings_Join xs '','') = map strings_Trim xs"
  by (simp add: getTrimmedSlice_def Split_Join)

lemma getTrimmedSlice_pieces:
  assumes "x \<in> set (getTrimmedSlice s)"
  shows "CHR '','' \<notin> set x" "strings_Trim x = x" "set x \<subseteq> set s"
proof -
  from assms obtain p where p: "p \<in> set (strings_Split s (CHR '',''))" "x = strings_Trim p"
    by (auto simp: getTrimmedSlice_def)
  have sub: "set x \<subseteq> set p" using trim_by_subset p(2) by (fastforce simp: strings_Trim_def)
  show "CHR '','' \<notin> set x" using Split_pieces[OF p(1)] sub by auto
  show "strings_Trim x = x" by (simp add: p(2))
  show "set x \<subseteq> set s" using Split_subset[OF p(1)] sub by blast
qed

text \<open>Values as a file holds them: comma-free trimmed pieces.\<close>

definition read_value :: "prop_value \<Rightarrow> bool" where
  "read_value v \<longleftrightarrow> makeSlice v \<noteq> [] \<and> (\<forall>x\<in>set (makeSlice v).
     CHR '','' \<notin> set x \<and> strings_Trim x = x \<and> plain_value x)"

lemma getTrimmedSlice_ne [simp]: "getTrimmedSlice s \<noteq> []"
  by (simp add: getTrimmedSlice_def)

lemma trimmed_read_value: "plain_value s \<Longrightarrow> read_value (getTrimmedPropertyValue s)"
  using getTrimmedSlice_pieces[of _ s] by (fastforce simp: read_value_def makeSlice_trimmed plain_value_def)

lemma row_entry_read_value:
  assumes "row_entry row = Some [(k, v)]" "CHR ''\<newline>'' \<notin> set row"
  shows "read_value v"
proof -
  from assms(1) obtain a b rest where split: "strings_Split row (CHR ''='') = a # b # rest"
    and v: "v = getTrimmedPropertyValue b"
    by (auto simp: row_entry_def split: if_splits list.splits)
  have "CHR ''='' \<notin> set b" using Split_pieces[of b row "CHR ''=''"] split by simp
  moreover have "set b \<subseteq> set row"
    using Split_subset[of b row "CHR ''=''"] split by simp
  ultimately show ?thesis using assms(2) v by (auto intro!: trimmed_read_value simp: plain_value_def)
qed

lemma file_lookup_read_value:
  "file_lookup rows k = Some v \<Longrightarrow> \<forall>row\<in>set rows. CHR ''\<newline>'' \<notin> set row \<Longrightarrow> read_value v"
proof (induction rows)
  case (Cons row rows)
  show ?case
  proof (cases "file_lookup rows k")
    case None
    with Cons.prems obtain es where es: "row_entry row = Some es" "map_of es k = Some v"
      by (auto split: option.splits)
    then show ?thesis
      using row_entry_read_value[of row] Cons.prems(2) by (cases rule: row_entry_cases[of row]) (auto split: if_splits)
  qed (use Cons in auto)
qed simp

lemma plain_Join: "\<forall>x\<in>set xs. plain_value x \<Longrightarrow> plain_value (strings_Join xs '','')"
  by (induction xs "'',''" rule: strings_Join.induct) (auto simp: plain_value_def)

lemma merged_topics:
  assumes "read_value old" "plain_value topics"
  defines "merged \<equiv> mergeTopics (makeSlice old) (getTrimmedSlice topics)"
  shows "plain_value merged"
    "makeSlice (getTrimmedPropertyValue merged) =
       makeSlice old @ filter (\<lambda>t. t \<notin> set (makeSlice old)) (getTrimmedSlice topics)"
proof -
  let ?all = "makeSlice old @ filter (\<lambda>t. t \<notin> set (makeSlice old)) (getTrimmedSlice topics)"
  have all: "\<forall>x\<in>set ?all. CHR '','' \<notin> set x \<and> strings_Trim x = x \<and> plain_value x"
    using assms(1,2) getTrimmedSlice_pieces[of _ topics] by (fastforce simp: read_value_def plain_value_def)
  then show "plain_value merged" unfolding merged_def mergeTopics_def by (auto intro!: plain_Join)
  have "getTrimmedSlice merged = map strings_Trim ?all"
    unfolding merged_def mergeTopics_def using all assms(1)
    by (intro getTrimmedSlice_Join) (auto simp: read_value_def)
  also have "\<dots> = ?all" using all by (auto intro!: map_idI)
  finally show "makeSlice (getTrimmedPropertyValue merged) = ?all" by (simp add: makeSlice_trimmed)
qed

section \<open>The update of the content\<close>

definition on_pairs :: "prop_value gomap \<Rightarrow> string list \<Rightarrow> string list" where
  "on_pairs properties pairs = filter (\<lambda>key. map_of properties key = Some (PString ''false''))
     (map (\<lambda>pair. pair @ ''.enabled'') pairs)"

definition topic_updates :: "prop_value gomap \<Rightarrow> string \<Rightarrow> string list \<Rightarrow> string gomap" where
  "topic_updates properties topics pairs =
     map (\<lambda>key. (key, mergeTopics (makeSlice (the (map_of properties key))) (getTrimmedSlice topics)))
       (filter (\<lambda>key. map_of properties key \<noteq> None) (map (\<lambda>pair. pair @ ''.topics'') pairs))"

definition new_entries :: "prop_value gomap \<Rightarrow> string \<Rightarrow> string list \<Rightarrow> string gomap" where
  "new_entries properties topics pairs = filter (\<lambda>(key, v). map_of properties key = None)
     (concat (map (\<lambda>pair. [(pair @ ''.enabled'', ''true''), (pair @ ''.topics'', topics)]) pairs))"

lemma mput_fresh: "k \<notin> fst ` set m \<Longrightarrow> mput k v m = m @ [(k, v)]"
  by (induction m) auto

lemma update_pairs_closed:
  "distinct pairs \<Longrightarrow> (\<forall>pair\<in>set pairs. pair @ ''.topics'' \<notin> fst ` set (cu_updateTopicLines cu)) \<Longrightarrow>
   update_pairs properties topics pairs cu = Inr cu' \<Longrightarrow>
   cu' = cu\<lparr>cu_turnOnReplicationPairs := cu_turnOnReplicationPairs cu @ on_pairs properties pairs,
     cu_updateTopicLines := cu_updateTopicLines cu @ topic_updates properties topics pairs,
     cu_newLines := cu_newLines cu @ map property_line (new_entries properties topics pairs)\<rparr>"
proof (induction pairs arbitrary: cu)
  case (Cons pair pairs)
  from Cons.prems(3) obtain cu1 where cu1: "update_pair properties topics pair cu = Inr cu1"
    and rest: "update_pairs properties topics pairs cu1 = Inr cu'"
    by (auto split: sum.splits)
  have one: "cu1 = cu\<lparr>cu_turnOnReplicationPairs := cu_turnOnReplicationPairs cu @ on_pairs properties [pair],
     cu_updateTopicLines := cu_updateTopicLines cu @ topic_updates properties topics [pair],
     cu_newLines := cu_newLines cu @ map property_line (new_entries properties topics [pair])\<rparr>"
    using cu1 Cons.prems(2)
    by (auto simp: update_pair_def Let_def on_pairs_def topic_updates_def new_entries_def property_line_def
        mput_fresh split: option.splits prop_value.splits if_splits sum.splits)
  have "\<forall>q\<in>set pairs. q @ ''.topics'' \<notin> fst ` set (cu_updateTopicLines cu1)"
    using Cons.prems(1,2) one by (auto simp: topic_updates_def)
  from Cons.IH[OF _ this rest] Cons.prems(1) one show ?case
    by (simp add: on_pairs_def topic_updates_def new_entries_def)
qed (simp add: on_pairs_def topic_updates_def new_entries_def)

lemma getUpdatedContent_closed:
  assumes "distinct (getDcPairs targets sources)"
    and "getUpdatedContent targets sources properties topics = Inr (on, upd, new)"
  defines "pairs \<equiv> getDcPairs targets sources"
  shows "on = on_pairs properties pairs" "upd = topic_updates properties topics pairs"
    "new = strings_Join (map property_line (new_entries properties topics pairs)) ''\<newline>''"
proof -
  let ?cu = "\<lparr>cu_turnOnReplicationPairs = [], cu_updateTopicLines = [], cu_newLines = []\<rparr>"
  from assms(2) obtain cu where "update_pairs properties topics pairs ?cu = Inr cu"
    and cu: "on = cu_turnOnReplicationPairs cu" "upd = cu_updateTopicLines cu" "new = strings_Join (cu_newLines cu) ''\<newline>''"
    by (auto simp: getUpdatedContent_def pairs_def split: sum.splits)
  from update_pairs_closed[OF assms(1)[folded pairs_def] _ this(1)] cu
  show "on = on_pairs properties pairs" "upd = topic_updates properties topics pairs"
    "new = strings_Join (map property_line (new_entries properties topics pairs)) ''\<newline>''"
    by auto
qed

lemma wf_topic_updates: "distinct pairs \<Longrightarrow> wf_map (topic_updates properties topics pairs)"
  by (simp add: topic_updates_def o_def distinct_map inj_on_def)

lemma map_of_topic_updates:
  "map_of (topic_updates properties topics pairs) k =
     (if k \<in> (\<lambda>pair. pair @ ''.topics'') ` set pairs \<and> map_of properties k \<noteq> None
      then Some (mergeTopics (makeSlice (the (map_of properties k))) (getTrimmedSlice topics)) else None)"
  by (auto simp: topic_updates_def map_of_map_restrict restrict_map_def)

lemma enabled_not_topics [simp]: "p @ ''.enabled'' \<noteq> q @ ''.topics''"
proof
  assume "p @ ''.enabled'' = q @ ''.topics''"
  then have "last (p @ ''.enabled'') = last (q @ ''.topics'')" by (rule arg_cong)
  then show False by simp
qed

lemmas topics_not_enabled [simp] = enabled_not_topics[symmetric]

lemma map_of_filter_key: "map_of (filter (\<lambda>(k, v). P k) xs) k = (if P k then map_of xs k else None)"
  by (induction xs) auto

lemma map_of_new_entries:
  "map_of (new_entries properties topics pairs) k =
     (if map_of properties k \<noteq> None then None
      else if k \<in> (\<lambda>pair. pair @ ''.enabled'') ` set pairs then Some ''true''
      else if k \<in> (\<lambda>pair. pair @ ''.topics'') ` set pairs then Some topics else None)"
  unfolding new_entries_def map_of_filter_key by (induction pairs) auto

lemma wf_new_entries: "distinct pairs \<Longrightarrow> wf_map (new_entries properties topics pairs)"
proof -
  assume d: "distinct pairs"
  have "wf_map (concat (map (\<lambda>pair. [(pair @ ''.enabled'', ''true''), (pair @ ''.topics'', topics)]) pairs))"
    using d by (induction pairs) auto
  then show ?thesis unfolding new_entries_def by (rule distinct_map_filter)
qed

lemma lookup_property_lines:
  "wf_map kvs \<Longrightarrow> \<forall>(k, v)\<in>set kvs. plain_key k \<and> plain_value v \<Longrightarrow>
   readable (map property_line kvs) \<and>
   file_lookup (map property_line kvs) k = map_option getTrimmedPropertyValue (map_of kvs k)"
proof (induction kvs)
  case (Cons kv kvs)
  obtain key v where kv: "kv = (key, v)" by fastforce
  have "map_of kvs key = None" using Cons.prems(1) kv by (auto simp: map_of_eq_None_iff)
  with Cons kv show ?case
    by (auto simp: row_entry_property_line split: option.splits)
qed simp

lemma setNewProperties_lookup:
  assumes "readable rows" "kvs \<noteq> []" "wf_map kvs" "\<forall>(k, v)\<in>set kvs. plain_key k \<and> plain_value v"
    and "\<forall>k\<in>fst ` set kvs. file_lookup rows k = None"
  defines "rows' \<equiv> setNewProperties (strings_Join (map property_line kvs) ''\<newline>'') rows"
  shows "readable rows'"
    "file_lookup rows' k = (case map_of kvs k of Some v \<Rightarrow> Some (getTrimmedPropertyValue v) | None \<Rightarrow> file_lookup rows k)"
    "set rows' = set rows \<union> set (map property_line kvs)" "rows' \<noteq> []"
proof -
  have "\<forall>l\<in>set (map property_line kvs). CHR ''\<newline>'' \<notin> set l"
    using assms(4) by (auto simp: property_line_def plain_key_def plain_value_def)
  then have split: "strings_Split (strings_Join (map property_line kvs) ''\<newline>'') (CHR ''\<newline>'') = map property_line kvs"
    using assms(2) by (intro Split_Join) auto
  obtain A B where AB: "rows = A @ B" "rows' = A @ map property_line kvs @ B"
  proof (cases "\<exists>line\<in>set rows. strings_HasPrefix line ''topics.blacklist''")
    case True
    then show ?thesis
      using that[of "takeWhile (\<lambda>l. \<not> strings_HasPrefix l ''topics.blacklist'') rows"
          "dropWhile (\<lambda>l. \<not> strings_HasPrefix l ''topics.blacklist'') rows"]
      by (simp add: rows'_def setNewProperties_def split)
  next
    case False
    then show ?thesis using that[of rows "[]"] by (simp add: rows'_def setNewProperties_def split)
  qed
  note new = lookup_property_lines[OF assms(3,4)]
  show "readable rows'" using assms(1) new AB by simp
  show "set rows' = set rows \<union> set (map property_line kvs)" "rows' \<noteq> []"
    using AB assms(2) by auto
  show "file_lookup rows' k = (case map_of kvs k of Some v \<Rightarrow> Some (getTrimmedPropertyValue v) | None \<Rightarrow> file_lookup rows k)"
  proof (cases "map_of kvs k")
    case None
    then show ?thesis using new[of k] by (simp add: AB file_lookup_append split: option.splits)
  next
    case (Some v)
    then have "file_lookup rows k = None" using assms(5) by (force dest: map_of_SomeD)
    then have "file_lookup B k = None" by (auto simp: AB file_lookup_append split: option.splits)
    then show ?thesis using Some new[of k] by (simp add: AB file_lookup_append)
  qed
qed

text \<open>The keys the update of a list of pairs is about, and a file in which each of them owns its lines.\<close>

definition pair_keys :: "string list \<Rightarrow> string set" where
  "pair_keys pairs = (\<lambda>pair. pair @ ''.enabled'') ` set pairs \<union> (\<lambda>pair. pair @ ''.topics'') ` set pairs"

definition clean_file :: "string list \<Rightarrow> string list \<Rightarrow> bool" where
  "clean_file pairs rows \<longleftrightarrow> (\<forall>pair\<in>set pairs. plain_key pair) \<and> (\<forall>k\<in>pair_keys pairs. owns k rows)"

lemma pair_keys_plain: "clean_file pairs rows \<Longrightarrow> k \<in> pair_keys pairs \<Longrightarrow> plain_key k"
  by (auto simp: clean_file_def pair_keys_def plain_key_def)

lemma setEnabled_replace_all:
  "setEnabledReplication keys rows = replace_all (map (\<lambda>k. (k, ''true'')) keys) rows"
  by (simp add: setEnabledReplication_def replace_all_def fold_map property_line_def o_def)

lemma updateTopics_replace_all: "updateTopics kvs rows = replace_all kvs rows"
  by (simp add: updateTopics_def replace_all_def property_line_def)

lemma enabled_phase:
  assumes "readable rows" "clean_file pairs rows" "distinct pairs" "map_of properties = file_lookup rows"
  defines "rows1 \<equiv> setEnabledReplication (on_pairs properties pairs) rows"
  shows "readable rows1" "clean_file pairs rows1"
    "file_lookup rows1 k = (if k \<in> set (on_pairs properties pairs) then Some (PString ''true'') else file_lookup rows k)"
proof -
  let ?kvs = "map (\<lambda>k. (k, ''true'')) (on_pairs properties pairs)"
  have on: "set (on_pairs properties pairs) \<subseteq> pair_keys pairs"
    by (auto simp: on_pairs_def pair_keys_def)
  have "\<forall>(k, v)\<in>set ?kvs. plain_key k \<and> plain_value v \<and> owns k rows"
    using on assms(2) pair_keys_plain[OF assms(2)] by (auto simp: clean_file_def plain_value_def)
  moreover have "wf_map ?kvs"
    using assms(3) by (simp add: on_pairs_def o_def distinct_map inj_on_def)
  moreover have "\<forall>k\<in>pair_keys pairs. plain_key k \<and> owns k rows"
    using assms(2) pair_keys_plain[OF assms(2)] by (auto simp: clean_file_def)
  ultimately have r: "readable rows1 \<and> (\<forall>k. file_lookup rows1 k = (case map_of ?kvs k of
        Some v \<Rightarrow> if file_lookup rows k \<noteq> None then Some (getTrimmedPropertyValue v) else None
      | None \<Rightarrow> file_lookup rows k)) \<and> (\<forall>k\<in>pair_keys pairs. owns k rows1)"
    unfolding rows1_def setEnabled_replace_all by (intro replace_all_lookup[OF assms(1)])
  then show "readable rows1" "clean_file pairs rows1"
    using assms(2) by (auto simp: clean_file_def)
  have "getTrimmedPropertyValue ''true'' = PString ''true''" by code_simp
  then show "file_lookup rows1 k = (if k \<in> set (on_pairs properties pairs) then Some (PString ''true'') else file_lookup rows k)"
    using r assms(4) by (auto simp: map_of_map_restrict restrict_map_def on_pairs_def)
qed

lemma topics_phase:
  assumes "readable rows" "clean_file pairs rows" "distinct pairs" "plain_value topics"
    and props: "\<And>pair. file_lookup rows (pair @ ''.topics'') = map_of properties (pair @ ''.topics'')"
    and vals: "\<And>k v. map_of properties k = Some v \<Longrightarrow> read_value v"
    and iter: "mset kvs = mset (topic_updates properties topics pairs)"
  defines "rows2 \<equiv> updateTopics kvs rows"
  shows "readable rows2"
    "file_lookup rows2 k = (case map_of (topic_updates properties topics pairs) k of
        Some v \<Rightarrow> Some (getTrimmedPropertyValue v) | None \<Rightarrow> file_lookup rows k)"
proof -
  let ?upd = "topic_updates properties topics pairs"
  have wf: "wf_map kvs"
    using wf_topic_updates[OF assms(3)] iter by (metis mset_eq_imp_distinct_iff mset_map)
  have same: "map_of kvs = map_of ?upd"
    using iter wf_topic_updates[OF assms(3)] wf by (metis map_of_inject_set mset_eq_setD)
  have upd: "\<forall>(k, v)\<in>set ?upd. k \<in> pair_keys pairs \<and> plain_value v"
    using merged_topics(1)[OF vals assms(4)] by (auto simp: topic_updates_def pair_keys_def)
  have set: "set kvs = set ?upd" using iter by (rule mset_eq_setD)
  have keys: "\<forall>(k, v)\<in>set kvs. plain_key k \<and> plain_value v \<and> owns k rows"
    unfolding set using upd assms(2) pair_keys_plain[OF assms(2)] by (fastforce simp: clean_file_def)
  have "readable rows2 \<and> (\<forall>k. file_lookup rows2 k = (case map_of kvs k of
        Some v \<Rightarrow> if file_lookup rows k \<noteq> None then Some (getTrimmedPropertyValue v) else None
      | None \<Rightarrow> file_lookup rows k)) \<and> (\<forall>k\<in>{}. owns k rows2)"
    unfolding rows2_def updateTopics_replace_all by (rule replace_all_lookup[OF assms(1) wf keys]) simp
  then show "readable rows2"
    "file_lookup rows2 k = (case map_of ?upd k of
        Some v \<Rightarrow> Some (getTrimmedPropertyValue v) | None \<Rightarrow> file_lookup rows k)"
    using props by (auto simp: same map_of_topic_updates split: option.splits)
qed

lemma replace_all_lines:
  "length (replace_all kvs rows) = length rows \<and> set (replace_all kvs rows) \<subseteq> set rows \<union> property_line ` set kvs"
proof (induction kvs arbitrary: rows)
  case (Cons kv kvs)
  obtain k v where kv: "kv = (k, v)" by fastforce
  let ?rows = "replace_lines k (property_line (k, v)) rows"
  have "length ?rows = length rows" "set ?rows \<subseteq> set rows \<union> {property_line (k, v)}"
    by (auto simp: replace_lines_def)
  with Cons.IH[of ?rows] kv show ?case by (force simp: replace_all_def)
qed (simp add: replace_all_def)

lemma setUpdatedContent_lookup:
  assumes "readable (strings_Split content (CHR ''\<newline>''))"
    and "map_of properties = file_lookup (strings_Split content (CHR ''\<newline>''))"
    and "distinct pairs" "clean_file pairs (strings_Split content (CHR ''\<newline>''))" "plain_value topics"
    and "mset (iter (topic_updates properties topics pairs)) = mset (topic_updates properties topics pairs)"
  defines "rows' \<equiv> setUpdatedContent iter (on_pairs properties pairs) (topic_updates properties topics pairs)
      (strings_Join (map property_line (new_entries properties topics pairs)) ''\<newline>'') content"
  shows "readable rows' \<and> rows' \<noteq> [] \<and> (\<forall>row\<in>set rows'. CHR ''\<newline>'' \<notin> set row) \<and>
    (\<forall>k. file_lookup rows' k =
      (case map_of (new_entries properties topics pairs) k of
         Some v \<Rightarrow> Some (getTrimmedPropertyValue v)
       | None \<Rightarrow> (case map_of (topic_updates properties topics pairs) k of
             Some v \<Rightarrow> Some (getTrimmedPropertyValue v)
           | None \<Rightarrow> if k \<in> set (on_pairs properties pairs) then Some (PString ''true'') else map_of properties k)))"
proof -
  let ?rows = "strings_Split content (CHR ''\<newline>'')" and ?new = "new_entries properties topics pairs"
  let ?upd = "topic_updates properties topics pairs"
  define rows1 where "rows1 = setEnabledReplication (on_pairs properties pairs) ?rows"
  define rows2 where "rows2 = updateTopics (iter ?upd) rows1"
  note p1 = enabled_phase[OF assms(1,4,3,2), folded rows1_def]
  have nl: "\<forall>row\<in>set ?rows. CHR ''\<newline>'' \<notin> set row" using Split_pieces by blast
  have vals: "\<And>k v. map_of properties k = Some v \<Longrightarrow> read_value v"
    using file_lookup_read_value nl assms(2) by metis
  have "\<And>pair. file_lookup rows1 (pair @ ''.topics'') = map_of properties (pair @ ''.topics'')"
    using p1(3) assms(2) by (auto simp: on_pairs_def)
  note p2 = topics_phase[OF p1(1,2) assms(3,5) this vals assms(6), folded rows2_def]
  have plain: "\<forall>(k, v)\<in>set ?new. plain_key k \<and> plain_value v"
    using assms(4,5) by (auto simp: new_entries_def clean_file_def plain_key_def plain_value_def)
  have upd_plain: "\<forall>(k, v)\<in>set ?upd. plain_key k \<and> plain_value v"
    using merged_topics(1)[OF vals assms(5)] assms(4)
    by (auto simp: topic_updates_def clean_file_def plain_key_def)
  have lines: "\<forall>row\<in>set rows2. CHR ''\<newline>'' \<notin> set row" and ne: "rows2 \<noteq> []"
  proof -
    have "set (iter ?upd) = set ?upd" using assms(6) by (rule mset_eq_setD)
    then have sub: "set rows2 \<subseteq> set ?rows \<union> property_line ` set (map (\<lambda>k. (k, ''true'')) (on_pairs properties pairs))
        \<union> property_line ` set ?upd"
      and len: "length rows2 = length ?rows"
      using replace_all_lines[of "iter ?upd" rows1]
        replace_all_lines[of "map (\<lambda>k. (k, ''true'')) (on_pairs properties pairs)" ?rows]
      unfolding rows2_def rows1_def updateTopics_replace_all setEnabled_replace_all by auto
    have "\<forall>k\<in>set (on_pairs properties pairs). plain_key k"
      using assms(4) by (auto simp: on_pairs_def clean_file_def plain_key_def)
    with sub nl upd_plain show "\<forall>row\<in>set rows2. CHR ''\<newline>'' \<notin> set row"
      by (fastforce simp: property_line_def plain_key_def plain_value_def)
    show "rows2 \<noteq> []" using len by (metis Split_not_Nil length_0_conv)
  qed
  have l2: "file_lookup rows2 k = (case map_of ?upd k of Some v \<Rightarrow> Some (getTrimmedPropertyValue v)
      | None \<Rightarrow> if k \<in> set (on_pairs properties pairs) then Some (PString ''true'') else map_of properties k)" for k
    using p2(2) p1(3) assms(2) by (simp split: option.splits)
  show ?thesis
  proof (cases "?new = []")
    case True
    then have "rows' = rows2" by (simp add: rows'_def setUpdatedContent_def rows1_def rows2_def)
    with True p2(1) lines ne l2 show ?thesis by simp
  next
    case False
    have "strings_Join (map property_line ?new) ''\<newline>'' \<noteq> []"
      using False plain by (cases ?new; cases "tl ?new") (auto simp: property_line_def)
    then have rows': "rows' = setNewProperties (strings_Join (map property_line ?new) ''\<newline>'') rows2"
      by (simp add: rows'_def setUpdatedContent_def rows1_def rows2_def)
    have "\<forall>k\<in>fst ` set ?new. file_lookup rows2 k = None"
      using map_of_topic_updates[of properties topics pairs]
      by (auto simp: l2 new_entries_def on_pairs_def split: option.splits)
    note new = setNewProperties_lookup[OF p2(1) False wf_new_entries[OF assms(3)] plain this, folded rows']
    have "\<forall>l\<in>set (map property_line ?new). CHR ''\<newline>'' \<notin> set l"
      using plain by (auto simp: property_line_def plain_key_def plain_value_def)
    with new lines l2 show ?thesis by (auto split: option.splits)
  qed
qed

text \<open>
  C9. What the controller writes is what Mirror Maker reads. Take a configuration that can be read,
  in which the \<open>enabled\<close> and \<open>topics\<close> properties of the concerned flows own their lines. Reading the
  new content back succeeds and says: every flow between a source and a different target is
  enabled (at least not disabled), its topics are its former topics followed by the requested ones
  that were missing, and every other property has its former value. This holds for every order
  in which the map of updated topics is visited.
\<close>

theorem kmm_update_takes_effect:
  assumes "GetProperties content = Inr properties"
    and "pairs = getDcPairs targets sources" "distinct pairs"
    and "clean_file pairs (strings_Split content (CHR ''\<newline>''))" "plain_value topics"
    and "getUpdatedContent targets sources properties topics = Inr (on, upd, new)"
    and "mset (iter upd) = mset upd"
  shows "\<exists>properties'. GetProperties (strings_Join (setUpdatedContent iter on upd new content) ''\<newline>'') = Inr properties'
    \<and> (\<forall>pair\<in>set pairs.
         map_of properties' (pair @ ''.enabled'') \<notin> {None, Some (PString ''false'')}
         \<and> (\<exists>v. map_of properties' (pair @ ''.topics'') = Some v \<and> makeSlice v =
              (case map_of properties (pair @ ''.topics'') of
                 None \<Rightarrow> getTrimmedSlice topics
               | Some old \<Rightarrow> makeSlice old @ filter (\<lambda>t. t \<notin> set (makeSlice old)) (getTrimmedSlice topics))))
    \<and> (\<forall>key. key \<notin> pair_keys pairs \<longrightarrow> map_of properties' key = map_of properties key)"
proof -
  let ?rows = "strings_Split content (CHR ''\<newline>'')"
  let ?rows' = "setUpdatedContent iter on upd new content"
  have readable: "readable ?rows"
    using assms(1) read_rows_lookup(1) unfolding GetProperties_def by blast
  then have props: "map_of properties = file_lookup ?rows"
    using read_rows_file[of ?rows] assms(1) by (auto simp: GetProperties_def)
  note closed = getUpdatedContent_closed[OF assms(3)[unfolded assms(2)] assms(6), folded assms(2)]
  have l: "readable ?rows'" "?rows' \<noteq> []" "\<forall>row\<in>set ?rows'. CHR ''\<newline>'' \<notin> set row"
    "\<And>k. file_lookup ?rows' k = (case map_of (new_entries properties topics pairs) k of
         Some v \<Rightarrow> Some (getTrimmedPropertyValue v)
       | None \<Rightarrow> (case map_of (topic_updates properties topics pairs) k of
             Some v \<Rightarrow> Some (getTrimmedPropertyValue v)
           | None \<Rightarrow> if k \<in> set (on_pairs properties pairs) then Some (PString ''true'') else map_of properties k))"
    using setUpdatedContent_lookup[OF readable props assms(3,4,5), of iter] assms(7) unfolding closed by blast+
  obtain properties' where p': "GetProperties (strings_Join ?rows' ''\<newline>'') = Inr properties'"
    and look: "\<And>k. map_of properties' k = file_lookup ?rows' k"
    using read_rows_file[OF l(1)] Split_Join[OF l(2,3)] by (auto simp: GetProperties_def)
  have vals: "\<And>k v. map_of properties k = Some v \<Longrightarrow> read_value v"
    using file_lookup_read_value[of ?rows] Split_pieces props by metis
  have "map_of properties' (pair @ ''.enabled'') \<notin> {None, Some (PString ''false'')}" if "pair \<in> set pairs" for pair
  proof -
    have "getTrimmedPropertyValue ''true'' = PString ''true''" by code_simp
    with that show ?thesis
      by (cases "map_of properties (pair @ ''.enabled'')")
         (auto simp: look l(4) map_of_new_entries map_of_topic_updates on_pairs_def)
  qed
  moreover have "\<exists>v. map_of properties' (pair @ ''.topics'') = Some v \<and> makeSlice v =
              (case map_of properties (pair @ ''.topics'') of
                 None \<Rightarrow> getTrimmedSlice topics
               | Some old \<Rightarrow> makeSlice old @ filter (\<lambda>t. t \<notin> set (makeSlice old)) (getTrimmedSlice topics))"
    if "pair \<in> set pairs" for pair
    using that merged_topics(2)[OF vals assms(5)]
    by (cases "map_of properties (pair @ ''.topics'')")
       (auto simp: look l(4) map_of_new_entries map_of_topic_updates makeSlice_trimmed)
  moreover have "map_of properties' key = map_of properties key" if "key \<notin> pair_keys pairs" for key
    using that by (auto simp: look l(4) map_of_new_entries map_of_topic_updates on_pairs_def pair_keys_def)
  ultimately show ?thesis using p' by blast
qed

definition sample_kmm_content :: string where
  "sample_kmm_content = ''clusters = dc1, dc2\<newline>dc1->dc2.enabled = false\<newline>dc1->dc2.topics = orders\<newline>topics.blacklist = x''"

lemma sample_kmm_properties:
  "GetProperties sample_kmm_content = Inr [(''clusters'', PSlice [''dc1'', ''dc2'']), (''dc1->dc2.enabled'', PString ''false''),
     (''dc1->dc2.topics'', PString ''orders''), (''topics.blacklist'', PString ''x'')]"
  by code_simp

theorem kmm_update_takes_effect_witness:
  "\<exists>properties'. GetProperties (strings_Join (setUpdatedContent rev [''dc1->dc2.enabled'']
        [(''dc1->dc2.topics'', ''orders,bills'')] [] sample_kmm_content) ''\<newline>'') = Inr properties'
     \<and> (\<exists>v. map_of properties' ''dc1->dc2.topics'' = Some v \<and> makeSlice v = [''orders'', ''bills''])"
proof -
  have "getUpdatedContent [''dc2''] [''dc1''] [(''clusters'', PSlice [''dc1'', ''dc2'']), (''dc1->dc2.enabled'', PString ''false''),
     (''dc1->dc2.topics'', PString ''orders''), (''topics.blacklist'', PString ''x'')] ''orders, bills''
     = Inr ([''dc1->dc2.enabled''], [(''dc1->dc2.topics'', ''orders,bills'')], [])"
    by code_simp
  moreover have "getDcPairs [''dc2''] [''dc1''] = [''dc1->dc2'']" by code_simp
  moreover have "clean_file [''dc1->dc2''] (strings_Split sample_kmm_content (CHR ''\<newline>''))" by code_simp
  moreover have "getTrimmedSlice ''orders, bills'' = [''orders'', ''bills'']" "plain_value ''orders, bills''" by code_simp+
  ultimately show ?thesis
    using kmm_update_takes_effect[OF sample_kmm_properties, of "[''dc1->dc2'']" "[''dc2'']" "[''dc1'']"
        "''orders, bills''" "[''dc1->dc2.enabled'']" "[(''dc1->dc2.topics'', ''orders,bills'')]" "[]" rev]
    by (auto simp: makeSlice_def)
qed

section \<open>Updating the transformations\<close>

text \<open>The classes of lines the update tells apart.\<close>

definition enabled_line :: "string \<Rightarrow> string" where
  "enabled_line flow = flow @ ''.enabled = true''"

definition is_names_line :: "string \<Rightarrow> string \<Rightarrow> string \<Rightarrow> bool" where
  "is_names_line flow property line \<longleftrightarrow> strings_HasPrefix line (flow @ ''.'' @ property @ '' = '')"

definition is_own_line :: "transformationConfigurator \<Rightarrow> string \<Rightarrow> string \<Rightarrow> bool" where
  "is_own_line tc flow line \<longleftrightarrow>
     strings_HasPrefix line (flow @ ''.transforms.'' @ tc_transformationNamePrefix tc) \<or>
     strings_HasPrefix line (flow @ ''.predicates.'' @ tc_transformationNamePrefix tc)"

definition kept_line :: "transformationConfigurator \<Rightarrow> string \<Rightarrow> string \<Rightarrow> bool" where
  "kept_line tc flow line \<longleftrightarrow> \<not> is_names_line flow ''transforms'' line \<and>
     \<not> is_names_line flow ''predicates'' line \<and> \<not> is_own_line tc flow line"

definition foreign_names :: "transformationConfigurator \<Rightarrow> string \<Rightarrow> string \<Rightarrow> string list \<Rightarrow> string list" where
  "foreign_names tc flow property rows =
     concat (map (\<lambda>line. getFilteredNames tc line (flow @ ''.'' @ property @ '' = ''))
       (filter (is_names_line flow property) rows))"

lemma HasPrefix_weaken: "strings_HasPrefix line (a @ b) \<Longrightarrow> strings_HasPrefix line a"
  by (auto simp: HasPrefix_prefix prefix_def)

lemma HasPrefix_split: "strings_HasPrefix line (a @ b) \<longleftrightarrow> (\<exists>r. line = a @ r \<and> strings_HasPrefix r b)"
  by (auto simp: HasPrefix_prefix prefix_def)

lemma names_lines_exclusive:
  "is_names_line flow ''transforms'' line \<Longrightarrow> \<not> is_names_line flow ''predicates'' line"
  by (auto simp: is_names_line_def HasPrefix_split[of line flow] strings_HasPrefix_def)

lemma enabled_line_kept: "kept_line tc flow (enabled_line flow)"
  unfolding kept_line_def is_names_line_def is_own_line_def enabled_line_def
  by (simp add: HasPrefix_prefix)

lemma split_step:
  "split_lines tc flow i (line # rest) acc = split_lines tc flow (i + 1) rest
     (if line = enabled_line flow then place_line i line (acc\<lparr>ls_enabledPropertyPosition := Some i\<rparr>)
      else if is_names_line flow ''transforms'' line
      then acc\<lparr>ls_extraTransformNames := ls_extraTransformNames acc @ foreign_names tc flow ''transforms'' [line]\<rparr>
      else if is_names_line flow ''predicates'' line
      then acc\<lparr>ls_extraPredicateNames := ls_extraPredicateNames acc @ foreign_names tc flow ''predicates'' [line]\<rparr>
      else if is_own_line tc flow line then acc
      else place_line i line acc)"
  using HasPrefix_weaken[of line flow] 
  by (auto simp: enabled_line_def is_names_line_def is_own_line_def foreign_names_def)

lemma foreign_names_simps [simp]:
  "foreign_names tc flow property [] = []"
  "foreign_names tc flow property (xs @ ys) = foreign_names tc flow property xs @ foreign_names tc flow property ys"
  by (simp_all add: foreign_names_def)

lemma foreign_names_Cons:
  "foreign_names tc flow property (x # xs) = foreign_names tc flow property [x] @ foreign_names tc flow property xs"
  by (simp add: foreign_names_def)

lemma foreign_names_other: "\<not> is_names_line flow property line \<Longrightarrow> foreign_names tc flow property [line] = []"
  by (simp add: foreign_names_def)

text \<open>The loop on lines without the \<open>enabled\<close> line, before and after that line was seen.\<close>

lemma split_no_enabled:
  assumes "enabled_line flow \<notin> set rows" "case ls_enabledPropertyPosition acc of None \<Rightarrow> True | Some j \<Rightarrow> j < i"
  shows "split_lines tc flow i rows acc =
    acc\<lparr>ls_before := ls_before acc @ (if ls_enabledPropertyPosition acc = None then filter (kept_line tc flow) rows else []),
        ls_after := ls_after acc @ (if ls_enabledPropertyPosition acc = None then [] else filter (kept_line tc flow) rows),
        ls_extraTransformNames := ls_extraTransformNames acc @ foreign_names tc flow ''transforms'' rows,
        ls_extraPredicateNames := ls_extraPredicateNames acc @ foreign_names tc flow ''predicates'' rows\<rparr>"
  using assms
proof (induction rows arbitrary: i acc)
  case (Cons line rows)
  have next_pos: "case ls_enabledPropertyPosition acc of None \<Rightarrow> True | Some j \<Rightarrow> j < i + 1"
    using Cons.prems(2) by (auto split: option.splits)
  have ne: "line \<noteq> enabled_line flow" "enabled_line flow \<notin> set rows" using Cons.prems(1) by auto
  consider (T) "is_names_line flow ''transforms'' line" | (P) "is_names_line flow ''predicates'' line"
    | (O) "\<not> is_names_line flow ''transforms'' line" "\<not> is_names_line flow ''predicates'' line" "is_own_line tc flow line"
    | (K) "kept_line tc flow line"
    by (auto simp: kept_line_def)
  then show ?case
  proof cases
    case T
    then have nP: "\<not> is_names_line flow ''predicates'' line" by (rule names_lines_exclusive)
    show ?thesis
      using T nP ne next_pos Cons.IH[of "i + 1" "acc\<lparr>ls_extraTransformNames := ls_extraTransformNames acc
          @ foreign_names tc flow ''transforms'' [line]\<rparr>"]
      by (simp add: split_step foreign_names_Cons[of _ _ _ line rows] foreign_names_other kept_line_def del: split_lines.simps(2))
  next
    case P
    then have nT: "\<not> is_names_line flow ''transforms'' line" using names_lines_exclusive by blast
    show ?thesis
      using P nT ne next_pos Cons.IH[of "i + 1" "acc\<lparr>ls_extraPredicateNames := ls_extraPredicateNames acc
          @ foreign_names tc flow ''predicates'' [line]\<rparr>"]
      by (simp add: split_step foreign_names_Cons[of _ _ _ line rows] foreign_names_other kept_line_def del: split_lines.simps(2))
  next
    case O
    then show ?thesis
      using ne next_pos Cons.IH[of "i + 1" acc]
      by (simp add: split_step foreign_names_Cons[of _ _ _ line rows] foreign_names_other kept_line_def del: split_lines.simps(2))
  next
    case K
    then have cls: "\<not> is_names_line flow ''transforms'' line" "\<not> is_names_line flow ''predicates'' line"
      "\<not> is_own_line tc flow line" by (auto simp: kept_line_def)
    have place: "place_line i line acc = (if ls_enabledPropertyPosition acc = None
        then acc\<lparr>ls_before := ls_before acc @ [line]\<rparr> else acc\<lparr>ls_after := ls_after acc @ [line]\<rparr>)"
      using Cons.prems(2) by (auto simp: place_line_def split: option.splits)
    show ?thesis
      using K cls ne next_pos Cons.IH[of "i + 1" "place_line i line acc"]
      by (auto simp: split_step foreign_names_Cons[of _ _ _ line rows] foreign_names_other place simp del: split_lines.simps(2))
  qed
qed simp

lemma split_lines_append: "split_lines tc flow i (xs @ ys) acc = split_lines tc flow (i + length xs) ys (split_lines tc flow i xs acc)"
  by (induction xs arbitrary: i acc) auto

lemma Update_closed:
  assumes td: "getTransformationDefinition tc s t ident = Some td" and flow: "flow = td_replicationFlow td"
    and "enabled_line flow \<notin> set A" "enabled_line flow \<notin> set B"
  shows "UpdateTransformationProperties tc (A @ enabled_line flow # B) s t ident =
      filter (kept_line tc flow) A @ enabled_line flow # enrichWithTransformationProperties [] td
        (foreign_names tc flow ''transforms'' (A @ B)) (foreign_names tc flow ''predicates'' (A @ B))
      @ filter (kept_line tc flow) B"
    "UpdateTransformationProperties tc A s t ident = filter (kept_line tc flow) A"
proof -
  let ?acc = "\<lparr>ls_before = [], ls_after = [], ls_extraTransformNames = [], ls_extraPredicateNames = [],
      ls_enabledPropertyPosition = None\<rparr>"
  note A = split_no_enabled[OF assms(3), of 0 ?acc tc, simplified]
  show "UpdateTransformationProperties tc A s t ident = filter (kept_line tc flow) A"
    using td flow A by (simp add: UpdateTransformationProperties_def)
  let ?acc1 = "split_lines tc flow 0 A ?acc"
  let ?acc2 = "?acc1\<lparr>ls_before := ls_before ?acc1 @ [enabled_line flow], ls_enabledPropertyPosition := Some (length A)\<rparr>"
  have "split_lines tc flow 0 (A @ enabled_line flow # B) ?acc = split_lines tc flow (length A + 1) B ?acc2"
    by (simp add: split_lines_append split_step place_line_def A del: split_lines.simps(2))
  also have "\<dots> = ?acc2\<lparr>ls_after := filter (kept_line tc flow) B,
      ls_extraTransformNames := foreign_names tc flow ''transforms'' (A @ B),
      ls_extraPredicateNames := foreign_names tc flow ''predicates'' (A @ B)\<rparr>"
    using split_no_enabled[OF assms(4), of "length A + 1" ?acc2 tc] by (simp add: A)
  finally show "UpdateTransformationProperties tc (A @ enabled_line flow # B) s t ident =
      filter (kept_line tc flow) A @ enabled_line flow # enrichWithTransformationProperties [] td
        (foreign_names tc flow ''transforms'' (A @ B)) (foreign_names tc flow ''predicates'' (A @ B))
      @ filter (kept_line tc flow) B"
    using td by (simp add: UpdateTransformationProperties_def A flow[symmetric] enrichWithTransformationProperties_def)
qed

text \<open>Names as Kubernetes and the file format allow them: no comma, no white space at the ends.\<close>

definition clean_name :: "string \<Rightarrow> bool" where
  "clean_name n \<longleftrightarrow> CHR '','' \<notin> set n \<and> strings_TrimSpace n = n"

lemma foreign_names_clean:
  "n \<in> set (foreign_names tc flow property rows) \<Longrightarrow>
   clean_name n \<and> \<not> strings_HasPrefix n (tc_transformationNamePrefix tc)"
proof -
  assume "n \<in> set (foreign_names tc flow property rows)"
  then obtain line p where p: "p \<in> set (strings_Split line (CHR '',''))" "n = strings_TrimSpace p"
    and own: "\<not> strings_HasPrefix n (tc_transformationNamePrefix tc)"
    by (auto simp: foreign_names_def getFilteredNames_def)
  have "set n \<subseteq> set p" unfolding p(2) strings_TrimSpace_def by (rule trim_by_subset)
  with Split_pieces[OF p(1)] p(2) own show ?thesis
    by (auto simp: clean_name_def strings_TrimSpace_def)
qed

lemma names_line_read:
  assumes "\<forall>n\<in>set names. clean_name n" "names \<noteq> []"
  shows "foreign_names tc flow property (names_line flow property names) =
    filter (\<lambda>n. \<not> strings_HasPrefix n (tc_transformationNamePrefix tc)) (sort names)"
proof -
  have "sort names \<noteq> []" using assms(2) by (metis length_0_conv length_sort)
  moreover have "\<forall>n\<in>set (sort names). CHR '','' \<notin> set n"
    using assms(1) by (simp add: clean_name_def)
  ultimately have split: "strings_Split (strings_Join (sort names) '','') (CHR '','') = sort names"
    by (rule Split_Join)
  have trim: "map strings_TrimSpace (sort names) = sort names"
    using assms(1) by (intro map_idI) (auto simp: clean_name_def)
  define q where "q = flow @ ''.'' @ property @ '' = ''"
  have line: "names_line flow property names = [q @ strings_Join (sort names) '','']"
    using assms(2) by (simp add: names_line_def q_def)
  show ?thesis
    unfolding line foreign_names_def getFilteredNames_def is_names_line_def q_def[symmetric]
    by (simp add: split trim)
qed

lemma names_line_other:
  "foreign_names tc flow ''transforms'' (names_line flow ''predicates'' names) = []"
  "foreign_names tc flow ''predicates'' (names_line flow ''transforms'' names) = []"
  by (auto simp: foreign_names_def names_line_def is_names_line_def HasPrefix_prefix)

lemma names_line_not_kept:
  "property \<in> {''transforms'', ''predicates''} \<Longrightarrow> filter (kept_line tc flow) (names_line flow property names) = []"
  by (auto simp: names_line_def kept_line_def is_names_line_def HasPrefix_prefix)

lemma own_lines_dropped:
  assumes "\<forall>l\<in>set rows. is_own_line tc flow l"
  shows "filter (kept_line tc flow) rows = []" "foreign_names tc flow ''transforms'' rows = []"
    "foreign_names tc flow ''predicates'' rows = []" "enabled_line flow \<notin> set rows"
proof -
  show "filter (kept_line tc flow) rows = []" using assms by (simp add: filter_empty_conv kept_line_def)
  have "is_own_line tc flow l \<Longrightarrow> \<not> is_names_line flow ''transforms'' l \<and> \<not> is_names_line flow ''predicates'' l" for l
    by (auto simp: is_own_line_def is_names_line_def HasPrefix_prefix prefix_def)
  then show "foreign_names tc flow ''transforms'' rows = []" "foreign_names tc flow ''predicates'' rows = []"
    using assms by (auto simp: foreign_names_def filter_empty_conv)
  show "enabled_line flow \<notin> set rows"
    using assms enabled_line_kept[of tc flow] by (auto simp: kept_line_def)
qed

lemma transformationConfig_own:
  assumes "getTransformationDefinition tc s t ident = Some td"
  shows "\<forall>l\<in>set (td_transformationConfig td). is_own_line tc (td_replicationFlow td) l" "td_transformationConfig td \<noteq> []"
proof -
  have tr: "l \<in> set (transform_lines tc flow p x) \<Longrightarrow> is_own_line tc flow l" for l flow p x
    by (auto simp: transform_lines_def addParams_def Let_def is_own_line_def transformationName_def
        HasPrefix_prefix split: if_splits option.splits)
  have pr: "l \<in> set (predicate_lines tc flow p x) \<Longrightarrow> is_own_line tc flow l" for l flow p x
    by (auto simp: predicate_lines_def addParams_def Let_def is_own_line_def transformationName_def HasPrefix_prefix)
  show "\<forall>l\<in>set (td_transformationConfig td). is_own_line tc (td_replicationFlow td) l"
    using assms tr pr by (auto simp: getTransformationDefinition_def Let_def split: option.splits if_splits)
  show "td_transformationConfig td \<noteq> []"
    using assms by (auto simp: getTransformationDefinition_def Let_def transform_lines_def addParams_def
        neq_Nil_conv split: option.splits if_splits)
qed

lemma own_names_prefixed:
  assumes "getTransformationDefinition tc s t ident = Some td"
  shows "\<forall>n\<in>set (td_transformNames td) \<union> set (td_predicateNames td). strings_HasPrefix n (tc_transformationNamePrefix tc)"
  using assms by (auto simp: getTransformationDefinition_def Let_def transformationName_def split: option.splits if_splits)

lemma names_line_settles:
  assumes "\<forall>n\<in>set own. clean_name n \<and> strings_HasPrefix n (tc_transformationNamePrefix tc)"
    and "\<forall>n\<in>set extra. clean_name n \<and> \<not> strings_HasPrefix n (tc_transformationNamePrefix tc)"
  shows "foreign_names tc flow property (names_line flow property (own @ extra)) = sort extra"
    "names_line flow property (own @ sort extra) = names_line flow property (own @ extra)"
proof -
  have f: "filter (\<lambda>n. \<not> strings_HasPrefix n (tc_transformationNamePrefix tc)) (own @ extra) = extra"
    using assms by (auto simp: filter_id_conv)
  show "foreign_names tc flow property (names_line flow property (own @ extra)) = sort extra"
  proof (cases "own @ extra = []")
    case True
    then show ?thesis by (simp add: names_line_def)
  next
    case False
    have "\<forall>n\<in>set (own @ extra). clean_name n" using assms by auto
    from names_line_read[OF this False] show ?thesis by (simp only: filter_sort f)
  qed
  have "sort (own @ sort extra) = sort (own @ extra)"
    by (rule properties_for_sort) (auto simp: ac_simps)
  then show "names_line flow property (own @ sort extra) = names_line flow property (own @ extra)"
    by (simp add: names_line_def)
qed

text \<open>A configuration with one enabled line: what the first update yields, and that the second leaves it.\<close>

lemma Update_settles:
  assumes td: "getTransformationDefinition tc source target identity = Some td" and flow: "flow = td_replicationFlow td"
    and AB: "enabled_line flow \<notin> set A" "enabled_line flow \<notin> set B"
    and names: "\<forall>n\<in>set (td_transformNames td) \<union> set (td_predicateNames td). clean_name n"
  defines "update \<equiv> (\<lambda>config. UpdateTransformationProperties tc config source target identity)"
  shows "update (update (A @ enabled_line flow # B)) = update (A @ enabled_line flow # B)"
proof -
  define T where "T = foreign_names tc flow ''transforms'' (A @ B)"
  define P where "P = foreign_names tc flow ''predicates'' (A @ B)"
  let ?keep = "filter (kept_line tc flow)"
  let ?own = "\<lambda>T P. td_transformationConfig td @ names_line flow ''transforms'' (td_transformNames td @ T)
      @ names_line flow ''predicates'' (td_predicateNames td @ P)"
  have closed: "update (A @ enabled_line flow # B) = ?keep A @ enabled_line flow #
        ?own (foreign_names tc flow ''transforms'' (A @ B)) (foreign_names tc flow ''predicates'' (A @ B)) @ ?keep B"
    if "enabled_line flow \<notin> set A" "enabled_line flow \<notin> set B" for A B
    using Update_closed(1)[OF td flow that] transformationConfig_own(2)[OF td]
    by (simp add: update_def enrichWithTransformationProperties_def flow[symmetric] del: foreign_names_simps)
  let ?B' = "?own T P @ ?keep B"
  have once: "update (A @ enabled_line flow # B) = ?keep A @ enabled_line flow # ?B'"
    using closed[OF AB] by (simp only: T_def P_def)
  note own = own_lines_dropped[OF transformationConfig_own(1)[OF td, folded flow]]
  have "enabled_line flow \<notin> set (names_line flow p ns)" if "p \<in> {''transforms'', ''predicates''}" for p ns
    using names_line_not_kept[OF that, of tc flow ns] enabled_line_kept[of tc flow] by (auto simp: filter_empty_conv)
  then have "enabled_line flow \<notin> set (?keep A)" "enabled_line flow \<notin> set ?B'" using AB own(4) by auto
  note twice = closed[OF this]
  have none: "foreign_names tc flow p (?keep xs) = []" if "p \<in> {''transforms'', ''predicates''}" for p xs
    using that by (auto simp: foreign_names_def kept_line_def filter_empty_conv)
  have foreign: "\<forall>n\<in>set T. clean_name n \<and> \<not> strings_HasPrefix n (tc_transformationNamePrefix tc)"
    "\<forall>n\<in>set P. clean_name n \<and> \<not> strings_HasPrefix n (tc_transformationNamePrefix tc)"
    using foreign_names_clean unfolding T_def P_def by blast+
  have mine: "\<forall>n\<in>set (td_transformNames td). clean_name n \<and> strings_HasPrefix n (tc_transformationNamePrefix tc)"
    "\<forall>n\<in>set (td_predicateNames td). clean_name n \<and> strings_HasPrefix n (tc_transformationNamePrefix tc)"
    using names own_names_prefixed[OF td] by blast+
  note settle = names_line_settles[OF mine(1) foreign(1)] names_line_settles[OF mine(2) foreign(2)]
  have "foreign_names tc flow ''transforms'' (?keep A @ ?B') = sort T" "foreign_names tc flow ''predicates'' (?keep A @ ?B') = sort P"
    by (simp_all add: none own names_line_other settle)
  then show ?thesis
    using twice unfolding once by (simp add: own names_line_not_kept settle)
qed

text \<open>
  C32. Reconciling a \<open>KmmConfig\<close> again changes nothing: with the \<open>enabled\<close> line of a flow at most
  once in the configuration and transformation names without commas or surrounding white space,
  \<open>UpdateTransformationProperties\<close> is idempotent. Its own lines and names are replaced and never
  pile up, and the names other resources have added are found again and kept.
\<close>

theorem UpdateTransformationProperties_idempotent:
  assumes "count_list replicationConfig (NewReplicationFlow sourceClusterName targetClusterName @ ''.enabled = true'') \<le> 1"
    and "\<forall>td. getTransformationDefinition tc sourceClusterName targetClusterName identityReplicationEnabled = Some td \<longrightarrow>
      (\<forall>n\<in>set (td_transformNames td) \<union> set (td_predicateNames td). clean_name n)"
  defines "update \<equiv> (\<lambda>config. UpdateTransformationProperties tc config sourceClusterName targetClusterName
      identityReplicationEnabled)"
  shows "update (update replicationConfig) = update replicationConfig"
proof (cases "getTransformationDefinition tc sourceClusterName targetClusterName identityReplicationEnabled")
  case None
  then show ?thesis by (simp add: update_def UpdateTransformationProperties_def)
next
  case (Some td)
  define flow where "flow = td_replicationFlow td"
  have "flow = NewReplicationFlow sourceClusterName targetClusterName"
    using Some by (auto simp: flow_def getTransformationDefinition_def Let_def split: option.splits if_splits)
  then have once: "count_list replicationConfig (enabled_line flow) \<le> 1" using assms(1) by (simp add: enabled_line_def)
  show ?thesis
  proof (cases "enabled_line flow \<in> set replicationConfig")
    case False
    then have "enabled_line flow \<notin> set (filter (kept_line tc flow) replicationConfig)" by simp
    with False show ?thesis using Update_closed(2)[OF Some flow_def, where B = "[]"] by (simp add: update_def)
  next
    case True
    then obtain A B where rc: "replicationConfig = A @ enabled_line flow # B" by (meson split_list)
    with once have "enabled_line flow \<notin> set A" "enabled_line flow \<notin> set B"
      by (auto simp: count_list_0_iff[symmetric] simp del: count_list_0_iff)
    then show ?thesis using Update_settles[OF Some flow_def] assms(2) Some by (simp add: rc update_def)
  qed
qed

definition sample_tc :: transformationConfigurator where
  "sample_tc = NewTransformationConfigurator (Some \<lparr>Transforms = [\<lparr>tr_Name = ''rename'', tr_Type = ''T'',
     tr_Predicate = ''p'', tr_Negate = Some True, tr_Params = [(''regex'', ''${replication_prefix}x'')]\<rparr>],
     Predicates = [\<lparr>pr_Name = ''p'', pr_Type = ''P'', pr_Params = []\<rparr>]\<rparr>) ''cfg_ns_''"

theorem UpdateTransformationProperties_idempotent_witness:
  "UpdateTransformationProperties sample_tc
     (UpdateTransformationProperties sample_tc [''dc1->dc2.enabled = true'', ''dc1->dc2.transforms = other''] ''dc1'' ''dc2'' False)
     ''dc1'' ''dc2'' False
   = UpdateTransformationProperties sample_tc [''dc1->dc2.enabled = true'', ''dc1->dc2.transforms = other''] ''dc1'' ''dc2'' False
   \<and> last (UpdateTransformationProperties sample_tc [''dc1->dc2.enabled = true'', ''dc1->dc2.transforms = other''] ''dc1'' ''dc2'' False)
     = ''dc1->dc2.predicates = cfg_ns_p''"
proof
  have "count_list [''dc1->dc2.enabled = true'', ''dc1->dc2.transforms = other''] (NewReplicationFlow ''dc1'' ''dc2'' @ ''.enabled = true'') \<le> 1"
    by code_simp
  moreover have "\<forall>td. getTransformationDefinition sample_tc ''dc1'' ''dc2'' False = Some td \<longrightarrow>
      (\<forall>n\<in>set (td_transformNames td) \<union> set (td_predicateNames td). clean_name n)"
    by (simp add: getTransformationDefinition_def sample_tc_def NewTransformationConfigurator_def Let_def
        transformationName_def clean_name_def strings_TrimSpace_def trim_by_def is_space_def)
  ultimately show "UpdateTransformationProperties sample_tc
     (UpdateTransformationProperties sample_tc [''dc1->dc2.enabled = true'', ''dc1->dc2.transforms = other''] ''dc1'' ''dc2'' False)
     ''dc1'' ''dc2'' False
   = UpdateTransformationProperties sample_tc [''dc1->dc2.enabled = true'', ''dc1->dc2.transforms = other''] ''dc1'' ''dc2'' False"
    by (rule UpdateTransformationProperties_idempotent)
  show "last (UpdateTransformationProperties sample_tc [''dc1->dc2.enabled = true'', ''dc1->dc2.transforms = other''] ''dc1'' ''dc2'' False)
     = ''dc1->dc2.predicates = cfg_ns_p''"
    by code_simp
qed

text \<open>
  The update of the transformations recognises an enabled flow only by the exact line
  \<open>source->target.enabled = true\<close>. Where that line is spelled in any other way the names lines
  of the flow are removed and not written again, so the transformations of other resources are lost.
\<close>

theorem UpdateTransformationProperties_loses_foreign_names:
  "UpdateTransformationProperties sample_tc [''dc1->dc2.enabled=true'', ''dc1->dc2.transforms = other''] ''dc1'' ''dc2'' False
     = [''dc1->dc2.enabled=true'']
   \<and> GetProperties ''dc1->dc2.enabled=true'' = GetProperties ''dc1->dc2.enabled = true''"
  by (rule conjI; code_simp)

section \<open>The controller\<close>

lemma kmm_contains_iff [simp]: "kmm_contains v xs \<longleftrightarrow> v \<in> set xs"
  by (induction xs) auto

lemma forE_check:
  "forE xs (\<lambda>x. if P x then fail_dc key (msg x) else returnE ()) m =
     (case find P xs of None \<Rightarrow> (Inr (), m)
      | Some x \<Rightarrow> (Inl configurationError, addMessageToErrorMap key (msg x) m))"
  by (induction xs) (auto simp: fail_dc_def thenE_def bindE_def modifyE_def throwE_def returnE_def)

lemma find_None_iff2: "find P xs = None \<longleftrightarrow> (\<forall>x\<in>set xs. \<not> P x)"
  by (induction xs) auto



text \<open>
  The status message says nothing about a wrong source data center: the part about sources
  repeats the messages about targets, and messages under the source key do not change the result.
\<close>

theorem generateErrorMessage_ignores_sources:
  "generateErrorMessage failed (mput ''sourceDc'' messages errorsMap) = generateErrorMessage failed errorsMap
   \<and> generateErrorMessage True [(''sourceDc'', []), (''targetDc'', [''dc9 - wrong''])]
       = ''topics were not added; Problem target dc: dc9 - wrong; Problem source dc: dc9 - wrong''"
  by (simp add: generateErrorMessage_def Let_def)

lemma UpdateKmmConfigMap_keeps:
  assumes get: "\<And>n ns. keeps I (c_Get (k_configMaps k) n ns)"
    and got: "\<And>n ns w cm w'. c_Get (k_configMaps k) n ns w = (Inr cm, w') \<Longrightarrow> obj_key cm = (n, ns)"
    and update: "\<And>cm name. GetKmmConfigMapName (OPERATOR_NAME env) = Inr name \<Longrightarrow>
      obj_key cm = (name, OPERATOR_NAMESPACE env) \<Longrightarrow> keeps I (c_Update (k_configMaps k) cm)"
    and "I w" and run: "UpdateKmmConfigMap k env iter instnce (e, w) = (r, (e', w'))"
  shows "I w'"
proof (cases "kmm_KmmTopics instnce")
  case None
  with run \<open>I w\<close> show ?thesis by (simp add: UpdateKmmConfigMap_def throwE_def)
next
  case (Some spec)
  show ?thesis
  proof (cases "GetKmmConfigMapName (OPERATOR_NAME env)")
    case (Inl x)
    with run Some \<open>I w\<close> show ?thesis by (simp add: UpdateKmmConfigMap_def liftE_def bindE_def)
  next
    case (Inr name)
    obtain q w1 where q: "c_Get (k_configMaps k) name (OPERATOR_NAMESPACE env) w = (q, w1)" by fastforce
    have I1: "I w1" using get q \<open>I w\<close> by (blast dest: keepsD)
    show ?thesis
    proof (cases q)
      case (Inl x)
      with run Some Inr q I1 show ?thesis
        by (simp add: UpdateKmmConfigMap_def liftE_def bindE_def on_snd_def)
    next
      case cm: (Inr cm)
      define upd where "upd lines = cm\<lparr>cm_Data := mput ''config'' (strings_Join lines ''\<newline>'') (cm_Data cm)\<rparr>" for lines
      have "obj_key (upd lines) = (name, OPERATOR_NAMESPACE env)" for lines
        using got q cm by (simp add: upd_def obj_key_def)
      then have k: "keeps (\<lambda>(e, w). I w) (on_snd (c_Update (k_configMaps k) (upd lines)))" for lines
        by (intro keeps_on_snd update[OF Inr])
      let ?content = "mstr (cm_Data cm) ''config''"
      have "keeps (\<lambda>(e, w). I w) (bindE (liftE (GetProperties ?content)) (\<lambda>properties.
          bindE (on_fst (recognizeTargetAndSourceDc spec properties)) (\<lambda>(ts, ss).
          bindE (liftE (new_config_lines iter instnce spec properties ?content ts ss))
            (\<lambda>lines. on_snd (c_Update (k_configMaps k) (upd lines))))))"
        by (intro keeps_rules k) (auto intro!: keeps_rules k split: prod.splits)
      moreover have got_cm: "on_snd (c_Get (k_configMaps k) name (OPERATOR_NAMESPACE env)) (e, w) = (Inr cm, (e, w1))"
        using q cm by (simp add: on_snd_def)
      have "(bindE (liftE (GetProperties ?content)) (\<lambda>properties.
          bindE (on_fst (recognizeTargetAndSourceDc spec properties)) (\<lambda>(ts, ss).
          bindE (liftE (new_config_lines iter instnce spec properties ?content ts ss))
            (\<lambda>lines. on_snd (c_Update (k_configMaps k) (upd lines)))))) (e, w1) = (r, (e', w'))"
        using run by (simp add: UpdateKmmConfigMap_def Some Inr upd_def Let_def
            bindE_run[of "on_snd (c_Get (k_configMaps k) name (OPERATOR_NAMESPACE env))" "(e, w)" cm "(e, w1)", OF got_cm])
      ultimately show ?thesis using I1 by (auto dest: keepsD)
    qed
  qed
qed

text \<open>
  C34. The controller writes nothing but the Mirror Maker configuration and the status. Take any
  predicate on the cluster that reading, the status update, and updates of the one config map
  with the configured name and namespace keep: a reconciliation keeps it on every outcome.
\<close>

theorem kmm_Reconcile_writes_only_its_map:
  assumes "\<And>n ns. keeps I (getKmm n ns)" "\<And>n ns. keeps I (c_Get (k_configMaps k) n ns)"
    and "\<And>n ns w cm w'. c_Get (k_configMaps k) n ns w = (Inr cm, w') \<Longrightarrow> obj_key cm = (n, ns)"
    and "\<And>cm name. GetKmmConfigMapName (OPERATOR_NAME env) = Inr name \<Longrightarrow>
      obj_key cm = (name, OPERATOR_NAMESPACE env) \<Longrightarrow> keeps I (c_Update (k_configMaps k) cm)"
    and "\<And>cr. keeps I (updateStatus cr)"
  shows "keeps I (kmm_Reconcile k getKmm updateStatus env iter apiGroup name namespace)"
proof -
  have body: "keeps I (\<lambda>w. case UpdateKmmConfigMap k env iter cr (e, w) of
              (Inl Panic, (_, w)) \<Rightarrow> (Inl Panic, w)
            | (r, (errorsMap, w)) \<Rightarrow>
                tryE (updateCrStatus updateStatus cr (isl r) errorsMap) (\<lambda>_. returnE a)
                  (\<lambda>_. returnE (if isl r then a else done_result)) w)" for cr e a
    unfolding keeps_def
  proof (intro allI impI)
    fix w
    assume "I w"
    obtain r e' w' where run: "UpdateKmmConfigMap k env iter cr (e, w) = (r, (e', w'))" by (metis prod.collapse)
    have "I w'" by (rule UpdateKmmConfigMap_keeps[OF assms(2,3,4) \<open>I w\<close> run])
    moreover have "keeps I (tryE (updateCrStatus updateStatus cr (isl r) e') (\<lambda>_. returnE a)
        (\<lambda>_. returnE (if isl r then a else done_result)))"
      using assms(5) by (auto simp: updateCrStatus_def intro!: keeps_rules)
    ultimately show "I (snd (case UpdateKmmConfigMap k env iter cr (e, w) of
              (Inl Panic, (_, w)) \<Rightarrow> (Inl Panic, w)
            | (r, (errorsMap, w)) \<Rightarrow>
                tryE (updateCrStatus updateStatus cr (isl r) errorsMap) (\<lambda>_. returnE a)
                  (\<lambda>_. returnE (if isl r then a else done_result)) w))"
      by (auto simp: run keeps_def split: sum.splits go_error.splits)
  qed
  show ?thesis
    unfolding kmm_Reconcile_def
    by (intro keeps_try keeps_if keeps_return keeps_throw assms(1) body)
qed

definition sample_env :: operatorEnv where
  "sample_env = \<lparr>OPERATOR_NAME = ''kafka-service-operator'', OPERATOR_NAMESPACE = ''ns'',
     KMM_CONFIG_RECONCILE_PERIOD_SECONDS = 60\<rparr>"

theorem kmm_Reconcile_writes_only_its_map_witness:
  "keeps (\<lambda>w. list_view cl_configMaps w (''other'', ''ns'') = None)
     (kmm_Reconcile sample_kube (\<lambda>_ _. throwE NotFound) (\<lambda>_. returnE ()) sample_env id ''g'' ''cr'' ''ns'')"
proof (rule kmm_Reconcile_writes_only_its_map)
  show "keeps (\<lambda>w. list_view cl_configMaps w (''other'', ''ns'') = None) (c_Get (k_configMaps sample_kube) n ns)" for n ns
    by (auto simp: keeps_def sample_kube_def list_crud_def)
  show "obj_key cm = (n, ns)" if "c_Get (k_configMaps sample_kube) n ns w = (Inr cm, w')" for n ns w cm w'
    using crud_store_get(2)[OF sample_kube_store(5) that] by simp
  show "keeps (\<lambda>w. list_view cl_configMaps w (''other'', ''ns'') = None) (c_Update (k_configMaps sample_kube) cm)"
    if "GetKmmConfigMapName (OPERATOR_NAME sample_env) = Inr name" "obj_key cm = (name, OPERATOR_NAMESPACE sample_env)" for cm name
  proof -
    have "name = ''kafka-mirror-maker-configuration''"
      using that(1) by (simp add: GetKmmConfigMapName_def cut_operator_name_def sample_env_def)
    with that(2) have ne: "obj_key cm \<noteq> (''other'', ''ns'')" by simp
    show ?thesis
      unfolding keeps_def
    proof (intro allI impI)
      fix w :: cluster
      assume none: "list_view cl_configMaps w (''other'', ''ns'') = None"
      obtain r w' where u: "c_Update (k_configMaps sample_kube) cm w = (r, w')" by fastforce
      show "list_view cl_configMaps (snd (c_Update (k_configMaps sample_kube) cm w)) (''other'', ''ns'') = None"
        using crud_store_write[OF sample_kube_store(5), of cm w r w'] u none ne by (cases r) auto
    qed
  qed
qed auto

end
