(* ===== verification/Replication_Audit.thy ===== *)
theory Replication_Audit
  imports Go_Prelude Operator_Util Kube_Reconciler
begin

text \<open>
  \<open>operator/controllers/handlers\<close>, which reads the disaster-recovery part of the Mirror Maker
  configuration and its credentials, and \<open>operator/controllers/kafkaservice/kafka_replication_auditor.go\<close>,
  which checks before a switchover that the standby side has received all messages.
\<close>

section \<open>The disaster-recovery configuration\<close>

record kmmDrConfig =
  kd_Properties :: "string gomap"
  kd_StringProperties :: "string gomap"
  kd_SliceProperties :: "string list gomap"
  kd_ArrowPattern :: string
  kd_TargetCluster :: string
  kd_SourceCluster :: string
  kd_TargetBrokers :: "string list"
  kd_SourceBrokers :: "string list"
  kd_ReplicationEnabled :: bool

definition read_property :: "string \<Rightarrow> string gomap \<Rightarrow> string gomap" where
  "read_property row properties =
     (if row \<noteq> [] \<and> \<not> strings_HasPrefix row ''#'' then
        (if strings_Contains row ''='' then
           (case strings_SplitN2 row (CHR ''='') of
              [k, v] \<Rightarrow> mput (strings_Trim k) (strings_Trim v) properties | _ \<Rightarrow> properties)
         else properties)
      else properties)"

definition getStringProperties :: "string \<Rightarrow> string gomap" where
  "getStringProperties config = fold read_property (strings_Split config (CHR ''\<newline>'')) []"

text \<open>The patterns \<open>^[\w]*->[\w]*\.ending$\<close>: \<open>\w\<close> is a letter, a digit or an underscore.\<close>

definition word_char :: "char \<Rightarrow> bool" where
  "word_char c \<longleftrightarrow> (let n = (of_char c :: nat) in
     (48 \<le> n \<and> n \<le> 57) \<or> (65 \<le> n \<and> n \<le> 90) \<or> n = 95 \<or> (97 \<le> n \<and> n \<le> 122))"

definition arrow_match :: "string \<Rightarrow> string \<Rightarrow> bool" where
  "arrow_match ending key \<longleftrightarrow>
     (let rest = dropWhile word_char key
      in strings_HasPrefix rest ''->'' \<and> dropWhile word_char (drop 2 rest) = ending)"

definition stringProperties :: "string list" where
  "stringProperties = [''target.dc'', ''enabled'']"

definition sliceProperties :: "string list" where
  "sliceProperties = [''clusters'', ''topics'', ''topics.blacklist'']"

definition arrowSlicePatterns :: "string list" where
  "arrowSlicePatterns = [''.topics'', ''.topics.blacklist'']"

definition arrowStringPatterns :: "string list" where
  "arrowStringPatterns = [''.enabled'']"

definition slice_of :: "string \<Rightarrow> string list" where
  "slice_of value = (if value = [] then [] else map strings_Trim (strings_Split value (CHR '','')))"

definition enrichStringProperties :: "string list \<Rightarrow> kmmDrConfig \<Rightarrow> kmmDrConfig" where
  "enrichStringProperties keys kdc = fold (\<lambda>property kdc.
     case map_of (kd_Properties kdc) property of
       Some value \<Rightarrow> (if \<not> strings_Contains value '','' then
           kdc\<lparr>kd_StringProperties := mput property value (kd_StringProperties kdc)\<rparr> else kdc)
     | None \<Rightarrow> kdc) keys kdc"

definition enrichSliceProperties :: "string list \<Rightarrow> kmmDrConfig \<Rightarrow> kmmDrConfig" where
  "enrichSliceProperties keys kdc = fold (\<lambda>property kdc.
     case map_of (kd_Properties kdc) property of
       Some value \<Rightarrow> kdc\<lparr>kd_SliceProperties := mput property (slice_of value) (kd_SliceProperties kdc)\<rparr>
     | None \<Rightarrow> kdc) keys kdc"

definition enrichArrowStringProperties :: "string list \<Rightarrow> kmmDrConfig \<Rightarrow> kmmDrConfig" where
  "enrichArrowStringProperties patterns kdc = fold (\<lambda>(key, property) kdc.
     fold (\<lambda>pat kdc. if arrow_match pat key \<and> \<not> strings_Contains property '',''
         then kdc\<lparr>kd_StringProperties := mput key property (kd_StringProperties kdc)\<rparr> else kdc) patterns kdc)
     (kd_Properties kdc) kdc"

definition enrichArrowSliceProperties :: "string list \<Rightarrow> kmmDrConfig \<Rightarrow> kmmDrConfig" where
  "enrichArrowSliceProperties patterns kdc = fold (\<lambda>(key, property) kdc.
     fold (\<lambda>pat kdc. if arrow_match pat key
         then kdc\<lparr>kd_SliceProperties := mput key (slice_of property) (kd_SliceProperties kdc)\<rparr> else kdc) patterns kdc)
     (kd_Properties kdc) kdc"

definition enrichInitial :: "kmmDrConfig \<Rightarrow> kmmDrConfig" where
  "enrichInitial kdc = enrichArrowSliceProperties arrowSlicePatterns
     (enrichArrowStringProperties arrowStringPatterns
       (enrichSliceProperties sliceProperties (enrichStringProperties stringProperties kdc)))"

definition validateClusters :: "kmmDrConfig \<Rightarrow> go_error + kmmDrConfig" where
  "validateClusters kdc =
     (case map_of (kd_SliceProperties kdc) ''clusters'' of
        None \<Rightarrow> Inl (Err (''can not find KMM property 'clusters'' @ [CHR 0x27]))
      | Some clusters \<Rightarrow>
          (if length clusters \<noteq> 2
           then Inl (Err ''in disaster recovery mode exactly two clusters must be declared in 'clusters' property'')
           else if clusters ! 0 = clusters ! 1 then Inl (Err ''declared KMM clusters can not be repeated'')
           else case map_of (kd_StringProperties kdc) ''target.dc'' of
               None \<Rightarrow> Inl (Err ''can not find KMM property 'target.dc' or property has incorrect value'')
             | Some target \<Rightarrow>
                 (let source = fold (\<lambda>cluster s. if cluster \<noteq> target then cluster else s) clusters (kd_SourceCluster kdc)
                  in Inr (kdc\<lparr>kd_TargetCluster := target, kd_SourceCluster := source,
                       kd_ArrowPattern := source @ ''->'' @ target\<rparr>))))"

definition resolveBootstrapServers :: "kmmDrConfig \<Rightarrow> go_error + kmmDrConfig" where
  "resolveBootstrapServers kdc =
     (let target = kd_TargetCluster kdc @ ''.bootstrap.servers'';
          source = kd_SourceCluster kdc @ ''.bootstrap.servers'';
          kdc = enrichSliceProperties [target, source] kdc
      in case map_of (kd_SliceProperties kdc) target of
           None \<Rightarrow> Inl (Err ''target Kafka bootstrap servers are not set'')
         | Some targetBrokers \<Rightarrow>
             (if length targetBrokers = 0 then Inl (Err ''target Kafka bootstrap servers are not set'')
              else case map_of (kd_SliceProperties kdc) source of
                  None \<Rightarrow> Inl (Err ''source Kafka bootstrap servers are not set'')
                | Some sourceBrokers \<Rightarrow>
                    (if length sourceBrokers = 0 then Inl (Err ''source Kafka bootstrap servers are not set'')
                     else Inr (kdc\<lparr>kd_TargetBrokers := targetBrokers, kd_SourceBrokers := sourceBrokers\<rparr>))))"

text \<open>The flow-specific value wins over the global one.\<close>

definition resolve_global_local :: "'v gomap \<Rightarrow> string \<Rightarrow> string \<Rightarrow> 'v option" where
  "resolve_global_local properties arrowPattern key =
     (let globalValue = map_of properties key;
          localValue = map_of properties (arrowPattern @ ''.'' @ key)
      in case localValue of Some v \<Rightarrow> Some v | None \<Rightarrow> globalValue)"

definition resolveGlobalLocalStringValue :: "kmmDrConfig \<Rightarrow> string \<Rightarrow> string option" where
  "resolveGlobalLocalStringValue kdc key =
     resolve_global_local (kd_StringProperties kdc) (kd_ArrowPattern kdc) key"

definition resolveGlobalLocalSliceValue :: "kmmDrConfig \<Rightarrow> string \<Rightarrow> string list option" where
  "resolveGlobalLocalSliceValue kdc key =
     resolve_global_local (kd_SliceProperties kdc) (kd_ArrowPattern kdc) key"

definition resolveReplicationEnable :: "kmmDrConfig \<Rightarrow> kmmDrConfig" where
  "resolveReplicationEnable kdc = kdc\<lparr>kd_ReplicationEnabled :=
     (case resolveGlobalLocalStringValue kdc ''enabled'' of
        None \<Rightarrow> True | Some value \<Rightarrow> strings_ToLower value = ''true'')\<rparr>"

definition enrichProperties :: "kmmDrConfig \<Rightarrow> go_error + kmmDrConfig" where
  "enrichProperties kdc =
     (case validateClusters (enrichInitial kdc) of
        Inl err \<Rightarrow> Inl err
      | Inr kdc \<Rightarrow> (case resolveBootstrapServers kdc of
            Inl err \<Rightarrow> Inl err
          | Inr kdc \<Rightarrow> Inr (resolveReplicationEnable kdc)))"

definition NewKmmDrConfig :: "string gomap \<Rightarrow> go_error + kmmDrConfig" where
  "NewKmmDrConfig properties = enrichProperties
     \<lparr>kd_Properties = properties, kd_StringProperties = [], kd_SliceProperties = [], kd_ArrowPattern = [],
      kd_TargetCluster = [], kd_SourceCluster = [], kd_TargetBrokers = [], kd_SourceBrokers = [],
      kd_ReplicationEnabled = False\<rparr>"

definition getAllowRegExps :: "kmmDrConfig \<Rightarrow> string list option" where
  "getAllowRegExps kdc = resolveGlobalLocalSliceValue kdc ''topics''"

definition getBlockRegExps :: "kmmDrConfig \<Rightarrow> string list option" where
  "getBlockRegExps kdc = resolveGlobalLocalSliceValue kdc ''topics.blacklist''"

definition dr_GetRegularExpressions :: "kmmDrConfig \<Rightarrow> string list option \<times> string list option" where
  "dr_GetRegularExpressions kdc = (getAllowRegExps kdc, getBlockRegExps kdc)"

section \<open>The handler\<close>

text \<open>The handler's configuration is a pointer that stays \<open>nil\<close> where the configuration could not be
  read; every accessor dereferences it.\<close>

record kmmConfigHandler =
  kh_config :: "kmmDrConfig option"
  kh_data :: "string list gomap"

definition getKmmConfigMapContent :: "'w kubeClient \<Rightarrow> operatorEnv \<Rightarrow> ('w, string) eff" where
  "getKmmConfigMapContent k env =
     bindE (liftE (GetKmmConfigMapName (OPERATOR_NAME env))) (\<lambda>name.
     bindE (c_Get (k_configMaps k) name (OPERATOR_NAMESPACE env)) (\<lambda>kmmConfigMap.
       returnE (mstr (cm_Data kmmConfigMap) ''config'')))"

definition credential :: "secret \<Rightarrow> string \<Rightarrow> string \<Rightarrow> go_error + string" where
  "credential s key message = (case sec_Data s of
      None \<Rightarrow> Inl (Err message)
    | Some d \<Rightarrow> (case map_of d key of None \<Rightarrow> Inl (Err message) | Some v \<Rightarrow> Inr v))"

definition getKafkaCredentials :: "'w kubeClient \<Rightarrow> operatorEnv \<Rightarrow> string \<Rightarrow> string \<Rightarrow>
    ('w, string list \<times> string list) eff" where
  "getKafkaCredentials k env targetCluster sourceCluster =
     bindE (liftE (GetKmmSecretName (OPERATOR_NAME env))) (\<lambda>secretName.
     bindE (c_Get (k_secrets k) secretName (OPERATOR_NAMESPACE env)) (\<lambda>kmmSecret.
       let targetUserKey = targetCluster @ ''-kafka-username'';
           targetPasswordKey = targetCluster @ ''-kafka-password'';
           sourceUserKey = sourceCluster @ ''-kafka-username'';
           sourcePasswordKey = sourceCluster @ ''-kafka-password'';
           noUser = ''can not find username for Kafka cluster with key - '' @ targetUserKey;
           noPassword = ''can not find password for Kafka cluster with key - '' @ targetUserKey
       in bindE (liftE (credential kmmSecret targetUserKey noUser)) (\<lambda>targetUser.
          bindE (liftE (credential kmmSecret sourceUserKey noUser)) (\<lambda>sourceUser.
          bindE (liftE (credential kmmSecret targetPasswordKey noPassword)) (\<lambda>targetPassword.
          bindE (liftE (credential kmmSecret sourcePasswordKey noPassword)) (\<lambda>sourcePassword.
            returnE ([targetUser, targetPassword], [sourceUser, sourcePassword])))))))"

definition enrichKmmHandler :: "'w kubeClient \<Rightarrow> operatorEnv \<Rightarrow> kmmConfigHandler \<Rightarrow> ('w, kmmConfigHandler) eff" where
  "enrichKmmHandler k env kch =
     tryE (getKmmConfigMapContent k env) (\<lambda>_. returnE kch) (\<lambda>cmContent.
       case NewKmmDrConfig (getStringProperties cmContent) of
         Inl _ \<Rightarrow> returnE kch
       | Inr config \<Rightarrow>
           bindE (getKafkaCredentials k env (kd_TargetCluster config) (kd_SourceCluster config))
             (\<lambda>(targetCreds, sourceCreds). returnE \<lparr>kh_config = Some config,
                kh_data = [(''targetCredentials'', targetCreds), (''sourceCredentials'', sourceCreds)]\<rparr>))"

definition NewKmmConfigHandler :: "'w kubeClient \<Rightarrow> operatorEnv \<Rightarrow> ('w, kmmConfigHandler) eff" where
  "NewKmmConfigHandler k env = enrichKmmHandler k env \<lparr>kh_config = None, kh_data = []\<rparr>"

text \<open>\<open>kch.config.field\<close>\<close>

definition deref_config :: "kmmConfigHandler \<Rightarrow> (kmmDrConfig \<Rightarrow> 'a) \<Rightarrow> go_error + 'a" where
  "deref_config kch f = (case kh_config kch of None \<Rightarrow> Inl Panic | Some config \<Rightarrow> Inr (f config))"

definition GetKafkaUsernamePasswords :: "kmmConfigHandler \<Rightarrow> string list \<times> string list" where
  "GetKafkaUsernamePasswords kch =
     (case map_of (kh_data kch) ''targetCredentials'' of None \<Rightarrow> [] | Some c \<Rightarrow> c,
      case map_of (kh_data kch) ''sourceCredentials'' of None \<Rightarrow> [] | Some c \<Rightarrow> c)"

definition GetBrokers :: "kmmConfigHandler \<Rightarrow> go_error + (string list \<times> string list)" where
  "GetBrokers kch = deref_config kch (\<lambda>c. (kd_TargetBrokers c, kd_SourceBrokers c))"

definition GetTargetCluster :: "kmmConfigHandler \<Rightarrow> go_error + string" where
  "GetTargetCluster kch = deref_config kch kd_TargetCluster"

definition GetSourceCluster :: "kmmConfigHandler \<Rightarrow> go_error + string" where
  "GetSourceCluster kch = deref_config kch kd_SourceCluster"

definition IsReplicationEnabled :: "kmmConfigHandler \<Rightarrow> go_error + bool" where
  "IsReplicationEnabled kch = deref_config kch kd_ReplicationEnabled"

definition GetRegularExpressions :: "kmmConfigHandler \<Rightarrow> go_error + (string list option \<times> string list option)" where
  "GetRegularExpressions kch = deref_config kch dr_GetRegularExpressions"

section \<open>The auditor\<close>

text \<open>
  A sarama client as the auditor uses it. \<open>regexp_MatchString\<close> is that of Go's regular
  expressions, on patterns from the configuration.
\<close>

datatype offsetTime = OffsetNewest | OffsetOldest

record 'w saramaClient =
  sc_Topics :: "('w, string list) eff"
  sc_Partitions :: "string \<Rightarrow> ('w, int list) eff"
  sc_GetOffset :: "string \<Rightarrow> int \<Rightarrow> offsetTime \<Rightarrow> ('w, 64 word) eff"

record mmCluster =
  mc_Name :: string
  mc_EnableSsl :: bool
  mc_SslSecretName :: string
  mc_SaslMechanism :: string

definition findCluster :: "string \<Rightarrow> mmCluster list \<Rightarrow> go_error + mmCluster" where
  "findCluster clusterName clusters =
     (case find (\<lambda>cluster. strings_EqualFold clusterName (mc_Name cluster)) clusters of
        Some cluster \<Rightarrow> Inr cluster
      | None \<Rightarrow> Inl (Err (''cannot find cluster with name: '' @ clusterName)))"

definition auditor_getSslCertificates :: "'w kubeClient \<Rightarrow> mmCluster \<Rightarrow> string \<Rightarrow> ('w, sslCertificates) eff" where
  "auditor_getSslCertificates k cluster namespace =
     (if mc_EnableSsl cluster \<and> mc_SslSecretName cluster \<noteq> []
      then GetSslCertificates k (mc_SslSecretName cluster) namespace
      else returnE \<lparr>CaCert = [], TlsCert = [], TlsKey = []\<rparr>)"

text \<open>\<open>creds[i]\<close> is an index out of range when there are no credentials.\<close>

definition nth_cred :: "string list \<Rightarrow> nat \<Rightarrow> go_error + string" where
  "nth_cred creds i = (if i < length creds then Inr (creds ! i) else Inl Panic)"

definition sasl_of :: "mmCluster \<Rightarrow> string list \<Rightarrow> go_error + saslSettings" where
  "sasl_of cluster creds = (case nth_cred creds 0 of
      Inl e \<Rightarrow> Inl e
    | Inr user \<Rightarrow> (case nth_cred creds 1 of
          Inl e \<Rightarrow> Inl e
        | Inr password \<Rightarrow> Inr \<lparr>Mechanism = mc_SaslMechanism cluster, sasl_Username = user, sasl_Password = password\<rparr>))"

definition getKafkaClients :: "'w kubeClient \<Rightarrow> operatorEnv \<Rightarrow> (string \<Rightarrow> string \<Rightarrow> go_error + 'c) \<Rightarrow> 'c saramaConfig \<Rightarrow>
    (string list \<Rightarrow> 'c saramaConfig \<Rightarrow> ('w, 'w saramaClient) eff) \<Rightarrow> mmCluster list \<Rightarrow> kmmConfigHandler \<Rightarrow>
    ('w, 'w saramaClient \<times> 'w saramaClient) eff" where
  "getKafkaClients k env x509KeyPair newConfig newClient clusters handler =
     bindE (liftE (GetBrokers handler)) (\<lambda>(targetBrokers, sourceBrokers).
     bindE (liftE (GetTargetCluster handler)) (\<lambda>targetName.
     bindE (liftE (findCluster targetName clusters)) (\<lambda>targetCluster.
     bindE (liftE (GetSourceCluster handler)) (\<lambda>sourceName.
     bindE (liftE (findCluster sourceName clusters)) (\<lambda>sourceCluster.
     let (targetCreds, sourceCreds) = GetKafkaUsernamePasswords handler in
     bindE (liftE (sasl_of targetCluster targetCreds)) (\<lambda>targetSaslSettings.
     bindE (liftE (sasl_of sourceCluster sourceCreds)) (\<lambda>sourceSaslSettings.
     bindE (auditor_getSslCertificates k targetCluster (OPERATOR_NAMESPACE env)) (\<lambda>targetSsl.
     bindE (auditor_getSslCertificates k sourceCluster (OPERATOR_NAMESPACE env)) (\<lambda>sourceSsl.
     bindE (liftE (NewKafkaClientConfig x509KeyPair newConfig targetSaslSettings (mc_EnableSsl targetCluster) targetSsl))
       (\<lambda>targetKafkaConfig.
     bindE (liftE (NewKafkaClientConfig x509KeyPair newConfig sourceSaslSettings (mc_EnableSsl sourceCluster) sourceSsl))
       (\<lambda>sourceKafkaConfig.
     bindE (newClient targetBrokers targetKafkaConfig) (\<lambda>targetClient.
     bindE (newClient sourceBrokers sourceKafkaConfig) (\<lambda>sourceClient.
       returnE (targetClient, sourceClient))))))))))))))"

definition matchTopic :: "(string \<Rightarrow> string \<Rightarrow> go_error + bool) \<Rightarrow> string \<Rightarrow> string \<Rightarrow> go_error + bool" where
  "matchTopic regexp_MatchString pat topic = regexp_MatchString (''^'' @ pat @ ''$'') topic"

text \<open>An invalid pattern is logged and does not match.\<close>

definition any_match :: "(string \<Rightarrow> string \<Rightarrow> go_error + bool) \<Rightarrow> string list \<Rightarrow> string \<Rightarrow> bool" where
  "any_match regexp_MatchString pats topic \<longleftrightarrow>
     (\<exists>pat\<in>set pats. matchTopic regexp_MatchString pat topic = Inr True)"

definition mustBeTopicReplicated :: "(string \<Rightarrow> string \<Rightarrow> go_error + bool) \<Rightarrow> string \<Rightarrow> string list option \<Rightarrow>
    string list option \<Rightarrow> bool" where
  "mustBeTopicReplicated regexp_MatchString topic allowTopicRegExps blockTopicRegExps =
     (if strings_HasPrefix topic ''__'' \<or> topic = ''heartbeats'' then False
      else if any_match regexp_MatchString (case blockTopicRegExps of None \<Rightarrow> [] | Some ps \<Rightarrow> ps) topic then False
      else case allowTopicRegExps of
          None \<Rightarrow> True
        | Some ps \<Rightarrow> any_match regexp_MatchString ps topic)"

text \<open>Offsets are signed 64-bit integers.\<close>

definition calculateMessagesCount :: "64 word \<Rightarrow> 64 word \<Rightarrow> 64 word" where
  "calculateMessagesCount latestOffset earliestOffset =
     (if latestOffset <s earliestOffset then 0
      else let latestOffset = (if latestOffset <s 0 then 0 else latestOffset);
               earliestOffset = (if earliestOffset <s 0 then 0 else earliestOffset)
           in latestOffset - earliestOffset)"

definition partition_key :: "string \<Rightarrow> int \<Rightarrow> string" where
  "partition_key topic part = topic @ ''-'' @ strconv_Itoa part"

text \<open>The counting loops, with the counts so far as their result also when they fail.\<close>

fun count_topic :: "'w saramaClient \<Rightarrow> string \<Rightarrow> int list \<Rightarrow> 64 word gomap \<Rightarrow> 'w \<Rightarrow>
    (go_error option \<times> 64 word gomap) \<times> 'w" where
  "count_topic client topic [] messagesCount w = ((None, messagesCount), w)"
| "count_topic client topic (part # parts) messagesCount w =
     (case sc_GetOffset client topic part OffsetNewest w of
        (Inl err, w) \<Rightarrow> ((Some err, messagesCount), w)
      | (Inr latestOffset, w) \<Rightarrow>
          (case sc_GetOffset client topic part OffsetOldest w of
             (Inl err, w) \<Rightarrow> ((Some err, messagesCount), w)
           | (Inr earliestOffset, w) \<Rightarrow> count_topic client topic parts
               (mput (partition_key topic part) (calculateMessagesCount latestOffset earliestOffset) messagesCount) w))"

fun count_topics :: "'w saramaClient \<Rightarrow> string list \<Rightarrow> 64 word gomap \<Rightarrow> 'w \<Rightarrow>
    (go_error option \<times> 64 word gomap) \<times> 'w" where
  "count_topics client [] messagesCount w = ((None, messagesCount), w)"
| "count_topics client (topic # topics) messagesCount w =
     (case sc_Partitions client topic w of
        (Inl err, w) \<Rightarrow> ((Some err, messagesCount), w)
      | (Inr parts, w) \<Rightarrow> (case count_topic client topic parts messagesCount w of
            ((Some err, m), w) \<Rightarrow> ((Some err, m), w)
          | ((None, m), w) \<Rightarrow> count_topics client topics m w))"

definition getMessagesCount :: "'w saramaClient \<Rightarrow> string list \<Rightarrow> 'w \<Rightarrow> (go_error option \<times> 64 word gomap) \<times> 'w" where
  "getMessagesCount client topics w = count_topics client topics [] w"

definition flushOut :: "64 word gomap \<Rightarrow> 64 word gomap \<Rightarrow> 64 word gomap" where
  "flushOut activePartitions standByPartitions = fold (\<lambda>(activePartition, valueActive) result.
     case map_of standByPartitions activePartition of
       None \<Rightarrow> mput activePartition valueActive result
     | Some valueStandby \<Rightarrow> (if valueStandby <s valueActive then mput activePartition valueActive result else result))
     activePartitions []"

text \<open>\<open>key[:strings.LastIndex(key, "-")]\<close>; a key without a dash would be a slice out of range.\<close>

definition topic_of_key :: "string \<Rightarrow> go_error + string" where
  "topic_of_key key = (if CHR ''-'' \<in> set key
     then Inr (rev (tl (dropWhile (\<lambda>c. c \<noteq> CHR ''-'') (rev key)))) else Inl Panic)"

fun getTopicList :: "64 word gomap \<Rightarrow> go_error + string list" where
  "getTopicList [] = Inr []"
| "getTopicList ((key, v) # rest) = (case topic_of_key key of
      Inl e \<Rightarrow> Inl e
    | Inr topic \<Rightarrow> (case getTopicList rest of Inl e \<Rightarrow> Inl e | Inr topics \<Rightarrow> Inr (topic # topics)))"

text \<open>
  The loop that waits for the standby side. \<open>isOpen\<close> tells whether the channel \<open>stopAudit\<close> is still
  open, \<open>sleep\<close> is the pause of five seconds. \<open>None\<close> is a loop that does not end.
\<close>

partial_function (option) waitUntilActiveMessagesFlushOut :: "('w \<Rightarrow> bool) \<Rightarrow> ('w \<Rightarrow> 'w) \<Rightarrow> 'w saramaClient \<Rightarrow>
    64 word gomap \<Rightarrow> 'w \<Rightarrow> ((go_error + unit) \<times> 'w) option" where
  "waitUntilActiveMessagesFlushOut isOpen sleep clientStandby notReplicated w =
     (if \<not> isOpen w then Some (Inr (), w)
      else case getTopicList notReplicated of
          Inl e \<Rightarrow> Some (Inl e, w)
        | Inr topics \<Rightarrow>
            (case getMessagesCount clientStandby topics w of
               ((Some err, _), w) \<Rightarrow> Some (Inl err, w)
             | ((None, standby), w) \<Rightarrow>
                 (let notReplicated = flushOut notReplicated standby
                  in if notReplicated = [] then Some (Inr (), w)
                     else waitUntilActiveMessagesFlushOut isOpen sleep clientStandby notReplicated (sleep w))))"

text \<open>The part of \<open>checkFullReplication\<close> after the clients are there. The errors of the two counts
  are dropped by \<open>getMessagesCountWrapped\<close>.\<close>

definition audit_topics :: "('w \<Rightarrow> bool) \<Rightarrow> ('w \<Rightarrow> 'w) \<Rightarrow> 'w saramaClient \<Rightarrow> 'w saramaClient \<Rightarrow> string list \<Rightarrow> 'w \<Rightarrow>
    ((go_error + unit) \<times> 'w) option" where
  "audit_topics isOpen sleep clientActive clientStandby replicatedTopics w =
     (let ((_, messagesActive), w) = getMessagesCount clientActive replicatedTopics w;
          ((_, messagesStandby), w) = getMessagesCount clientStandby replicatedTopics w;
          notReplicatedPartitions = flushOut messagesActive messagesStandby
      in if notReplicatedPartitions = [] then Some (Inr (), w)
         else waitUntilActiveMessagesFlushOut isOpen sleep clientStandby notReplicatedPartitions w)"

definition checkFullReplication :: "'w kubeClient \<Rightarrow> operatorEnv \<Rightarrow> (string \<Rightarrow> string \<Rightarrow> go_error + 'c) \<Rightarrow> 'c saramaConfig \<Rightarrow>
    (string list \<Rightarrow> 'c saramaConfig \<Rightarrow> ('w, 'w saramaClient) eff) \<Rightarrow> (string \<Rightarrow> string \<Rightarrow> go_error + bool) \<Rightarrow>
    ('w \<Rightarrow> bool) \<Rightarrow> ('w \<Rightarrow> 'w) \<Rightarrow> mmCluster list \<Rightarrow> 'w \<Rightarrow> ((go_error + unit) \<times> 'w) option" where
  "checkFullReplication k env x509KeyPair newConfig newClient regexp_MatchString isOpen sleep clusters w =
     (case NewKmmConfigHandler k env w of
        (Inl err, w) \<Rightarrow> Some (Inl err, w)
      | (Inr kmmConfigHandler, w) \<Rightarrow>
          (case IsReplicationEnabled kmmConfigHandler of
             Inl e \<Rightarrow> Some (Inl e, w)
           | Inr False \<Rightarrow> Some (Inr (), w)
           | Inr True \<Rightarrow>
               (case getKafkaClients k env x509KeyPair newConfig newClient clusters kmmConfigHandler w of
                  (Inl err, w) \<Rightarrow> Some (Inl err, w)
                | (Inr (clientStandby, clientActive), w) \<Rightarrow>
                    (case GetRegularExpressions kmmConfigHandler of
                       Inl e \<Rightarrow> Some (Inl e, w)
                     | Inr (allowRegExps, blockRegExps) \<Rightarrow>
                         (case sc_Topics clientActive w of
                            (Inl err, w) \<Rightarrow> Some (Inl err, w)
                          | (Inr topicsActive, w) \<Rightarrow>
                              audit_topics isOpen sleep clientActive clientStandby
                                (filter (\<lambda>topic. mustBeTopicReplicated regexp_MatchString topic allowRegExps blockRegExps)
                                  topicsActive) w)))))"

text \<open>\<open>CheckFullReplication\<close>: the audit's result when it comes before the ticker, else a timeout.\<close>

definition CheckFullReplication :: "(go_error + unit) option \<Rightarrow> bool \<times> go_error option" where
  "CheckFullReplication replicationDone = (case replicationDone of
      Some (Inr _) \<Rightarrow> (True, None) | Some (Inl err) \<Rightarrow> (True, Some err) | None \<Rightarrow> (False, None))"

section \<open>What the configuration says\<close>

definition no_comma :: "string option \<Rightarrow> string option" where
  "no_comma v = (case v of Some s \<Rightarrow> if CHR '','' \<in> set s then None else Some s | None \<Rightarrow> None)"

lemma enrichString_spec:
  "map_of (kd_StringProperties (enrichStringProperties keys kdc)) k =
     (if k \<in> set keys \<and> no_comma (map_of (kd_Properties kdc) k) \<noteq> None then map_of (kd_Properties kdc) k
      else map_of (kd_StringProperties kdc) k)"
  "kd_Properties (enrichStringProperties keys kdc) = kd_Properties kdc"
  "kd_SliceProperties (enrichStringProperties keys kdc) = kd_SliceProperties kdc"
  unfolding enrichStringProperties_def
  by (induction keys arbitrary: kdc) (auto simp: no_comma_def split: option.splits)

lemma enrichSlice_spec:
  "map_of (kd_SliceProperties (enrichSliceProperties keys kdc)) k =
     (if k \<in> set keys \<and> map_of (kd_Properties kdc) k \<noteq> None
      then map_option slice_of (map_of (kd_Properties kdc) k) else map_of (kd_SliceProperties kdc) k)"
  "kd_Properties (enrichSliceProperties keys kdc) = kd_Properties kdc"
  "kd_StringProperties (enrichSliceProperties keys kdc) = kd_StringProperties kdc"
  "kd_TargetCluster (enrichSliceProperties keys kdc) = kd_TargetCluster kdc"
  "kd_SourceCluster (enrichSliceProperties keys kdc) = kd_SourceCluster kdc"
  "kd_ArrowPattern (enrichSliceProperties keys kdc) = kd_ArrowPattern kdc"
  unfolding enrichSliceProperties_def
  by (induction keys arbitrary: kdc) (auto split: option.splits)

lemma arrow_string_one:
  "fold (\<lambda>pat kdc. if arrow_match pat key \<and> \<not> strings_Contains property '',''
         then kdc\<lparr>kd_StringProperties := mput key property (kd_StringProperties kdc)\<rparr> else kdc) pats kdc =
   (if (\<exists>pat\<in>set pats. arrow_match pat key) \<and> CHR '','' \<notin> set property
    then kdc\<lparr>kd_StringProperties := mput key property (kd_StringProperties kdc)\<rparr> else kdc)"
proof (induction pats arbitrary: kdc)
  case (Cons pat pats)
  have "mput key property (mput key property m) = mput key property m" for m :: "string gomap"
    by (induction m) auto
  then show ?case using Cons by auto
qed simp

lemma arrow_slice_one:
  "fold (\<lambda>pat kdc. if arrow_match pat key
         then kdc\<lparr>kd_SliceProperties := mput key (slice_of property) (kd_SliceProperties kdc)\<rparr> else kdc) pats kdc =
   (if \<exists>pat\<in>set pats. arrow_match pat key
    then kdc\<lparr>kd_SliceProperties := mput key (slice_of property) (kd_SliceProperties kdc)\<rparr> else kdc)"
proof (induction pats arbitrary: kdc)
  case (Cons pat pats)
  have "mput key v (mput key v m) = mput key v m" for m :: "string list gomap" and v
    by (induction m) auto
  then show ?case using Cons by auto
qed simp

lemma enrichArrowString_spec:
  assumes "wf_map (kd_Properties kdc)"
  shows "map_of (kd_StringProperties (enrichArrowStringProperties pats kdc)) k =
     (if (\<exists>pat\<in>set pats. arrow_match pat k) \<and> no_comma (map_of (kd_Properties kdc) k) \<noteq> None
      then map_of (kd_Properties kdc) k else map_of (kd_StringProperties kdc) k)"
    and "kd_Properties (enrichArrowStringProperties pats kdc) = kd_Properties kdc"
    and "kd_SliceProperties (enrichArrowStringProperties pats kdc) = kd_SliceProperties kdc"
proof -
  let ?run = "fold (\<lambda>(key, property) kdc. if (\<exists>pat\<in>set pats. arrow_match pat key) \<and> CHR '','' \<notin> set property
      then kdc\<lparr>kd_StringProperties := mput key property (kd_StringProperties kdc)\<rparr> else kdc)"
  have run: "enrichArrowStringProperties pats kdc = ?run (kd_Properties kdc) kdc"
    unfolding enrichArrowStringProperties_def arrow_string_one ..
  have gen: "wf_map ps \<Longrightarrow> map_of (kd_StringProperties (?run ps kdc)) k =
     (if (\<exists>pat\<in>set pats. arrow_match pat k) \<and> no_comma (map_of ps k) \<noteq> None
      then map_of ps k else map_of (kd_StringProperties kdc) k)" for ps kdc
  proof (induction ps arbitrary: kdc)
    case (Cons p ps)
    obtain key v where p: "p = (key, v)" by fastforce
    have "map_of ps key = None" using Cons.prems p by (auto simp: map_of_eq_None_iff)
    with Cons p show ?case by (auto simp: no_comma_def)
  qed (simp add: no_comma_def)
  show "map_of (kd_StringProperties (enrichArrowStringProperties pats kdc)) k =
     (if (\<exists>pat\<in>set pats. arrow_match pat k) \<and> no_comma (map_of (kd_Properties kdc) k) \<noteq> None
      then map_of (kd_Properties kdc) k else map_of (kd_StringProperties kdc) k)"
    unfolding run using gen[OF assms] .
  have "kd_Properties (?run ps kdc) = kd_Properties kdc \<and> kd_SliceProperties (?run ps kdc) = kd_SliceProperties kdc" for ps kdc
    by (induction ps arbitrary: kdc) auto
  then show "kd_Properties (enrichArrowStringProperties pats kdc) = kd_Properties kdc"
    "kd_SliceProperties (enrichArrowStringProperties pats kdc) = kd_SliceProperties kdc"
    unfolding run by auto
qed

lemma enrichArrowSlice_spec:
  assumes "wf_map (kd_Properties kdc)"
  shows "map_of (kd_SliceProperties (enrichArrowSliceProperties pats kdc)) k =
     (if (\<exists>pat\<in>set pats. arrow_match pat k) \<and> map_of (kd_Properties kdc) k \<noteq> None
      then map_option slice_of (map_of (kd_Properties kdc) k) else map_of (kd_SliceProperties kdc) k)"
    and "kd_Properties (enrichArrowSliceProperties pats kdc) = kd_Properties kdc"
    and "kd_StringProperties (enrichArrowSliceProperties pats kdc) = kd_StringProperties kdc"
proof -
  let ?run = "fold (\<lambda>(key, property) kdc. if \<exists>pat\<in>set pats. arrow_match pat key
      then kdc\<lparr>kd_SliceProperties := mput key (slice_of property) (kd_SliceProperties kdc)\<rparr> else kdc)"
  have run: "enrichArrowSliceProperties pats kdc = ?run (kd_Properties kdc) kdc"
    unfolding enrichArrowSliceProperties_def arrow_slice_one ..
  have gen: "wf_map ps \<Longrightarrow> map_of (kd_SliceProperties (?run ps kdc)) k =
     (if (\<exists>pat\<in>set pats. arrow_match pat k) \<and> map_of ps k \<noteq> None
      then map_option slice_of (map_of ps k) else map_of (kd_SliceProperties kdc) k)" for ps kdc
  proof (induction ps arbitrary: kdc)
    case (Cons p ps)
    obtain key v where p: "p = (key, v)" by fastforce
    have "map_of ps key = None" using Cons.prems p by (auto simp: map_of_eq_None_iff)
    with Cons p show ?case by auto
  qed simp
  show "map_of (kd_SliceProperties (enrichArrowSliceProperties pats kdc)) k =
     (if (\<exists>pat\<in>set pats. arrow_match pat k) \<and> map_of (kd_Properties kdc) k \<noteq> None
      then map_option slice_of (map_of (kd_Properties kdc) k) else map_of (kd_SliceProperties kdc) k)"
    unfolding run using gen[OF assms] .
  have "kd_Properties (?run ps kdc) = kd_Properties kdc \<and> kd_StringProperties (?run ps kdc) = kd_StringProperties kdc" for ps kdc
    by (induction ps arbitrary: kdc) auto
  then show "kd_Properties (enrichArrowSliceProperties pats kdc) = kd_Properties kdc"
    "kd_StringProperties (enrichArrowSliceProperties pats kdc) = kd_StringProperties kdc"
    unfolding run by auto
qed

lemma arrow_match_ending: "arrow_match ending key \<Longrightarrow> \<exists>p. key = p @ ending"
proof -
  assume "arrow_match ending key"
  then have "dropWhile word_char (drop 2 (dropWhile word_char key)) = ending"
    by (simp add: arrow_match_def Let_def)
  moreover have "\<exists>p. s = p @ dropWhile word_char s" for s by (metis takeWhile_dropWhile_id)
  moreover have "\<exists>p. s = p @ drop 2 s" for s :: string by (metis append_take_drop_id)
  ultimately show ?thesis by (metis append.assoc)
qed

definition initial_config :: "string gomap \<Rightarrow> kmmDrConfig" where
  "initial_config properties =
     \<lparr>kd_Properties = properties, kd_StringProperties = [], kd_SliceProperties = [], kd_ArrowPattern = [],
      kd_TargetCluster = [], kd_SourceCluster = [], kd_TargetBrokers = [], kd_SourceBrokers = [],
      kd_ReplicationEnabled = False\<rparr>"

text \<open>The value a string property has, globally or for a flow.\<close>

definition string_property :: "string gomap \<Rightarrow> string \<Rightarrow> string option" where
  "string_property properties key =
     (if key \<in> set stringProperties \<or> arrow_match ''.enabled'' key then no_comma (map_of properties key) else None)"

definition slice_property :: "string gomap \<Rightarrow> string \<Rightarrow> string list option" where
  "slice_property properties key =
     (if key \<in> set sliceProperties \<or> arrow_match ''.topics'' key \<or> arrow_match ''.topics.blacklist'' key
      then map_option slice_of (map_of properties key) else None)"

lemma no_comma_eq: "no_comma v \<noteq> None \<Longrightarrow> no_comma v = v"
  by (auto simp: no_comma_def split: option.splits if_splits)

lemma no_comma_choose:
  "(if P \<and> no_comma v \<noteq> None then v else if Q \<and> no_comma v \<noteq> None then v else None) =
   (if Q \<or> P then no_comma v else None)"
  using no_comma_eq[of v] by (cases "no_comma v") auto

lemma validateClusters_Inr:
  assumes "validateClusters c0 = Inr c1"
  obtains a b t source where "map_of (kd_SliceProperties c0) ''clusters'' = Some [a, b]" "a \<noteq> b"
    "map_of (kd_StringProperties c0) ''target.dc'' = Some t"
    "source = (if b \<noteq> t then b else if a \<noteq> t then a else kd_SourceCluster c0)"
    "c1 = c0\<lparr>kd_TargetCluster := t, kd_SourceCluster := source, kd_ArrowPattern := source @ ''->'' @ t\<rparr>"
proof -
  from assms obtain clusters t where cl: "map_of (kd_SliceProperties c0) ''clusters'' = Some clusters"
    and len: "length clusters = 2" and ne: "clusters ! 0 \<noteq> clusters ! 1"
    and t: "map_of (kd_StringProperties c0) ''target.dc'' = Some t"
    by (auto simp: validateClusters_def split: option.splits if_splits)
  from len obtain a b where ab: "clusters = [a, b]" by (auto simp: numeral_2_eq_2 length_Suc_conv)
  show ?thesis
  proof (rule that)
    show "map_of (kd_SliceProperties c0) ''clusters'' = Some [a, b]" using cl ab by simp
    show "a \<noteq> b" using ne ab by simp
    show "map_of (kd_StringProperties c0) ''target.dc'' = Some t" by (rule t)
    show "c1 = c0\<lparr>kd_TargetCluster := t,
        kd_SourceCluster := (if b \<noteq> t then b else if a \<noteq> t then a else kd_SourceCluster c0),
        kd_ArrowPattern := (if b \<noteq> t then b else if a \<noteq> t then a else kd_SourceCluster c0) @ ''->'' @ t\<rparr>"
      using assms ne by (simp add: validateClusters_def cl ab t Let_def)
  qed simp
qed

lemma enrichInitial_spec:
  assumes "wf_map properties"
  shows "map_of (kd_StringProperties (enrichInitial (initial_config properties))) = string_property properties"
    "map_of (kd_SliceProperties (enrichInitial (initial_config properties))) = slice_property properties"
    "kd_Properties (enrichInitial (initial_config properties)) = properties"
proof -
  let ?c1 = "enrichStringProperties stringProperties (initial_config properties)"
  let ?c2 = "enrichSliceProperties sliceProperties ?c1"
  let ?c3 = "enrichArrowStringProperties arrowStringPatterns ?c2"
  have p: "kd_Properties ?c1 = properties" "kd_Properties ?c2 = properties"
    by (simp_all add: enrichString_spec enrichSlice_spec initial_config_def)
  have wf2: "wf_map (kd_Properties ?c2)" using assms p by simp
  have p3: "kd_Properties ?c3 = properties" using enrichArrowString_spec(2)[OF wf2] p by simp
  have wf3: "wf_map (kd_Properties ?c3)" using assms p3 by simp
  have i: "kd_StringProperties (initial_config properties) = []" "kd_SliceProperties (initial_config properties) = []"
    "kd_Properties (initial_config properties) = properties"
    by (simp_all add: initial_config_def)
  show "kd_Properties (enrichInitial (initial_config properties)) = properties"
    unfolding enrichInitial_def using enrichArrowSlice_spec(2)[OF wf3] p3 by simp
  show "map_of (kd_StringProperties (enrichInitial (initial_config properties))) = string_property properties"
  proof
    fix k
    have "map_of (kd_StringProperties (enrichInitial (initial_config properties))) k =
      (if arrow_match ''.enabled'' k \<and> no_comma (map_of properties k) \<noteq> None then map_of properties k
       else if k \<in> set stringProperties \<and> no_comma (map_of properties k) \<noteq> None then map_of properties k else None)"
      unfolding enrichInitial_def enrichArrowSlice_spec(3)[OF wf3] enrichArrowString_spec(1)[OF wf2] p
        enrichSlice_spec enrichString_spec i
      by (simp only: arrowStringPatterns_def list.set bex_simps empty_iff insert_iff simp_thms map_of.simps)
    then show "map_of (kd_StringProperties (enrichInitial (initial_config properties))) k = string_property properties k"
      unfolding no_comma_choose string_property_def .
  qed
  show "map_of (kd_SliceProperties (enrichInitial (initial_config properties))) = slice_property properties"
    unfolding enrichInitial_def fun_eq_iff enrichArrowSlice_spec(1)[OF wf3] enrichArrowString_spec(3)[OF wf2]
      p3 p enrichSlice_spec enrichString_spec i slice_property_def
    by (auto simp: arrowSlicePatterns_def)
qed

lemma bootstrap_not_slice [simp]: "slice_property properties (c @ ''.bootstrap.servers'') = None"
proof -
  have "c @ ''.bootstrap.servers'' \<notin> set sliceProperties"
  proof
    assume "c @ ''.bootstrap.servers'' \<in> set sliceProperties"
    then have "length (c @ ''.bootstrap.servers'') \<in> length ` set sliceProperties" by (rule imageI)
    then show False by (simp add: sliceProperties_def)
  qed
  moreover have "\<not> arrow_match ''.topics'' (c @ ''.bootstrap.servers'')" "\<not> arrow_match ''.topics.blacklist'' (c @ ''.bootstrap.servers'')"
    using arrow_match_ending[of "''.topics''" "c @ ''.bootstrap.servers''"]
      arrow_match_ending[of "''.topics.blacklist''" "c @ ''.bootstrap.servers''"]
      arg_cong[of "c @ ''.bootstrap.servers''" "p @ ''.topics''" "\<lambda>s. take 2 (rev s)" for p]
      arg_cong[of "c @ ''.bootstrap.servers''" "p @ ''.topics.blacklist''" "\<lambda>s. take 2 (rev s)" for p]
    by auto
  ultimately show ?thesis by (simp add: slice_property_def)
qed

text \<open>What a resolved list of brokers and a resolved flag of the flow are.\<close>

lemma resolveBootstrapServers_Inr:
  assumes "resolveBootstrapServers c1 = Inr c2" "kd_Properties c1 = properties" "map_of (kd_SliceProperties c1) = slice_property properties"
  shows "map_option slice_of (map_of properties (kd_TargetCluster c1 @ ''.bootstrap.servers'')) = Some (kd_TargetBrokers c2)
    \<and> map_option slice_of (map_of properties (kd_SourceCluster c1 @ ''.bootstrap.servers'')) = Some (kd_SourceBrokers c2)
    \<and> kd_TargetBrokers c2 \<noteq> [] \<and> kd_SourceBrokers c2 \<noteq> [] \<and> kd_StringProperties c2 = kd_StringProperties c1
    \<and> kd_TargetCluster c2 = kd_TargetCluster c1 \<and> kd_SourceCluster c2 = kd_SourceCluster c1 \<and> kd_ArrowPattern c2 = kd_ArrowPattern c1"
  using assms by (auto simp: resolveBootstrapServers_def Let_def enrichSlice_spec split: option.splits if_splits)

lemma resolveReplicationEnable_flag:
  assumes "map_of (kd_StringProperties c) = string_property properties"
  shows "kd_ReplicationEnabled (resolveReplicationEnable c) =
    (case string_property properties (kd_ArrowPattern c @ ''.enabled'') of
       Some v \<Rightarrow> strings_ToLower v = ''true''
     | None \<Rightarrow> (case string_property properties ''enabled'' of Some v \<Rightarrow> strings_ToLower v = ''true'' | None \<Rightarrow> True))"
  using assms by (auto simp: resolveReplicationEnable_def resolveGlobalLocalStringValue_def resolve_global_local_def Let_def split: option.splits)

lemma NewKmmDrConfig_stages:
  "NewKmmDrConfig properties = (case validateClusters (enrichInitial (initial_config properties)) of
      Inl err \<Rightarrow> Inl err
    | Inr kdc \<Rightarrow> (case resolveBootstrapServers kdc of Inl err \<Rightarrow> Inl err | Inr kdc \<Rightarrow> Inr (resolveReplicationEnable kdc)))"
  by (simp add: NewKmmDrConfig_def enrichProperties_def initial_config_def)

text \<open>
  C19. A disaster-recovery configuration that is accepted is sound: exactly two different clusters
  are declared, the target is the \<open>target.dc\<close> property, the source is a declared cluster different
  from the target, both have at least one bootstrap server, and replication is enabled as the
  flow's own \<open>enabled\<close> property says, else the global one, else by default. Otherwise one of the
  four configuration errors is returned; no input makes the parser panic.
\<close>

theorem NewKmmDrConfig_sound:
  assumes "wf_map properties"
  shows "case NewKmmDrConfig properties of
     Inl e \<Rightarrow> \<exists>msg. e = Err msg
   | Inr c \<Rightarrow> \<exists>a b. map_option slice_of (map_of properties ''clusters'') = Some [a, b] \<and> a \<noteq> b
       \<and> map_of properties ''target.dc'' = Some (kd_TargetCluster c)
       \<and> kd_SourceCluster c \<in> {a, b} \<and> kd_SourceCluster c \<noteq> kd_TargetCluster c
       \<and> (kd_TargetCluster c \<in> {a, b} \<longrightarrow> {kd_SourceCluster c, kd_TargetCluster c} = {a, b})
       \<and> kd_TargetBrokers c \<noteq> [] \<and> kd_SourceBrokers c \<noteq> []
       \<and> map_option slice_of (map_of properties (kd_TargetCluster c @ ''.bootstrap.servers'')) = Some (kd_TargetBrokers c)
       \<and> map_option slice_of (map_of properties (kd_SourceCluster c @ ''.bootstrap.servers'')) = Some (kd_SourceBrokers c)
       \<and> kd_ReplicationEnabled c =
           (case string_property properties (kd_SourceCluster c @ ''->'' @ kd_TargetCluster c @ ''.enabled'') of
              Some v \<Rightarrow> strings_ToLower v = ''true''
            | None \<Rightarrow> (case string_property properties ''enabled'' of
                  Some v \<Rightarrow> strings_ToLower v = ''true'' | None \<Rightarrow> True))"
proof (cases "NewKmmDrConfig properties")
  case (Inl e)
  have "validateClusters c = Inl e \<Longrightarrow> \<exists>msg. e = Err msg" "resolveBootstrapServers c = Inl e \<Longrightarrow> \<exists>msg. e = Err msg" for c
    by (auto simp: validateClusters_def resolveBootstrapServers_def Let_def split: option.splits if_splits)
  with Inl show ?thesis by (auto simp: NewKmmDrConfig_stages split: sum.splits)
next
  case (Inr c)
  let ?c0 = "enrichInitial (initial_config properties)"
  note s = enrichInitial_spec[OF assms]
  from Inr obtain c1 c2 where c1: "validateClusters ?c0 = Inr c1" and c2: "resolveBootstrapServers c1 = Inr c2"
    and c: "c = resolveReplicationEnable c2"
    by (auto simp: NewKmmDrConfig_stages split: sum.splits)
  from validateClusters_Inr[OF c1, unfolded s] obtain a b t source
    where clusters: "slice_property properties ''clusters'' = Some [a, b]" and ab: "a \<noteq> b"
    and target: "string_property properties ''target.dc'' = Some t"
    and src: "source = (if b \<noteq> t then b else if a \<noteq> t then a else kd_SourceCluster ?c0)"
    and c1': "c1 = ?c0\<lparr>kd_TargetCluster := t, kd_SourceCluster := source, kd_ArrowPattern := source @ ''->'' @ t\<rparr>"
    by blast
  have source: "source \<in> {a, b}" "source \<noteq> t" "t \<in> {a, b} \<longrightarrow> {source, t} = {a, b}" using src ab by auto
  have tp: "map_of properties ''target.dc'' = Some t"
    using target no_comma_eq[of "map_of properties ''target.dc''"] by (simp add: string_property_def stringProperties_def)
  have cl: "map_option slice_of (map_of properties ''clusters'') = Some [a, b]"
    using clusters by (simp add: slice_property_def sliceProperties_def)
  have props: "kd_Properties c1 = properties" "map_of (kd_SliceProperties c1) = slice_property properties"
    "map_of (kd_StringProperties c1) = string_property properties" using s by (simp_all add: c1')
  note brokers = resolveBootstrapServers_Inr[OF c2 props(1,2)]
  have fields: "kd_TargetCluster c = t" "kd_SourceCluster c = source" "kd_TargetBrokers c = kd_TargetBrokers c2"
    "kd_SourceBrokers c = kd_SourceBrokers c2"
    using brokers by (simp_all add: c resolveReplicationEnable_def c1')
  have "map_of (kd_StringProperties c2) = string_property properties" "kd_ArrowPattern c2 = source @ ''->'' @ t"
    using brokers props(3) by (simp_all add: c1')
  note enabled = resolveReplicationEnable_flag[OF this(1), unfolded this(2), folded c]
  show ?thesis
    unfolding Inr sum.case fields
    using cl ab tp source brokers enabled by (intro exI[of _ a] exI[of _ b] conjI) (simp_all add: c1')
qed

definition sample_properties :: "string gomap" where
  "sample_properties = getStringProperties
     (''clusters = dc1, dc2'' @ [CHR ''\<newline>''] @ ''target.dc = dc2'' @ [CHR ''\<newline>''] @ ''enabled = true'' @ [CHR ''\<newline>'']
      @ ''dc1.bootstrap.servers = a:9092, b:9092'' @ [CHR ''\<newline>''] @ ''dc2.bootstrap.servers = c:9092'' @ [CHR ''\<newline>'']
      @ ''dc1->dc2.enabled = false'')"

theorem NewKmmDrConfig_sound_witness:
  "wf_map sample_properties \<and> (case NewKmmDrConfig sample_properties of
     Inl _ \<Rightarrow> False
   | Inr c \<Rightarrow> kd_SourceCluster c = ''dc1'' \<and> kd_TargetBrokers c = [''c:9092''] \<and> \<not> kd_ReplicationEnabled c)"
proof -
  have wf: "wf_map sample_properties" by code_simp
  have "case NewKmmDrConfig sample_properties of
     Inl _ \<Rightarrow> False
   | Inr c \<Rightarrow> kd_SourceCluster c = ''dc1'' \<and> kd_TargetBrokers c = [''c:9092''] \<and> \<not> kd_ReplicationEnabled c"
    by code_simp
  then show ?thesis using wf NewKmmDrConfig_sound[OF wf] by blast
qed

text \<open>A target that is none of the declared clusters is accepted.\<close>

lemma target_outside_clusters_accepted:
  "case NewKmmDrConfig [(''clusters'', ''dc1,dc2''), (''target.dc'', ''dc3''),
      (''dc2.bootstrap.servers'', ''b:9092''), (''dc3.bootstrap.servers'', ''c:9092'')] of
     Inl _ \<Rightarrow> False | Inr c \<Rightarrow> kd_TargetCluster c = ''dc3'' \<and> kd_SourceCluster c = ''dc2''"
  by code_simp

text \<open>A flow between clusters whose names have a dash has no properties of its own: its
  \<open>enabled = false\<close> is not read.\<close>

lemma dashed_flow_ignored:
  "case NewKmmDrConfig [(''clusters'', ''dc-1,dc-2''), (''target.dc'', ''dc-2''),
      (''dc-1.bootstrap.servers'', ''b:9092''), (''dc-2.bootstrap.servers'', ''c:9092''), (''dc-1->dc-2.enabled'', ''false'')] of
     Inl _ \<Rightarrow> False | Inr c \<Rightarrow> kd_ReplicationEnabled c"
  by code_simp

text \<open>
  Where the Mirror Maker configuration cannot be read, or is refused, the error is dropped and
  the audit panics on the missing configuration instead of reporting it.
\<close>

theorem audit_panics_without_config:
  assumes "case getKmmConfigMapContent k env w of
      (Inl _, w1) \<Rightarrow> w1 = w'
    | (Inr content, w1) \<Rightarrow> w1 = w' \<and> isl (NewKmmDrConfig (getStringProperties content))"
  shows "checkFullReplication k env x509KeyPair newConfig newClient regexp_MatchString isOpen sleep clusters w
     = Some (Inl Panic, w')"
proof -
  have "NewKmmConfigHandler k env w \<in> {(Inr \<lparr>kh_config = None, kh_data = []\<rparr>, w'), (Inl Panic, w')}"
    using assms by (auto simp: NewKmmConfigHandler_def enrichKmmHandler_def tryE_def returnE_def isl_def
        split: prod.splits sum.splits)
  then show ?thesis by (auto simp: checkFullReplication_def IsReplicationEnabled_def deref_config_def)
qed

definition sample_operatorEnv :: operatorEnv where
  "sample_operatorEnv = \<lparr>OPERATOR_NAME = ''kafka-service-operator'', OPERATOR_NAMESPACE = ''kafka'',
     KMM_CONFIG_RECONCILE_PERIOD_SECONDS = 60\<rparr>"

theorem audit_panics_without_config_witness:
  "checkFullReplication sample_kube sample_operatorEnv (\<lambda>_ _. Inr ()) undefined (\<lambda>_ _ w. (Inl NotFound, w)) (\<lambda>_ _. Inr True)
     (\<lambda>_. True) id [] empty_cluster = Some (Inl Panic, empty_cluster)"
proof (rule audit_panics_without_config)
  show "case getKmmConfigMapContent sample_kube sample_operatorEnv empty_cluster of
      (Inl _, w1) \<Rightarrow> w1 = empty_cluster
    | (Inr content, w1) \<Rightarrow> w1 = empty_cluster \<and> isl (NewKmmDrConfig (getStringProperties content))"
    by code_simp
qed

section \<open>What the audit says\<close>

lemma calculateMessagesCount_sint:
  "sint (calculateMessagesCount l e) = max 0 (max 0 (sint l) - max 0 (sint e))"
proof -
  have r: "sint l < 2 ^ 63" "sint e < 2 ^ 63" "- (2 ^ 63) \<le> sint e"
    using sint_range_size[of l] sint_range_size[of e] by (auto simp: word_size)
  have sub: "sint (a - b :: 64 word) = sint a - sint b" if "0 \<le> sint b" "sint b \<le> sint a" "sint a < 2 ^ 63" for a b
    using that by (simp add: sint_word_ariths signed_take_bit_int_eq_self)
  from sub[of e l] sub[of 0 l] r show ?thesis
    by (auto simp: calculateMessagesCount_def Let_def word_sless_alt max_def)
qed

text \<open>\<open>flushOut\<close> keeps exactly the partitions whose standby side is absent or behind.\<close>

lemma flushOut_spec:
  assumes "wf_map active"
  shows "map_of (flushOut active standby) p = (case map_of active p of
      None \<Rightarrow> None
    | Some n \<Rightarrow> (case map_of standby p of None \<Rightarrow> Some n | Some m \<Rightarrow> if m <s n then Some n else None))"
proof -
  let ?f = "\<lambda>(activePartition, valueActive) result.
     case map_of standby activePartition of
       None \<Rightarrow> mput activePartition valueActive result
     | Some valueStandby \<Rightarrow> (if valueStandby <s valueActive then mput activePartition valueActive result else result)"
  have "map_of (fold ?f active res) p = (case map_of active p of
      None \<Rightarrow> map_of res p
    | Some n \<Rightarrow> (case map_of standby p of None \<Rightarrow> Some n | Some m \<Rightarrow> if m <s n then Some n else map_of res p))" for res
    using assms
  proof (induction active arbitrary: res)
    case (Cons a active)
    obtain key v where a: "a = (key, v)" by fastforce
    have "map_of active key = None" using Cons.prems a by (auto simp: map_of_eq_None_iff)
    with Cons a show ?case by (auto split: option.splits)
  qed simp
  from this[of "[]"] show ?thesis by (simp add: flushOut_def split: option.splits)
qed

lemma flushOut_wf [simp]: "wf_map (flushOut active standby)"
proof -
  have "wf_map res \<Longrightarrow> wf_map (fold (\<lambda>(activePartition, valueActive) result.
     case map_of standby activePartition of
       None \<Rightarrow> mput activePartition valueActive result
     | Some valueStandby \<Rightarrow> (if valueStandby <s valueActive then mput activePartition valueActive result else result))
     active res)" for res :: "64 word gomap"
    by (induction active arbitrary: res) (auto split: option.splits)
  then show ?thesis by (simp add: flushOut_def)
qed

lemma count_topics_wf: "wf_map m \<Longrightarrow> wf_map (snd (fst (count_topics client topics m w)))"
proof (induction topics arbitrary: m w)
  case (Cons topic topics)
  have one: "wf_map m \<Longrightarrow> wf_map (snd (fst (count_topic client topic parts m w)))" for parts m w
    by (induction parts arbitrary: m w) (auto split: prod.splits sum.splits)
  then show ?case using Cons by (auto split: prod.splits sum.splits option.splits) (metis fst_conv snd_conv)+
qed simp

lemma getMessagesCount_wf: "getMessagesCount client topics w = ((e, m), w') \<Longrightarrow> wf_map m"
  using count_topics_wf[of "[]" client topics w] by (simp add: getMessagesCount_def)

text \<open>A partition that leaves the set of partitions to wait for was seen caught up.\<close>

lemma flushOut_dropped:
  assumes "wf_map active" "map_of active p = Some n" "map_of (flushOut active standby) p \<noteq> Some n"
  obtains m where "map_of standby p = Some m" "n \<le>s m"
  using assms flushOut_spec[OF assms(1), of standby p]
  by (auto split: option.splits if_splits simp: word_sle_eq word_sless_alt)

lemma wait_invariant:
  assumes reached: "\<And>topics w e standby w' p m n. \<lbrakk>getMessagesCount clientStandby topics w = ((e, standby), w');
      map_of standby p = Some m; n \<le>s m\<rbrakk> \<Longrightarrow> R p n w'"
    and stable: "\<And>topics w p n. R p n w \<Longrightarrow> R p n (snd (getMessagesCount clientStandby topics w))"
      "\<And>w p n. R p n w \<Longrightarrow> R p n (sleep w)"
    and run: "waitUntilActiveMessagesFlushOut isOpen sleep clientStandby notReplicated w = Some (Inr (), w')"
    and wf: "wf_map notReplicated"
    and start: "\<And>p n. map_of active p = Some n \<Longrightarrow> map_of notReplicated p = Some n \<or> R p n w"
  shows "\<not> isOpen w' \<or> (\<forall>p n. map_of active p = Some n \<longrightarrow> R p n w')"
proof -
  define P where "P isOpen' sleep' client' nr w y \<longleftrightarrow> (isOpen' = isOpen \<longrightarrow> sleep' = sleep \<longrightarrow> client' = clientStandby \<longrightarrow>
          y = (Inr () :: go_error + unit, w') \<longrightarrow> wf_map nr \<longrightarrow>
          (\<forall>p n. map_of active p = Some n \<longrightarrow> map_of nr p = Some n \<or> R p n w) \<longrightarrow>
          \<not> isOpen w' \<or> (\<forall>p n. map_of active p = Some n \<longrightarrow> R p n w'))" for isOpen' sleep' client' nr w y
  have "P isOpen sleep clientStandby notReplicated w (Inr (), w')"
  proof (rule waitUntilActiveMessagesFlushOut.raw_induct[OF _ run])
    fix loop isOpen' sleep' client' nr w y
    assume IH: "\<And>isOpen' sleep' client' nr w y. loop isOpen' sleep' client' nr w = Some y \<Longrightarrow> P isOpen' sleep' client' nr w y"
      and body: "(if \<not> isOpen' w then Some (Inr (), w)
      else case getTopicList nr of
          Inl e \<Rightarrow> Some (Inl e, w)
        | Inr topics \<Rightarrow>
            (case getMessagesCount client' topics w of
               ((Some err, _), w) \<Rightarrow> Some (Inl err, w)
             | ((None, standby), w) \<Rightarrow>
                 (let notReplicated = flushOut nr standby
                  in if notReplicated = [] then Some (Inr (), w)
                     else loop isOpen' sleep' client' notReplicated (sleep' w)))) = Some y"
    show "P isOpen' sleep' client' nr w y" unfolding P_def
    proof (intro impI)
      assume eqs: "isOpen' = isOpen" "sleep' = sleep" "client' = clientStandby" "y = (Inr (), w')" and wf: "wf_map nr"
        and start: "\<forall>p n. map_of active p = Some n \<longrightarrow> map_of nr p = Some n \<or> R p n w"
      show "\<not> isOpen w' \<or> (\<forall>p n. map_of active p = Some n \<longrightarrow> R p n w')"
      proof (cases "isOpen w")
        case False
        then show ?thesis using body eqs by simp
      next
        case True
        then obtain topics standby w1 where
          poll: "getMessagesCount clientStandby topics w = ((None, standby), w1)"
          and rest: "if flushOut nr standby = [] then w1 = w'
            else loop isOpen sleep clientStandby (flushOut nr standby) (sleep w1) = Some (Inr (), w')"
          using body eqs by (auto simp: Let_def split: sum.splits prod.splits option.splits if_splits)
        have caught: "map_of (flushOut nr standby) q = Some j \<or> R q j w1" if "map_of active q = Some j" for q j
          using flushOut_dropped[OF wf, of q j standby] reached[OF poll] stable(1)[of q j w topics] poll start that
          by (metis snd_conv)
        show ?thesis
          using caught rest stable(2) eqs IH[of isOpen sleep clientStandby "flushOut nr standby" "sleep w1" "(Inr (), w')"]
          unfolding P_def by (cases "flushOut nr standby = []") (auto, blast)
      qed
    qed
  qed
  then show ?thesis unfolding P_def using wf start by blast
qed


text \<open>A client of a cluster with one topic of one partition.\<close>

definition one_partition_client :: "64 word \<Rightarrow> unit saramaClient" where
  "one_partition_client newest = \<lparr>sc_Topics = returnE [''t''], sc_Partitions = (\<lambda>_. returnE [0]),
     sc_GetOffset = (\<lambda>_ _ time. returnE (case time of OffsetNewest \<Rightarrow> newest | OffsetOldest \<Rightarrow> 0))\<rparr>"

lemma one_partition_count:
  "getMessagesCount (one_partition_client 5) topics w = ((None, m), w') \<Longrightarrow> map_of m p = Some n \<Longrightarrow> n = 5"
  "getMessagesCount (one_partition_client 5) topics w = ((Some err, m), w') \<Longrightarrow> False"
proof -
  have "getMessagesCount (one_partition_client 5) topics w = ((e, m), w') \<Longrightarrow>
     e = None \<and> (\<forall>p n. map_of m p = Some n \<longrightarrow> n = 5)" for e
    unfolding getMessagesCount_def
  proof -
    have "count_topics (one_partition_client 5) topics m0 w = ((e, m), w') \<Longrightarrow>
      \<forall>p n. map_of m0 p = Some n \<longrightarrow> n = 5 \<Longrightarrow> e = None \<and> (\<forall>p n. map_of m p = Some n \<longrightarrow> n = 5)" for m0
    proof (induction topics arbitrary: m0)
      case (Cons t ts)
      have "calculateMessagesCount 5 0 = 5" by code_simp
      then have "count_topics (one_partition_client 5) ts (mput (partition_key t 0) 5 m0) w = ((e, m), w')"
        using Cons.prems(1) by (simp add: one_partition_client_def returnE_def)
      then show ?case by (rule Cons.IH) (auto split: if_splits dest: Cons.prems(2)[rule_format])
    qed simp
    then show "count_topics (one_partition_client 5) topics [] w = ((e, m), w') \<Longrightarrow>
       e = None \<and> (\<forall>p n. map_of m p = Some n \<longrightarrow> n = 5)" by simp
  qed
  then show "getMessagesCount (one_partition_client 5) topics w = ((None, m), w') \<Longrightarrow> map_of m p = Some n \<Longrightarrow> n = 5"
    "getMessagesCount (one_partition_client 5) topics w = ((Some err, m), w') \<Longrightarrow> False" by blast+
qed



text \<open>A world that counts the seconds left, and a standby side that never catches up.\<close>

definition lagging_client :: "64 word \<Rightarrow> nat saramaClient" where
  "lagging_client newest = \<lparr>sc_Topics = returnE [''t''], sc_Partitions = (\<lambda>_. returnE [0]),
     sc_GetOffset = (\<lambda>_ _ time. returnE (case time of OffsetNewest \<Rightarrow> newest | OffsetOldest \<Rightarrow> 0))\<rparr>"

lemma lagging_client_keeps: "snd (getMessagesCount (lagging_client c) topics w) = w"
proof -
  have "snd (count_topics (lagging_client c) topics m w) = w" for m
    by (induction topics arbitrary: m) (simp_all add: lagging_client_def returnE_def)
  then show ?thesis by (simp add: getMessagesCount_def)
qed


text \<open>
  The errors of the two counts are dropped: when the active side cannot list the partitions of
  the first topic to check, nothing is counted there, and the audit reports that everything is
  replicated.
\<close>

theorem audit_drops_count_errors:
  assumes "sc_Partitions clientActive topic w = (Inl err, w1)"
  shows "audit_topics isOpen sleep clientActive clientStandby (topic # topics) w =
     Some (Inr (), snd (getMessagesCount clientStandby (topic # topics) w1))"
proof -
  have "getMessagesCount clientActive (topic # topics) w = ((Some err, []), w1)"
    using assms by (simp add: getMessagesCount_def)
  then show ?thesis by (auto simp: audit_topics_def flushOut_def Let_def split: prod.split)
qed

theorem audit_drops_count_errors_witness:
  "audit_topics (\<lambda>_. True) id ((one_partition_client 7)\<lparr>sc_Partitions := \<lambda>_ w. (Inl (Err ''broker is down''), w)\<rparr>)
     (one_partition_client 0) [''t''] () = Some (Inr (), ())"
proof -
  have "audit_topics (\<lambda>_. True) id ((one_partition_client 7)\<lparr>sc_Partitions := \<lambda>_ w. (Inl (Err ''broker is down''), w)\<rparr>)
     (one_partition_client 0) [''t''] () = Some (Inr (), snd (getMessagesCount (one_partition_client 0) [''t''] ()))"
    by (rule audit_drops_count_errors[where err = "Err ''broker is down''"]) simp
  then show ?thesis by simp
qed

section \<open>The two counting goroutines\<close>

text \<open>
  \<open>checkFullReplication\<close> starts the two counts with \<open>go\<close>, calls \<open>wg.Wait()\<close>, and receives from the two
  unbuffered channels. A worker runs \<open>wg.Add(1)\<close> itself, counts, sends its map, and runs the deferred
  \<open>wg.Done()\<close>. The send is completed only by the receive of the main goroutine.
\<close>

datatype main_pc = AtWait | RecvActive | RecvStandby | Joined
datatype worker_pc = Starting | Counting | Sending | Sent | Exited

record audit_sync =
  wg_counter :: int
  main_at :: main_pc
  active_at :: worker_pc
  standby_at :: worker_pc

definition audit_start :: audit_sync where
  "audit_start = \<lparr>wg_counter = 0, main_at = AtWait, active_at = Starting, standby_at = Starting\<rparr>"

text \<open>The steps a worker takes on its own, with their effect on the wait group.\<close>

inductive worker_step :: "worker_pc \<times> int \<Rightarrow> worker_pc \<times> int \<Rightarrow> bool" where
  Add: "worker_step (Starting, n) (Counting, n + 1)"
| Count: "worker_step (Counting, n) (Sending, n)"
| Done: "worker_step (Sent, n) (Exited, n - 1)"

inductive audit_step :: "audit_sync \<Rightarrow> audit_sync \<Rightarrow> bool" where
  Active: "worker_step (active_at st, wg_counter st) (pc, n) \<Longrightarrow> audit_step st (st\<lparr>active_at := pc, wg_counter := n\<rparr>)"
| Standby: "worker_step (standby_at st, wg_counter st) (pc, n) \<Longrightarrow> audit_step st (st\<lparr>standby_at := pc, wg_counter := n\<rparr>)"
| Wait: "main_at st = AtWait \<Longrightarrow> wg_counter st = 0 \<Longrightarrow> audit_step st (st\<lparr>main_at := RecvActive\<rparr>)"
| RecvActive: "main_at st = RecvActive \<Longrightarrow> active_at st = Sending \<Longrightarrow>
    audit_step st (st\<lparr>main_at := RecvStandby, active_at := Sent\<rparr>)"
| RecvStandby: "main_at st = RecvStandby \<Longrightarrow> standby_at st = Sending \<Longrightarrow>
    audit_step st (st\<lparr>main_at := Joined, standby_at := Sent\<rparr>)"

inductive_cases worker_stepE: "worker_step (pc, n) (pc', n')"
inductive_cases audit_stepE: "audit_step st st'"

definition holds_wg :: "worker_pc \<Rightarrow> int" where
  "holds_wg pc = (if pc \<in> {Counting, Sending, Sent} then 1 else 0)"

text \<open>The counter is the number of workers between \<open>Add\<close> and \<open>Done\<close>; a worker has sent only after the
  main goroutine has received from it.\<close>

definition audit_inv :: "audit_sync \<Rightarrow> bool" where
  "audit_inv st \<longleftrightarrow> wg_counter st = holds_wg (active_at st) + holds_wg (standby_at st)
     \<and> (active_at st \<in> {Sent, Exited} \<longleftrightarrow> main_at st \<in> {RecvStandby, Joined})
     \<and> (standby_at st \<in> {Sent, Exited} \<longleftrightarrow> main_at st = Joined)"

lemma audit_inv_step: "audit_step st st' \<Longrightarrow> audit_inv st \<Longrightarrow> audit_inv st'"
proof (induction rule: audit_step.induct)
  case (Active st pc n)
  then show ?case by (auto simp: audit_inv_def holds_wg_def elim!: worker_stepE)
next
  case (Standby st pc n)
  then show ?case by (auto simp: audit_inv_def holds_wg_def elim!: worker_stepE)
next
  case (Wait st)
  then show ?case by (auto simp: audit_inv_def)
qed (auto simp: audit_inv_def holds_wg_def)

lemma audit_inv_reachable: "audit_step\<^sup>*\<^sup>* audit_start st \<Longrightarrow> audit_inv st"
  by (induction rule: rtranclp_induct) (auto simp: audit_inv_step, simp add: audit_inv_def audit_start_def holds_wg_def)

lemma audit_stuck:
  assumes "audit_step\<^sup>*\<^sup>* st st'" "audit_inv st" "main_at st = AtWait" "0 < wg_counter st"
  shows "main_at st' = AtWait"
proof -
  have "audit_inv st' \<and> main_at st' = AtWait \<and> 0 < wg_counter st'"
    using assms
  proof (induction rule: rtranclp_induct)
    case (step y z)
    then have "audit_inv y" "main_at y = AtWait" "0 < wg_counter y" by auto
    then show ?case using step(2) audit_inv_step[OF step(2)]
      by (auto elim!: audit_stepE worker_stepE simp: audit_inv_def)
  qed simp
  then show ?thesis by blast
qed

lemma active_can_send:
  assumes "active_at st \<in> {Starting, Counting, Sending}"
  shows "\<exists>n. audit_step\<^sup>*\<^sup>* st (st\<lparr>active_at := Sending, wg_counter := n\<rparr>)"
proof -
  have counting: "\<exists>n. audit_step\<^sup>*\<^sup>* st (st\<lparr>active_at := Sending, wg_counter := n\<rparr>)" if "active_at st = Counting" for st
    using r_into_rtranclp[of audit_step, OF Active[of st Sending "wg_counter st"]] that worker_step.Count by metis
  have first: "audit_step st (st\<lparr>active_at := Counting, wg_counter := wg_counter st + 1\<rparr>)" if "active_at st = Starting"
    using Active[of st Counting "wg_counter st + 1"] that by (auto intro: worker_step.intros)
  have sending: "st = st\<lparr>active_at := Sending, wg_counter := wg_counter st\<rparr>" if "active_at st = Sending"
    using that by (cases st) simp
  consider "active_at st = Starting" | "active_at st = Counting" | "active_at st = Sending" using assms by blast
  then show ?thesis
  proof cases
    case 1
    with counting[of "st\<lparr>active_at := Counting, wg_counter := wg_counter st + 1\<rparr>"] first show ?thesis
      by (auto intro: converse_rtranclp_into_rtranclp)
  next
    case 3
    then show ?thesis using sending rtranclp.rtrancl_refl[of audit_step st] by metis
  qed (rule counting)
qed

lemma standby_can_send:
  assumes "standby_at st \<in> {Starting, Counting, Sending}"
  shows "\<exists>n. audit_step\<^sup>*\<^sup>* st (st\<lparr>standby_at := Sending, wg_counter := n\<rparr>)"
proof -
  have counting: "\<exists>n. audit_step\<^sup>*\<^sup>* st (st\<lparr>standby_at := Sending, wg_counter := n\<rparr>)" if "standby_at st = Counting" for st
    using r_into_rtranclp[of audit_step, OF Standby[of st Sending "wg_counter st"]] that worker_step.Count by metis
  have first: "audit_step st (st\<lparr>standby_at := Counting, wg_counter := wg_counter st + 1\<rparr>)" if "standby_at st = Starting"
    using Standby[of st Counting "wg_counter st + 1"] that by (auto intro: worker_step.intros)
  have sending: "st = st\<lparr>standby_at := Sending, wg_counter := wg_counter st\<rparr>" if "standby_at st = Sending"
    using that by (cases st) simp
  consider "standby_at st = Starting" | "standby_at st = Counting" | "standby_at st = Sending" using assms by blast
  then show ?thesis
  proof cases
    case 1
    with counting[of "st\<lparr>standby_at := Counting, wg_counter := wg_counter st + 1\<rparr>"] first show ?thesis
      by (auto intro: converse_rtranclp_into_rtranclp)
  next
    case 3
    then show ?thesis using sending rtranclp.rtrancl_refl[of audit_step st] by metis
  qed (rule counting)
qed

text \<open>Past \<open>wg.Wait()\<close> the receives can always be completed.\<close>

lemma past_wait_joins:
  assumes "audit_inv st" "main_at st \<noteq> AtWait"
  shows "\<exists>st'. audit_step\<^sup>*\<^sup>* st st' \<and> main_at st' = Joined"
proof -
  have standby: "\<exists>st'. audit_step\<^sup>*\<^sup>* st st' \<and> main_at st' = Joined"
    if inv: "audit_inv st" and main: "main_at st = RecvStandby" for st
  proof -
    have "standby_at st \<in> {Starting, Counting, Sending}"
      using inv main by (cases "standby_at st") (auto simp: audit_inv_def)
    from standby_can_send[OF this] obtain n where
      n: "audit_step\<^sup>*\<^sup>* st (st\<lparr>standby_at := Sending, wg_counter := n\<rparr>)" by blast
    show ?thesis using rtranclp.rtrancl_into_rtrancl[OF n RecvStandby] main by fastforce
  qed
  consider "main_at st = RecvActive" | "main_at st = RecvStandby" | "main_at st = Joined"
    using assms(2) by (cases "main_at st") auto
  then show ?thesis
  proof cases
    case 1
    have "active_at st \<in> {Starting, Counting, Sending}"
      using assms(1) 1 by (cases "active_at st") (auto simp: audit_inv_def)
    from active_can_send[OF this] obtain n where
      n: "audit_step\<^sup>*\<^sup>* st (st\<lparr>active_at := Sending, wg_counter := n\<rparr>)" by blast
    let ?st = "(st\<lparr>active_at := Sending, wg_counter := n\<rparr>)\<lparr>main_at := RecvStandby, active_at := Sent\<rparr>"
    have run: "audit_step\<^sup>*\<^sup>* st ?st" using rtranclp.rtrancl_into_rtrancl[OF n RecvActive] 1 by simp
    have "audit_inv ?st" using run assms(1) by (induction rule: rtranclp_induct) (auto intro: audit_inv_step)
    then show ?thesis using standby[of ?st] run by (auto intro: rtranclp_trans)
  qed (use standby assms(1) in auto)
qed

text \<open>
  C23. The audit can pass its two counting goroutines only when neither of them was scheduled
  before \<open>wg.Wait()\<close>: from a state of an execution, the main goroutine can still receive both counts
  exactly if it is past the wait or the wait group is empty. Otherwise it waits for a worker that
  waits for it, for ever; and such a state is reached when a worker runs first.
\<close>

theorem audit_joins_iff:
  assumes "audit_step\<^sup>*\<^sup>* audit_start st"
  shows "(\<exists>st'. audit_step\<^sup>*\<^sup>* st st' \<and> main_at st' = Joined) \<longleftrightarrow> main_at st \<noteq> AtWait \<or> wg_counter st = 0"
proof
  have inv: "audit_inv st" by (rule audit_inv_reachable[OF assms])
  then have "0 \<le> wg_counter st" by (simp add: audit_inv_def holds_wg_def)
  then show "\<exists>st'. audit_step\<^sup>*\<^sup>* st st' \<and> main_at st' = Joined \<Longrightarrow> main_at st \<noteq> AtWait \<or> wg_counter st = 0"
    using audit_stuck[OF _ inv] by fastforce
  assume "main_at st \<noteq> AtWait \<or> wg_counter st = 0"
  then show "\<exists>st'. audit_step\<^sup>*\<^sup>* st st' \<and> main_at st' = Joined"
  proof (cases "main_at st = AtWait")
    case True
    then have "audit_step st (st\<lparr>main_at := RecvActive\<rparr>)"
      using \<open>main_at st \<noteq> AtWait \<or> wg_counter st = 0\<close> by (auto intro: audit_step.Wait)
    moreover from this have "audit_inv (st\<lparr>main_at := RecvActive\<rparr>)" using inv by (rule audit_inv_step)
    ultimately show ?thesis
      using past_wait_joins[of "st\<lparr>main_at := RecvActive\<rparr>"] by (auto intro: converse_rtranclp_into_rtranclp)
  qed (use past_wait_joins[OF inv] in auto)
qed

theorem audit_joins_iff_witness:
  "\<not> (\<exists>st'. audit_step\<^sup>*\<^sup>* (audit_start\<lparr>active_at := Counting, wg_counter := 1\<rparr>) st' \<and> main_at st' = Joined)"
proof -
  have "audit_step audit_start (audit_start\<lparr>active_at := Counting, wg_counter := 0 + 1\<rparr>)"
    using worker_step.Add[of 0] by (intro Active) (simp add: audit_start_def)
  then have "audit_step\<^sup>*\<^sup>* audit_start (audit_start\<lparr>active_at := Counting, wg_counter := 1\<rparr>)" by auto
  from audit_joins_iff[OF this] show ?thesis by (auto simp: audit_start_def)
qed

end
