(* ===== verification/Worker_Pool.thy ===== *)
theory Worker_Pool
  imports Go_Prelude Operator_Util Kube_Reconciler "HOL-Library.Signed_Division"
begin

text \<open>
  \<open>operator/workers\<close>: the pool that runs the controller managers (\<open>pool.go\<close>), the jobs that build them
  (\<open>jobs/*.go\<close>) and the options they are built from (\<open>cfg/cfg.go\<close>). controller-runtime's managers, the
  clock, the random source and the cancellation of the context are arguments.
\<close>

section \<open>Options and jobs\<close>

record cfg =
  cfg_MetricsAddr :: string
  cfg_ProbeAddr :: string
  cfg_EnableLeaderElection :: bool
  cfg_OwnNamespace :: string
  cfg_Mode :: string
  cfg_ApiGroup :: string
  cfg_SecondaryApiGroup :: string
  cfg_KmmEnabled :: bool
  cfg_KmmConfigurationReconcilePeriodSecs :: int
  cfg_WatchAkhqCollectNamespace :: "string option"
  cfg_WatchKafkaUsersCollectNamespace :: "string option"
  cfg_KafkaUserSecretCreatingEnabled :: bool
  cfg_KafkaUserConfiguratorReconcilePeriodSecs :: int
  cfg_KafkaBootstrapServers :: string
  cfg_KafkaSecret :: string
  cfg_KafkaSaslMechanism :: string
  cfg_KafkaSslEnabled :: bool
  cfg_KafkaSslSecret :: string
  cfg_ClusterName :: string
  cfg_OperatorNamespace :: string
  cfg_OperatorName :: string

definition KafkaMode :: string where "KafkaMode = ''kafka''"
definition KafkaServiceMode :: string where "KafkaServiceMode = ''kafkaservice''"

datatype job = KafkaJob | AkhqJob | KmmJob | KafkaUserJob

text \<open>A scheme is the list of the group, version and kind of what is registered in it.\<close>

type_synonym gvk = "string \<times> string \<times> string"
type_synonym scheme = "gvk list"

record managerOptions =
  mo_Scheme :: scheme
  mo_DefaultNamespaces :: "string list option"
  mo_MetricsBindAddress :: string
  mo_WebhookPort :: int
  mo_HealthProbeBindAddress :: string
  mo_LeaderElection :: bool
  mo_LeaderElectionNamespace :: string
  mo_LeaderElectionID :: string

record kafkaUserReconciler =
  ur_BootstrapServers :: string
  ur_SecretCreatingEnabled :: bool
  ur_Namespace :: string
  ur_ReconciliationPeriod :: int
  ur_KafkaSecret :: string
  ur_KafkaSaslMechanism :: string
  ur_KafkaSslEnabled :: bool
  ur_KafkaSslSecret :: string
  ur_ApiGroup :: string

text \<open>The reconcilers the jobs create, with the fields they set.\<close>

datatype reconcilerKind =
    KafkaReconciler string
  | KafkaServiceReconciler string
  | AkhqConfigReconciler string string
  | KmmConfigReconciler string
  | KafkaUserReconciler kafkaUserReconciler

record 'w manager =
  m_Setup :: "reconcilerKind \<Rightarrow> ('w, unit) eff"
  m_AddHealthzCheck :: "('w, unit) eff"
  m_AddReadyzCheck :: "('w, unit) eff"
  m_Start :: "('w, unit) eff"

text \<open>What a job reads from its surroundings: two environment variables, the scheme the package
  built at start, the library's scheme registration and manager constructor, and whether the
  context of the job is cancelled.\<close>

record 'w jobEnv =
  je_WATCH_NAMESPACE :: "string option"
  je_API_GROUP :: "string option"
  je_scheme :: scheme
  je_clientgoAddToScheme :: "scheme \<Rightarrow> go_error + scheme"
  je_addToScheme :: "gvk list \<Rightarrow> scheme \<Rightarrow> go_error + scheme"
  je_NewManager :: "managerOptions \<Rightarrow> ('w, 'w manager) eff"
  je_ctxErr :: "'w \<Rightarrow> bool"

type_synonym 'w exec = "('w, unit) eff"

definition getWatchNamespace :: "'w jobEnv \<Rightarrow> go_error + string" where
  "getWatchNamespace env = (case je_WATCH_NAMESPACE env of
      None \<Rightarrow> Inl (Err ''WATCH_NAMESPACE must be set'') | Some ns \<Rightarrow> Inr ns)"

definition mainApiGroup :: "'w jobEnv \<Rightarrow> string" where
  "mainApiGroup env = (case je_API_GROUP env of Some value \<Rightarrow> value | None \<Rightarrow> ''netcracker.com'')"

text \<open>The keys of the map of namespaces, in the order in which they are put.\<close>

definition configureManagerNamespaces :: "managerOptions \<Rightarrow> string \<Rightarrow> string \<Rightarrow> managerOptions" where
  "configureManagerNamespaces opts namespace ownNamespace =
     (let namespaces = strings_Split namespace (CHR '','');
          namespaces = (if \<not> util_Contains ownNamespace namespaces then namespaces @ [ownNamespace] else namespaces);
          nsMap = fold (\<lambda>ns nsMap. let ns = strings_TrimSpace ns in if ns = [] then nsMap else mput ns () nsMap) namespaces []
      in if length nsMap = 0 then opts else opts\<lparr>mo_DefaultNamespaces := Some (map fst nsMap)\<rparr>)"

definition duplicateScheme :: "'w jobEnv \<Rightarrow> string \<Rightarrow> go_error + scheme" where
  "duplicateScheme env apiGroup =
     (case je_clientgoAddToScheme env [] of
        Inl err \<Rightarrow> Inl err
      | Inr dblScheme \<Rightarrow>
          (case je_addToScheme env (map (\<lambda>kind. (apiGroup, ''v1'', kind))
              [''AkhqConfig'', ''AkhqConfigList'', ''Kafka'', ''KafkaList'', ''KafkaUser'', ''KafkaUserList'',
               ''KmmConfig'', ''KmmConfigList'']) dblScheme of
             Inl err \<Rightarrow> Inl err
           | Inr dblScheme \<Rightarrow> je_addToScheme env (map (\<lambda>kind. (apiGroup, ''7'', kind))
               [''KafkaService'', ''KafkaServiceList'']) dblScheme))"

text \<open>The scheme and the port of a job that also serves the secondary group.\<close>

definition scheme_and_port :: "'w jobEnv \<Rightarrow> string \<Rightarrow> int \<Rightarrow> go_error + (scheme \<times> int)" where
  "scheme_and_port env apiGroup port =
     (if mainApiGroup env \<noteq> apiGroup then map_sum id (\<lambda>s. (s, port + 10)) (duplicateScheme env apiGroup)
      else Inr (je_scheme env, port))"

definition add_checks :: "'w manager \<Rightarrow> ('w, unit) eff" where
  "add_checks mgr = bindE (m_AddHealthzCheck mgr) (\<lambda>_. m_AddReadyzCheck mgr)"

definition dotted :: "string \<Rightarrow> string \<Rightarrow> string \<Rightarrow> string" where
  "dotted a b c = a @ ''.'' @ b @ ''.'' @ c"

definition kafka_options :: "'w jobEnv \<Rightarrow> cfg \<Rightarrow> string \<Rightarrow> managerOptions" where
  "kafka_options env opts apiGroup = \<lparr>mo_Scheme = je_scheme env,
     mo_DefaultNamespaces = Some [cfg_OperatorNamespace opts],
     mo_MetricsBindAddress = cfg_MetricsAddr opts, mo_WebhookPort = 9443,
     mo_HealthProbeBindAddress = cfg_ProbeAddr opts, mo_LeaderElection = cfg_EnableLeaderElection opts,
     mo_LeaderElectionNamespace = cfg_OperatorNamespace opts,
     mo_LeaderElectionID = dotted (cfg_Mode opts) (cfg_OperatorNamespace opts) apiGroup\<rparr>"

definition KafkaJob_Build :: "'w jobEnv \<Rightarrow> cfg \<Rightarrow> string \<Rightarrow> ('w, 'w exec) eff" where
  "KafkaJob_Build env opts apiGroup =
     (if mainApiGroup env \<noteq> apiGroup then throwE (Err ''unsupported service invocation'')
      else bindE (je_NewManager env (kafka_options env opts apiGroup)) (\<lambda>mgr.
        bindE (m_Setup mgr (if cfg_Mode opts = KafkaMode then KafkaReconciler apiGroup else KafkaServiceReconciler apiGroup)) (\<lambda>_.
        bindE (add_checks mgr) (\<lambda>_.
          returnE (bindE (m_Start mgr) (\<lambda>_ w. if \<not> je_ctxErr env w
            then throwE (Err ''manager stopped unexpectedly without context cancel: unexpected behavior'') w
            else returnE () w))))))"

text \<open>The options of the other three managers.\<close>

definition plain_options :: "cfg \<Rightarrow> scheme \<Rightarrow> int \<Rightarrow> string \<Rightarrow> managerOptions" where
  "plain_options opts runScheme port electionID = \<lparr>mo_Scheme = runScheme, mo_DefaultNamespaces = None,
     mo_MetricsBindAddress = ''0'', mo_WebhookPort = port, mo_HealthProbeBindAddress = ''0'',
     mo_LeaderElection = cfg_EnableLeaderElection opts, mo_LeaderElectionNamespace = cfg_OperatorNamespace opts,
     mo_LeaderElectionID = electionID\<rparr>"

definition AkhqJob_Build :: "'w jobEnv \<Rightarrow> cfg \<Rightarrow> string \<Rightarrow> ('w, 'w exec) eff" where
  "AkhqJob_Build env opts apiGroup =
     bindE (liftE (deref (cfg_WatchAkhqCollectNamespace opts))) (\<lambda>watchNamespace.
     bindE (liftE (scheme_and_port env apiGroup 9542)) (\<lambda>(runScheme, port).
     let akhqOpts = configureManagerNamespaces (plain_options opts runScheme port
           (dotted ''akhqconfig'' (cfg_OperatorNamespace opts) (cfg_ApiGroup opts))) watchNamespace (cfg_OperatorNamespace opts)
     in bindE (je_NewManager env akhqOpts) (\<lambda>mgr.
        bindE (m_Setup mgr (AkhqConfigReconciler (cfg_OperatorNamespace opts) apiGroup)) (\<lambda>_.
        bindE (add_checks mgr) (\<lambda>_. returnE (m_Start mgr))))))"

definition KmmJob_Build :: "'w jobEnv \<Rightarrow> cfg \<Rightarrow> string \<Rightarrow> ('w, 'w exec) eff" where
  "KmmJob_Build env opts apiGroup =
     bindE (liftE (scheme_and_port env apiGroup 9543)) (\<lambda>(runScheme, port).
     bindE (liftE (getWatchNamespace env)) (\<lambda>namespace.
     let kmmMgrOpts = configureManagerNamespaces (plain_options opts runScheme port
           (dotted ''kmmconfig'' (cfg_OperatorNamespace opts) apiGroup)) namespace (cfg_OperatorNamespace opts)
     in bindE (je_NewManager env kmmMgrOpts) (\<lambda>mgr.
        bindE (m_Setup mgr (KmmConfigReconciler apiGroup)) (\<lambda>_.
        bindE (add_checks mgr) (\<lambda>_. returnE (m_Start mgr))))))"

definition kafka_user_reconciler :: "cfg \<Rightarrow> string \<Rightarrow> kafkaUserReconciler" where
  "kafka_user_reconciler opts apiGroup = \<lparr>ur_BootstrapServers = cfg_KafkaBootstrapServers opts,
     ur_SecretCreatingEnabled = cfg_KafkaUserSecretCreatingEnabled opts, ur_Namespace = cfg_OperatorNamespace opts,
     ur_ReconciliationPeriod = cfg_KafkaUserConfiguratorReconcilePeriodSecs opts, ur_KafkaSecret = cfg_KafkaSecret opts,
     ur_KafkaSaslMechanism = cfg_KafkaSaslMechanism opts, ur_KafkaSslEnabled = cfg_KafkaSslEnabled opts,
     ur_KafkaSslSecret = cfg_KafkaSslSecret opts, ur_ApiGroup = apiGroup\<rparr>"

definition KafkaUserJob_Build :: "'w jobEnv \<Rightarrow> cfg \<Rightarrow> string \<Rightarrow> ('w, 'w exec) eff" where
  "KafkaUserJob_Build env opts apiGroup =
     bindE (liftE (deref (cfg_WatchKafkaUsersCollectNamespace opts))) (\<lambda>namespace.
     bindE (liftE (scheme_and_port env apiGroup 9544)) (\<lambda>(runScheme, port).
     let kafkaUsersMgrOptions = configureManagerNamespaces (plain_options opts runScheme port
           (dotted ''kafkausers'' (cfg_OperatorNamespace opts) apiGroup)) namespace (cfg_OperatorNamespace opts)
     in bindE (je_NewManager env kafkaUsersMgrOptions) (\<lambda>mgr.
        bindE (m_Setup mgr (KafkaUserReconciler (kafka_user_reconciler opts apiGroup))) (\<lambda>_.
        bindE (add_checks mgr) (\<lambda>_. returnE (m_Start mgr))))))"

fun job_Build :: "job \<Rightarrow> 'w jobEnv \<Rightarrow> cfg \<Rightarrow> string \<Rightarrow> ('w, 'w exec) eff" where
  "job_Build KafkaJob = KafkaJob_Build"
| "job_Build AkhqJob = AkhqJob_Build"
| "job_Build KmmJob = KmmJob_Build"
| "job_Build KafkaUserJob = KafkaUserJob_Build"

definition KafkaJob_Enabled :: "cfg \<Rightarrow> bool \<times> bool" where
  "KafkaJob_Enabled opts = (length (cfg_Mode opts) > 0, False)"

definition AkhqJob_Enabled :: "cfg \<Rightarrow> bool \<times> bool" where
  "AkhqJob_Enabled opts = (cfg_Mode opts = KafkaServiceMode \<and> cfg_WatchAkhqCollectNamespace opts \<noteq> None, True)"

definition KmmJob_Enabled :: "cfg \<Rightarrow> bool \<times> bool" where
  "KmmJob_Enabled opts = (cfg_Mode opts = KafkaServiceMode \<and> cfg_KmmEnabled opts, True)"

definition KafkaUserJob_Enabled :: "cfg \<Rightarrow> bool \<times> bool" where
  "KafkaUserJob_Enabled opts = (cfg_Mode opts = KafkaServiceMode \<and> cfg_WatchKafkaUsersCollectNamespace opts \<noteq> None, True)"

fun job_Enabled :: "job \<Rightarrow> cfg \<Rightarrow> bool \<times> bool" where
  "job_Enabled KafkaJob = KafkaJob_Enabled"
| "job_Enabled AkhqJob = AkhqJob_Enabled"
| "job_Enabled KmmJob = KmmJob_Enabled"
| "job_Enabled KafkaUserJob = KafkaUserJob_Enabled"

section \<open>The pool\<close>

record pool =
  po_opts :: cfg
  po_jbs :: "job list"
  po_maxConsecutiveRestarts :: int
  po_restartResetAfter :: int

text \<open>Durations are in nanoseconds.\<close>

definition NewPool :: "cfg \<Rightarrow> pool" where
  "NewPool opts = \<lparr>po_opts = opts, po_jbs = [KafkaJob, AkhqJob, KmmJob, KafkaUserJob],
     po_maxConsecutiveRestarts = 5, po_restartResetAfter = 60 * 60 * 1000000000\<rparr>"

text \<open>The goroutines \<open>Start\<close> launches, in order.\<close>

definition Start :: "pool \<Rightarrow> (job \<times> string) list" where
  "Start wrk = concat (map (\<lambda>j. case job_Enabled j (po_opts wrk) of (runJob, runDuplicate) \<Rightarrow>
     (if \<not> runJob then []
      else [(j, cfg_ApiGroup (po_opts wrk))] @
        (if cfg_SecondaryApiGroup (po_opts wrk) \<noteq> [] \<and> runDuplicate then [(j, cfg_SecondaryApiGroup (po_opts wrk))] else [])))
     (po_jbs wrk))"

text \<open>
  The surroundings of a worker: the pool's context and its \<open>stop\<close>, the clock, the timer (whose result
  tells whether the context was cancelled first), and the random source.
\<close>

record 'w poolEnv =
  pe_ctxDone :: "'w \<Rightarrow> bool"
  pe_stop :: "'w \<Rightarrow> 'w"
  pe_now :: "'w \<Rightarrow> int"
  pe_sleep :: "64 word \<Rightarrow> 'w \<Rightarrow> bool \<times> 'w"
  pe_Int63n :: "64 word \<Rightarrow> 'w \<Rightarrow> 64 word \<times> 'w"
  pe_Intn2 :: "'w \<Rightarrow> nat \<times> 'w"

text \<open>\<open>rand.Int63n\<close> panics when its argument is not positive.\<close>

definition backoffWithJitter :: "'w poolEnv \<Rightarrow> int \<Rightarrow> 64 word \<Rightarrow> ('w, 64 word) eff" where
  "backoffWithJitter env consecFails capDur w =
     (let consecFails = (if consecFails < 1 then 1 else consecFails);
          d = push_bit (nat (consecFails - 1)) (1000000000 :: 64 word);
          d = (if capDur <s d then capDur else d);
          n = word_of_int (sint d sdiv 3) :: 64 word
      in if n \<le>s 0 then (Inl Panic, w)
         else case pe_Int63n env n w of (j, w) \<Rightarrow>
           (case pe_Intn2 env w of (c, w) \<Rightarrow> if c = 0 then (Inr (d - j), w) else (Inr (d + j), w)))"

datatype job_end = ShuttingDown | BuildFailed go_error | TooManyFailures | Crashed

text \<open>The counter of consecutive failures and the start of its period after a run: a run that ended
  without an error does not count, and after the period the counter starts at one again.\<close>

definition restart_counters :: "pool \<Rightarrow> int \<Rightarrow> go_error + unit \<Rightarrow> int \<Rightarrow> int \<Rightarrow> int \<times> int" where
  "restart_counters wrk now runErr consecFails lastFail =
     (let consecFails = (case runErr of Inr _ \<Rightarrow> consecFails | Inl _ \<Rightarrow> consecFails + 1)
      in if now - lastFail > po_restartResetAfter wrk then (1, now) else (consecFails, lastFail))"

text \<open>The loop of a worker. \<open>None\<close> is a loop that does not end.\<close>

partial_function (option) job_loop :: "'w poolEnv \<Rightarrow> pool \<Rightarrow> ('w, 'w exec) eff \<Rightarrow> int \<Rightarrow> int \<Rightarrow> 'w \<Rightarrow>
    (job_end \<times> 'w) option" where
  "job_loop env wrk build consecFails lastFail w =
     (if pe_ctxDone env w then Some (ShuttingDown, w)
      else case build w of
          (Inl err, w) \<Rightarrow> Some (if err = Panic then Crashed else BuildFailed err, w)
        | (Inr exe, w) \<Rightarrow>
            (case exe w of (runErr, w) \<Rightarrow>
               (if runErr = Inl Panic then Some (Crashed, w)
                else if pe_ctxDone env w then Some (ShuttingDown, w)
                else
                  (case restart_counters wrk (pe_now env w) runErr consecFails lastFail of (consecFails, lastFail) \<Rightarrow>
                     (if consecFails \<ge> po_maxConsecutiveRestarts wrk then Some (TooManyFailures, pe_stop env w)
                      else case backoffWithJitter env consecFails (30 * 1000000000) w of
                          (Inl _, w) \<Rightarrow> Some (Crashed, w)
                        | (Inr sleep, w) \<Rightarrow>
                            (case pe_sleep env sleep w of (stopped, w) \<Rightarrow>
                               (if stopped then Some (ShuttingDown, w)
                                else job_loop env wrk build consecFails lastFail w)))))))"

definition launchJob :: "'w poolEnv \<Rightarrow> 'w jobEnv \<Rightarrow> pool \<Rightarrow> job \<Rightarrow> string \<Rightarrow> 'w \<Rightarrow> (job_end \<times> 'w) option" where
  "launchJob env jenv wrk job apiGroup w =
     job_loop env wrk (job_Build job jenv (po_opts wrk) apiGroup) 0 (pe_now env w) w"

section \<open>Properties\<close>

text \<open>The options a job asks a manager with, where it comes that far.\<close>

definition job_options :: "'w jobEnv \<Rightarrow> cfg \<Rightarrow> job \<times> string \<Rightarrow> go_error + managerOptions" where
  "job_options env opts jg = (case jg of (j, apiGroup) \<Rightarrow> (case j of
      KafkaJob \<Rightarrow> (if mainApiGroup env \<noteq> apiGroup then Inl (Err ''unsupported service invocation'')
         else Inr (kafka_options env opts apiGroup))
    | AkhqJob \<Rightarrow> (case deref (cfg_WatchAkhqCollectNamespace opts) of Inl e \<Rightarrow> Inl e | Inr ns \<Rightarrow>
         map_sum id (\<lambda>(s, port). configureManagerNamespaces (plain_options opts s port
           (dotted ''akhqconfig'' (cfg_OperatorNamespace opts) (cfg_ApiGroup opts))) ns (cfg_OperatorNamespace opts))
           (scheme_and_port env apiGroup 9542))
    | KmmJob \<Rightarrow> (case scheme_and_port env apiGroup 9543 of Inl e \<Rightarrow> Inl e | Inr (s, port) \<Rightarrow>
         map_sum id (\<lambda>ns. configureManagerNamespaces (plain_options opts s port
           (dotted ''kmmconfig'' (cfg_OperatorNamespace opts) apiGroup)) ns (cfg_OperatorNamespace opts)) (getWatchNamespace env))
    | KafkaUserJob \<Rightarrow> (case deref (cfg_WatchKafkaUsersCollectNamespace opts) of Inl e \<Rightarrow> Inl e | Inr ns \<Rightarrow>
         map_sum id (\<lambda>(s, port). configureManagerNamespaces (plain_options opts s port
           (dotted ''kafkausers'' (cfg_OperatorNamespace opts) apiGroup)) ns (cfg_OperatorNamespace opts))
           (scheme_and_port env apiGroup 9544))))"

lemma job_Build_options:
  "job_Build j env opts apiGroup w = (case job_options env opts (j, apiGroup) of
      Inl e \<Rightarrow> (Inl e, w)
    | Inr mo \<Rightarrow> (case je_NewManager env mo w of
        (Inl e, w1) \<Rightarrow> (Inl e, w1)
      | (Inr mgr, w1) \<Rightarrow> job_Build j (env\<lparr>je_NewManager := \<lambda>_. returnE mgr\<rparr>) opts apiGroup w1))"
  by (cases j)
    (auto simp: job_options_def KafkaJob_Build_def AkhqJob_Build_def KmmJob_Build_def KafkaUserJob_Build_def
      bindE_def liftE_def returnE_def throwE_def Let_def mainApiGroup_def scheme_and_port_def duplicateScheme_def
      getWatchNamespace_def kafka_options_def split: sum.splits prod.splits option.splits)

lemma configureManagerNamespaces_frame [simp]:
  "mo_WebhookPort (configureManagerNamespaces mo ns own) = mo_WebhookPort mo"
  "mo_LeaderElectionID (configureManagerNamespaces mo ns own) = mo_LeaderElectionID mo"
  by (simp_all add: configureManagerNamespaces_def Let_def)

lemma dotted_last [simp]: "dotted a b c = dotted a b c' \<longleftrightarrow> c = c'"
  by (simp add: dotted_def)

text \<open>The port and the election identifier of the manager of each job.\<close>

lemma job_options_port_and_id:
  assumes "job_options env opts (j, g) = Inr mo"
  shows "mo_WebhookPort mo = (case j of KafkaJob \<Rightarrow> 9443 | AkhqJob \<Rightarrow> 9542 | KmmJob \<Rightarrow> 9543 | KafkaUserJob \<Rightarrow> 9544)
       + (if mainApiGroup env \<noteq> g then 10 else 0)"
    "mo_LeaderElectionID mo = (case j of
        KafkaJob \<Rightarrow> dotted (cfg_Mode opts) (cfg_OperatorNamespace opts) g
      | AkhqJob \<Rightarrow> dotted ''akhqconfig'' (cfg_OperatorNamespace opts) (cfg_ApiGroup opts)
      | KmmJob \<Rightarrow> dotted ''kmmconfig'' (cfg_OperatorNamespace opts) g
      | KafkaUserJob \<Rightarrow> dotted ''kafkausers'' (cfg_OperatorNamespace opts) g)"
proof -
  note defs = job_options_def kafka_options_def plain_options_def scheme_and_port_def
  show "mo_WebhookPort mo = (case j of KafkaJob \<Rightarrow> 9443 | AkhqJob \<Rightarrow> 9542 | KmmJob \<Rightarrow> 9543 | KafkaUserJob \<Rightarrow> 9544)
       + (if mainApiGroup env \<noteq> g then 10 else 0)"
    using assms by (cases j) (auto simp: defs map_sum_def split: if_splits sum.splits)
  show "mo_LeaderElectionID mo = (case j of
        KafkaJob \<Rightarrow> dotted (cfg_Mode opts) (cfg_OperatorNamespace opts) g
      | AkhqJob \<Rightarrow> dotted ''akhqconfig'' (cfg_OperatorNamespace opts) (cfg_ApiGroup opts)
      | KmmJob \<Rightarrow> dotted ''kmmconfig'' (cfg_OperatorNamespace opts) g
      | KafkaUserJob \<Rightarrow> dotted ''kafkausers'' (cfg_OperatorNamespace opts) g)"
    using assms by (cases j) (auto simp: defs map_sum_def split: if_splits sum.splits)
qed

lemma Start_launches:
  "(j, g) \<in> set (Start (NewPool opts)) \<longleftrightarrow>
     (if j = KafkaJob then cfg_Mode opts \<noteq> [] \<and> g = cfg_ApiGroup opts
      else fst (job_Enabled j opts) \<and> (g = cfg_ApiGroup opts \<or> g = cfg_SecondaryApiGroup opts \<and> g \<noteq> []))"
  by (cases j) (auto simp: Start_def NewPool_def KafkaJob_Enabled_def AkhqJob_Enabled_def KmmJob_Enabled_def
      KafkaUserJob_Enabled_def)

lemma enabled_mode: "j \<noteq> KafkaJob \<Longrightarrow> fst (job_Enabled j opts) \<Longrightarrow> cfg_Mode opts = ''kafkaservice''"
  by (cases j) (auto simp: AkhqJob_Enabled_def KmmJob_Enabled_def KafkaUserJob_Enabled_def KafkaServiceMode_def)

text \<open>
  C36. The managers of one operator process do not get in each other's way, but for one case: with
  the operator's group configured as \<open>API_GROUP\<close> and a different secondary group, any two jobs that
  \<open>Start\<close> launches ask for different webhook ports, and for different leader-election leases unless
  they are the two AKHQ jobs. These two always ask for the same lease, so that with leader election
  only one of them can ever run.
\<close>

theorem launched_managers_disjoint:
  assumes "mainApiGroup env = cfg_ApiGroup opts" "cfg_SecondaryApiGroup opts \<noteq> cfg_ApiGroup opts"
    and "(j, g) \<in> set (Start (NewPool opts))" "(j', g') \<in> set (Start (NewPool opts))" "(j, g) \<noteq> (j', g')"
    and "job_options env opts (j, g) = Inr mo" "job_options env opts (j', g') = Inr mo'"
  shows "mo_WebhookPort mo \<noteq> mo_WebhookPort mo'
    \<and> (mo_LeaderElectionID mo = mo_LeaderElectionID mo' \<longleftrightarrow> j = AkhqJob \<and> j' = AkhqJob)"
proof
  note launches = assms(3,4)[unfolded Start_launches]
  show "mo_WebhookPort mo \<noteq> mo_WebhookPort mo'"
    unfolding job_options_port_and_id(1)[OF assms(6)] job_options_port_and_id(1)[OF assms(7)]
    using assms(1,2,5) launches by (cases j; cases j') (auto split: if_splits)
  have modes: "j \<noteq> KafkaJob \<Longrightarrow> cfg_Mode opts = ''kafkaservice''" "j' \<noteq> KafkaJob \<Longrightarrow> cfg_Mode opts = ''kafkaservice''"
    using launches enabled_mode by (auto split: if_splits)
  have same: "j = j' \<Longrightarrow> g \<noteq> g'" using assms(5) by blast
  show "mo_LeaderElectionID mo = mo_LeaderElectionID mo' \<longleftrightarrow> j = AkhqJob \<and> j' = AkhqJob"
    unfolding job_options_port_and_id(2)[OF assms(6)] job_options_port_and_id(2)[OF assms(7)]
    using same modes by (cases j; cases j'; simp; simp add: dotted_def)
qed

definition sample_cfg :: cfg where
  "sample_cfg = \<lparr>cfg_MetricsAddr = '':8082'', cfg_ProbeAddr = '':8081'', cfg_EnableLeaderElection = True, cfg_OwnNamespace = ''kafka'',
     cfg_Mode = ''kafkaservice'', cfg_ApiGroup = ''netcracker.com'', cfg_SecondaryApiGroup = ''qubership.org'',
     cfg_KmmEnabled = True, cfg_KmmConfigurationReconcilePeriodSecs = 60, cfg_WatchAkhqCollectNamespace = Some ''a, b'',
     cfg_WatchKafkaUsersCollectNamespace = None, cfg_KafkaUserSecretCreatingEnabled = True,
     cfg_KafkaUserConfiguratorReconcilePeriodSecs = 60, cfg_KafkaBootstrapServers = ''kafka:9092'', cfg_KafkaSecret = ''s'',
     cfg_KafkaSaslMechanism = ''SCRAM-SHA-512'', cfg_KafkaSslEnabled = False, cfg_KafkaSslSecret = [],
     cfg_ClusterName = ''kafka'', cfg_OperatorNamespace = ''kafka'', cfg_OperatorName = ''kafka-service-operator''\<rparr>"

definition sample_jobEnv :: "unit jobEnv" where
  "sample_jobEnv = \<lparr>je_WATCH_NAMESPACE = Some ''kafka'', je_API_GROUP = Some ''netcracker.com'', je_scheme = [],
     je_clientgoAddToScheme = Inr, je_addToScheme = (\<lambda>gvks s. Inr (s @ gvks)),
     je_NewManager = (\<lambda>_. throwE (Err ''no cluster'')), je_ctxErr = (\<lambda>_. False)\<rparr>"

theorem launched_managers_disjoint_witness:
  "case (job_options sample_jobEnv sample_cfg (AkhqJob, ''netcracker.com''),
         job_options sample_jobEnv sample_cfg (AkhqJob, ''qubership.org'')) of
     (Inr mo, Inr mo') \<Rightarrow> mo_WebhookPort mo \<noteq> mo_WebhookPort mo' \<and> mo_LeaderElectionID mo = mo_LeaderElectionID mo'
       \<and> mo_DefaultNamespaces mo = Some [''a'', ''b'', ''kafka'']
   | _ \<Rightarrow> False"
proof -
  obtain mo mo' where mo: "job_options sample_jobEnv sample_cfg (AkhqJob, ''netcracker.com'') = Inr mo"
      "mo_DefaultNamespaces mo = Some [''a'', ''b'', ''kafka'']"
    and mo': "job_options sample_jobEnv sample_cfg (AkhqJob, ''qubership.org'') = Inr mo'"
  proof -
    have "case (job_options sample_jobEnv sample_cfg (AkhqJob, ''netcracker.com''),
         job_options sample_jobEnv sample_cfg (AkhqJob, ''qubership.org'')) of
     (Inr mo, Inr mo') \<Rightarrow> mo_DefaultNamespaces mo = Some [''a'', ''b'', ''kafka''] | _ \<Rightarrow> False" by code_simp
    then show ?thesis using that by (auto split: sum.splits)
  qed
  have main: "mainApiGroup sample_jobEnv = cfg_ApiGroup sample_cfg" "cfg_SecondaryApiGroup sample_cfg \<noteq> cfg_ApiGroup sample_cfg"
    by code_simp+
  have launched: "(AkhqJob, ''netcracker.com'') \<in> set (Start (NewPool sample_cfg))"
    "(AkhqJob, ''qubership.org'') \<in> set (Start (NewPool sample_cfg))" by code_simp+
  have "(AkhqJob, ''netcracker.com'') \<noteq> (AkhqJob, ''qubership.org'')" by simp
  from launched_managers_disjoint[OF main launched this mo(1) mo'] mo mo' show ?thesis by simp
qed

text \<open>Managers restricted to namespaces always watch the operator's own one as well.\<close>

lemma watched_namespaces:
  assumes "mo_DefaultNamespaces (configureManagerNamespaces mo namespace own) = Some watched" "mo_DefaultNamespaces mo = None"
  shows "set watched = (strings_TrimSpace ` insert own (set (strings_Split namespace (CHR '','')))) - {[]}"
proof -
  have keys: "set (map fst (fold (\<lambda>ns nsMap. let ns = strings_TrimSpace ns in if ns = [] then nsMap else mput ns () nsMap) nss m))
      = set (map fst m) \<union> (strings_TrimSpace ` set nss - {[]})" for nss m
    by (induction nss arbitrary: m) (auto simp: Let_def keys_mput simp del: set_map)
  define nss where "nss = strings_Split namespace (CHR '','') @
      (if own \<in> set (strings_Split namespace (CHR '','')) then [] else [own])"
  have "watched = map fst (fold (\<lambda>ns nsMap. let ns = strings_TrimSpace ns in if ns = [] then nsMap else mput ns () nsMap) nss [])"
    using assms by (auto simp: configureManagerNamespaces_def nss_def Let_def split: if_splits)
  moreover have "set nss = insert own (set (strings_Split namespace (CHR '','')))" by (auto simp: nss_def)
  ultimately show ?thesis using keys[of nss "[]"] by simp
qed

section \<open>Restarts\<close>

lemma sint_in_range: "- (2 ^ 63) \<le> x \<Longrightarrow> x < 2 ^ 63 \<Longrightarrow> sint (word_of_int x :: 64 word) = x"
  unfolding sint_sbintrunc' by (simp add: signed_take_bit_int_eq_self)

lemma sint_shift:
  assumes "k \<le> 33"
  shows "sint (push_bit k (1000000000 :: 64 word)) = 1000000000 * 2 ^ k"
proof -
  have p: "(2::int) ^ k \<le> 2 ^ 33" using assms by (intro power_increasing) auto
  have "push_bit k (1000000000 :: 64 word) = word_of_int (1000000000 * 2 ^ k)"
    by (simp add: push_bit_eq_mult)
  moreover have "- (2 ^ 63) \<le> (1000000000 * 2 ^ k :: int)" "(1000000000 * 2 ^ k :: int) < 2 ^ 63"
    using p by (auto intro: order_trans[of _ 0])
  ultimately show ?thesis using sint_in_range by metis
qed

text \<open>
  C37. The pause before a restart is never a panic and stays near its nominal length: after \<open>n\<close>
  consecutive failures, for every \<open>n\<close> up to 34, it lies strictly between two thirds and four thirds
  of \<open>min(30 s, 2^(n-1) s)\<close>, with a random source that keeps its documented range.
\<close>

theorem backoffWithJitter_bounds:
  assumes "\<And>n w. 0 <s n \<Longrightarrow> 0 \<le>s fst (pe_Int63n env n w) \<and> fst (pe_Int63n env n w) <s n" "n \<le> 34"
  shows "\<exists>pause w'. backoffWithJitter env n (30 * 1000000000) w = (Inr pause, w')
    \<and> 2 * min (30 * 1000000000) (1000000000 * 2 ^ nat (max 1 n - 1)) < 3 * sint pause
    \<and> 3 * sint pause < 4 * min (30 * 1000000000) (1000000000 * 2 ^ nat (max 1 n - 1))"
proof -
  define k where "k = nat (max 1 n - 1)"
  define d :: "64 word" where "d = (if 30 * 1000000000 <s push_bit k (1000000000 :: 64 word) then 30 * 1000000000 else push_bit k 1000000000)"
  have k: "k \<le> 33" using assms(2) by (simp add: k_def)
  have cap: "sint (30 * 1000000000 :: 64 word) = 30 * 1000000000" by simp
  have d: "sint d = min (30 * 1000000000) (1000000000 * 2 ^ k)"
    by (auto simp: d_def word_sless_alt sint_shift[OF k] cap min_def)
  have p: "(1::int) \<le> 2 ^ k" by simp
  have range: "1000000000 \<le> sint d" "sint d \<le> 30 * 1000000000" using p by (auto simp: d min_def)
  define m :: "64 word" where "m = word_of_int (sint d sdiv 3)"
  have third: "sint d sdiv 3 = sint d div 3" using range by (simp add: signed_divide_int_def)
  have m: "sint m = sint d div 3" unfolding m_def third
    using range by (intro sint_in_range) auto
  have pos: "0 <s m" "\<not> m \<le>s 0" using range m by (simp_all add: word_sless_alt word_sle_eq)
  obtain j w1 where j: "pe_Int63n env m w = (j, w1)" by fastforce
  have jr: "0 \<le> sint j" "sint j < sint d div 3"
    using assms(1)[OF pos(1), of w] j m by (simp_all add: word_sless_alt word_sle_eq)
  obtain c w2 where c: "pe_Intn2 env w1 = (c, w2)" by fastforce
  have sums: "sint (d - j) = sint d - sint j" "sint (d + j) = sint d + sint j"
    using jr range by (simp_all add: sint_word_ariths signed_take_bit_int_eq_self)
  have run: "backoffWithJitter env n (30 * 1000000000) w = (Inr (if c = 0 then d - j else d + j), w2)"
    using pos j c by (simp add: backoffWithJitter_def Let_def k_def[symmetric] max_def[symmetric] if_distrib
        flip: d_def m_def) (auto simp: backoffWithJitter_def Let_def d_def m_def k_def max_def split: if_splits)
  have "2 * sint d < 3 * sint (if c = 0 then d - j else d + j) \<and> 3 * sint (if c = 0 then d - j else d + j) < 4 * sint d"
    using jr range by (auto simp: sums)
  then show ?thesis using run unfolding d k_def by blast
qed

text \<open>A world that counts runs, with a random source that always gives zero.\<close>

definition crash_env :: "nat poolEnv" where
  "crash_env = \<lparr>pe_ctxDone = (\<lambda>_. False), pe_stop = id, pe_now = (\<lambda>_. 0),
     pe_sleep = (\<lambda>_ w. (False, w)), pe_Int63n = (\<lambda>_ w. (0, w)), pe_Intn2 = (\<lambda>w. (1, w))\<rparr>"

definition crash_build :: "(nat, nat exec) eff" where
  "crash_build = returnE (\<lambda>w. (Inl (Err ''lost the lease''), Suc w))"

lemma crash_env_random: "0 <s n \<Longrightarrow> 0 \<le>s fst (pe_Int63n crash_env n w) \<and> fst (pe_Int63n crash_env n w) <s n"
  by (simp add: crash_env_def)

theorem backoffWithJitter_bounds_witness:
  "\<exists>pause w'. backoffWithJitter crash_env 4 (30 * 1000000000) 0 = (Inr pause, w')
    \<and> 2 * 8000000000 < 3 * sint pause \<and> 3 * sint pause < 4 * 8000000000"
  using backoffWithJitter_bounds[of crash_env 4 0, OF crash_env_random] by simp

text \<open>
  C18. A job that keeps failing brings the operator down: when every build succeeds and every run
  ends with an error within the hour, the worker runs the job exactly five times, with pauses in
  between, and then cancels the context of the whole pool; it neither crashes nor goes on for ever.
  \<open>ok\<close> is any invariant of the surroundings under which this is so, \<open>runs\<close> counts the executions.
\<close>

theorem crash_loop_stops:
  assumes random: "\<And>n w. 0 <s n \<Longrightarrow> 0 \<le>s fst (pe_Int63n env n w) \<and> fst (pe_Int63n env n w) <s n"
    and ok: "\<And>w. ok w \<Longrightarrow> \<not> pe_ctxDone env w \<and> pe_now env w - start \<le> 60 * 60 * 1000000000"
    and build: "\<And>w. ok w \<Longrightarrow> \<exists>exe w1 err w2. build w = (Inr exe, w1) \<and> exe w1 = (Inl (Err err), w2)
        \<and> ok w2 \<and> runs w2 = Suc (runs w)"
    and rest: "\<And>n w. ok w \<Longrightarrow> ok (snd (pe_Int63n env n w)) \<and> runs (snd (pe_Int63n env n w)) = runs w"
      "\<And>w. ok w \<Longrightarrow> ok (snd (pe_Intn2 env w)) \<and> runs (snd (pe_Intn2 env w)) = runs w"
      "\<And>d w. ok w \<Longrightarrow> \<not> fst (pe_sleep env d w) \<and> ok (snd (pe_sleep env d w)) \<and> runs (snd (pe_sleep env d w)) = runs w"
    and "ok w"
  shows "\<exists>w'. job_loop env (NewPool opts) build 0 start w = Some (TooManyFailures, pe_stop env w') \<and> runs w' = runs w + 5"
proof -
  have pause: "\<exists>d w'. backoffWithJitter env n (30 * 1000000000) w = (Inr d, w') \<and> ok w' \<and> runs w' = runs w"
    if "ok w" "n \<le> 34" for n w
  proof -
    from backoffWithJitter_bounds[OF random that(2), of w] obtain d w' where
      b: "backoffWithJitter env n (30 * 1000000000) w = (Inr d, w')" by blast
    have "ok w' \<and> runs w' = runs w"
      using b rest(1,2) that(1) by (auto simp: backoffWithJitter_def Let_def split: if_splits prod.splits) (metis snd_conv)+
    then show ?thesis using b by blast
  qed
  have "\<exists>w'. job_loop env (NewPool opts) build (5 - int (Suc left)) start w = Some (TooManyFailures, pe_stop env w')
      \<and> runs w' = runs w + Suc left" if "ok w" "left \<le> 4" for left w
    using that
  proof (induction left arbitrary: w)
    case 0
    from build[OF 0(1)] obtain exe w1 err w2 where b: "build w = (Inr exe, w1)" "exe w1 = (Inl (Err err), w2)"
      "ok w2" "runs w2 = Suc (runs w)" by blast
    then show ?case using ok[OF 0(1)] ok[OF b(3)]
      by (subst job_loop.simps) (auto simp: restart_counters_def NewPool_def)
  next
    case (Suc left)
    from build[OF Suc.prems(1)] obtain exe w1 err w2 where b: "build w = (Inr exe, w1)" "exe w1 = (Inl (Err err), w2)"
      "ok w2" "runs w2 = Suc (runs w)" by blast
    have n: "5 - int (Suc left) \<le> 34" by simp
    have limit: "po_maxConsecutiveRestarts (NewPool opts) = 5" by (simp add: NewPool_def)
    from pause[OF b(3) n] obtain d w3 where p: "backoffWithJitter env (5 - int (Suc left)) (30 * 1000000000) w2 = (Inr d, w3)"
      "ok w3" "runs w3 = runs w2" by blast
    have p': "backoffWithJitter env (5 - int (Suc left)) 30000000000 w2 = (Inr d, w3)" using p(1) by (simp del: of_nat_Suc)
    obtain w4 where s: "pe_sleep env d w3 = (False, w4)" "ok w4" "runs w4 = runs w3"
      using rest(3)[OF p(2), of d] by (metis prod.collapse)
    have counters: "restart_counters (NewPool opts) (pe_now env w2) (Inl (Err err)) (5 - int (Suc (Suc left))) start
        = (5 - int (Suc left), start)"
      using ok[OF b(3)] by (simp add: restart_counters_def NewPool_def)
    have "job_loop env (NewPool opts) build (5 - int (Suc (Suc left))) start w =
        job_loop env (NewPool opts) build (5 - int (Suc left)) start w4"
      using ok[OF Suc.prems(1)] ok[OF b(3)]
      by (subst job_loop.simps) (simp add: b counters p' s limit del: of_nat_Suc)
    then show ?case using Suc.IH[OF s(2)] Suc.prems(2) b p s by auto
  qed
  from this[OF \<open>ok w\<close>, of 4] show ?thesis by simp
qed

theorem crash_loop_stops_witness:
  "\<exists>w'. job_loop crash_env (NewPool sample_cfg) crash_build 0 0 0 = Some (TooManyFailures, pe_stop crash_env w') \<and> w' = 5"
proof -
  have "\<exists>w'. job_loop crash_env (NewPool sample_cfg) crash_build 0 0 0 = Some (TooManyFailures, pe_stop crash_env w')
     \<and> id w' = id 0 + 5"
    by (rule crash_loop_stops[where ok = "\<lambda>_. True", OF crash_env_random])
      (simp_all add: crash_env_def crash_build_def returnE_def)
  then show ?thesis by simp
qed

end
