(* ===== verification/Go_Url.thy ===== *)
theory Go_Url
  imports Go_Prelude
begin

text \<open>
  The part of Go's \<open>net/url\<close> the operator uses for connection URIs: percent-encoding, \<open>URL.String\<close> of
  a URL with user information, host and query, \<open>Values.Encode\<close>, and \<open>Parse\<close> as far as it yields the
  user information, with its errors. A string is a list of bytes.
\<close>

section \<open>Percent-encoding\<close>

datatype url_mode = EncodePath | EncodeHost | EncodeZone | EncodeUserPassword | EncodeQueryComponent | EncodeFragment

definition alnum :: "char \<Rightarrow> bool" where
  "alnum c \<longleftrightarrow> (let n = (of_char c :: nat) in
     (48 \<le> n \<and> n \<le> 57) \<or> (65 \<le> n \<and> n \<le> 90) \<or> (97 \<le> n \<and> n \<le> 122))"

definition host_safe :: string where
  "host_safe = ''!$&'' @ [CHR 0x27] @ ''()*+,;=:[]<>'' @ [CHR 0x22]"

definition unreserved :: string where "unreserved = ''-_.~''"

definition reserved :: string where "reserved = ''$&+,/:;=?@''"

definition shouldEscape :: "char \<Rightarrow> url_mode \<Rightarrow> bool" where
  "shouldEscape c mode =
     (if alnum c then False
      else if mode \<in> {EncodeHost, EncodeZone} \<and> c \<in> set host_safe then False
      else if c \<in> set unreserved then False
      else if c \<in> set reserved then
        (case mode of
           EncodePath \<Rightarrow> c = CHR ''?''
         | EncodeUserPassword \<Rightarrow> c \<in> set ''@/?:''
         | EncodeQueryComponent \<Rightarrow> True
         | EncodeFragment \<Rightarrow> False
         | _ \<Rightarrow> True)
      else if mode = EncodeFragment \<and> c \<in> set ''!()*'' then False
      else True)"

definition upperhex :: "nat \<Rightarrow> char" where
  "upperhex n = (if n < 10 then char_of (48 + n) else char_of (55 + n))"

definition ishex :: "char \<Rightarrow> bool" where
  "ishex c \<longleftrightarrow> (let n = (of_char c :: nat) in
     (48 \<le> n \<and> n \<le> 57) \<or> (97 \<le> n \<and> n \<le> 102) \<or> (65 \<le> n \<and> n \<le> 70))"

definition unhex :: "char \<Rightarrow> nat" where
  "unhex c = (let n = (of_char c :: nat) in
     if 48 \<le> n \<and> n \<le> 57 then n - 48 else if 97 \<le> n \<and> n \<le> 102 then n - 87
     else if 65 \<le> n \<and> n \<le> 70 then n - 55 else 0)"

definition percent :: "char \<Rightarrow> string" where
  "percent c = [CHR ''%'', upperhex (of_char c div 16), upperhex (of_char c mod 16)]"

definition escape :: "url_mode \<Rightarrow> string \<Rightarrow> string" where
  "escape mode s = concat (map (\<lambda>c.
     if c = CHR '' '' \<and> mode = EncodeQueryComponent then ''+''
     else if shouldEscape c mode then percent c else [c]) s)"

text \<open>A percent sign needs two hexadecimal digits; hosts and zones accept only some bytes.\<close>

fun unescape :: "url_mode \<Rightarrow> string \<Rightarrow> go_error + string" where
  "unescape mode [] = Inr []"
| "unescape mode (c # s) =
     (if c = CHR ''%'' then
        (case s of
           a # b # rest \<Rightarrow>
             (if \<not> (ishex a \<and> ishex b) then Inl (Err ''invalid URL escape'')
              else if mode = EncodeHost \<and> unhex a < 8 \<and> \<not> (a = CHR ''2'' \<and> b = CHR ''5'')
                then Inl (Err ''invalid URL escape'')
              else if mode = EncodeZone \<and> \<not> (a = CHR ''2'' \<and> b = CHR ''5'') \<and>
                  char_of (unhex a * 16 + unhex b) \<noteq> CHR '' '' \<and> shouldEscape (char_of (unhex a * 16 + unhex b)) EncodeHost
                then Inl (Err ''invalid URL escape'')
              else map_sum id ((#) (char_of (unhex a * 16 + unhex b))) (unescape mode rest))
         | _ \<Rightarrow> Inl (Err ''invalid URL escape''))
      else if mode \<in> {EncodeHost, EncodeZone} \<and> (of_char c :: nat) < 128 \<and> shouldEscape c mode
        then Inl (Err ''invalid character in host name'')
      else map_sum id ((#) (if c = CHR ''+'' \<and> mode = EncodeQueryComponent then CHR '' '' else c)) (unescape mode s))"

section \<open>Printing\<close>

definition url_UserPassword :: "string \<Rightarrow> string \<Rightarrow> string" where
  "url_UserPassword username password =
     escape EncodeUserPassword username @ '':'' @ escape EncodeUserPassword password"

text \<open>\<open>String\<close> of a URL with a scheme, user information, a host and a raw query, and no path.\<close>

definition url_String :: "string \<Rightarrow> string \<Rightarrow> string \<Rightarrow> string \<Rightarrow> string" where
  "url_String scheme user host rawQuery =
     scheme @ ''://'' @ user @ ''@'' @ escape EncodeHost host @ (if rawQuery \<noteq> [] then ''?'' @ rawQuery else [])"

text \<open>\<open>Values.Encode\<close>, on the keys in their sorted order, each with its values.\<close>

definition values_Encode :: "(string \<times> string list) list \<Rightarrow> string" where
  "values_Encode kvs = strings_Join (concat (map (\<lambda>(k, vs). map (\<lambda>v.
     escape EncodeQueryComponent k @ ''='' @ escape EncodeQueryComponent v) vs) kvs)) ''&''"

section \<open>Parsing\<close>

text \<open>\<open>strings.Cut\<close> and \<open>strings.LastIndex\<close> for one byte.\<close>

definition cut :: "string \<Rightarrow> char \<Rightarrow> string \<times> string" where
  "cut s c = (takeWhile (\<lambda>x. x \<noteq> c) s, drop 1 (dropWhile (\<lambda>x. x \<noteq> c) s))"

definition after_last :: "char \<Rightarrow> string \<Rightarrow> string" where
  "after_last c s = rev (takeWhile (\<lambda>x. x \<noteq> c) (rev s))"

definition before_last :: "char \<Rightarrow> string \<Rightarrow> string" where
  "before_last c s = rev (drop 1 (dropWhile (\<lambda>x. x \<noteq> c) (rev s)))"

definition letter :: "char \<Rightarrow> bool" where
  "letter c \<longleftrightarrow> (let n = (of_char c :: nat) in (65 \<le> n \<and> n \<le> 90) \<or> (97 \<le> n \<and> n \<le> 122))"

definition digit :: "char \<Rightarrow> bool" where
  "digit c \<longleftrightarrow> (let n = (of_char c :: nat) in 48 \<le> n \<and> n \<le> 57)"

fun getScheme_from :: "string \<Rightarrow> string \<Rightarrow> string \<Rightarrow> go_error + (string \<times> string)" where
  "getScheme_from raw seen [] = Inr ([], raw)"
| "getScheme_from raw seen (c # s) =
     (if letter c then getScheme_from raw (seen @ [c]) s
      else if digit c \<or> c \<in> set ''+-.'' then (if seen = [] then Inr ([], raw) else getScheme_from raw (seen @ [c]) s)
      else if c = CHR '':'' then (if seen = [] then Inl (Err ''missing protocol scheme'') else Inr (seen, s))
      else Inr ([], raw))"

definition getScheme :: "string \<Rightarrow> go_error + (string \<times> string)" where
  "getScheme rawURL = getScheme_from rawURL [] rawURL"

definition containsCTLByte :: "string \<Rightarrow> bool" where
  "containsCTLByte s \<longleftrightarrow> (\<exists>c\<in>set s. (of_char c :: nat) < 32 \<or> (of_char c :: nat) = 127)"

definition validOptionalPort :: "string \<Rightarrow> bool" where
  "validOptionalPort port \<longleftrightarrow> port = [] \<or> (hd port = CHR '':'' \<and> list_all digit (tl port))"

fun index_of :: "string \<Rightarrow> string \<Rightarrow> nat option" where
  "index_of t [] = (if t = [] then Some 0 else None)"
| "index_of t (c # s) = (if strings_HasPrefix (c # s) t then Some 0 else map_option Suc (index_of t s))"

definition parse_bracketed :: "string \<Rightarrow> go_error + unit" where
  "parse_bracketed host =
     (if CHR '']'' \<notin> set host then Inl (Err ''missing bracket in host'')
      else let colonPort = after_last (CHR '']'') host; inner = before_last (CHR '']'') host; i = length inner
        in if \<not> validOptionalPort colonPort then Inl (Err ''invalid port'')
           else case index_of ''%25'' inner of
               Some zone \<Rightarrow>
                 (case unescape EncodeHost (take zone host) of Inl e \<Rightarrow> Inl e
                  | Inr _ \<Rightarrow> (case unescape EncodeZone (drop zone (take i host)) of Inl e \<Rightarrow> Inl e
                  | Inr _ \<Rightarrow> map_sum id (\<lambda>_. ()) (unescape EncodeHost (drop i host))))
             | None \<Rightarrow> map_sum id (\<lambda>_. ()) (unescape EncodeHost host))"

definition parseHost :: "string \<Rightarrow> go_error + unit" where
  "parseHost host =
     (if strings_HasPrefix host ''['' then parse_bracketed host
      else if CHR '':'' \<in> set host \<and> \<not> validOptionalPort (CHR '':'' # after_last (CHR '':'') host)
        then Inl (Err ''invalid port'')
      else map_sum id (\<lambda>_. ()) (unescape EncodeHost host))"

definition validUserinfo :: "string \<Rightarrow> bool" where
  "validUserinfo s \<longleftrightarrow> list_all (\<lambda>c. alnum c \<or> c \<in> set (''-._:~!$&'' @ [CHR 0x27] @ ''()*+,;=%@'')) s"

text \<open>The user information, the password being the empty string when there is none.\<close>

definition parseAuthority :: "string \<Rightarrow> go_error + (string \<times> string) option" where
  "parseAuthority authority =
     (if CHR ''@'' \<notin> set authority then map_sum id (\<lambda>_. None) (parseHost authority)
      else case parseHost (after_last (CHR ''@'') authority) of
          Inl e \<Rightarrow> Inl e
        | Inr _ \<Rightarrow>
            (let userinfo = before_last (CHR ''@'') authority in
             if \<not> validUserinfo userinfo then Inl (Err ''net/url: invalid userinfo'')
             else if CHR '':'' \<notin> set userinfo
               then map_sum id (\<lambda>u. Some (u, [])) (unescape EncodeUserPassword userinfo)
             else (case cut userinfo (CHR '':'') of (username, password) \<Rightarrow>
               (case unescape EncodeUserPassword username of Inl e \<Rightarrow> Inl e
                | Inr username \<Rightarrow> map_sum id (\<lambda>p. Some (username, p)) (unescape EncodeUserPassword password)))))"

definition parse_rest :: "string \<Rightarrow> string \<Rightarrow> go_error + (string \<times> string) option" where
  "parse_rest scheme rest =
     (let rest = fst (cut rest (CHR ''?'')) in
      if \<not> strings_HasPrefix rest ''/'' \<and> scheme \<noteq> [] then Inr None
      else if \<not> strings_HasPrefix rest ''/'' \<and> CHR '':'' \<in> set (fst (cut rest (CHR ''/'')))
        then Inl (Err ''first path segment in URL cannot contain colon'')
      else if (scheme \<noteq> [] \<or> \<not> strings_HasPrefix rest ''///'') \<and> strings_HasPrefix rest ''//'' then
        (let authority = takeWhile (\<lambda>c. c \<noteq> CHR ''/'') (drop 2 rest); path = dropWhile (\<lambda>c. c \<noteq> CHR ''/'') (drop 2 rest)
         in case parseAuthority authority of
              Inl e \<Rightarrow> Inl e
            | Inr user \<Rightarrow> map_sum id (\<lambda>_. user) (unescape EncodePath path))
      else map_sum id (\<lambda>_. None) (unescape EncodePath rest))"

text \<open>\<open>uri.User\<close> after \<open>url.Parse\<close>.\<close>

definition url_Parse :: "string \<Rightarrow> go_error + (string \<times> string) option" where
  "url_Parse rawURL =
     (case cut rawURL (CHR ''#'') of (u, frag) \<Rightarrow>
        (if containsCTLByte u then Inl (Err ''net/url: invalid control character in URL'')
         else if u = ''*'' then map_sum id (\<lambda>_. None) (unescape EncodeFragment frag)
         else case getScheme u of
             Inl e \<Rightarrow> Inl e
           | Inr (scheme, rest) \<Rightarrow>
               (case parse_rest (strings_ToLower scheme) rest of
                  Inl e \<Rightarrow> Inl e
                | Inr user \<Rightarrow> map_sum id (\<lambda>_. user) (unescape EncodeFragment frag))))"

section \<open>Round trips\<close>

lemma of_char_upperhex: "n < 16 \<Longrightarrow> of_char (upperhex n) = (if n < 10 then 48 + n else 55 + n :: nat)"
  by (simp add: upperhex_def of_char_of)

lemma hex_digit: "n < 16 \<Longrightarrow> ishex (upperhex n) \<and> unhex (upperhex n) = n \<and> alnum (upperhex n)"
  by (auto simp: ishex_def unhex_def alnum_def Let_def of_char_upperhex)

lemma byte_halves: "char_of (unhex (upperhex (of_char c div 16)) * 16 + unhex (upperhex (of_char c mod 16))) = c"
proof -
  have "(of_char c :: nat) < 256" by (rule nat_of_char_less_256)
  then show ?thesis by (simp add: hex_digit less_mult_imp_div_less)
qed

definition plain_mode :: "url_mode \<Rightarrow> bool" where
  "plain_mode mode \<longleftrightarrow> mode \<in> {EncodeUserPassword, EncodePath, EncodeFragment}"

lemma alnum_percent [simp]: "\<not> alnum (CHR ''%'')"
  by (simp add: alnum_def)

lemma percent_escaped [simp]: "shouldEscape (CHR ''%'') mode"
  by (simp add: shouldEscape_def host_safe_def unreserved_def reserved_def)

lemma unescape_percent:
  "plain_mode mode \<Longrightarrow> unescape mode (percent c @ s) = map_sum id ((#) c) (unescape mode s)"
proof -
  assume mode: "plain_mode mode"
  have "(of_char c :: nat) < 256" by (rule nat_of_char_less_256)
  then have "(of_char c :: nat) div 16 < 16" by (simp add: less_mult_imp_div_less)
  then have "ishex (upperhex (of_char c div 16))" "ishex (upperhex (of_char c mod 16))" using hex_digit by auto
  then show ?thesis using mode byte_halves[of c] by (auto simp: percent_def plain_mode_def)
qed

lemma unescape_escape: "plain_mode mode \<Longrightarrow> unescape mode (escape mode s) = Inr s"
proof (induction s)
  case (Cons c s)
  then show ?case
  proof (cases "shouldEscape c mode")
    case True
    then show ?thesis using Cons unescape_percent[of mode c "escape mode s"] by (auto simp: escape_def plain_mode_def)
  next
    case False
    then have "c \<noteq> CHR ''%''" by auto
    then show ?thesis using Cons False by (auto simp: escape_def plain_mode_def)
  qed
qed (simp add: escape_def)

text \<open>What an encoded component is made of.\<close>

lemma percent_chars: "set (percent c) \<subseteq> insert (CHR ''%'') (Collect alnum)"
proof -
  have "(of_char c :: nat) < 256" by (rule nat_of_char_less_256)
  then have "(of_char c :: nat) div 16 < 16" by (simp add: less_mult_imp_div_less)
  then show ?thesis using hex_digit by (auto simp: percent_def)
qed

lemma escape_chars:
  assumes "x \<in> set (escape mode s)"
  shows "alnum x \<or> x = CHR ''%'' \<or> \<not> shouldEscape x mode \<or> x = CHR ''+'' \<and> mode = EncodeQueryComponent"
  using assms percent_chars by (fastforce simp: escape_def split: if_splits)

lemma escape_user_chars:
  "x \<in> set (escape EncodeUserPassword s) \<Longrightarrow> alnum x \<or> x \<in> set ''-_.~$&+,;=%''"
  using escape_chars[of x EncodeUserPassword s]
  by (auto simp: shouldEscape_def unreserved_def reserved_def split: if_splits)

lemma escape_query_chars:
  "x \<in> set (escape EncodeQueryComponent s) \<Longrightarrow> alnum x \<or> x \<in> set ''-_.~+%''"
  using escape_chars[of x EncodeQueryComponent s]
  by (auto simp: shouldEscape_def unreserved_def reserved_def split: if_splits)

lemma escape_id: "\<forall>c\<in>set s. \<not> shouldEscape c EncodeHost \<Longrightarrow> escape EncodeHost s = s"
  by (induction s) (auto simp: escape_def)

lemma unescape_host_id: "\<forall>c\<in>set s. \<not> shouldEscape c EncodeHost \<Longrightarrow> unescape EncodeHost s = Inr s"
proof (induction s)
  case (Cons c s)
  then have "c \<noteq> CHR ''%''" by auto
  with Cons show ?case by simp
qed simp

text \<open>The bytes that end a component of a URL.\<close>

definition delimiters :: "char set" where
  "delimiters = set ''#?/@'' \<union> {c. (of_char c :: nat) < 32 \<or> (of_char c :: nat) = 127}"

lemma alnum_not_delimiter: "alnum c \<Longrightarrow> c \<notin> delimiters"
  by (auto simp: alnum_def delimiters_def Let_def)

lemma user_no_delimiter: "x \<in> set (escape EncodeUserPassword s) \<Longrightarrow> x \<notin> delimiters \<and> x \<noteq> CHR '':''"
  using escape_user_chars[of x s] alnum_not_delimiter[of x]
  by (auto simp: delimiters_def) (auto simp: alnum_def)

lemma query_no_delimiter: "x \<in> set (escape EncodeQueryComponent s) \<Longrightarrow> x \<notin> delimiters"
  using escape_query_chars[of x s] alnum_not_delimiter[of x] by (auto simp: delimiters_def)

lemma host_no_delimiter: "\<not> shouldEscape x EncodeHost \<Longrightarrow> x \<notin> delimiters"
proof -
  assume "\<not> shouldEscape x EncodeHost"
  then have "alnum x \<or> x \<in> set host_safe \<or> x \<in> set unreserved"
    by (auto simp: shouldEscape_def split: if_splits)
  then show ?thesis using alnum_not_delimiter[of x] by (auto simp: delimiters_def host_safe_def unreserved_def)
qed

lemma cut_at: "c \<notin> set a \<Longrightarrow> cut (a @ c # b) c = (a, b)"
  by (induction a) (auto simp: cut_def)

lemma cut_none: "c \<notin> set a \<Longrightarrow> cut a c = (a, [])"
  by (induction a) (auto simp: cut_def)

lemma last_at: "c \<notin> set b \<Longrightarrow> after_last c (a @ c # b) = b \<and> before_last c (a @ c # b) = a"
  using cut_at[of c "rev b" "rev a"] by (simp add: after_last_def before_last_def cut_def)

lemma valid_user: "validUserinfo (url_UserPassword username password)"
  using escape_user_chars by (fastforce simp: validUserinfo_def url_UserPassword_def list_all_iff)

text \<open>Parsing a printed URL gives the user name and the password back.\<close>

lemma parse_authority_user:
  assumes host: "parseHost host = Inr ()" "\<forall>c\<in>set host. \<not> shouldEscape c EncodeHost"
  shows "parseAuthority (url_UserPassword username password @ CHR ''@'' # host) = Inr (Some (username, password))"
proof -
  have "CHR ''@'' \<notin> set host" using host(2) host_no_delimiter by (auto simp: delimiters_def)
  note at = last_at[OF this, of "url_UserPassword username password"]
  have colon: "CHR '':'' \<notin> set (escape EncodeUserPassword username)" using user_no_delimiter by blast
  show ?thesis
    unfolding parseAuthority_def
    using at host(1) valid_user cut_at[OF colon]
    by (simp add: url_UserPassword_def unescape_escape plain_mode_def)
qed

lemma url_user_roundtrip:
  assumes host: "parseHost host = Inr ()" "\<forall>c\<in>set host. \<not> shouldEscape c EncodeHost"
    and query: "rawQuery \<noteq> []" "set rawQuery \<inter> delimiters = {}"
  shows "url_Parse (url_String ''kafka'' (url_UserPassword username password) host rawQuery) = Inr (Some (username, password))"
proof -
  let ?user = "url_UserPassword username password"
  let ?rest = "''//'' @ ?user @ CHR ''@'' # host"
  let ?u = "''kafka:'' @ ?rest @ CHR ''?'' # rawQuery"
  have url: "url_String ''kafka'' ?user host rawQuery = ?u"
    using query(1) escape_id[OF host(2)] by (simp add: url_String_def)
  have du: "x \<in> set ?user \<Longrightarrow> x \<notin> delimiters" for x
    using user_no_delimiter by (auto simp: url_UserPassword_def delimiters_def)
  have dh: "x \<in> set host \<Longrightarrow> x \<notin> delimiters" for x using host(2) host_no_delimiter by blast
  have no_hash: "CHR ''#'' \<notin> set ?u" and no_q: "CHR ''?'' \<notin> set ?rest"
    using du dh query(2) by (auto simp: delimiters_def)
  have ctl: "\<not> containsCTLByte ?u" using du dh query(2) by (auto simp: containsCTLByte_def delimiters_def)
  have scheme: "getScheme ?u = Inr (''kafka'', ?rest @ CHR ''?'' # rawQuery)"
    by (simp add: getScheme_def letter_def digit_def)
  have slash: "\<forall>c\<in>set (?user @ CHR ''@'' # host). c \<noteq> CHR ''/''"
    using du dh by (auto simp: delimiters_def)
  have auth: "takeWhile (\<lambda>c. c \<noteq> CHR ''/'') host = host" "dropWhile (\<lambda>c. c \<noteq> CHR ''/'') host = []"
    using slash by (auto simp: takeWhile_eq_all_conv dropWhile_eq_Nil_conv)
  have rest: "parse_rest ''kafka'' (?rest @ CHR ''?'' # rawQuery) = Inr (Some (username, password))"
    using cut_at[OF no_q, of rawQuery] slash parse_authority_user[OF host]
    by (simp add: auth parse_rest_def strings_HasPrefix_def Let_def)
  have lower: "strings_ToLower ''kafka'' = ''kafka''" by code_simp
  show ?thesis
    unfolding url url_Parse_def using cut_none[OF no_hash] ctl scheme lower rest by simp
qed

end
