(* ===== verification/Akhq_Config.thy ===== *)
theory Akhq_Config
  imports Go_Prelude Operator_Util Kube_Reconciler
begin

text \<open>
  \<open>operator/controllers/akhqconfig\<close> and \<open>operator/controllers/akhqprotobuf\<close>: the controller of \<open>AkhqConfig\<close>
  resources, which keeps the protobuf deserialization settings of AKHQ in one shared config map and
  the descriptor files in a config map each. The Kubernetes client, the YAML library, the hash, the
  compression through temporary files and the iteration order of maps are arguments.
\<close>

section \<open>Data\<close>

record akhqEntry =
  ac_TopicRegex :: string
  ac_KeyType :: string
  ac_MessageType :: string
  ac_DescriptorFileBase64 :: string

record akhqConfig = k8sObject +
  ac_APIVersion :: string
  ac_Finalizers :: "string list"
  ac_DeletionTimestamp :: "string option"
  ac_Configs :: "akhqEntry list"
  ac_IsInvalid :: bool
  ac_IsProcessed :: bool
  ac_Problems :: string

record topicMapping =
  tm_TopicRegex :: string
  tm_Name :: string
  tm_DescriptorFile :: string
  tm_DescriptorFileBase64 :: string
  tm_KeyMessageType :: string
  tm_ValueMessageType :: string

record deserializationConfig =
  dc_DescriptorsFolder :: string
  dc_TopicsMapping :: "topicMapping list"

record 'w akhqEnv =
  ae_kube :: "'w kubeClient"
  ae_Get :: "string \<Rightarrow> string \<Rightarrow> ('w, akhqConfig) eff"
  ae_Update :: "akhqConfig \<Rightarrow> ('w, unit) eff"
  ae_UpdateStatus :: "akhqConfig \<Rightarrow> ('w, unit) eff"
  ae_retryOnConflict :: "'w retrier"
  ae_AddFinalizer :: "string \<Rightarrow> string list \<Rightarrow> string list"
  ae_RemoveFinalizer :: "string \<Rightarrow> string list \<Rightarrow> string list"
  ae_Unmarshal :: "string \<Rightarrow> go_error + deserializationConfig"
  ae_Marshal :: "deserializationConfig \<Rightarrow> go_error + string"
  ae_StringHash :: "string \<Rightarrow> string"
  ae_compressBytes :: "string \<Rightarrow> ('w, string) eff"
  ae_iterEntries :: "akhqEntry gomap \<Rightarrow> akhqEntry gomap"
  ae_iterFiles :: "string gomap \<Rightarrow> string gomap"
  ae_Namespace :: string
  ae_ApiGroup :: string

section \<open>Base64\<close>

text \<open>\<open>base64.StdEncoding.DecodeString\<close>: line ends are skipped, groups of four characters, padding only at
  the end.\<close>

definition b64_value :: "char \<Rightarrow> nat option" where
  "b64_value c = (let n = (of_char c :: nat) in
     if 65 \<le> n \<and> n \<le> 90 then Some (n - 65) else if 97 \<le> n \<and> n \<le> 122 then Some (n - 71)
     else if 48 \<le> n \<and> n \<le> 57 then Some (n + 4) else if c = CHR ''+'' then Some 62
     else if c = CHR ''/'' then Some 63 else None)"

definition b64_error :: go_error where
  "b64_error = Err ''illegal base64 data''"

fun b64_groups :: "string \<Rightarrow> go_error + string" where
  "b64_groups [] = Inr []"
| "b64_groups [a, b, c, d] =
     (case (b64_value a, b64_value b) of
        (Some x, Some y) \<Rightarrow>
          (if c = CHR ''='' \<and> d = CHR ''='' then Inr [char_of (x * 4 + y div 16)]
           else case b64_value c of
               None \<Rightarrow> Inl b64_error
             | Some z \<Rightarrow>
                 (if d = CHR ''='' then Inr [char_of (x * 4 + y div 16), char_of (y mod 16 * 16 + z div 4)]
                  else case b64_value d of
                      None \<Rightarrow> Inl b64_error
                    | Some u \<Rightarrow> Inr [char_of (x * 4 + y div 16), char_of (y mod 16 * 16 + z div 4), char_of (z mod 4 * 64 + u)]))
      | _ \<Rightarrow> Inl b64_error)"
| "b64_groups (a # b # c # d # rest) =
     (case (b64_value a, b64_value b, b64_value c, b64_value d) of
        (Some x, Some y, Some z, Some u) \<Rightarrow>
          map_sum id ((@) [char_of (x * 4 + y div 16), char_of (y mod 16 * 16 + z div 4), char_of (z mod 4 * 64 + u)])
            (b64_groups rest)
      | _ \<Rightarrow> Inl b64_error)"
| "b64_groups _ = Inl b64_error"

definition base64_Decode :: "string \<Rightarrow> go_error + string" where
  "base64_Decode s = b64_groups (filter (\<lambda>c. c \<noteq> CHR ''\<newline>'' \<and> c \<noteq> CHR 0x0D) s)"

section \<open>Validation\<close>

definition converted_regex :: "akhqEntry \<Rightarrow> string" where
  "converted_regex config = strings_ReplaceAll (ac_TopicRegex config) '','' ''|''"

fun validate_loop :: "string list \<Rightarrow> akhqEntry list \<Rightarrow> bool \<times> string" where
  "validate_loop regexSet [] = (True, [])"
| "validate_loop regexSet (config # rest) =
     (if converted_regex config \<notin> set regexSet then
        (case base64_Decode (ac_DescriptorFileBase64 config) of
           Inl _ \<Rightarrow> (False, ''can not decode descriptor-file-base64 config which is associated with ['' @ ac_TopicRegex config
             @ ''] regular expression'')
         | Inr _ \<Rightarrow> validate_loop (converted_regex config # regexSet) rest)
      else (False, ''this regular expression occurs twice - ['' @ ac_TopicRegex config @ '']''))"

definition validateCrConfig :: "akhqEntry list \<Rightarrow> bool \<times> string" where
  "validateCrConfig crConfigs = validate_loop [] crConfigs"

definition akhq_validate :: "akhqConfig \<Rightarrow> bool \<times> string" where
  "akhq_validate instnce = validateCrConfig (ac_Configs instnce)"

section \<open>The shared config map\<close>

definition akhq_getConfigMap :: "'w akhqEnv \<Rightarrow> string \<Rightarrow> string \<Rightarrow> ('w, configMap) eff" where
  "akhq_getConfigMap env configMapName namespace = c_Get (k_configMaps (ae_kube env)) configMapName namespace"

definition getDeserializationConfig :: "'w akhqEnv \<Rightarrow> configMap \<Rightarrow> go_error + deserializationConfig" where
  "getDeserializationConfig env deserializationCM = ae_Unmarshal env (mstr (cm_Data deserializationCM) ''config'')"

text \<open>The map of an object without data is \<open>nil\<close>, and writing to it panics.\<close>

definition updateDeserializationConfigMap :: "'w akhqEnv \<Rightarrow> configMap \<Rightarrow> deserializationConfig \<Rightarrow> ('w, unit) eff" where
  "updateDeserializationConfigMap env deserializationCM dc =
     bindE (liftE (ae_Marshal env dc)) (\<lambda>binDc.
       if cm_Data deserializationCM = [] then throwE Panic
       else c_Update (k_configMaps (ae_kube env))
         (deserializationCM\<lparr>cm_Data := mput ''config'' binDc (cm_Data deserializationCM)\<rparr>))"

definition protobufConfig :: string where
  "protobufConfig = ''deserialization:'' @ [CHR ''\<newline>''] @ '' protobuf:'' @ [CHR ''\<newline>'']
     @ ''   descriptors-folder: '' @ [CHR 0x22] @ ''/app/config'' @ [CHR 0x22] @ [CHR ''\<newline>'']
     @ ''   topics-mapping: []'' @ [CHR ''\<newline>'']"

definition protobufConfigurationCMName :: string where
  "protobufConfigurationCMName = ''akhq-protobuf-configuration''"

text \<open>\<open>!reflect.DeepEqual(found, labels)\<close>: a \<open>nil\<close> map, which the labels of an object without labels are, is
  not equal to an empty one.\<close>

definition labels_differ :: "string gomap \<Rightarrow> string gomap option \<Rightarrow> bool" where
  "labels_differ found labels = (case labels of
      None \<Rightarrow> found \<noteq> []
    | Some l \<Rightarrow> found = [] \<or> set found \<noteq> set l)"

text \<open>\<open>controller\<close> is the owner to set, with the function that sets it, where one is given.\<close>

definition CreateProtobufConfigMapIfNotExist :: "string \<Rightarrow> 'w kubeClient \<Rightarrow> string gomap option \<Rightarrow>
    (crRef \<times> refSetter) option \<Rightarrow> ('w, configMap) eff" where
  "CreateProtobufConfigMapIfNotExist namespace k labels controller =
     (\<lambda>continue. tryE (c_Get (k_configMaps k) protobufConfigurationCMName namespace)
        (\<lambda>err. if \<not> IsNotFound err then throwE err
           else continue True \<lparr>obj_Name = protobufConfigurationCMName, obj_Namespace = namespace, obj_Labels = [],
             obj_Annotations = [], obj_ResourceVersion = [], obj_OwnerReferences = [],
             cm_Data = [(''config'', protobufConfig)], cm_BinaryData = []\<rparr>)
        (continue False))
     (\<lambda>needToCreate protobufConfigMap.
        let differ = labels_differ (obj_Labels protobufConfigMap) labels;
            protobufConfigMap = (if differ then protobufConfigMap\<lparr>obj_Labels := (case labels of None \<Rightarrow> [] | Some l \<Rightarrow> l)\<rparr>
              else protobufConfigMap)
        in bindE (case controller of
              None \<Rightarrow> returnE (differ, protobufConfigMap)
            | Some (owner, setControllerReference) \<Rightarrow>
                bindE (liftE (controller_references setControllerReference owner (obj_OwnerReferences protobufConfigMap)))
                  (\<lambda>refs. returnE (True, protobufConfigMap\<lparr>obj_OwnerReferences := refs\<rparr>)))
          (\<lambda>(needToUpdate, protobufConfigMap).
             bindE (if needToCreate then c_Create (k_configMaps k) protobufConfigMap
                    else if needToUpdate then c_Update (k_configMaps k) protobufConfigMap
                    else returnE ()) (\<lambda>_. returnE protobufConfigMap)))"

section \<open>The descriptor files\<close>

definition akhqDeserializationCMPrefix :: string where
  "akhqDeserializationCMPrefix = ''akhqdcm-''"

definition apply_binary :: "'w akhqEnv \<Rightarrow> string \<Rightarrow> string gomap \<Rightarrow> string \<times> string \<Rightarrow> ('w, unit) eff" where
  "apply_binary env namespace labels = (\<lambda>(configName, rawConfig).
     let name = akhqDeserializationCMPrefix @ configName; k = k_configMaps (ae_kube env);
         store = (\<lambda>configAlreadyPresented descKeysCM.
           case base64_Decode rawConfig of
             Inl _ \<Rightarrow> returnE ()
           | Inr content \<Rightarrow> bindE (ae_compressBytes env content) (\<lambda>compressedBytes.
               let descKeysCM = descKeysCM\<lparr>cm_BinaryData := mput (configName @ ''.gz'') compressedBytes (cm_BinaryData descKeysCM),
                     obj_Labels := labels\<rparr>
               in if \<not> configAlreadyPresented
                  then c_Create k (descKeysCM\<lparr>obj_Name := name, obj_Namespace := namespace\<rparr>)
                  else c_Update k descKeysCM))
     in tryE (c_Get k name namespace)
          (\<lambda>err. if \<not> IsNotFound err then throwE err
             else store False \<lparr>obj_Name = [], obj_Namespace = [], obj_Labels = [], obj_Annotations = [], obj_ResourceVersion = [],
               obj_OwnerReferences = [], cm_Data = [], cm_BinaryData = []\<rparr>)
          (store True))"

definition applyBinaryConfigMap :: "'w akhqEnv \<Rightarrow> string \<Rightarrow> string gomap \<Rightarrow> string gomap \<Rightarrow> ('w, unit) eff" where
  "applyBinaryConfigMap env namespace mapToApply labels =
     forE (ae_iterFiles env mapToApply) (apply_binary env namespace labels)"

definition deleteBinaryConfigMap :: "'w akhqEnv \<Rightarrow> string \<Rightarrow> string gomap \<Rightarrow> ('w, unit) eff" where
  "deleteBinaryConfigMap env namespace mapToDelete =
     forE (ae_iterFiles env mapToDelete) (\<lambda>(configName, _).
       tryE (c_Get (k_configMaps (ae_kube env)) (akhqDeserializationCMPrefix @ configName) namespace)
         (\<lambda>err. if IsNotFound err then returnE () else throwE err)
         (c_Delete (k_configMaps (ae_kube env))))"

section \<open>The list of mappings\<close>

definition shortFileName :: "string \<Rightarrow> string" where
  "shortFileName descriptorFile = (let splitNames = strings_Split descriptorFile (CHR ''/'')
     in if length splitNames = 2 then splitNames ! 1 else splitNames ! 0)"

text \<open>
  The loop of \<open>fullUpdateDeserializationConfig\<close> over the existing mappings. \<open>kept\<close> is what is left of the
  part that was passed; the insert position is the length of it after the last mapping of this
  resource.
\<close>

fun full_update_loop :: "string \<Rightarrow> topicMapping list \<Rightarrow> nat \<Rightarrow> akhqEntry gomap \<Rightarrow> string gomap \<Rightarrow> topicMapping list \<Rightarrow>
    topicMapping list \<times> nat \<times> akhqEntry gomap \<times> string gomap" where
  "full_update_loop crFullName kept insertPosition crConfigsMap mapToUpdate [] =
     (kept, insertPosition, crConfigsMap, mapToUpdate)"
| "full_update_loop crFullName kept insertPosition crConfigsMap mapToUpdate (existedConfig # rest) =
     (if tm_Name existedConfig = crFullName then
        (case map_of crConfigsMap (tm_TopicRegex existedConfig) of
           Some crConfig \<Rightarrow> full_update_loop crFullName
             (kept @ [existedConfig\<lparr>tm_KeyMessageType := ac_KeyType crConfig, tm_ValueMessageType := ac_MessageType crConfig\<rparr>])
             (length kept + 1) (mdel (ac_TopicRegex crConfig) crConfigsMap)
             (mput (shortFileName (tm_DescriptorFile existedConfig)) (ac_DescriptorFileBase64 crConfig) mapToUpdate) rest
         | None \<Rightarrow> full_update_loop crFullName kept (length kept) crConfigsMap
             (mput (shortFileName (tm_DescriptorFile existedConfig)) [] mapToUpdate) rest)
      else full_update_loop crFullName (kept @ [existedConfig]) insertPosition crConfigsMap mapToUpdate rest)"

definition new_file :: "'w akhqEnv \<Rightarrow> string \<Rightarrow> akhqEntry \<Rightarrow> string" where
  "new_file env crFullName value = crFullName @ ''-'' @ ae_StringHash env (ac_TopicRegex value)"

definition new_mapping :: "'w akhqEnv \<Rightarrow> string \<Rightarrow> akhqEntry \<Rightarrow> topicMapping" where
  "new_mapping env crFullName value = \<lparr>tm_TopicRegex = ac_TopicRegex value, tm_Name = crFullName,
     tm_DescriptorFile = ''descs/'' @ new_file env crFullName value, tm_DescriptorFileBase64 = [],
     tm_KeyMessageType = ac_KeyType value, tm_ValueMessageType = ac_MessageType value\<rparr>"

definition fullUpdateDeserializationConfig :: "'w akhqEnv \<Rightarrow> topicMapping list \<Rightarrow> akhqEntry gomap \<Rightarrow> string \<Rightarrow>
    topicMapping list \<times> string gomap" where
  "fullUpdateDeserializationConfig env existingConfigs crConfigsMap crFullName =
     (case full_update_loop crFullName [] (length existingConfigs) crConfigsMap [] existingConfigs of
        (existingConfigs, insertPosition, crConfigsMap, mapToUpdate) \<Rightarrow>
          (let values = map snd (ae_iterEntries env crConfigsMap);
               toInsert = map (new_mapping env crFullName) values;
               mapToUpdate = fold (\<lambda>value. mput (new_file env crFullName value) (ac_DescriptorFileBase64 value)) values mapToUpdate
           in (take insertPosition existingConfigs @ toInsert @ drop insertPosition existingConfigs, mapToUpdate)))"

text \<open>\<open>strings.Split(file, "/")[1]\<close> panics on a file name without a slash.\<close>

fun deleteDeserializationConfig :: "topicMapping list \<Rightarrow> string \<Rightarrow> string gomap \<Rightarrow> go_error + (topicMapping list \<times> string gomap)" where
  "deleteDeserializationConfig [] crFullName mapToDelete = Inr ([], mapToDelete)"
| "deleteDeserializationConfig (existedConfig # rest) crFullName mapToDelete =
     (if tm_Name existedConfig = crFullName then
        (if tm_DescriptorFile existedConfig \<noteq> [] then
           (case strings_Split (tm_DescriptorFile existedConfig) (CHR ''/'') of
              _ # short # _ \<Rightarrow> deleteDeserializationConfig rest crFullName (mput short [] mapToDelete)
            | _ \<Rightarrow> Inl Panic)
         else deleteDeserializationConfig rest crFullName mapToDelete)
      else map_sum id (\<lambda>(kept, m). (existedConfig # kept, m)) (deleteDeserializationConfig rest crFullName mapToDelete))"

section \<open>The controller\<close>

definition crFullName :: "akhqConfig \<Rightarrow> string" where
  "crFullName instnce = obj_Name instnce @ ''-'' @ obj_Namespace instnce"

definition deleteConfig :: "'w akhqEnv \<Rightarrow> akhqConfig \<Rightarrow> ('w, unit) eff" where
  "deleteConfig env instnce =
     bindE (akhq_getConfigMap env protobufConfigurationCMName (ae_Namespace env)) (\<lambda>deserializationCM.
     bindE (liftE (getDeserializationConfig env deserializationCM)) (\<lambda>dc.
     bindE (liftE (deleteDeserializationConfig (dc_TopicsMapping dc) (crFullName instnce) [])) (\<lambda>(existingConfigs, mapToDelete).
     bindE (deleteBinaryConfigMap env (ae_Namespace env) mapToDelete) (\<lambda>_.
       updateDeserializationConfigMap env deserializationCM (dc\<lparr>dc_TopicsMapping := existingConfigs\<rparr>)))))"

definition crConfigsMap :: "akhqEntry list \<Rightarrow> akhqEntry gomap" where
  "crConfigsMap crConfigs = fold (\<lambda>value. mput (converted_regex value) (value\<lparr>ac_TopicRegex := converted_regex value\<rparr>)) crConfigs []"

definition applyConfig :: "'w akhqEnv \<Rightarrow> akhqConfig \<Rightarrow> ('w, unit) eff" where
  "applyConfig env instnce =
     bindE (CreateProtobufConfigMapIfNotExist (ae_Namespace env) (ae_kube env) (Some []) None) (\<lambda>deserializationCM.
     bindE (liftE (getDeserializationConfig env deserializationCM)) (\<lambda>dc.
     case fullUpdateDeserializationConfig env (dc_TopicsMapping dc) (crConfigsMap (ac_Configs instnce)) (crFullName instnce) of
       (existingConfigs, mapToUpdate) \<Rightarrow>
         bindE (applyBinaryConfigMap env (ae_Namespace env) mapToUpdate (obj_Labels deserializationCM)) (\<lambda>_.
           updateDeserializationConfigMap env deserializationCM (dc\<lparr>dc_TopicsMapping := existingConfigs\<rparr>))))"

definition akhq_statusUpdater :: "'w akhqEnv \<Rightarrow> akhqConfig \<Rightarrow> (akhqConfig, 'w) statusUpdater" where
  "akhq_statusUpdater env cr = \<lparr>su_Get = ae_Get env, su_UpdateStatus = ae_UpdateStatus env,
     su_name = obj_Name cr, su_namespace = obj_Namespace cr\<rparr>"

definition akhq_updateCrStatus :: "'w akhqEnv \<Rightarrow> akhqConfig \<Rightarrow> bool \<Rightarrow> bool \<Rightarrow> string \<Rightarrow> ('w, unit) eff" where
  "akhq_updateCrStatus env instnce isInvalid isProcessed problems =
     UpdateStatusWithRetry (akhq_statusUpdater env instnce) (ae_retryOnConflict env)
       (\<lambda>cr. cr\<lparr>ac_IsInvalid := isInvalid, ac_IsProcessed := isProcessed, ac_Problems := problems\<rparr>)"

definition akhq_Reconcile :: "'w akhqEnv \<Rightarrow> string \<Rightarrow> string \<Rightarrow> ('w, reconcileResult) eff" where
  "akhq_Reconcile env name namespace =
     (let akhqFinalizer = ae_ApiGroup env @ ''/akhq-config-controller'' in
      tryE (ae_Get env name namespace) (\<lambda>err. if IsNotFound err then returnE done_result else throwE err) (\<lambda>instnce.
      if \<not> ApiGroupMatches (ac_APIVersion instnce) (ae_ApiGroup env) then returnE done_result
      else if ac_DeletionTimestamp instnce \<noteq> None then
        bindE (if util_Contains akhqFinalizer (ac_Finalizers instnce) then
            bindE (deleteConfig env instnce) (\<lambda>_. ae_Update env
              (instnce\<lparr>ac_Finalizers := ae_RemoveFinalizer env akhqFinalizer (ac_Finalizers instnce)\<rparr>))
          else returnE ()) (\<lambda>_. returnE done_result)
      else case akhq_validate instnce of
          (False, description) \<Rightarrow> bindE (akhq_updateCrStatus env instnce True False description) (\<lambda>_. returnE done_result)
        | (True, _) \<Rightarrow>
            bindE (if \<not> util_Contains akhqFinalizer (ac_Finalizers instnce)
                then ae_Update env (instnce\<lparr>ac_Finalizers := ae_AddFinalizer env akhqFinalizer (ac_Finalizers instnce)\<rparr>)
                else returnE ()) (\<lambda>_.
            tryE (applyConfig env instnce)
              (\<lambda>err. bindE (akhq_updateCrStatus env instnce False True ''internal server error, config was not applied'')
                 (\<lambda>_. throwE err))
              (\<lambda>_. bindE (akhq_updateCrStatus env instnce False True []) (\<lambda>_. returnE done_result)))))"

definition akhq_UpdateFunc :: "int \<Rightarrow> int \<Rightarrow> bool" where
  "akhq_UpdateFunc oldGeneration newGeneration \<longleftrightarrow> oldGeneration \<noteq> newGeneration"

section \<open>What the list of mappings means\<close>

text \<open>
  The abstract content of the shared list: which resource maps which expression to which key and
  value types. Applying a resource replaces its own part of this relation.
\<close>

definition mapping_key :: "topicMapping \<Rightarrow> string \<times> string \<times> string \<times> string" where
  "mapping_key t = (tm_Name t, tm_TopicRegex t, tm_KeyMessageType t, tm_ValueMessageType t)"

definition mapping_set :: "topicMapping list \<Rightarrow> (string \<times> string \<times> string \<times> string) set" where
  "mapping_set ms = mapping_key ` set ms"

lemma mapping_set_Nil [simp]: "mapping_set [] = {}"
  by (simp add: mapping_set_def)

definition set_resource :: "string \<Rightarrow> (string \<times> string \<times> string) set \<Rightarrow> (string \<times> string \<times> string \<times> string) set \<Rightarrow>
    (string \<times> string \<times> string \<times> string) set" where
  "set_resource cr entries S = {x \<in> S. fst x \<noteq> cr} \<union> Pair cr ` entries"

definition entry_of :: "akhqEntry \<Rightarrow> string \<times> string \<times> string" where
  "entry_of c = (converted_regex c, ac_KeyType c, ac_MessageType c)"

text \<open>A map of configurations under their own expressions.\<close>

definition keyed :: "akhqEntry gomap \<Rightarrow> bool" where
  "keyed cfg \<longleftrightarrow> wf_map cfg \<and> (\<forall>(k, c)\<in>set cfg. ac_TopicRegex c = k)"

definition entries :: "akhqEntry gomap \<Rightarrow> (string \<times> string \<times> string) set" where
  "entries cfg = (\<lambda>(k, c). (k, ac_KeyType c, ac_MessageType c)) ` set cfg"

lemma set_mdel: "set (mdel k m) = {p \<in> set m. fst p \<noteq> k}"
  by (auto simp: AList.delete_eq)

lemma keyed_mdel: "keyed cfg \<Longrightarrow> keyed (mdel k cfg)"
  by (auto simp: keyed_def set_mdel)

lemma entries_mdel:
  assumes "keyed cfg" "map_of cfg k = Some c"
  shows "entries cfg = insert (k, ac_KeyType c, ac_MessageType c) (entries (mdel k cfg))" "ac_TopicRegex c = k"
proof -
  have kc: "(k, c) \<in> set cfg" using assms(2) by (rule map_of_SomeD)
  then show "ac_TopicRegex c = k" using assms(1) by (auto simp: keyed_def)
  have "p = (k, c)" if "p \<in> set cfg" "fst p = k" for p
  proof -
    have "map_of cfg k = Some (snd p)"
      using that assms(1) by (metis keyed_def map_of_is_SomeI prod.collapse)
    then show ?thesis using assms(2) that(2) by (metis option.inject prod.collapse)
  qed
  then have split: "set cfg = insert (k, c) (set (mdel k cfg))" using kc unfolding set_mdel by blast
  have "entries cfg = (\<lambda>(k, c). (k, ac_KeyType c, ac_MessageType c)) ` insert (k, c) (set (mdel k cfg))"
    unfolding entries_def by (rule arg_cong[OF split])
  then show "entries cfg = insert (k, ac_KeyType c, ac_MessageType c) (entries (mdel k cfg))"
    by (simp only: image_insert prod.case entries_def)
qed

lemma full_update_loop_spec:
  assumes "full_update_loop cr kept pos cfg upd rest = (kept', pos', cfg', upd')" "keyed cfg"
  shows "keyed cfg'
    \<and> mapping_set kept' \<union> Pair cr ` entries cfg' = mapping_set kept \<union> {x \<in> mapping_set rest. fst x \<noteq> cr} \<union> Pair cr ` entries cfg
    \<and> filter (\<lambda>t. tm_Name t \<noteq> cr) kept' = filter (\<lambda>t. tm_Name t \<noteq> cr) kept @ filter (\<lambda>t. tm_Name t \<noteq> cr) rest"
  using assms
proof (induction rest arbitrary: kept pos cfg upd)
  case Nil
  then show ?case by (simp add: mapping_set_def)
next
  case (Cons e rest)
  show ?case
  proof (cases "tm_Name e = cr")
    case False
    from Cons.IH[of "kept @ [e]" pos cfg upd] Cons.prems False show ?thesis
      by (auto simp: mapping_set_def mapping_key_def)
  next
    case name: True
    show ?thesis
    proof (cases "map_of cfg (tm_TopicRegex e)")
      case None
      from Cons.IH[of kept "length kept" cfg] Cons.prems name None show ?thesis
        by (auto simp: mapping_set_def mapping_key_def)
    next
      case (Some c)
      let ?e = "e\<lparr>tm_KeyMessageType := ac_KeyType c, tm_ValueMessageType := ac_MessageType c\<rparr>"
      note ent = entries_mdel[OF Cons.prems(2) Some]
      have run: "full_update_loop cr (kept @ [?e]) (length kept + 1) (mdel (tm_TopicRegex e) cfg)
          (mput (shortFileName (tm_DescriptorFile e)) (ac_DescriptorFileBase64 c) upd) rest = (kept', pos', cfg', upd')"
        using Cons.prems(1) name Some ent(2) by simp
      have "mapping_set (kept @ [?e]) = insert (cr, tm_TopicRegex e, ac_KeyType c, ac_MessageType c) (mapping_set kept)"
        using name by (simp add: mapping_set_def mapping_key_def)
      moreover have "{x \<in> mapping_set (e # rest). fst x \<noteq> cr} = {x \<in> mapping_set rest. fst x \<noteq> cr}"
        using name by (auto simp: mapping_set_def mapping_key_def)
      ultimately show ?thesis
        using Cons.IH[OF run keyed_mdel[OF Cons.prems(2)]] name by (simp add: ent(1))
    qed
  qed
qed

lemma crConfigsMap_spec:
  assumes "distinct (map converted_regex cs)"
  shows "keyed (crConfigsMap cs)" "entries (crConfigsMap cs) = entry_of ` set cs"
proof -
  let ?put = "\<lambda>value. mput (converted_regex value) (value\<lparr>ac_TopicRegex := converted_regex value\<rparr>)"
  have set_mput: "set (mput k v m) = insert (k, v) {p \<in> set m. fst p \<noteq> k}" if "wf_map m" for k m and v :: akhqEntry
    using that by (induction m) (auto intro: rev_image_eqI)
  have "keyed m \<Longrightarrow> distinct (map converted_regex cs) \<Longrightarrow> fst ` set m \<inter> converted_regex ` set cs = {} \<Longrightarrow>
      keyed (fold ?put cs m) \<and> entries (fold ?put cs m) = entries m \<union> entry_of ` set cs" for m
  proof (induction cs arbitrary: m)
    case (Cons c cs)
    have new: "set (?put c m) = insert (converted_regex c, c\<lparr>ac_TopicRegex := converted_regex c\<rparr>) (set m)"
    proof -
      have "converted_regex c \<notin> fst ` set m" using Cons.prems(3) by auto
      then have "{p \<in> set m. fst p \<noteq> converted_regex c} = set m" by force
      then show ?thesis using set_mput[of m] Cons.prems(1) by (simp add: keyed_def)
    qed
    have "keyed (?put c m)" using Cons.prems(1) new by (auto simp: keyed_def)
    moreover have "entries (?put c m) = insert (entry_of c) (entries m)" using new by (simp add: entries_def entry_of_def)
    moreover have "fst ` set (?put c m) \<inter> converted_regex ` set cs = {}" using Cons.prems new by auto
    ultimately show ?case using Cons.IH[of "?put c m"] Cons.prems(2) by simp
  qed simp
  from this[of "[]"] assms show "keyed (crConfigsMap cs)" "entries (crConfigsMap cs) = entry_of ` set cs"
    by (simp_all add: crConfigsMap_def keyed_def entries_def)
qed

lemma validated_distinct: "fst (validateCrConfig cs) \<Longrightarrow> distinct (map converted_regex cs)"
proof -
  have "fst (validate_loop seen cs) \<Longrightarrow> distinct (map converted_regex cs) \<and> set seen \<inter> converted_regex ` set cs = {}" for seen
    by (induction cs arbitrary: seen) (fastforce split: if_splits sum.splits)+
  then show "fst (validateCrConfig cs) \<Longrightarrow> ?thesis" by (auto simp: validateCrConfig_def)
qed

lemma full_update_spec:
  assumes valid: "fst (validateCrConfig cs)"
    and iter: "\<And>m. set (ae_iterEntries env m) = set m"
  shows "mapping_set (fst (fullUpdateDeserializationConfig env ms (crConfigsMap cs) cr)) =
      set_resource cr (entry_of ` set cs) (mapping_set ms)
    \<and> filter (\<lambda>t. tm_Name t \<noteq> cr) (fst (fullUpdateDeserializationConfig env ms (crConfigsMap cs) cr)) =
      filter (\<lambda>t. tm_Name t \<noteq> cr) ms"
proof -
  note cfg = crConfigsMap_spec[OF validated_distinct[OF valid]]
  obtain kept pos cfg' upd where loop:
    "full_update_loop cr [] (length ms) (crConfigsMap cs) [] ms = (kept, pos, cfg', upd)" by (metis prod.exhaust)
  note spec = full_update_loop_spec[OF loop cfg(1)]
  let ?new = "map (new_mapping env cr) (map snd (ae_iterEntries env cfg'))"
  have result: "fst (fullUpdateDeserializationConfig env ms (crConfigsMap cs) cr) = take pos kept @ ?new @ drop pos kept"
    by (simp add: fullUpdateDeserializationConfig_def loop Let_def)
  have new: "mapping_set ?new = Pair cr ` entries cfg'"
  proof -
    have "mapping_key (new_mapping env cr (snd p)) = (cr, (\<lambda>(k, c). (k, ac_KeyType c, ac_MessageType c)) p)"
      if "p \<in> set cfg'" for p
      using that spec by (cases p) (auto simp: keyed_def mapping_key_def new_mapping_def)
    then show ?thesis by (simp add: mapping_set_def entries_def iter image_image)
  qed
  have "set (take pos kept) \<union> set (drop pos kept) = set kept" by (metis append_take_drop_id set_append)
  then have "mapping_set (take pos kept @ ?new @ drop pos kept) = mapping_set kept \<union> mapping_set ?new"
    unfolding mapping_set_def set_append image_Un by blast
  then have "mapping_set (take pos kept @ ?new @ drop pos kept) = {x \<in> mapping_set ms. fst x \<noteq> cr} \<union> Pair cr ` entry_of ` set cs"
    using spec by (simp only: new cfg(2) mapping_set_Nil Un_empty_left)
  moreover have "filter (\<lambda>t. tm_Name t \<noteq> cr) ?new = []" by (simp add: filter_empty_conv new_mapping_def)
  then have "filter (\<lambda>t. tm_Name t \<noteq> cr) (take pos kept @ ?new @ drop pos kept) = filter (\<lambda>t. tm_Name t \<noteq> cr) kept"
    by (metis append_Nil append_take_drop_id filter_append)
  ultimately show ?thesis using spec by (simp add: result set_resource_def)
qed

text \<open>
  C10. Applying an \<open>AkhqConfig\<close> resource refines the replacement of its part in the abstract content.
  For a resource that passes validation, whatever the order in which the map of configurations is
  visited: afterwards the list maps, for this resource, exactly the expressions of the resource to
  their types, with commas turned into bars; for the others exactly what it mapped before; and the
  mappings of the others are the same list.
\<close>

theorem akhq_update_refines:
  assumes "fst (validateCrConfig cs)"
    and "\<And>m. set (ae_iterEntries env m) = set m"
  shows "mapping_set (fst (fullUpdateDeserializationConfig env ms (crConfigsMap cs) cr)) =
      set_resource cr (entry_of ` set cs) (mapping_set ms)
    \<and> filter (\<lambda>t. tm_Name t \<noteq> cr) (fst (fullUpdateDeserializationConfig env ms (crConfigsMap cs) cr)) =
      filter (\<lambda>t. tm_Name t \<noteq> cr) ms"
  using assms by (rule full_update_spec)

definition sample_akhqEnv :: "cluster akhqEnv" where
  "sample_akhqEnv = \<lparr>ae_kube = sample_kube, ae_Get = (\<lambda>_ _. throwE NotFound), ae_Update = (\<lambda>_. returnE ()),
     ae_UpdateStatus = (\<lambda>_. returnE ()), ae_retryOnConflict = DefaultRetry, ae_AddFinalizer = (\<lambda>f fs. fs @ [f]),
     ae_RemoveFinalizer = (\<lambda>f fs. filter (\<lambda>g. g \<noteq> f) fs), ae_Unmarshal = (\<lambda>_. Inl (Err ''no yaml'')), ae_Marshal = (\<lambda>_. Inr ''x''),
     ae_StringHash = id, ae_compressBytes = returnE, ae_iterEntries = id, ae_iterFiles = id, ae_Namespace = ''kafka'',
     ae_ApiGroup = ''netcracker.com''\<rparr>"

definition sample_entries :: "akhqEntry list" where
  "sample_entries = [\<lparr>ac_TopicRegex = ''a,b'', ac_KeyType = [], ac_MessageType = ''Album'', ac_DescriptorFileBase64 = ''YWJj''\<rparr>,
     \<lparr>ac_TopicRegex = ''c'', ac_KeyType = ''Key'', ac_MessageType = ''Film'', ac_DescriptorFileBase64 = ''YWI=''\<rparr>]"

definition sample_mappings :: "topicMapping list" where
  "sample_mappings = [new_mapping sample_akhqEnv ''old-ns'' (hd sample_entries),
     new_mapping sample_akhqEnv ''cr-ns'' ((hd sample_entries)\<lparr>ac_TopicRegex := ''gone''\<rparr>),
     new_mapping sample_akhqEnv ''cr-ns'' ((last sample_entries)\<lparr>ac_MessageType := ''Old''\<rparr>)]"

theorem akhq_update_refines_witness:
  "mapping_set (fst (fullUpdateDeserializationConfig sample_akhqEnv sample_mappings (crConfigsMap sample_entries) ''cr-ns'')) =
     {(''old-ns'', ''a,b'', [], ''Album''), (''cr-ns'', ''a|b'', [], ''Album''), (''cr-ns'', ''c'', ''Key'', ''Film'')}"
proof -
  have valid: "fst (validateCrConfig sample_entries)" by code_simp
  have "set (ae_iterEntries sample_akhqEnv m) = set m" for m by (simp add: sample_akhqEnv_def)
  from akhq_update_refines[OF valid this, of sample_mappings "''cr-ns''"]
  have "mapping_set (fst (fullUpdateDeserializationConfig sample_akhqEnv sample_mappings (crConfigsMap sample_entries) ''cr-ns'')) =
    set_resource ''cr-ns'' (entry_of ` set sample_entries) (mapping_set sample_mappings)" by blast
  also have "\<dots> = {(''old-ns'', ''a,b'', [], ''Album''), (''cr-ns'', ''a|b'', [], ''Album''), (''cr-ns'', ''c'', ''Key'', ''Film'')}"
    by code_simp
  finally show ?thesis .
qed

text \<open>Deletion, where no file name lacks its folder, and the panic where one does.\<close>

definition has_folder :: "topicMapping \<Rightarrow> bool" where
  "has_folder t \<longleftrightarrow> tm_DescriptorFile t = [] \<or> CHR ''/'' \<in> set (tm_DescriptorFile t)"

lemma split_twice: "(\<exists>a b r. strings_Split s c = a # b # r) \<longleftrightarrow> c \<in> set s"
proof
  assume "c \<in> set s"
  then obtain p q where "s = p @ c # q" "c \<notin> set p" by (metis split_list_first)
  then show "\<exists>a b r. strings_Split s c = a # b # r"
    using Split_append_sep[of c p q] by (cases "strings_Split q c") auto
next
  assume "\<exists>a b r. strings_Split s c = a # b # r"
  then show "c \<in> set s" by (metis Split_no_sep list.distinct(1) list.inject)
qed

lemma deleteDeserializationConfig_spec:
  "case deleteDeserializationConfig ms cr m of
     Inr (kept, files) \<Rightarrow> kept = filter (\<lambda>t. tm_Name t \<noteq> cr) ms \<and> (\<forall>t\<in>set ms. tm_Name t = cr \<longrightarrow> has_folder t)
   | Inl e \<Rightarrow> e = Panic \<and> \<not> (\<forall>t\<in>set ms. tm_Name t = cr \<longrightarrow> has_folder t)"
proof (induction ms arbitrary: m)
  case (Cons t ms)
  show ?case
  proof (cases "tm_Name t = cr \<and> tm_DescriptorFile t \<noteq> []")
    case True
    show ?thesis
    proof (cases "CHR ''/'' \<in> set (tm_DescriptorFile t)")
      case slash: True
      then obtain a b r where "strings_Split (tm_DescriptorFile t) (CHR ''/'') = a # b # r" using split_twice by metis
      then show ?thesis using True slash Cons[of "mput b [] m"]
        by (auto simp: has_folder_def split: sum.split_asm prod.split_asm)
    next
      case False
      then have "\<nexists>a b r. strings_Split (tm_DescriptorFile t) (CHR ''/'') = a # b # r" using split_twice by metis
      then have "deleteDeserializationConfig (t # ms) cr m = Inl Panic"
        using True by (auto split: list.splits)
      then show ?thesis using True False by (simp add: has_folder_def)
    qed
  next
    case False
    then show ?thesis using Cons[of m]
      by (auto simp: has_folder_def split: sum.splits prod.splits)
  qed
qed simp

text \<open>
  C38. Deleting undoes applying: after a resource was applied and deleted, the shared list is what
  the other resources had in it, in the same order; and the deletion does not panic, provided that
  the files of the mappings the resource already had are in a folder, as those it adds are.
\<close>

theorem akhq_delete_undoes_apply:
  assumes "fst (validateCrConfig cs)" "\<And>m. set (ae_iterEntries env m) = set m"
    and folders: "\<And>t. t \<in> set ms \<Longrightarrow> tm_Name t = cr \<Longrightarrow> has_folder t"
  shows "\<exists>files. deleteDeserializationConfig (fst (fullUpdateDeserializationConfig env ms (crConfigsMap cs) cr)) cr [] =
     Inr (filter (\<lambda>t. tm_Name t \<noteq> cr) ms, files)"
proof -
  let ?ms = "fst (fullUpdateDeserializationConfig env ms (crConfigsMap cs) cr)"
  have loop: "t \<in> set kept' \<Longrightarrow> t \<in> set kept \<or> (\<exists>t'\<in>set rest. tm_Name t = tm_Name t' \<and> tm_DescriptorFile t = tm_DescriptorFile t')"
    if "full_update_loop cr kept pos cfg upd rest = (kept', pos', cfg', upd')" for t kept pos cfg upd rest kept' pos' cfg' upd'
    using that by (induction rest arbitrary: kept pos cfg upd) (fastforce split: if_splits option.splits)+
  have "has_folder t" if "t \<in> set ?ms" "tm_Name t = cr" for t
  proof -
    obtain kept pos cfg' upd where l: "full_update_loop cr [] (length ms) (crConfigsMap cs) [] ms = (kept, pos, cfg', upd)"
      by (metis prod.exhaust)
    have "t \<in> set kept \<or> (\<exists>c. t = new_mapping env cr c)"
      using that(1) by (auto simp: fullUpdateDeserializationConfig_def l Let_def dest: in_set_takeD in_set_dropD)
    then show ?thesis
    proof
      assume "t \<in> set kept"
      with loop[OF l] obtain t' where "t' \<in> set ms" "tm_Name t = tm_Name t'" "tm_DescriptorFile t = tm_DescriptorFile t'" by auto
      then show ?thesis using folders[of t'] that(2) by (simp add: has_folder_def)
    qed (auto simp: has_folder_def new_mapping_def)
  qed
  then show ?thesis
    using deleteDeserializationConfig_spec[of ?ms cr "[]"] full_update_spec[OF assms(1,2), of ms cr]
    by (auto split: sum.splits prod.splits)
qed

theorem akhq_delete_undoes_apply_witness:
  "\<exists>files. deleteDeserializationConfig (fst (fullUpdateDeserializationConfig sample_akhqEnv sample_mappings
       (crConfigsMap sample_entries) ''cr-ns'')) ''cr-ns'' [] = Inr ([hd sample_mappings], files)"
proof -
  have valid: "fst (validateCrConfig sample_entries)" by code_simp
  have iter: "set (ae_iterEntries sample_akhqEnv m) = set m" for m by (simp add: sample_akhqEnv_def)
  have "has_folder t" if "t \<in> set sample_mappings" for t
    using that by (auto simp: sample_mappings_def new_mapping_def has_folder_def)
  from akhq_delete_undoes_apply[OF valid iter this, of sample_mappings "''cr-ns''"]
  have "\<exists>files. deleteDeserializationConfig (fst (fullUpdateDeserializationConfig sample_akhqEnv sample_mappings
       (crConfigsMap sample_entries) ''cr-ns'')) ''cr-ns'' [] = Inr (filter (\<lambda>t. tm_Name t \<noteq> ''cr-ns'') sample_mappings, files)"
    by blast
  moreover have "filter (\<lambda>t. tm_Name t \<noteq> ''cr-ns'') sample_mappings = [hd sample_mappings]"
    by (simp add: sample_mappings_def new_mapping_def)
  ultimately show ?thesis by metis
qed

end
