(* ===== verification/Provider_Common.thy ===== *)
theory Provider_Common
  imports Go_Prelude Kube_Objects Operator_Util "HOL-Library.Multiset"
begin

text \<open>
  \<open>operator/controllers/provider/kafkaservice_provider.go\<close>: what the resource providers share. A provider
  is a function of the custom resource alone; what it can do besides returning an object is panic
  (an index out of range, a \<open>nil\<close> pointer, a quantity that does not parse), which is \<open>Inl Panic\<close> here.

  Arguments (fields of \<open>providerEnv\<close>): the order in which a \<open>range\<close> loop visits the map of environment
  variables, and \<open>resource.ParseQuantity\<close>.
\<close>

record providerEnv =
  pe_range :: "string gomap \<Rightarrow> string gomap"
  pe_ParseQuantity :: "string \<Rightarrow> go_error + int"

definition ranges :: "providerEnv \<Rightarrow> bool" where
  "ranges pe \<longleftrightarrow> (\<forall>m. mset (pe_range pe m) = mset m)"

section \<open>Results\<close>

definition bindR :: "go_error + 'a \<Rightarrow> ('a \<Rightarrow> go_error + 'b) \<Rightarrow> go_error + 'b" where
  "bindR r f = (case r of Inl e \<Rightarrow> Inl e | Inr a \<Rightarrow> f a)"

lemma bindR_simps [simp]: "bindR (Inl e) f = Inl e" "bindR (Inr a) f = f a"
  by (simp_all add: bindR_def)

lemma bindR_Inr: "bindR r f = Inr b \<longleftrightarrow> (\<exists>a. r = Inr a \<and> f a = Inr b)"
  by (cases r) auto

lemma bindR_Inl: "bindR r f = Inl e \<longleftrightarrow> r = Inl e \<or> (\<exists>a. r = Inr a \<and> f a = Inl e)"
  by (cases r) auto

text \<open>\<open>xs[i-1]\<close>, an index out of range elsewhere.\<close>

definition nth_of :: "'a list \<Rightarrow> int \<Rightarrow> go_error + 'a" where
  "nth_of xs i = (if 1 \<le> i \<and> i \<le> int (length xs) then Inr (xs ! nat (i - 1)) else Inl Panic)"

lemma nth_of_Inr: "nth_of xs i = Inr x \<longleftrightarrow> 1 \<le> i \<and> i \<le> int (length xs) \<and> x = xs ! nat (i - 1)"
  by (auto simp: nth_of_def)

lemma nth_of_Inl: "nth_of xs i = Inl e \<longleftrightarrow> e = Panic \<and> (i < 1 \<or> int (length xs) < i)"
  by (auto simp: nth_of_def)

text \<open>\<open>kv := strings.Split(label, "=")\<close> with \<open>kv[0]\<close> and \<open>kv[1]\<close>, out of range for a label without a sign.\<close>

definition label_pair :: "string \<Rightarrow> go_error + (string \<times> string)" where
  "label_pair label = (case strings_Split label (CHR ''='') of k # v # _ \<Rightarrow> Inr (k, v) | _ \<Rightarrow> Inl Panic)"

lemma label_pair_panics: "label_pair label = Inl e \<longleftrightarrow> e = Panic \<and> CHR ''='' \<notin> set label"
proof (cases "CHR ''='' \<in> set label")
  case True
  then obtain p q where "label = p @ CHR ''='' # q" "CHR ''='' \<notin> set p" by (meson split_list_first)
  then have "strings_Split label (CHR ''='') = p # strings_Split q (CHR ''='')" by (simp add: Split_append_sep)
  then show ?thesis using True Split_not_Nil[of q "CHR ''=''"] by (auto simp: label_pair_def split: list.split)
qed (auto simp: label_pair_def)

text \<open>The conversion to \<open>int32\<close>.\<close>

definition int32 :: "int \<Rightarrow> int" where
  "int32 n = sint (word_of_int n :: 32 word)"

definition MustParse :: "providerEnv \<Rightarrow> string \<Rightarrow> go_error + int" where
  "MustParse pe s = (case pe_ParseQuantity pe s of Inl _ \<Rightarrow> Inl Panic | Inr q \<Rightarrow> Inr q)"

section \<open>Services and service accounts\<close>

definition NewServiceAccount :: "string \<Rightarrow> string \<Rightarrow> string gomap \<Rightarrow> serviceAccount" where
  "NewServiceAccount serviceAccountName namespace labels = new_serviceAccount serviceAccountName namespace labels"

definition newServiceForCR :: "string \<Rightarrow> string \<Rightarrow> string gomap \<Rightarrow> string gomap \<Rightarrow> servicePort list \<Rightarrow> service" where
  "newServiceForCR serviceName namespace labels selectorLabels ports =
     (new_service serviceName namespace labels)\<lparr>svc_Ports := ports, svc_Selector := selectorLabels\<rparr>"

definition newServiceForBroker :: "string \<Rightarrow> string \<Rightarrow> string gomap \<Rightarrow> string gomap \<Rightarrow> servicePort list \<Rightarrow> service" where
  "newServiceForBroker serviceName namespace labels selectorLabels ports =
     (newServiceForCR serviceName namespace labels selectorLabels ports)\<lparr>svc_PublishNotReadyAddresses := True,
       obj_Annotations := [(''service.alpha.kubernetes.io/tolerate-unready-endpoints'', ''true'')]\<rparr>"

definition newDomainServiceForCR :: "string \<Rightarrow> string \<Rightarrow> string gomap \<Rightarrow> string gomap \<Rightarrow> servicePort list \<Rightarrow> service" where
  "newDomainServiceForCR serviceName namespace labels selectorLabels ports =
     (new_service serviceName namespace labels)\<lparr>svc_Ports := ports, svc_PublishNotReadyAddresses := True,
       svc_Selector := selectorLabels, svc_ClusterIP := ''None''\<rparr>"

lemmas service_defs = newServiceForCR_def newServiceForBroker_def newDomainServiceForCR_def new_service_def

definition tcp :: "string \<Rightarrow> int \<Rightarrow> servicePort" where
  "tcp name port = \<lparr>sp_Name = name, sp_Port = port, sp_Protocol = ProtocolTCP\<rparr>"

definition udp :: "string \<Rightarrow> int \<Rightarrow> servicePort" where
  "udp name port = \<lparr>sp_Name = name, sp_Port = port, sp_Protocol = ProtocolUDP\<rparr>"

definition port :: "string \<Rightarrow> int \<Rightarrow> protocol \<Rightarrow> containerPort" where
  "port name p proto = \<lparr>cp_Name = name, cp_ContainerPort = p, cp_Protocol = proto\<rparr>"

section \<open>Environment variables\<close>

definition var :: "string \<Rightarrow> string \<Rightarrow> envVar" where
  "var name value = \<lparr>env_Name = name, env_Value = value, env_ValueFrom = None\<rparr>"

definition getConfigMapEnvVarSource :: "string \<Rightarrow> string \<Rightarrow> envVarSource" where
  "getConfigMapEnvVarSource configMapName key = ConfigMapKeyRef configMapName key"

text \<open>An entry \<open>NAME=value\<close> of a list of variables; an entry without a name or a sign is skipped.\<close>

definition env_pair :: "string \<Rightarrow> (string \<times> string) option" where
  "env_pair entry = (case strings_SplitN2 entry (CHR ''='') of
      [n, v] \<Rightarrow> if strings_TrimSpace n \<noteq> [] then Some (strings_TrimSpace n, strings_TrimSpace v) else None
    | _ \<Rightarrow> None)"

definition env_key :: "string \<Rightarrow> string \<Rightarrow> string" where
  "env_key envPrefix key = envPrefix @ strings_ToUpper (strings_ReplaceAll key ''.'' ''_'')"

definition configMapToEnvVars :: "string gomap \<Rightarrow> string \<Rightarrow> string list \<Rightarrow> envVar list" where
  "configMapToEnvVars config envPrefix existingEnvVars =
     (let declared = map fst (List.map_filter env_pair existingEnvVars) in
      map (\<lambda>(key, value). var (env_key envPrefix key) value)
        (filter (\<lambda>(key, value). key \<noteq> [] \<and> env_key envPrefix key \<notin> set declared) config))"

definition buildEnvs :: "providerEnv \<Rightarrow> envVar list \<Rightarrow> string list \<Rightarrow> envVar list" where
  "buildEnvs pe envVars additionalEnvs =
     (let envsMap = put_all [] (List.map_filter env_pair additionalEnvs) in
      envVars @ map (\<lambda>(name, value). var name value) (pe_range pe envsMap))"

text \<open>What a container sees of a variable: Kubernetes takes the last entry for the name.\<close>

definition effective :: "envVar list \<Rightarrow> string \<Rightarrow> envVar option" where
  "effective envs name = find (\<lambda>e. env_Name e = name) (rev envs)"

lemma var_simps [simp]: "env_Name (var n v) = n" "env_Value (var n v) = v" "env_ValueFrom (var n v) = None"
  "var n v = var n' v' \<longleftrightarrow> n = n' \<and> v = v'"
  by (simp_all add: var_def)

lemma find_append_one: "find P (xs @ [x]) = (case find P xs of None \<Rightarrow> if P x then Some x else None | Some y \<Rightarrow> Some y)"
  by (induction xs) auto

lemma effective_simps [simp]:
  "effective [] name = None"
  "effective (e # es) name = (case effective es name of None \<Rightarrow> if env_Name e = name then Some e else None | Some x \<Rightarrow> Some x)"
  by (simp_all add: effective_def find_append_one)

lemma effective_append:
  "effective (xs @ ys) name = (case effective ys name of None \<Rightarrow> effective xs name | Some e \<Rightarrow> Some e)"
  by (induction xs) (auto split: option.split)

lemma effective_absent: "effective envs name = None \<longleftrightarrow> name \<notin> set (map env_Name envs)"
  by (induction envs) (auto split: option.split)

lemma effective_in: "effective envs name = Some e \<Longrightarrow> e \<in> set envs \<and> env_Name e = name"
  by (induction envs) (auto split: option.splits if_splits)

lemma effective_map:
  assumes "wf_map m"
  shows "effective (map (\<lambda>(n, v). var n v) m) name = map_option (var name) (map_of m name)"
  using assms
proof (induction m)
  case (Cons p m)
  have "map_of m (fst p) = None" using Cons.prems by (simp add: map_of_eq_None_iff)
  with Cons show ?case by (cases p) (auto split: option.split)
qed simp

section \<open>Volumes and security\<close>

definition getContainerSecurityContext :: "bool \<Rightarrow> securityContext" where
  "getContainerSecurityContext readOnlyRootFs = \<lparr>sc_AllowPrivilegeEscalation = False,
     sc_ReadOnlyRootFilesystem = readOnlyRootFs, sc_Drop = [''ALL'']\<rparr>"

definition getDefaultContainerSecurityContext :: securityContext where
  "getDefaultContainerSecurityContext = getContainerSecurityContext True"

definition vol :: "string \<Rightarrow> volumeSource \<Rightarrow> volume" where
  "vol name source = \<lparr>vol_Name = name, vol_Source = source\<rparr>"

definition mnt :: "string \<Rightarrow> string \<Rightarrow> volumeMount" where
  "mnt name path = \<lparr>vm_Name = name, vm_MountPath = path, vm_ReadOnly = False\<rparr>"

definition readonly_mnt :: "string \<Rightarrow> string \<Rightarrow> volumeMount" where
  "readonly_mnt name path = \<lparr>vm_Name = name, vm_MountPath = path, vm_ReadOnly = True\<rparr>"

lemma volume_names [simp]: "vol_Name (vol n s) = n" "vol_Source (vol n s) = s" "vm_Name (mnt n p) = n" "vm_Name (readonly_mnt n p) = n"
  by (simp_all add: vol_def mnt_def readonly_mnt_def)

text \<open>The size limit is one of the constants of the code, which parse.\<close>

definition getTmpVolume :: "string \<Rightarrow> volume" where
  "getTmpVolume sizeLimitQuantity = vol ''tmp'' (EmptyDirVolume (Some sizeLimitQuantity))"

definition getTmpVolumeMount :: volumeMount where
  "getTmpVolumeMount = mnt ''tmp'' ''/tmp''"

lemma tmp_names [simp]: "vol_Name (getTmpVolume q) = ''tmp''" "vm_Name getTmpVolumeMount = ''tmp''"
  by (simp_all add: getTmpVolume_def getTmpVolumeMount_def)

definition mk_probe :: "probeHandler \<Rightarrow> 32 word \<Rightarrow> 32 word \<Rightarrow> 32 word \<Rightarrow> 32 word \<Rightarrow> 32 word \<Rightarrow> probe" where
  "mk_probe handler initialDelay timeout period success failure = \<lparr>pr_Handler = handler, pr_InitialDelaySeconds = initialDelay,
     pr_TimeoutSeconds = timeout, pr_PeriodSeconds = period, pr_SuccessThreshold = success, pr_FailureThreshold = failure\<rparr>"

definition heap_opts :: "int \<Rightarrow> string" where
  "heap_opts n = ''-Xms'' @ strconv_Itoa n @ ''m -Xmx'' @ strconv_Itoa n @ ''m''"

section \<open>The precedence of settings\<close>

lemma map_of_put_all_rev: "map_of (put_all res kvs) = map_of res ++ map_of (rev kvs)"
proof (induction kvs arbitrary: res)
  case (Cons p kvs)
  then show ?case by (cases p) (auto simp: fun_eq_iff map_add_def split: option.split)
qed simp

lemma wf_map_range: "ranges pe \<Longrightarrow> wf_map m \<Longrightarrow> wf_map (pe_range pe m) \<and> map_of (pe_range pe m) = map_of m"
  unfolding ranges_def by (metis map_of_inject_set mset_eq_imp_distinct_iff mset_eq_setD mset_map)

lemma wf_map_put_all_nil: "wf_map (put_all [] kvs)"
proof -
  have "wf_map res \<Longrightarrow> wf_map (put_all res kvs)" for res
    by (induction res kvs rule: put_all.induct) auto
  then show ?thesis by simp
qed

lemma buildEnvs_effective:
  assumes "ranges pe"
  shows "effective (buildEnvs pe envVars additionalEnvs) name =
    (case map_of (rev (List.map_filter env_pair additionalEnvs)) name of
       Some v \<Rightarrow> Some (var name v) | None \<Rightarrow> effective envVars name)"
proof -
  let ?m = "put_all [] (List.map_filter env_pair additionalEnvs)"
  have "wf_map (pe_range pe ?m)" "map_of (pe_range pe ?m) = map_of ?m"
    using wf_map_range[OF assms wf_map_put_all_nil] by blast+
  then show ?thesis
    by (auto simp: buildEnvs_def Let_def effective_append effective_map map_of_put_all_rev split: option.split)
qed

lemma effective_config:
  "effective (map (\<lambda>(k, v). var (f k) v) kvs) name = map_option (var name) (map_of (rev (map (\<lambda>(k, v). (f k, v)) kvs)) name)"
  by (induction kvs) (auto simp: map_of_append map_add_def split: option.split)

text \<open>The value a configuration key gives to a variable.\<close>

definition config_value :: "string gomap \<Rightarrow> string \<Rightarrow> string \<Rightarrow> string option" where
  "config_value config envPrefix name =
     map_of (rev (map (\<lambda>(k, v). (env_key envPrefix k, v)) (filter (\<lambda>(k, v). k \<noteq> []) config))) name"

lemma configMapToEnvVars_effective:
  "effective (configMapToEnvVars config envPrefix existing) name =
     (if name \<in> fst ` set (List.map_filter env_pair existing) then None else map_option (var name) (config_value config envPrefix name))"
proof -
  have "map_of (rev (map (\<lambda>(k, v). (f k, v)) (filter (\<lambda>(k, v). k \<noteq> [] \<and> f k \<notin> D) config))) name =
      (if name \<in> D then None else map_of (rev (map (\<lambda>(k, v). (f k, v)) (filter (\<lambda>(k, v). k \<noteq> []) config))) name)"
    for f :: "string \<Rightarrow> string" and D
    by (induction config) (auto simp: map_add_def split: option.split)
  then show ?thesis by (simp add: configMapToEnvVars_def Let_def effective_config config_value_def)
qed

text \<open>
  C17. The precedence of the settings of a broker or of a Mirror Maker, in the environment that its container
  sees, whatever the order in which the maps are visited: a variable listed in \<open>environmentVariables\<close> has
  the value of its last entry there; any other variable has the value the operator gives it; and a
  key of \<open>config\<close> sets its variable only where neither of the two does.
\<close>

theorem environment_precedence:
  assumes "ranges pe"
  shows "effective (buildEnvs pe (configMapToEnvVars config envPrefix environmentVariables @ envVars) environmentVariables) name =
    (case map_of (rev (List.map_filter env_pair environmentVariables)) name of
       Some v \<Rightarrow> Some (var name v)
     | None \<Rightarrow> (case effective envVars name of
         Some e \<Rightarrow> Some e
       | None \<Rightarrow> map_option (var name) (config_value config envPrefix name)))"
proof (cases "map_of (rev (List.map_filter env_pair environmentVariables)) name")
  case None
  then have "name \<notin> fst ` set (List.map_filter env_pair environmentVariables)" by (simp add: map_of_eq_None_iff)
  with None show ?thesis
    by (simp add: buildEnvs_effective[OF assms] effective_append configMapToEnvVars_effective split: option.split)
qed (simp add: buildEnvs_effective[OF assms])

definition sample_providerEnv :: providerEnv where
  "sample_providerEnv = \<lparr>pe_range = rev, pe_ParseQuantity = (\<lambda>s. if s = ''1Gi'' then Inr (2 ^ 30) else Inl (Err ''quantity''))\<rparr>"

lemma sample_ranges: "ranges sample_providerEnv"
  by (simp add: ranges_def sample_providerEnv_def)

theorem environment_precedence_witness:
  "let config = [(''num.io.threads'', ''8''), (''broker.rack'', ''r1''), (''log.dir'', ''/d'')];
       user = [''CONF_KAFKA_NUM_IO_THREADS=16'', '' CONF_KAFKA_NUM_IO_THREADS = 32'', ''wrong''];
       envs = buildEnvs sample_providerEnv (configMapToEnvVars config ''CONF_KAFKA_'' user @ [var ''CONF_KAFKA_BROKER_RACK'' []]) user
   in effective envs ''CONF_KAFKA_NUM_IO_THREADS'' = Some (var ''CONF_KAFKA_NUM_IO_THREADS'' ''32'')
     \<and> effective envs ''CONF_KAFKA_BROKER_RACK'' = Some (var ''CONF_KAFKA_BROKER_RACK'' [])
     \<and> effective envs ''CONF_KAFKA_LOG_DIR'' = Some (var ''CONF_KAFKA_LOG_DIR'' ''/d'')"
proof -
  have "List.map_filter env_pair [''CONF_KAFKA_NUM_IO_THREADS=16'', '' CONF_KAFKA_NUM_IO_THREADS = 32'', ''wrong'']
      = [(''CONF_KAFKA_NUM_IO_THREADS'', ''16''), (''CONF_KAFKA_NUM_IO_THREADS'', ''32'')]" by code_simp
  moreover have "config_value [(''num.io.threads'', ''8''), (''broker.rack'', ''r1''), (''log.dir'', ''/d'')] ''CONF_KAFKA_'' ''CONF_KAFKA_LOG_DIR''
      = Some ''/d''" by code_simp
  ultimately show ?thesis by (simp add: Let_def environment_precedence[OF sample_ranges])
qed

end
