(* ===== verification/Kafka_Provider.thy ===== *)
theory Kafka_Provider
  imports Go_Prelude Kube_Objects Operator_Util Kube_Reconciler Provider_Common
begin

text \<open>
  \<open>operator/controllers/provider/kafka_provider.go\<close> with \<open>operator/api/v1/kafka_types.go\<close>: the \<open>Kafka\<close>
  resource and the objects that the provider builds from it, the services, the volume claims and the
  deployments of the brokers and of the migration controller.
\<close>

section \<open>The custom resource\<close>

record oauth =
  oa_ClockSkew :: "int option"
  oa_JwkSourceType :: "string option"
  oa_JwksConnectionTimeout :: "int option"
  oa_JwksReadTimeout :: "int option"
  oa_JwksSizeLimit :: "int option"

record sslSpec =
  ssl_Enabled :: bool
  ssl_SecretName :: string
  ssl_CipherSuites :: "string list"
  ssl_EnableTwoWaySsl :: bool
  ssl_AllowNonencryptedAccess :: bool

record scalingSpec =
  sl_ReassignPartitions :: "bool option"
  sl_BrokerDeploymentScaleInEnabled :: "bool option"
  sl_AllBrokersStartTimeoutSeconds :: "int option"
  sl_TopicReassignmentTimeoutSeconds :: "int option"

record storage =
  st_ClassName :: "string list"
  st_Size :: string
  st_Volumes :: "string list"
  st_Nodes :: "string list"
  st_Labels :: "string list"

record kraftSpec =
  kr_Enabled :: bool
  kr_Migration :: bool
  kr_MigrationTimeout :: int

record migrationController =
  mc_Affinity :: affinity
  mc_Tolerations :: string
  mc_PriorityClassName :: string
  mc_HeapSize :: int
  mc_Resources :: resourceRequirements
  mc_Storage :: storage

record probeTimingConfig =
  pt_InitialDelaySeconds :: "32 word option"
  pt_TimeoutSeconds :: "32 word option"
  pt_PeriodSeconds :: "32 word option"
  pt_SuccessThreshold :: "32 word option"
  pt_FailureThreshold :: "32 word option"

text \<open>The fields for Consul, which no code reads but the hash of the specification, are \<open>kf_Other\<close>.\<close>

record kafka = k8sObject +
  kf_APIVersion :: string
  kf_Kind :: string
  kf_WaitForPodsReady :: bool
  kf_PodsReadyTimeout :: int
  kf_Affinity :: affinity
  kf_Tolerations :: string
  kf_PriorityClassName :: string
  kf_DisableSecurity :: "bool option"
  kf_DockerImage :: string
  kf_HeapSize :: int
  kf_Oauth :: oauth
  kf_Ssl :: sslSpec
  kf_Replicas :: int
  kf_Scaling :: scalingSpec
  kf_Resources :: resourceRequirements
  kf_SecretName :: string
  kf_SecurityContext :: string
  kf_Storage :: storage
  kf_GetRacksFromNodeLabels :: "bool option"
  kf_NodeLabelNameForRack :: string
  kf_Racks :: "string list"
  kf_TerminationGracePeriod :: "64 word option"
  kf_ZookeeperConnect :: string
  kf_ZookeeperEnableSsl :: bool
  kf_ZookeeperSslSecretName :: string
  kf_ZookeeperSetACL :: "bool option"
  kf_ExternalHostNames :: "string list"
  kf_ExternalPorts :: "int list"
  kf_EnvironmentVariables :: "string list"
  kf_Config :: "string gomap"
  kf_RollbackTimeout :: "32 word option"
  kf_HealthCheckTimeout :: "32 word option"
  kf_EnableAuditLogs :: "bool option"
  kf_TokenRolesPath :: string
  kf_EnableAuthorization :: "bool option"
  kf_RollingUpdate :: bool
  kf_CustomLabels :: "string gomap"
  kf_DefaultLabels :: "string gomap"
  kf_DebugContainer :: bool
  kf_CCMetricReporterEnabled :: bool
  kf_Kraft :: kraftSpec
  kf_MigrationController :: migrationController
  kf_LivenessProbe :: "probeTimingConfig option"
  kf_ReadinessProbe :: "probeTimingConfig option"
  kf_PVCAnnotations :: "string gomap"
  kf_Other :: string
  kf_Brokers :: "string list"
  kf_ReassignmentStatus :: string
  kf_Conditions :: "statusCondition list"
  kf_MigrationStatus :: string
  kf_PVCStatusAnnotations :: "string gomap"

section \<open>Settings with defaults\<close>

definition or_default :: "'a option \<Rightarrow> 'a \<Rightarrow> 'a" where
  "or_default p d = (case p of Some v \<Rightarrow> v | None \<Rightarrow> d)"

definition IsSecurityDisabled :: "kafka \<Rightarrow> bool" where
  "IsSecurityDisabled cr = or_default (kf_DisableSecurity cr) False"

definition isAuditLogsEnabled :: "kafka \<Rightarrow> bool" where
  "isAuditLogsEnabled cr = or_default (kf_EnableAuditLogs cr) False"

definition isZookeeperSetACL :: "kafka \<Rightarrow> bool" where
  "isZookeeperSetACL cr = or_default (kf_ZookeeperSetACL cr) False"

definition isEnableAuthorization :: "kafka \<Rightarrow> bool" where
  "isEnableAuthorization cr = or_default (kf_EnableAuthorization cr) False"

definition getClockSkew :: "oauth \<Rightarrow> int" where "getClockSkew oa = or_default (oa_ClockSkew oa) 10"

definition getJwkSourceType :: "oauth \<Rightarrow> string" where "getJwkSourceType oa = or_default (oa_JwkSourceType oa) ''jwks''"

definition getJwksConnectionTimeout :: "oauth \<Rightarrow> int" where
  "getJwksConnectionTimeout oa = or_default (oa_JwksConnectionTimeout oa) 1000"

definition getJwksReadTimeout :: "oauth \<Rightarrow> int" where "getJwksReadTimeout oa = or_default (oa_JwksReadTimeout oa) 1000"

definition getJwksSizeLimit :: "oauth \<Rightarrow> int" where "getJwksSizeLimit oa = or_default (oa_JwksSizeLimit oa) 51200"

definition getTerminationGracePeriod :: "kafka \<Rightarrow> 64 word" where
  "getTerminationGracePeriod cr = or_default (kf_TerminationGracePeriod cr) 180"

definition getRollbackTimeout :: "kafka \<Rightarrow> 32 word" where
  "getRollbackTimeout cr = or_default (kf_RollbackTimeout cr) 3600"

definition getHealthCheckTimeout :: "kafka \<Rightarrow> 32 word" where
  "getHealthCheckTimeout cr = or_default (kf_HealthCheckTimeout cr) 30"

definition IsReassignPartitionsEnabled :: "kafka \<Rightarrow> bool \<Rightarrow> bool" where
  "IsReassignPartitionsEnabled cr clusterScaling = or_default (sl_ReassignPartitions (kf_Scaling cr)) clusterScaling"

definition GetAllBrokersStartTimeoutSeconds :: "kafka \<Rightarrow> int" where
  "GetAllBrokersStartTimeoutSeconds cr = or_default (sl_AllBrokersStartTimeoutSeconds (kf_Scaling cr)) 600"

definition IsBrokerScalingInEnabled :: "kafka \<Rightarrow> bool" where
  "IsBrokerScalingInEnabled cr = or_default (sl_BrokerDeploymentScaleInEnabled (kf_Scaling cr)) False"

definition GetTopicReassignmentTimeoutSeconds :: "kafka \<Rightarrow> int" where
  "GetTopicReassignmentTimeoutSeconds cr = or_default (sl_TopicReassignmentTimeoutSeconds (kf_Scaling cr)) 300"

definition GetZooKeeperFullName :: "kafka \<Rightarrow> string" where
  "GetZooKeeperFullName cr =
     (let zooKeeperAddress = hd (strings_Split (kf_ZookeeperConnect cr) (CHR '':'')) in
      if length (strings_Split zooKeeperAddress (CHR ''.'')) = 1 then zooKeeperAddress @ ''.'' @ obj_Namespace cr else zooKeeperAddress)"

section \<open>Labels and services\<close>

definition GetSelectorLabels :: "kafka \<Rightarrow> string gomap" where
  "GetSelectorLabels cr = [(''component'', ''kafka''), (''clusterName'', obj_Name cr)]"

definition GetKafkaLabels :: "kafka \<Rightarrow> string gomap" where
  "GetKafkaLabels cr = JoinMaps (JoinMaps (GetSelectorLabels cr)
     [(''name'', obj_Name cr), (''app.kubernetes.io/name'', obj_Name cr)]) (kf_DefaultLabels cr)"

definition GetKafkaCustomLabels :: "kafka \<Rightarrow> string gomap \<Rightarrow> string gomap" where
  "GetKafkaCustomLabels cr kafkaLabels = JoinMaps (kf_CustomLabels cr) kafkaLabels"

definition GetServiceName :: "kafka \<Rightarrow> string" where
  "GetServiceName cr = obj_Name cr"

definition kf_GetServiceAccountName :: "kafka \<Rightarrow> string" where
  "kf_GetServiceAccountName cr = GetServiceName cr"

definition broker_name :: "kafka \<Rightarrow> int \<Rightarrow> string" where
  "broker_name cr broker = obj_Name cr @ ''-'' @ strconv_Itoa broker"

definition controller_name :: "kafka \<Rightarrow> string" where
  "controller_name cr = obj_Name cr @ ''-kraft-controller''"

definition domain_name :: "kafka \<Rightarrow> string" where
  "domain_name cr = obj_Name cr @ ''-broker''"

definition controller_labels :: "kafka \<Rightarrow> string gomap" where
  "controller_labels cr = [(''name'', controller_name cr), (''component'', ''kafka-controller'')]"

definition broker_labels :: "kafka \<Rightarrow> int \<Rightarrow> string gomap" where
  "broker_labels cr broker = mput ''name'' (broker_name cr broker) (GetSelectorLabels cr)"

text \<open>The labels of the objects of the migration controller.\<close>

definition controller_object_labels :: "kafka \<Rightarrow> string gomap" where
  "controller_object_labels cr =
     mdel ''clusterName'' (mput ''component'' ''kafka-controller'' (mput ''name'' (controller_name cr) (GetKafkaLabels cr)))"

definition NewKafkaClientServiceForCR :: "kafka \<Rightarrow> service" where
  "NewKafkaClientServiceForCR cr = newServiceForCR (obj_Name cr) (obj_Namespace cr) (GetKafkaLabels cr) (GetSelectorLabels cr)
     [tcp ''kafka-client'' 9092, tcp ''external-kafka-client'' 9094, tcp ''nonencrypted-kafka-client'' 9095, tcp ''jolokia-http'' 9087]"

definition NewKafkaDomainClientServiceForCR :: "kafka \<Rightarrow> service" where
  "NewKafkaDomainClientServiceForCR cr = newDomainServiceForCR (domain_name cr) (obj_Namespace cr) (GetKafkaLabels cr)
     (GetSelectorLabels cr)
     ([tcp ''kafka-inter-broker'' 9093, tcp ''jolokia-http'' 9087]
      @ (if kr_Enabled (kf_Kraft cr) then [tcp ''kafka-controller'' 9096] else []))"

definition NewKafkaBrokerServiceForCR :: "kafka \<Rightarrow> int \<Rightarrow> service" where
  "NewKafkaBrokerServiceForCR cr broker =
     (let serviceName = broker_name cr broker in
      newServiceForBroker serviceName (obj_Namespace cr) (mput ''name'' serviceName (GetKafkaLabels cr)) (broker_labels cr broker)
        [tcp ''kafka-client'' 9092, tcp ''external-kafka-client'' 9094, tcp ''nonencrypted-kafka-client'' 9095,
         tcp ''jolokia-http'' 9087, tcp ''prometheus-http'' 8080])"

definition NewKafkaControllerServiceForCR :: "kafka \<Rightarrow> service" where
  "NewKafkaControllerServiceForCR cr = newServiceForBroker (controller_name cr) (obj_Namespace cr) (controller_object_labels cr)
     (controller_labels cr) [tcp ''kafka-kraft-controller'' 9092]"

definition NewEmptySecret :: "kafka \<Rightarrow> string \<Rightarrow> secret" where
  "NewEmptySecret cr secretName = new_secret secretName (obj_Namespace cr) (GetKafkaLabels cr)"

section \<open>Volume claims\<close>

definition checkStorageClassDefinition :: "kafka \<Rightarrow> int \<Rightarrow> go_error + unit" where
  "checkStorageClassDefinition cr volumesCount =
     (let classNamesCount = int (length (st_ClassName (kf_Storage cr))) in
      if classNamesCount > 1 \<and> classNamesCount \<noteq> volumesCount
      then Inl (Err ''number of storage class names should be matched to volumes number'') else Inr ())"

definition checkControllerStorageClassDefinition :: "kafka \<Rightarrow> go_error + unit" where
  "checkControllerStorageClassDefinition cr =
     (let classNamesCount = length (st_ClassName (mc_Storage (kf_MigrationController cr))) in
      if classNamesCount \<noteq> 0 \<and> classNamesCount \<noteq> 1
      then Inl (Err ''number of storage class names for controller should be 1 or 0'') else Inr ())"

definition getStorageClassForDynamicallyProvidedVolumes :: "kafka \<Rightarrow> int \<Rightarrow> go_error + string" where
  "getStorageClassForDynamicallyProvidedVolumes cr broker =
     (let classNames = st_ClassName (kf_Storage cr) in
      if length classNames = 1 then Inr (hd classNames) else nth_of classNames broker)"

text \<open>
  The specification of a claim: by the name of a volume, by a label of it, or by a storage class. \<open>pos\<close> is
  the position of the entry in the lists of the storage, \<open>storageClass\<close> the class. No claim at all where
  the storage names none of the three.
\<close>

definition claim_spec :: "storage \<Rightarrow> int \<Rightarrow> go_error + string \<Rightarrow> persistentVolumeClaim \<Rightarrow> go_error + persistentVolumeClaim option" where
  "claim_spec st pos storageClass pvc =
     (let with_class = (\<lambda>p. if st_ClassName st \<noteq> [] then map_sum id (\<lambda>c. Some (p\<lparr>pvc_StorageClass := Some c\<rparr>)) storageClass
            else Inr (Some p)) in
      if st_Volumes st \<noteq> [] then
        bindR (nth_of (st_Volumes st) pos) (\<lambda>v. with_class (pvc\<lparr>pvc_VolumeName := v, pvc_StorageClass := Some []\<rparr>))
      else if st_Labels st \<noteq> [] then
        bindR (nth_of (st_Labels st) pos) (\<lambda>l. bindR (label_pair l) (\<lambda>kv. with_class (pvc\<lparr>pvc_Selector := [kv]\<rparr>)))
      else if st_ClassName st \<noteq> [] then with_class pvc
      else Inr None)"

definition finish_claim :: "providerEnv \<Rightarrow> storage \<Rightarrow> persistentVolumeClaim option \<Rightarrow> go_error + persistentVolumeClaim option" where
  "finish_claim pe st claim = (case claim of
      None \<Rightarrow> Inr None
    | Some p \<Rightarrow> bindR (MustParse pe (st_Size st)) (\<lambda>size.
        Inr (Some (p\<lparr>pvc_AccessModes := [''ReadWriteOnce''], pvc_Requests := Some [(''storage'', size)]\<rparr>))))"

definition pvc_name :: "kafka \<Rightarrow> int \<Rightarrow> string" where
  "pvc_name cr broker = ''pvc-'' @ obj_Name cr @ ''-'' @ strconv_Itoa broker"

definition controller_pvc_name :: "kafka \<Rightarrow> string" where
  "controller_pvc_name cr = ''pvc-'' @ obj_Name cr @ ''-kraft-controller''"

definition NewKafkaPersistentVolumeClaimForCR :: "providerEnv \<Rightarrow> kafka \<Rightarrow> int \<Rightarrow> go_error + persistentVolumeClaim option" where
  "NewKafkaPersistentVolumeClaimForCR pe cr broker =
     (let labels = GetKafkaLabels cr;
          labels = (if kr_Enabled (kf_Kraft cr) then mput ''kraft'' ''enabled'' labels else labels);
          labels = mput ''cloud-backuper.netcracker.com/exclude-from-physical-backup'' ''true'' labels;
          pvc = (new_persistentVolumeClaim (pvc_name cr broker) (obj_Namespace cr) labels)\<lparr>obj_Annotations := kf_PVCAnnotations cr\<rparr> in
      case checkStorageClassDefinition cr (int (length (st_Volumes (kf_Storage cr)))) of
        Inl _ \<Rightarrow> Inr None
      | Inr _ \<Rightarrow> bindR (claim_spec (kf_Storage cr) broker (getStorageClassForDynamicallyProvidedVolumes cr broker) pvc)
          (finish_claim pe (kf_Storage cr)))"

definition NewKafkaControllerPersistentVolumeClaimForCR :: "providerEnv \<Rightarrow> kafka \<Rightarrow> go_error + persistentVolumeClaim option" where
  "NewKafkaControllerPersistentVolumeClaimForCR pe cr =
     (let st = mc_Storage (kf_MigrationController cr);
          pvc = (new_persistentVolumeClaim (controller_pvc_name cr) (obj_Namespace cr) (mput ''kraft'' ''enabled'' (GetKafkaLabels cr)))
            \<lparr>obj_Annotations := kf_PVCAnnotations cr\<rparr> in
      case checkControllerStorageClassDefinition cr of
        Inl _ \<Rightarrow> Inr None
      | Inr _ \<Rightarrow> bindR (claim_spec st 1 (nth_of (st_ClassName st) 1) pvc) (finish_claim pe st))"

section \<open>Deployments\<close>

definition hostname_affinity :: "affinity \<Rightarrow> string \<Rightarrow> affinity" where
  "hostname_affinity a node = a\<lparr>aff_NodeAffinity :=
     Some [[\<lparr>nsr_Key = ''kubernetes.io/hostname'', nsr_Operator = ''In'', nsr_Values = [node]\<rparr>]]\<rparr>"

definition getBrokerAffinityForCR :: "kafka \<Rightarrow> int \<Rightarrow> go_error + affinity" where
  "getBrokerAffinityForCR cr broker =
     (if st_Nodes (kf_Storage cr) \<noteq> [] then bindR (nth_of (st_Nodes (kf_Storage cr)) broker) (\<lambda>n. Inr (hostname_affinity (kf_Affinity cr) n))
      else Inr (kf_Affinity cr))"

definition getControllerAffinityForCR :: "kafka \<Rightarrow> affinity" where
  "getControllerAffinityForCR cr =
     (case st_Nodes (mc_Storage (kf_MigrationController cr)) of
        [] \<Rightarrow> mc_Affinity (kf_MigrationController cr)
      | n # _ \<Rightarrow> hostname_affinity (mc_Affinity (kf_MigrationController cr)) n)"

definition getSecretFilesVolume :: "kafka \<Rightarrow> volume option" where
  "getSecretFilesVolume cr =
     (if kf_SecretName cr = [] then None else Some (vol ''kafka-secrets'' (SecretVolume (kf_SecretName cr) (Some 420) [])))"

definition getSecretFilesVolumeMount :: volumeMount where
  "getSecretFilesVolumeMount = readonly_mnt ''kafka-secrets'' ''/etc/secrets/kafka-pod-secrets''"

definition exec_probe :: "string list \<Rightarrow> probeTimingConfig option \<Rightarrow> 32 word \<Rightarrow> 32 word \<Rightarrow> 32 word \<Rightarrow> 32 word \<Rightarrow> 32 word \<Rightarrow> probe" where
  "exec_probe command cfg initialDelay timeout period success failure =
     (let cfg = (case cfg of Some c \<Rightarrow> c | None \<Rightarrow> \<lparr>pt_InitialDelaySeconds = None, pt_TimeoutSeconds = None, pt_PeriodSeconds = None,
            pt_SuccessThreshold = None, pt_FailureThreshold = None\<rparr>) in
      mk_probe (ExecAction command)
        (DefaultIfEmptyInt32 (pt_InitialDelaySeconds cfg) initialDelay) (DefaultIfEmptyInt32 (pt_TimeoutSeconds cfg) timeout)
        (DefaultIfEmptyInt32 (pt_PeriodSeconds cfg) period) (DefaultIfEmptyInt32 (pt_SuccessThreshold cfg) success)
        (DefaultIfEmptyInt32 (pt_FailureThreshold cfg) failure))"

text \<open>The quantity of \<open>ephemeral-storage\<close> is taken over where the specification has one.\<close>

definition copy_ephemeral :: "string gomap \<Rightarrow> string gomap \<Rightarrow> string gomap" where
  "copy_ephemeral from to = (case map_of from ''ephemeral-storage'' of Some v \<Rightarrow> mput ''ephemeral-storage'' v to | None \<Rightarrow> to)"

definition debug_container :: "kafka \<Rightarrow> envVar list \<Rightarrow> volumeMount list \<Rightarrow> container" where
  "debug_container cr envs volumeMounts = (new_container ''kafka-debug-container'' (kf_DockerImage cr))
     \<lparr>ctr_Command := [''/bin/sh''], ctr_Args := [''-c'', ''tail -f /dev/null''], ctr_Env := envs,
      ctr_Resources := \<lparr>res_Requests = copy_ephemeral (res_Requests (kf_Resources cr)) [(''memory'', ''25Mi''), (''cpu'', ''10m'')],
        res_Limits = copy_ephemeral (res_Limits (kf_Resources cr)) [(''memory'', ''100Mi''), (''cpu'', ''100m'')]\<rparr>,
      ctr_VolumeMounts := volumeMounts, ctr_ImagePullPolicy := ''IfNotPresent'',
      ctr_SecurityContext := Some getDefaultContainerSecurityContext\<rparr>"

definition createDeploymentContainers :: "kafka \<Rightarrow> envVar list \<Rightarrow> volumeMount list \<Rightarrow> bool \<Rightarrow> bool \<Rightarrow> container list" where
  "createDeploymentContainers cr envs volumeMounts kraftEnabled kraftController =
     (let ports = map (\<lambda>p. port [] p ProtocolTCP) ([9092, 9093, 9094, 9095, 9087, 8080] @ (if kraftEnabled then [9096] else []));
          livenessCommand = (if kraftController then [''./bin/kafka-health.sh''] else [''./bin/kafka-health.sh'', ''live'']);
          readinessCommand = (if kraftController then [''./bin/kafka-health.sh''] else [''./bin/kafka-health.sh'', ''ready'']) in
      (new_container ''kafka'' (kf_DockerImage cr))
        \<lparr>ctr_Ports := ports, ctr_LivenessProbe := Some (exec_probe livenessCommand (kf_LivenessProbe cr) 60 5 15 1 20),
         ctr_ReadinessProbe := Some (exec_probe readinessCommand (kf_ReadinessProbe cr) 60 30 30 1 5), ctr_Env := envs,
         ctr_Resources := kf_Resources cr, ctr_VolumeMounts := volumeMounts, ctr_ImagePullPolicy := ''Always'',
         ctr_SecurityContext := Some getDefaultContainerSecurityContext\<rparr>
      # (if kf_DebugContainer cr then [debug_container cr envs volumeMounts] else []))"

text \<open>The source of the data volume: the claim, unless the storage has neither volumes nor a real storage class.\<close>

definition data_volume :: "storage \<Rightarrow> string \<Rightarrow> volumeSource" where
  "data_volume st claimName =
     (if st_Volumes st \<noteq> [] \<or> (st_ClassName st \<noteq> [] \<and> hd (st_ClassName st) \<noteq> ''emptyDir'')
      then PersistentVolumeClaimVolume claimName else EmptyDirVolume None)"

text \<open>The volumes and mounts both deployments have, before those for TLS.\<close>

definition base_volumes :: "kafka \<Rightarrow> volumeSource \<Rightarrow> volume list" where
  "base_volumes cr dataVolumeSource =
     [vol ''data'' dataVolumeSource, vol ''log'' (EmptyDirVolume None),
      vol ''trusted-certs'' (SecretVolume (obj_Name cr @ ''-trusted-certs'') None []),
      vol ''public-certs'' (SecretVolume (obj_Name cr @ ''-public-certs'') None []), getTmpVolume ''32Mi'']
     @ (case getSecretFilesVolume cr of Some v \<Rightarrow> [v] | None \<Rightarrow> [])"

definition base_mounts :: "kafka \<Rightarrow> volumeMount list" where
  "base_mounts cr =
     [mnt ''data'' ''/var/opt/kafka/data'', mnt ''log'' ''/opt/kafka/logs'', mnt ''trusted-certs'' ''/opt/kafka/trustcerts'',
      mnt ''public-certs'' ''/opt/kafka/public-certs'', getTmpVolumeMount]
     @ (case getSecretFilesVolume cr of Some _ \<Rightarrow> [getSecretFilesVolumeMount] | None \<Rightarrow> [])"

definition ssl_mounted :: "kafka \<Rightarrow> bool" where
  "ssl_mounted cr \<longleftrightarrow> ssl_Enabled (kf_Ssl cr) \<and> ssl_SecretName (kf_Ssl cr) \<noteq> []"

definition zookeeper_ssl_mounted :: "kafka \<Rightarrow> bool \<Rightarrow> bool" where
  "zookeeper_ssl_mounted cr zookeeper \<longleftrightarrow> kf_ZookeeperEnableSsl cr \<and> zookeeper \<and> kf_ZookeeperSslSecretName cr \<noteq> []"

definition kafka_volumes :: "kafka \<Rightarrow> volumeSource \<Rightarrow> bool \<Rightarrow> volume list" where
  "kafka_volumes cr dataVolumeSource zookeeper = base_volumes cr dataVolumeSource
     @ (if ssl_mounted cr then [vol ''ssl-certs'' (SecretVolume (ssl_SecretName (kf_Ssl cr)) None [])] else [])
     @ (if zookeeper_ssl_mounted cr zookeeper then [vol ''zookeeper-ssl-certs'' (SecretVolume (kf_ZookeeperSslSecretName cr) None [])] else [])"

definition kafka_mounts :: "kafka \<Rightarrow> bool \<Rightarrow> volumeMount list" where
  "kafka_mounts cr zookeeper = base_mounts cr
     @ (if ssl_mounted cr then [mnt ''ssl-certs'' ''/opt/kafka/tls''] else [])
     @ (if zookeeper_ssl_mounted cr zookeeper then [mnt ''zookeeper-ssl-certs'' ''/opt/kafka/zookeeper-tls''] else [])"

definition broker_voter :: "kafka \<Rightarrow> int \<Rightarrow> string" where
  "broker_voter cr i = strconv_Itoa i @ ''@'' @ obj_Name cr @ ''-'' @ strconv_Itoa i @ ''.'' @ domain_name cr @ ''.''
     @ obj_Namespace cr @ '':9096''"

definition security_envs :: "kafka \<Rightarrow> envVar list" where
  "security_envs cr =
     (let oa = kf_Oauth cr in
      [var ''DISABLE_SECURITY'' (FormatBool (IsSecurityDisabled cr)), var ''CLOCK_SKEW'' (strconv_Itoa (getClockSkew oa)),
       var ''JWK_SOURCE_TYPE'' (getJwkSourceType oa), var ''JWKS_CONNECTION_TIMEOUT'' (strconv_Itoa (getJwksConnectionTimeout oa)),
       var ''TOKEN_ROLES_PATH'' (kf_TokenRolesPath cr), var ''JWKS_READ_TIMEOUT'' (strconv_Itoa (getJwksReadTimeout oa)),
       var ''JWKS_SIZE_LIMIT'' (strconv_Itoa (getJwksSizeLimit oa)), var ''ENABLE_AUDIT_LOGS'' (FormatBool (isAuditLogsEnabled cr)),
       var ''ENABLE_AUTHORIZATION'' (FormatBool (isEnableAuthorization cr)),
       var ''HEALTH_CHECK_TIMEOUT'' (strconv_Itoa (sint (getHealthCheckTimeout cr)))])"

definition zookeeper_envs :: "kafka \<Rightarrow> envVar list" where
  "zookeeper_envs cr = [var ''ZOOKEEPER_CONNECT'' (kf_ZookeeperConnect cr), var ''ZOOKEEPER_SET_ACL'' (FormatBool (isZookeeperSetACL cr))]"

definition tail_envs :: "kafka \<Rightarrow> bool \<Rightarrow> envVar list" where
  "tail_envs cr zookeeper =
     (if ssl_mounted cr then
        [var ''ENABLE_SSL'' ''true'', var ''SSL_CIPHER_SUITES'' (strings_Join (ssl_CipherSuites (kf_Ssl cr)) '',''),
         var ''ENABLE_2WAY_SSL'' (FormatBool (ssl_EnableTwoWaySsl (kf_Ssl cr))),
         var ''ALLOW_NONENCRYPTED_ACCESS'' (FormatBool (ssl_AllowNonencryptedAccess (kf_Ssl cr)))] else [])
     @ (if kf_ZookeeperEnableSsl cr \<and> zookeeper then [var ''ENABLE_ZOOKEEPER_SSL'' ''true''] else [])
     @ (if kf_CCMetricReporterEnabled cr then [var ''METRIC_COLLECTOR_ENABLED'' ''true''] else [])"

definition broker_envs :: "kafka \<Rightarrow> int \<Rightarrow> string \<Rightarrow> string \<Rightarrow> string \<Rightarrow> bool \<Rightarrow> string \<Rightarrow> envVar list" where
  "broker_envs cr broker brokerRack externalHostName externalPort kraftEnabled zkClusterID =
     (let deploymentName = broker_name cr broker;
          replicationFactor = (if kf_Replicas cr < 3 then kf_Replicas cr else 3);
          zkClusterID = (if zkClusterID = [] then ''U5tHX5uHQnmsniDS54EF_w'' else zkClusterID) in
      [var ''READINESS_PERIOD'' ''30'', var ''BROKER_ID'' (strconv_Itoa broker), var ''REPLICATION_FACTOR'' (strconv_Itoa replicationFactor),
       var ''EXTERNAL_HOST_NAME'' externalHostName, var ''EXTERNAL_PORT'' externalPort, var ''CONF_KAFKA_BROKER_RACK'' brokerRack,
       var ''INTERNAL_HOST_NAME'' (deploymentName @ ''.'' @ obj_Namespace cr),
       var ''INTER_BROKER_HOST_NAME'' (deploymentName @ ''.'' @ domain_name cr @ ''.'' @ obj_Namespace cr),
       var ''HEAP_OPTS'' (heap_opts (kf_HeapSize cr))]
      @ security_envs cr
      @ (if kraftEnabled then
           [var ''KRAFT_ENABLED'' ''true'', var ''KRAFT_CLUSTER_ID'' zkClusterID,
            var ''VOTERS'' (strings_Join (map (broker_voter cr) [1..kf_Replicas cr]) '',''), var ''PROCESS_ROLES'' ''broker,controller'']
         else zookeeper_envs cr)
      @ tail_envs cr (\<not> kraftEnabled))"

definition external_access :: "kafka \<Rightarrow> int \<Rightarrow> go_error + (string \<times> string)" where
  "external_access cr broker =
     (if kf_ExternalHostNames cr \<noteq> [] then
        bindR (nth_of (kf_ExternalHostNames cr) broker) (\<lambda>host.
          if kf_ExternalPorts cr \<noteq> [] then bindR (nth_of (kf_ExternalPorts cr) broker) (\<lambda>p. Inr (host, strconv_Itoa p))
          else Inr (host, ''9094''))
      else Inr ([], []))"

text \<open>The parts of the deployment that brokers and controller share.\<close>

definition kafka_deployment :: "kafka \<Rightarrow> string \<Rightarrow> string gomap \<Rightarrow> string gomap \<Rightarrow> volume list \<Rightarrow> container list \<Rightarrow> affinity \<Rightarrow>
    string \<Rightarrow> string \<Rightarrow> deployment" where
  "kafka_deployment cr deploymentName kafkaLabels selectorLabels volumes containers aff tolerations priorityClassName =
     (new_deployment deploymentName (obj_Namespace cr) kafkaLabels)
       \<lparr>dep_Strategy := ''Recreate'', dep_Replicas := Some 1, dep_ProgressDeadlineSeconds := Some (getRollbackTimeout cr),
        dep_Selector := selectorLabels, dep_TemplateLabels := GetKafkaCustomLabels cr kafkaLabels, dep_Volumes := volumes,
        dep_InitContainers := [], dep_Containers := containers, dep_SecurityContext := kf_SecurityContext cr,
        dep_ServiceAccountName := kf_GetServiceAccountName cr,
        dep_TerminationGracePeriodSeconds := Some (getTerminationGracePeriod cr), dep_Hostname := deploymentName,
        dep_Subdomain := domain_name cr, dep_Affinity := aff, dep_Tolerations := tolerations, dep_PriorityClassName := priorityClassName\<rparr>"

definition with_config :: "providerEnv \<Rightarrow> kafka \<Rightarrow> envVar list \<Rightarrow> envVar list" where
  "with_config pe cr envVars = buildEnvs pe (configMapToEnvVars (kf_Config cr) ''CONF_KAFKA_'' (kf_EnvironmentVariables cr) @ envVars)
     (kf_EnvironmentVariables cr)"

definition NewKafkaBrokerDeploymentForCR :: "providerEnv \<Rightarrow> kafka \<Rightarrow> int \<Rightarrow> string \<Rightarrow> bool \<Rightarrow> string \<Rightarrow> go_error + deployment" where
  "NewKafkaBrokerDeploymentForCR pe cr broker brokerRack kraftEnabled zkClusterID =
     (let deploymentName = broker_name cr broker;
          kafkaLabels = mput ''velero.io/exclude-from-backup'' ''true'' (mput ''app.kubernetes.io/instance''
            (deploymentName @ ''-'' @ obj_Namespace cr) (mput ''name'' deploymentName (GetKafkaLabels cr)));
          volumes = kafka_volumes cr (data_volume (kf_Storage cr) (pvc_name cr broker)) (\<not> kraftEnabled) in
      bindR (external_access cr broker) (\<lambda>(externalHostName, externalPort).
      bindR (getBrokerAffinityForCR cr broker) (\<lambda>aff.
        Inr (kafka_deployment cr deploymentName kafkaLabels (broker_labels cr broker) volumes
          (createDeploymentContainers cr (with_config pe cr
             (broker_envs cr broker brokerRack externalHostName externalPort kraftEnabled zkClusterID))
             (kafka_mounts cr (\<not> kraftEnabled)) kraftEnabled False)
          aff (kf_Tolerations cr) (kf_PriorityClassName cr)))))"

definition controller_envs :: "kafka \<Rightarrow> string \<Rightarrow> bool \<Rightarrow> bool \<Rightarrow> envVar list" where
  "controller_envs cr zkClusterID migrated zookeeperEnabled =
     (let deploymentName = controller_name cr;
          voters = ''3000@localhost:9092'' # (if migrated then map (broker_voter cr) [1..kf_Replicas cr] else []) in
      [var ''KRAFT_ENABLED'' ''true'', var ''BROKER_ID'' ''3000'', var ''CONTROLLER_LISTENER_NAMES'' ''CONTROLLER'',
       var ''LISTENERS'' ''CONTROLLER://:9092'', var ''KRAFT_CLUSTER_ID'' zkClusterID, var ''INTER_BROKER_LISTENER_NAME'' ''INTERNAL'',
       var ''PROCESS_ROLES'' ''controller'', var ''VOTERS'' (strings_Join voters '',''), var ''READINESS_PERIOD'' ''30'',
       var ''REPLICATION_FACTOR'' ''3'', var ''EXTERNAL_HOST_NAME'' [], var ''EXTERNAL_PORT'' [], var ''CONF_KAFKA_BROKER_RACK'' [],
       var ''INTERNAL_HOST_NAME'' (deploymentName @ ''.'' @ obj_Namespace cr),
       var ''INTER_BROKER_HOST_NAME'' (deploymentName @ ''.'' @ domain_name cr @ ''.'' @ obj_Namespace cr),
       var ''HEAP_OPTS'' (heap_opts (kf_HeapSize cr))]
      @ security_envs cr
      @ (if zookeeperEnabled then zookeeper_envs cr else [])
      @ [if migrated then var ''MIGRATED_CONTROLLER'' ''true'' else var ''MIGRATION_CONTROLLER'' ''true'']
      @ tail_envs cr zookeeperEnabled)"

definition NewKafkaKraftControllerDeploymentForCR :: "providerEnv \<Rightarrow> kafka \<Rightarrow> string \<Rightarrow> bool \<Rightarrow> bool \<Rightarrow> deployment" where
  "NewKafkaKraftControllerDeploymentForCR pe cr zkClusterID migrated zookeeperEnabled =
     (let mc = kf_MigrationController cr; deploymentName = controller_name cr;
          kafkaLabels = mput ''app.kubernetes.io/instance'' (deploymentName @ ''-'' @ obj_Namespace cr) (controller_object_labels cr) in
      kafka_deployment cr deploymentName kafkaLabels (controller_labels cr)
        (kafka_volumes cr (data_volume (mc_Storage mc) (controller_pvc_name cr)) zookeeperEnabled)
        (createDeploymentContainers cr (with_config pe cr (controller_envs cr zkClusterID migrated zookeeperEnabled))
          (kafka_mounts cr zookeeperEnabled) False True)
        (getControllerAffinityForCR cr) (mc_Tolerations mc) (mc_PriorityClassName mc))"

section \<open>The objects fit together\<close>

lemma map_of_GetKafkaLabels:
  "wf_map (kf_DefaultLabels cr) \<Longrightarrow> map_of (GetKafkaLabels cr) =
     [''component'' \<mapsto> ''kafka'', ''clusterName'' \<mapsto> obj_Name cr, ''name'' \<mapsto> obj_Name cr, ''app.kubernetes.io/name'' \<mapsto> obj_Name cr]
       ++ map_of (kf_DefaultLabels cr)"
  by (auto simp: GetKafkaLabels_def GetSelectorLabels_def map_of_JoinMaps map_add_def fun_eq_iff split: option.split)

lemma wf_GetKafkaLabels [simp]: "wf_map (GetKafkaLabels cr)"
  by (simp add: GetKafkaLabels_def)

lemma map_of_custom:
  "wf_map (kf_CustomLabels cr) \<Longrightarrow> wf_map labels \<Longrightarrow> map_of (GetKafkaCustomLabels cr labels) = map_of (kf_CustomLabels cr) ++ map_of labels"
  by (simp add: GetKafkaCustomLabels_def map_of_JoinMaps)

text \<open>The default labels leave the two labels alone by which the services and deployments find the brokers.\<close>

definition selectors_kept :: "kafka \<Rightarrow> bool" where
  "selectors_kept cr \<longleftrightarrow> map_of (kf_DefaultLabels cr) ''component'' \<in> {None, Some ''kafka''}
     \<and> map_of (kf_DefaultLabels cr) ''clusterName'' \<in> {None, Some (obj_Name cr)}"

lemma broker_labels_eq:
  "broker_labels cr broker = [(''component'', ''kafka''), (''clusterName'', obj_Name cr), (''name'', broker_name cr broker)]"
  by (simp add: broker_labels_def GetSelectorLabels_def)

lemma mounts_of_kafka: "map vm_Name (kafka_mounts cr zookeeper) = map vol_Name (kafka_volumes cr src zookeeper)"
  by (simp add: kafka_mounts_def kafka_volumes_def base_mounts_def base_volumes_def getSecretFilesVolume_def getSecretFilesVolumeMount_def)

lemma distinct_kafka_volumes: "distinct (map vol_Name (kafka_volumes cr src zookeeper))"
  by (simp add: kafka_volumes_def base_volumes_def getSecretFilesVolume_def)

lemma kafka_containers:
  "c \<in> set (createDeploymentContainers cr envs mounts kraft controller) \<Longrightarrow>
     ctr_VolumeMounts c = mounts \<and> ctr_Env c = envs \<and> ctr_SecurityContext c = Some getDefaultContainerSecurityContext"
  "distinct (map ctr_Name (createDeploymentContainers cr envs mounts kraft controller))"
  "createDeploymentContainers cr envs mounts kraft controller \<noteq> []"
  by (auto simp: createDeploymentContainers_def debug_container_def new_container_def Let_def split: if_splits)

lemma kafka_deployment_simps [simp]:
  "dep_Selector (kafka_deployment cr n l s vs cs a t p) = s" "dep_Volumes (kafka_deployment cr n l s vs cs a t p) = vs"
  "dep_Containers (kafka_deployment cr n l s vs cs a t p) = cs" "dep_InitContainers (kafka_deployment cr n l s vs cs a t p) = []"
  "dep_TemplateLabels (kafka_deployment cr n l s vs cs a t p) = GetKafkaCustomLabels cr l"
  "obj_Name (kafka_deployment cr n l s vs cs a t p) = n"
  by (simp_all add: kafka_deployment_def new_deployment_def)

lemma kafka_deployment_wf:
  "wf_deployment (kafka_deployment cr n l s (kafka_volumes cr src zookeeper)
     (createDeploymentContainers cr envs (kafka_mounts cr zookeeper) kraft controller) a t p) \<longleftrightarrow> selects s (GetKafkaCustomLabels cr l)"
  using kafka_containers[where cr = cr and envs = envs and mounts = "kafka_mounts cr zookeeper" and kraft = kraft and controller = controller]
    distinct_kafka_volumes[of cr src zookeeper]
  by (auto simp: wf_deployment_def mounts_declared_def mounts_of_kafka[where src = src] simp del: set_map)

text \<open>The labels of the pods of a broker, and of the controller.\<close>

lemma broker_template:
  assumes "NewKafkaBrokerDeploymentForCR pe cr broker brokerRack kraftEnabled zkClusterID = Inr d"
    and "wf_map (kf_DefaultLabels cr)" "wf_map (kf_CustomLabels cr)"
  shows "map_of (dep_TemplateLabels d) ''name'' = Some (broker_name cr broker)"
    "map_of (dep_TemplateLabels d) ''component'' = Some ''kafka'' \<longleftrightarrow> map_of (kf_DefaultLabels cr) ''component'' \<in> {None, Some ''kafka''}"
    "map_of (dep_TemplateLabels d) ''clusterName'' = Some (obj_Name cr) \<longleftrightarrow>
       map_of (kf_DefaultLabels cr) ''clusterName'' \<in> {None, Some (obj_Name cr)}"
  using assms
  by (auto simp: NewKafkaBrokerDeploymentForCR_def Let_def bindR_Inr map_of_custom map_of_GetKafkaLabels map_add_def
      split: option.splits prod.splits)

lemma controller_template:
  assumes "wf_map (kf_DefaultLabels cr)" "wf_map (kf_CustomLabels cr)"
  shows "map_of (dep_TemplateLabels (NewKafkaKraftControllerDeploymentForCR pe cr zkClusterID migrated zookeeper)) ''name'' = Some (controller_name cr)"
    "map_of (dep_TemplateLabels (NewKafkaKraftControllerDeploymentForCR pe cr zkClusterID migrated zookeeper)) ''component'' = Some ''kafka-controller''"
  using assms by (simp_all add: NewKafkaKraftControllerDeploymentForCR_def Let_def map_of_custom controller_object_labels_def map_add_def)

text \<open>
  C15. The deployments of the provider are well-formed: every mount refers to a volume of the pod, the names of
  volumes and containers are distinct, and the pods satisfy the selector. For the migration controller this holds for every
  resource; for a broker it holds exactly if the default labels of the resource do not redefine the
  labels \<open>component\<close> and \<open>clusterName\<close>, on which its selector rests.
\<close>

theorem kafka_deployments_wf:
  assumes "wf_map (kf_DefaultLabels cr)" "wf_map (kf_CustomLabels cr)"
    and "NewKafkaBrokerDeploymentForCR pe cr broker brokerRack kraftEnabled zkClusterID = Inr d"
  shows "(wf_deployment d \<longleftrightarrow> selectors_kept cr)
    \<and> wf_deployment (NewKafkaKraftControllerDeploymentForCR pe cr zkClusterID' migrated zookeeper)"
proof
  have "wf_deployment d \<longleftrightarrow> selects (broker_labels cr broker) (dep_TemplateLabels d)"
    using assms(3) by (auto simp: NewKafkaBrokerDeploymentForCR_def Let_def bindR_Inr kafka_deployment_wf split: prod.splits)
  also have "\<dots> \<longleftrightarrow> selectors_kept cr"
    using broker_template[OF assms(3,1,2)] by (simp add: selects_def broker_labels_eq selectors_kept_def)
  finally show "wf_deployment d \<longleftrightarrow> selectors_kept cr" .
  let ?c = "NewKafkaKraftControllerDeploymentForCR pe cr zkClusterID' migrated zookeeper"
  have "wf_deployment ?c \<longleftrightarrow> selects (controller_labels cr) (dep_TemplateLabels ?c)"
    by (simp add: NewKafkaKraftControllerDeploymentForCR_def Let_def kafka_deployment_wf)
  then show "wf_deployment ?c" using controller_template[OF assms(1,2)] by (simp add: selects_def controller_labels_def)
qed

text \<open>
  C16. The services route to the right pods: for a resource whose default labels keep the selectors, the
  service of a broker selects the pods of that broker and of no other, the client and the domain
  service select the pods of every broker, and none of these selects the migration controller.
\<close>

theorem services_route:
  assumes "wf_map (kf_DefaultLabels cr)" "wf_map (kf_CustomLabels cr)" "selectors_kept cr"
    and "NewKafkaBrokerDeploymentForCR pe cr broker brokerRack kraftEnabled zkClusterID = Inr d"
  shows "(selects (svc_Selector (NewKafkaBrokerServiceForCR cr i)) (dep_TemplateLabels d) \<longleftrightarrow> i = broker)
    \<and> selects (svc_Selector (NewKafkaClientServiceForCR cr)) (dep_TemplateLabels d)
    \<and> selects (svc_Selector (NewKafkaDomainClientServiceForCR cr)) (dep_TemplateLabels d)
    \<and> (\<forall>s\<in>{NewKafkaBrokerServiceForCR cr i, NewKafkaClientServiceForCR cr, NewKafkaDomainClientServiceForCR cr}.
         \<not> selects (svc_Selector s) (dep_TemplateLabels (NewKafkaKraftControllerDeploymentForCR pe cr zkClusterID migrated zookeeper)))"
  using broker_template[OF assms(4,1,2)] controller_template[OF assms(1,2)] assms(3)
  by (auto simp: selectors_kept_def selects_def NewKafkaBrokerServiceForCR_def NewKafkaClientServiceForCR_def
      NewKafkaDomainClientServiceForCR_def service_defs broker_labels_eq GetSelectorLabels_def broker_name_def Let_def)

lemma claim_spec_name: "claim_spec st pos storageClass pvc = Inr (Some p) \<Longrightarrow> obj_Name p = obj_Name pvc"
  by (cases storageClass) (auto simp: claim_spec_def bindR_Inr Let_def split: if_splits list.splits)

lemma finish_claim_name: "finish_claim pe st claim = Inr (Some p) \<Longrightarrow> \<exists>q. claim = Some q \<and> obj_Name p = obj_Name q"
  by (auto simp: finish_claim_def bindR_Inr split: option.splits)

text \<open>
  C26. Where the data of a broker is. If a claim is built for a broker, then the data volume of its deployment is
  that claim exactly if the storage has volumes or a storage class other than \<open>emptyDir\<close>; otherwise, in
  particular where the storage has labels only, the claim stays unused and the data is in an empty directory,
  which is gone with the pod.
\<close>

theorem data_on_claim:
  assumes "NewKafkaPersistentVolumeClaimForCR pe cr broker = Inr (Some p)"
    and "NewKafkaBrokerDeploymentForCR pe cr broker brokerRack kraftEnabled zkClusterID = Inr d"
  shows "{vol_Source v |v. v \<in> set (dep_Volumes d) \<and> vol_Name v = ''data''} =
    {if st_Volumes (kf_Storage cr) \<noteq> [] \<or> st_ClassName (kf_Storage cr) \<noteq> [] \<and> hd (st_ClassName (kf_Storage cr)) \<noteq> ''emptyDir''
     then PersistentVolumeClaimVolume (obj_Name p) else EmptyDirVolume None}"
proof -
  have "obj_Name p = pvc_name cr broker"
    using assms(1)
    by (auto simp: NewKafkaPersistentVolumeClaimForCR_def bindR_Inr new_persistentVolumeClaim_def Let_def
        dest!: claim_spec_name finish_claim_name split: sum.splits)
  moreover have "dep_Volumes d = kafka_volumes cr (data_volume (kf_Storage cr) (pvc_name cr broker)) (\<not> kraftEnabled)"
    using assms(2) by (auto simp: NewKafkaBrokerDeploymentForCR_def Let_def bindR_Inr split: prod.splits)
  moreover have "{vol_Source v |v. v \<in> set (kafka_volumes cr src zookeeper) \<and> vol_Name v = ''data''} = {src}" for src zookeeper
    by (auto simp: kafka_volumes_def base_volumes_def getSecretFilesVolume_def split: if_splits intro!: exI[of _ "vol ''data'' src"])
  ultimately show ?thesis by (simp add: data_volume_def)
qed

section \<open>Panics of the claims\<close>

lemma MustParse_Inl: "MustParse pe s = Inl e \<longleftrightarrow> e = Panic \<and> isl (pe_ParseQuantity pe s)"
  by (auto simp: MustParse_def split: sum.split)

lemma claim_spec_Inr: "claim_spec st pos storageClass pvc = Inr c \<Longrightarrow> c = None \<longleftrightarrow> st_Volumes st = [] \<and> st_Labels st = [] \<and> st_ClassName st = []"
  by (cases storageClass) (auto simp: claim_spec_def Let_def bindR_Inr split: if_splits)

lemma claim_spec_Inl:
  "claim_spec st pos storageClass pvc = Inl e \<longleftrightarrow>
     (if st_Volumes st \<noteq> [] then nth_of (st_Volumes st) pos = Inl e \<or> (\<exists>v. nth_of (st_Volumes st) pos = Inr v) \<and> st_ClassName st \<noteq> [] \<and> storageClass = Inl e
      else if st_Labels st \<noteq> [] then nth_of (st_Labels st) pos = Inl e \<or> (\<exists>l. nth_of (st_Labels st) pos = Inr l
        \<and> (label_pair l = Inl e \<or> (\<exists>kv. label_pair l = Inr kv) \<and> st_ClassName st \<noteq> [] \<and> storageClass = Inl e))
      else st_ClassName st \<noteq> [] \<and> storageClass = Inl e)"
  by (cases storageClass) (auto simp: claim_spec_def Let_def bindR_Inl)

lemma claim_built_Inl:
  "bindR (claim_spec st pos storageClass pvc) (finish_claim pe st) = Inl e \<longleftrightarrow> claim_spec st pos storageClass pvc = Inl e
     \<or> (\<exists>c. claim_spec st pos storageClass pvc = Inr c) \<and> (st_Volumes st \<noteq> [] \<or> st_Labels st \<noteq> [] \<or> st_ClassName st \<noteq> [])
       \<and> e = Panic \<and> isl (pe_ParseQuantity pe (st_Size st))"
  using claim_spec_Inr[of st pos storageClass pvc]
  by (cases "claim_spec st pos storageClass pvc") (auto simp: finish_claim_def bindR_Inl MustParse_Inl split: option.split)

lemma claim_panics:
  assumes "1 \<le> broker"
  shows "NewKafkaPersistentVolumeClaimForCR pe cr broker = Inl e \<longleftrightarrow>
      e = Panic \<and> (let st = kf_Storage cr; badSize = isl (pe_ParseQuantity pe (st_Size st)) in
        (length (st_ClassName st) \<le> 1 \<or> length (st_ClassName st) = length (st_Volumes st)) \<and>
        (if st_Volumes st \<noteq> [] then int (length (st_Volumes st)) < broker \<or> badSize
         else if st_Labels st \<noteq> [] then int (length (st_Labels st)) < broker \<or> CHR ''='' \<notin> set (st_Labels st ! nat (broker - 1)) \<or> badSize
         else st_ClassName st \<noteq> [] \<and> badSize))"
proof -
  let ?st = "kf_Storage cr"
  have sc: "getStorageClassForDynamicallyProvidedVolumes cr broker = Inl e \<longleftrightarrow>
      e = Panic \<and> length (st_ClassName ?st) \<noteq> 1 \<and> int (length (st_ClassName ?st)) < broker" for e
    using assms by (auto simp: getStorageClassForDynamicallyProvidedVolumes_def nth_of_Inl Let_def)
  let ?ok = "length (st_ClassName ?st) \<le> 1 \<or> length (st_ClassName ?st) = length (st_Volumes ?st)"
  let ?P = "if st_Volumes ?st \<noteq> [] then int (length (st_Volumes ?st)) < broker
    else st_Labels ?st \<noteq> [] \<and> (int (length (st_Labels ?st)) < broker \<or> CHR ''='' \<notin> set (st_Labels ?st ! nat (broker - 1)))"
  have noclass: "\<not> (st_ClassName ?st \<noteq> [] \<and> getStorageClassForDynamicallyProvidedVolumes cr broker = Inl e)"
    if ?ok "st_Volumes ?st = [] \<or> broker \<le> int (length (st_Volumes ?st))" for e
    using that by (cases "st_ClassName ?st") (auto simp: sc)
  have spec: "claim_spec ?st broker (getStorageClassForDynamicallyProvidedVolumes cr broker) pvc = Inl e \<longleftrightarrow> e = Panic \<and> ?P" if ?ok for e pvc
  proof (cases "nth_of (if st_Volumes ?st \<noteq> [] then st_Volumes ?st else st_Labels ?st) broker")
    case (Inl x)
    then show ?thesis using assms noclass[OF that, of e] by (auto simp: claim_spec_Inl nth_of_Inl nth_of_Inr split: if_splits)
  next
    case (Inr x)
    show ?thesis
    proof (cases "st_Volumes ?st = []")
      case True
      then have n: "nth_of (st_Labels ?st) broker = Inr x" "x = st_Labels ?st ! nat (broker - 1)" "broker \<le> int (length (st_Labels ?st))"
        using Inr by (simp_all add: nth_of_Inr)
      moreover have "st_Labels ?st \<noteq> []" using n assms by auto
      ultimately show ?thesis using True noclass[OF that, of e] by (simp add: claim_spec_Inl label_pair_panics linorder_not_less) argo
    next
      case False
      then have "broker \<le> int (length (st_Volumes ?st))" "nth_of (st_Volumes ?st) broker = Inr x" using Inr by (simp_all add: nth_of_Inr)
      then show ?thesis using False noclass[OF that, of e] by (simp add: claim_spec_Inl)
    qed
  qed
  have built: "(\<exists>c. claim_spec ?st broker (getStorageClassForDynamicallyProvidedVolumes cr broker) pvc = Inr c) \<longleftrightarrow> \<not> ?P" if ?ok for pvc
  proof (cases "claim_spec ?st broker (getStorageClassForDynamicallyProvidedVolumes cr broker) pvc")
    case (Inl e)
    with spec[OF that, of pvc e] show ?thesis by simp
  next
    case (Inr c)
    with spec[OF that, of pvc Panic] show ?thesis by simp
  qed
  have check: "checkStorageClassDefinition cr (int (length (st_Volumes ?st))) = Inr () \<longleftrightarrow> ?ok"
    by (auto simp: checkStorageClassDefinition_def Let_def)
  show ?thesis
  proof (cases ?ok)
    case True
    then have "NewKafkaPersistentVolumeClaimForCR pe cr broker = Inl e \<longleftrightarrow>
        e = Panic \<and> (?P \<or> (st_Volumes ?st \<noteq> [] \<or> st_Labels ?st \<noteq> [] \<or> st_ClassName ?st \<noteq> []) \<and> isl (pe_ParseQuantity pe (st_Size ?st)))"
      using check by (auto simp: NewKafkaPersistentVolumeClaimForCR_def Let_def claim_built_Inl spec built simp del: if_split)
    with True show ?thesis by (auto simp: Let_def)
  next
    case False
    then have "NewKafkaPersistentVolumeClaimForCR pe cr broker = Inr None"
      using check by (auto simp: NewKafkaPersistentVolumeClaimForCR_def Let_def split: sum.split)
    with False show ?thesis by (simp add: Let_def)
  qed
qed

section \<open>The connection to ZooKeeper\<close>

text \<open>The address that a container connects to: the one of the specification, unless a variable is set by hand.\<close>

definition zookeeper_address :: "kafka \<Rightarrow> string" where
  "zookeeper_address cr = (case map_of (rev (List.map_filter env_pair (kf_EnvironmentVariables cr))) ''ZOOKEEPER_CONNECT'' of
     Some v \<Rightarrow> v | None \<Rightarrow> kf_ZookeeperConnect cr)"

definition on_zookeeper :: "kafka \<Rightarrow> container list \<Rightarrow> bool" where
  "on_zookeeper cr cs \<longleftrightarrow>
     (\<forall>c\<in>set cs. effective (ctr_Env c) ''ZOOKEEPER_CONNECT'' = Some (var ''ZOOKEEPER_CONNECT'' (zookeeper_address cr)))"

lemma with_config_effective:
  assumes "ranges pe" "effective envs name = Some (var name v)"
  shows "effective (with_config pe cr envs) name =
    Some (var name (case map_of (rev (List.map_filter env_pair (kf_EnvironmentVariables cr))) name of Some u \<Rightarrow> u | None \<Rightarrow> v))"
  using assms by (auto simp: with_config_def buildEnvs_effective effective_append split: option.split)

lemma effective_tail_envs: "effective (tail_envs cr zookeeper) ''ZOOKEEPER_CONNECT'' = None"
  by (simp add: tail_envs_def effective_append)

lemma envs_on_zookeeper:
  "effective (controller_envs cr zk migrated True) ''ZOOKEEPER_CONNECT'' = Some (var ''ZOOKEEPER_CONNECT'' (kf_ZookeeperConnect cr))"
  "effective (broker_envs cr broker brokerRack host p False zk) ''ZOOKEEPER_CONNECT'' = Some (var ''ZOOKEEPER_CONNECT'' (kf_ZookeeperConnect cr))"
  by (simp_all add: controller_envs_def broker_envs_def zookeeper_envs_def effective_append effective_tail_envs Let_def)

lemma containers_on_zookeeper:
  assumes "ranges pe" "effective envs ''ZOOKEEPER_CONNECT'' = Some (var ''ZOOKEEPER_CONNECT'' (kf_ZookeeperConnect cr))"
  shows "on_zookeeper cr (createDeploymentContainers cr (with_config pe cr envs) mounts kraft controller)"
  using kafka_containers(1) with_config_effective[OF assms]
  by (fastforce simp: on_zookeeper_def zookeeper_address_def)

lemma deployments_on_zookeeper:
  assumes "ranges pe"
  shows "on_zookeeper cr (dep_Containers (NewKafkaKraftControllerDeploymentForCR pe cr zk migrated True))"
    "NewKafkaBrokerDeploymentForCR pe cr broker brokerRack False zk = Inr d \<Longrightarrow> on_zookeeper cr (dep_Containers d)"
  using containers_on_zookeeper[OF assms envs_on_zookeeper(1)] containers_on_zookeeper[OF assms envs_on_zookeeper(2)]
  by (auto simp: NewKafkaKraftControllerDeploymentForCR_def NewKafkaBrokerDeploymentForCR_def Let_def bindR_Inr split: prod.splits)

section \<open>A resource\<close>

definition empty_storage :: storage where
  "empty_storage = \<lparr>st_ClassName = [], st_Size = ''1Gi'', st_Volumes = [], st_Nodes = [], st_Labels = []\<rparr>"

definition sample_kafka :: kafka where
  "sample_kafka = \<lparr>obj_Name = ''kafka'', obj_Namespace = ''ns'', obj_Labels = [], obj_Annotations = [], obj_ResourceVersion = [],
     obj_OwnerReferences = [], kf_APIVersion = ''qubership.org/v1'', kf_Kind = ''Kafka'', kf_WaitForPodsReady = True,
     kf_PodsReadyTimeout = 60, kf_Affinity = \<lparr>aff_NodeAffinity = None, aff_Other = []\<rparr>, kf_Tolerations = [],
     kf_PriorityClassName = [], kf_DisableSecurity = None, kf_DockerImage = ''kafka:latest'', kf_HeapSize = 256,
     kf_Oauth = \<lparr>oa_ClockSkew = None, oa_JwkSourceType = None, oa_JwksConnectionTimeout = None, oa_JwksReadTimeout = None,
       oa_JwksSizeLimit = None\<rparr>,
     kf_Ssl = \<lparr>ssl_Enabled = False, ssl_SecretName = [], ssl_CipherSuites = [], ssl_EnableTwoWaySsl = False,
       ssl_AllowNonencryptedAccess = False\<rparr>, kf_Replicas = 3,
     kf_Scaling = \<lparr>sl_ReassignPartitions = None, sl_BrokerDeploymentScaleInEnabled = None, sl_AllBrokersStartTimeoutSeconds = None,
       sl_TopicReassignmentTimeoutSeconds = None\<rparr>, kf_Resources = \<lparr>res_Requests = [], res_Limits = []\<rparr>,
     kf_SecretName = ''kafka-secret'', kf_SecurityContext = [], kf_Storage = empty_storage, kf_GetRacksFromNodeLabels = None,
     kf_NodeLabelNameForRack = [], kf_Racks = [], kf_TerminationGracePeriod = None, kf_ZookeeperConnect = ''zookeeper:2181'',
     kf_ZookeeperEnableSsl = False, kf_ZookeeperSslSecretName = [], kf_ZookeeperSetACL = None, kf_ExternalHostNames = [],
     kf_ExternalPorts = [], kf_EnvironmentVariables = [], kf_Config = [(''num.io.threads'', ''8'')], kf_RollbackTimeout = None,
     kf_HealthCheckTimeout = None, kf_EnableAuditLogs = None, kf_TokenRolesPath = [], kf_EnableAuthorization = None,
     kf_RollingUpdate = False, kf_CustomLabels = [(''team'', ''a'')], kf_DefaultLabels = [(''part-of'', ''kafka'')], kf_DebugContainer = True,
     kf_CCMetricReporterEnabled = False, kf_Kraft = \<lparr>kr_Enabled = False, kr_Migration = True, kr_MigrationTimeout = 60\<rparr>,
     kf_MigrationController = \<lparr>mc_Affinity = \<lparr>aff_NodeAffinity = None, aff_Other = []\<rparr>, mc_Tolerations = [],
       mc_PriorityClassName = [], mc_HeapSize = 256, mc_Resources = \<lparr>res_Requests = [], res_Limits = []\<rparr>, mc_Storage = empty_storage\<rparr>,
     kf_LivenessProbe = None, kf_ReadinessProbe = None, kf_PVCAnnotations = [], kf_Other = [], kf_Brokers = [],
     kf_ReassignmentStatus = [], kf_Conditions = [], kf_MigrationStatus = [], kf_PVCStatusAnnotations = []\<rparr>"

lemma sample_deployment_built: "\<exists>d. NewKafkaBrokerDeploymentForCR sample_providerEnv sample_kafka 2 [] False [] = Inr d"
  by (simp add: NewKafkaBrokerDeploymentForCR_def Let_def external_access_def getBrokerAffinityForCR_def sample_kafka_def empty_storage_def)

lemma sample_labels: "wf_map (kf_DefaultLabels sample_kafka)" "wf_map (kf_CustomLabels sample_kafka)" "selectors_kept sample_kafka"
  by (simp_all add: sample_kafka_def selectors_kept_def)

theorem kafka_deployments_wf_witness:
  "\<exists>d. NewKafkaBrokerDeploymentForCR sample_providerEnv sample_kafka 2 [] False [] = Inr d \<and> wf_deployment d"
  using sample_deployment_built kafka_deployments_wf[OF sample_labels(1,2)] sample_labels(3) by blast

theorem services_route_witness:
  "\<exists>d. NewKafkaBrokerDeploymentForCR sample_providerEnv sample_kafka 2 [] False [] = Inr d
     \<and> selects (svc_Selector (NewKafkaBrokerServiceForCR sample_kafka 2)) (dep_TemplateLabels d)
     \<and> \<not> selects (svc_Selector (NewKafkaBrokerServiceForCR sample_kafka 1)) (dep_TemplateLabels d)"
  using sample_deployment_built services_route[OF sample_labels, of sample_providerEnv 2 "[]" False "[]"]
  by (metis numeral_eq_one_iff semiring_norm(85))

theorem data_on_claim_witness:
  "let cr = sample_kafka\<lparr>kf_Storage := empty_storage\<lparr>st_Labels := [''disk=a'', ''disk=b'']\<rparr>\<rparr> in
   \<exists>p d. NewKafkaPersistentVolumeClaimForCR sample_providerEnv cr 2 = Inr (Some p) \<and> pvc_Selector p = [(''disk'', ''b'')]
     \<and> NewKafkaBrokerDeploymentForCR sample_providerEnv cr 2 [] False [] = Inr d
     \<and> {vol_Source v |v. v \<in> set (dep_Volumes d) \<and> vol_Name v = ''data''} = {EmptyDirVolume None}"
proof -
  let ?cr = "sample_kafka\<lparr>kf_Storage := empty_storage\<lparr>st_Labels := [''disk=a'', ''disk=b'']\<rparr>\<rparr>"
  obtain p where p: "NewKafkaPersistentVolumeClaimForCR sample_providerEnv ?cr 2 = Inr (Some p)" "pvc_Selector p = [(''disk'', ''b'')]"
    by (simp add: NewKafkaPersistentVolumeClaimForCR_def Let_def checkStorageClassDefinition_def claim_spec_def finish_claim_def nth_of_def
        MustParse_def label_pair_def sample_providerEnv_def empty_storage_def new_persistentVolumeClaim_def)
  obtain d where d: "NewKafkaBrokerDeploymentForCR sample_providerEnv ?cr 2 [] False [] = Inr d"
    by (simp add: NewKafkaBrokerDeploymentForCR_def Let_def external_access_def getBrokerAffinityForCR_def sample_kafka_def empty_storage_def)
  from p d data_on_claim[OF p(1) d] show ?thesis by (auto simp: Let_def empty_storage_def)
qed

end
