(* ===== verification/Kafka_Cluster.thy ===== *)
theory Kafka_Cluster
  imports Go_Prelude Kube_Objects Operator_Util Kube_Reconciler Partition_Reassign Provider_Common Kafka_Provider
begin

text \<open>
  \<open>operator/controllers/kafka\<close>: the controller of the \<open>Kafka\<close> resource. It applies the objects of the
  brokers one after the other, waits for them, resizes their volumes, moves partitions when the number
  of brokers changes, synchronises SCRAM credentials, and takes a cluster from ZooKeeper to KRaft in
  recorded steps.

  The objects it applies are those of \<open>Kafka_Provider\<close>. Arguments (fields of \<open>kafkaEnv\<close>): the Kubernetes
  client, commands in pods, the clock, the hashes, the sarama admin client, a run of \<open>ReassignPartitions\<close>
  (which \<open>Partition_Reassign\<close> models, and which may not end), and what the provider takes from
  libraries (\<open>providerEnv\<close>: the order of maps and the parser of quantities).
  Pauses (\<open>time.Sleep\<close>) change nothing but the clock.
\<close>

section \<open>Data\<close>

text \<open>
  \<open>fe_Exec\<close> runs a command in a container and gives what it printed to both outputs. \<open>fe_ctxDone\<close> and
  \<open>fe_delayElapses\<close> are the context with the limit of ten minutes: whether it is done, and whether a
  pause ends before it is.
\<close>

record ('c, 'w) kafkaEnv =
  fe_kube :: "'w kubeClient"
  fe_Get :: "string \<Rightarrow> string \<Rightarrow> ('w, kafka) eff"
  fe_List :: "string \<Rightarrow> ('w, kafka list) eff"
  fe_UpdateStatus :: "kafka \<Rightarrow> ('w, unit) eff"
  fe_retryOnConflict :: "'w retrier"
  fe_setControllerReference :: refSetter
  fe_convertSecret :: "secret \<Rightarrow> go_error + secret"
  fe_convertService :: "service \<Rightarrow> go_error + service"
  fe_convertDeployment :: "deployment \<Rightarrow> go_error + deployment"
  fe_now :: "'w \<Rightarrow> string"
  fe_retries :: "int \<Rightarrow> int \<Rightarrow> 'w \<Rightarrow> nat"
  fe_ctxDone :: "'w \<Rightarrow> bool"
  fe_delayElapses :: "int \<Rightarrow> 'w \<Rightarrow> bool"
  fe_HashSpec :: "kafka \<Rightarrow> go_error + string"
  fe_HashAnnotations :: "string gomap \<Rightarrow> go_error + string"
  fe_StringHash :: "string \<Rightarrow> string"
  fe_Error :: "go_error \<Rightarrow> string"
  fe_Exec :: "string \<Rightarrow> string \<Rightarrow> string \<Rightarrow> string list \<Rightarrow> ('w, string \<times> string) eff"
  fe_GetNode :: "string \<Rightarrow> ('w, string gomap) eff"
  fe_x509KeyPair :: "string \<Rightarrow> string \<Rightarrow> go_error + 'c"
  fe_newConfig :: "'c saramaConfig"
  fe_newClusterAdmin :: "string list \<Rightarrow> 'c saramaConfig \<Rightarrow> ('w, 'w clusterAdmin) eff"
  fe_ReassignPartitions :: "kafkaClient \<Rightarrow> 'w clusterAdmin \<Rightarrow> ('w, unit) eff"
  fe_ApiGroup :: string
  fe_provider :: providerEnv

record kfMemory =
  kfm_ResourceHashes :: "string gomap"
  kfm_ResourceVersions :: "string gomap"

section \<open>Status of the custom resource\<close>

definition kf_ref :: "kafka \<Rightarrow> crRef" where
  "kf_ref cr = \<lparr>cr_Name = obj_Name cr, cr_Namespace = obj_Namespace cr, cr_APIVersion = kf_APIVersion cr, cr_Kind = kf_Kind cr\<rparr>"

definition kf_statusUpdater :: "('c, 'w) kafkaEnv \<Rightarrow> kafka \<Rightarrow> (kafka, 'w) statusUpdater" where
  "kf_statusUpdater env cr = \<lparr>su_Get = fe_Get env, su_UpdateStatus = fe_UpdateStatus env,
     su_name = obj_Name cr, su_namespace = obj_Namespace cr\<rparr>"

definition kf_updateStatus :: "('c, 'w) kafkaEnv \<Rightarrow> kafka \<Rightarrow> (kafka \<Rightarrow> kafka) \<Rightarrow> ('w, unit) eff" where
  "kf_updateStatus env cr = UpdateStatusWithRetry (kf_statusUpdater env cr) (fe_retryOnConflict env)"

definition kf_map_conditions :: "(statusCondition list \<Rightarrow> statusCondition list) \<Rightarrow> kafka \<Rightarrow> kafka" where
  "kf_map_conditions f cr = cr\<lparr>kf_Conditions := f (kf_Conditions cr)\<rparr>"

definition kf_updateConditions :: "('c, 'w) kafkaEnv \<Rightarrow> kafka \<Rightarrow> statusCondition \<Rightarrow> ('w, unit) eff" where
  "kf_updateConditions env cr condition =
     (\<lambda>w. updateConditions (kf_statusUpdater env cr) (fe_retryOnConflict env) kf_map_conditions (fe_now env w) condition w)"

definition kf_clearAllConditions :: "('c, 'w) kafkaEnv \<Rightarrow> kafka \<Rightarrow> ('w, unit) eff" where
  "kf_clearAllConditions env cr = clearAllConditions (kf_statusUpdater env cr) (fe_retryOnConflict env) kf_map_conditions"

section \<open>Applying objects\<close>

definition kf_own :: "('c, 'w) kafkaEnv \<Rightarrow> kafka \<Rightarrow> ('o k8sObject_scheme \<Rightarrow> go_error + 'o k8sObject_scheme) \<Rightarrow>
    'o k8sObject_scheme \<Rightarrow> ('w, unit) eff" where
  "kf_own env cr convert obj =
     bindE (liftE (SetControllerReference (fe_setControllerReference env) convert (kf_ref cr) (Typed obj))) (\<lambda>_. returnE ())"

definition kf_apply_service :: "('c, 'w) kafkaEnv \<Rightarrow> kafka \<Rightarrow> service \<Rightarrow> ('w, unit) eff" where
  "kf_apply_service env cr s = bindE (kf_own env cr (fe_convertService env) s) (\<lambda>_. CreateOrUpdateService (fe_kube env) s)"

definition kf_apply_deployment :: "('c, 'w) kafkaEnv \<Rightarrow> kafka \<Rightarrow> deployment \<Rightarrow> ('w, unit) eff" where
  "kf_apply_deployment env cr d = bindE (kf_own env cr (fe_convertDeployment env) d)
     (\<lambda>_. CreateOrUpdateDeployment (fe_kube env) (fe_retryOnConflict env) d)"

definition kf_apply_pvc :: "('c, 'w) kafkaEnv \<Rightarrow> kafka \<Rightarrow> persistentVolumeClaim option \<Rightarrow> ('w, unit) eff" where
  "kf_apply_pvc env cr persistentVolumeClaim = (case persistentVolumeClaim of
      None \<Rightarrow> returnE ()
    | Some pvc \<Rightarrow> CreatePersistentVolumeClaim (fe_kube env) pvc (kf_PVCStatusAnnotations cr))"

section \<open>Waiting\<close>

definition kf_waitingInterval :: int where "kf_waitingInterval = 10"

definition kf_ready :: "('c, 'w) kafkaEnv \<Rightarrow> kafka \<Rightarrow> string gomap \<Rightarrow> ('w, unit option) eff" where
  "kf_ready env cr labels =
     bindE (AreDeploymentsReady (fe_kube env) labels (obj_Namespace cr)) (\<lambda>ready. returnE (if ready then Some () else None))"

definition troubleshootingURL :: string where
  "troubleshootingURL = ''/docs/public/troubleshooting.md#kraft-migration-controller-is-not-ready''"

definition waitUntilControllerIsReady :: "('c, 'w) kafkaEnv \<Rightarrow> kafka \<Rightarrow> int \<Rightarrow> ('w, unit) eff" where
  "waitUntilControllerIsReady env cr maxWaitingInterval =
     tryE (PollImmediate (fe_retries env) kf_waitingInterval maxWaitingInterval (kf_ready env cr (controller_labels cr)))
       (\<lambda>err. throwE (Err (''kraft migration controller is not ready. See troubleshooting: '' @ troubleshootingURL @ '': ''
          @ fe_Error env err))) returnE"

definition waitUntilBrokerIsReady :: "('c, 'w) kafkaEnv \<Rightarrow> kafka \<Rightarrow> int \<Rightarrow> int \<Rightarrow> ('w, unit) eff" where
  "waitUntilBrokerIsReady env cr broker maxWaitingInterval =
     PollImmediate (fe_retries env) kf_waitingInterval maxWaitingInterval (kf_ready env cr (broker_labels cr broker))"

definition waitUntilAllBrokersReady :: "('c, 'w) kafkaEnv \<Rightarrow> kafka \<Rightarrow> int \<Rightarrow> ('w, unit) eff" where
  "waitUntilAllBrokersReady env cr maxWaitingInterval =
     PollImmediate (fe_retries env) kf_waitingInterval maxWaitingInterval (kf_ready env cr (GetSelectorLabels cr))"

section \<open>Commands in pods\<close>

definition runCommandInPod :: "('c, 'w) kafkaEnv \<Rightarrow> string \<Rightarrow> string \<Rightarrow> string \<Rightarrow> string list \<Rightarrow> ('w, string) eff" where
  "runCommandInPod env podName container namespace command =
     tryE (fe_Exec env podName container namespace command)
       (\<lambda>err. if strings_Contains (fe_Error env err) ''command terminated with exit code 127''
          then throwE (Err (''the command ['' @ strings_Join command '' '' @ ''] is not found in '' @ [CHR 0x27] @ podName
            @ [CHR 0x27] @ '' pod''))
          else throwE (Err (''there is a problem during command execution: '' @ fe_Error env err)))
       (\<lambda>(execOut, execErr).
          if execErr \<noteq> [] \<and> \<not> strings_Contains execErr ''zookeeper.ssl.keyStore.location not specified''
          then throwE (Err (''there is a problem during command execution: '' @ execErr))
          else returnE execOut)"

definition ErrNoKafkaPods :: go_error where
  "ErrNoKafkaPods = Err ''no Kafka pods found''"

definition getZooKeeperClusterID :: "('c, 'w) kafkaEnv \<Rightarrow> kafka \<Rightarrow> ('w, string) eff" where
  "getZooKeeperClusterID env cr =
     bindE (FindPodList (fe_kube env) (obj_Namespace cr) (GetSelectorLabels cr)) (\<lambda>foundPodList.
       case GetActualPodNames foundPodList of
         [] \<Rightarrow> throwE ErrNoKafkaPods
       | podName # _ \<Rightarrow>
           bindE (runCommandInPod env podName ''kafka'' (obj_Namespace cr)
             [''/bin/sh'', ''-c'', ''${KAFKA_HOME}/bin/get-cluster-id.sh'']) (\<lambda>zkClusterID. returnE (strings_TrimSpace zkClusterID)))"

definition resolveClusterID :: "('c, 'w) kafkaEnv \<Rightarrow> kafka \<Rightarrow> ('w, string) eff" where
  "resolveClusterID env cr =
     bindE (FindPodList (fe_kube env) (obj_Namespace cr) (GetSelectorLabels cr)) (\<lambda>podList.
       case podList of
         [] \<Rightarrow> throwE ErrNoKafkaPods
       | pod # _ \<Rightarrow>
           (case (case pod_Containers pod of [] \<Rightarrow> None
               | c # _ \<Rightarrow> find (\<lambda>e. env_Name e = ''KRAFT_CLUSTER_ID'' \<and> env_Value e \<noteq> []) (ctr_Env c)) of
              Some e \<Rightarrow> returnE (env_Value e)
            | None \<Rightarrow> getZooKeeperClusterID env cr))"

text \<open>\<open>podNames[0]\<close> is an index out of range when the controller has no pod.\<close>

definition getMigrationStatus :: "('c, 'w) kafkaEnv \<Rightarrow> kafka \<Rightarrow> ('w, bool) eff" where
  "getMigrationStatus env cr =
     tryE (FindPodList (fe_kube env) (obj_Namespace cr) (controller_labels cr)) (\<lambda>_. returnE False) (\<lambda>foundPodList.
       case GetActualPodNames foundPodList of
         [] \<Rightarrow> throwE Panic
       | podName # _ \<Rightarrow>
           tryE (runCommandInPod env podName ''kafka'' (obj_Namespace cr)
               [''/bin/sh'', ''-c'', ''${KAFKA_HOME}/bin/get-kraft-migration-status.sh''])
             (\<lambda>_. returnE False) (\<lambda>status. returnE (strings_TrimSpace status = ''true'')))"

definition waitUntilMigrationCompleted :: "('c, 'w) kafkaEnv \<Rightarrow> kafka \<Rightarrow> int \<Rightarrow> ('w, unit) eff" where
  "waitUntilMigrationCompleted env cr maxWaitingInterval =
     PollImmediate (fe_retries env) kf_waitingInterval maxWaitingInterval
       (bindE (getMigrationStatus env cr) (\<lambda>completed. returnE (if completed then Some () else None)))"

section \<open>Racks and external access\<close>

definition checkParamsForExternalAccess :: "kafka \<Rightarrow> int \<Rightarrow> go_error + unit" where
  "checkParamsForExternalAccess cr replicasCount =
     (let hosts = int (length (kf_ExternalHostNames cr)); ports = int (length (kf_ExternalPorts cr)) in
      if hosts > 0 then
        if hosts \<noteq> replicasCount then Inl (Err ''the number of external host names must be equal to replicas'')
        else if ports > 0 \<and> ports \<noteq> replicasCount
          then Inl (Err ''external ports must be empty or their number must be equal to replicas'')
        else Inr ()
      else Inr ())"

definition isGetRacksFromNodeLabelsEnabled :: "kafka \<Rightarrow> bool" where
  "isGetRacksFromNodeLabelsEnabled cr = (case kf_GetRacksFromNodeLabels cr of Some b \<Rightarrow> b | None \<Rightarrow> False)"

definition checkRacksConfig :: "kafka \<Rightarrow> int \<Rightarrow> go_error + unit" where
  "checkRacksConfig cr replicasCount =
     (if isGetRacksFromNodeLabelsEnabled cr then
        if kf_NodeLabelNameForRack cr = [] \<or> int (length (st_Nodes (kf_Storage cr))) \<noteq> replicasCount
        then Inl (Err ''when GetRacksFromNodeLabels=true, nodeLabelNameForRack and Storage.Nodes must be specified'')
        else Inr ()
      else let racksCount = int (length (kf_Racks cr)) in
        if racksCount > 0 \<and> racksCount \<noteq> replicasCount then Inl (Err ''the number of Racks must be equal to replicas'')
        else Inr ())"

definition getRack :: "('c, 'w) kafkaEnv \<Rightarrow> kafka \<Rightarrow> int \<Rightarrow> ('w, string) eff" where
  "getRack env cr broker =
     (if isGetRacksFromNodeLabelsEnabled cr then
        bindE (liftE (nth_of (st_Nodes (kf_Storage cr)) broker)) (\<lambda>node. GetNodeLabel (fe_GetNode env) node (kf_NodeLabelNameForRack cr))
      else if kf_Racks cr \<noteq> [] then liftE (nth_of (kf_Racks cr) broker)
      else returnE [])"

section \<open>Resizing volumes\<close>

definition brokerPVC :: "('c, 'w) kafkaEnv \<Rightarrow> kafka \<Rightarrow> int \<Rightarrow> ('w, persistentVolumeClaim) eff" where
  "brokerPVC env cr broker = GetPersistentVolumeClaim (fe_kube env) (''pvc-'' @ obj_Name cr @ ''-'' @ strconv_Itoa broker) (obj_Namespace cr)"

definition pvc_capacity :: "persistentVolumeClaim \<Rightarrow> int" where
  "pvc_capacity pvc = (case map_of (pvc_Capacity pvc) ''storage'' of Some q \<Rightarrow> q | None \<Rightarrow> 0)"

definition pvcResizePending :: "persistentVolumeClaim \<Rightarrow> bool" where
  "pvcResizePending pvc \<longleftrightarrow> ''Resizing'' \<in> set (pvc_Conditions pvc) \<or> ''FileSystemResizePending'' \<in> set (pvc_Conditions pvc)"

definition missing_pvc :: "go_error \<Rightarrow> ('w, 'a option) eff" where
  "missing_pvc err = (if IsNotFound err then returnE None else throwE err)"

definition waitForBrokerPVCResizeState :: "('c, 'w) kafkaEnv \<Rightarrow> kafka \<Rightarrow> int \<Rightarrow> int \<Rightarrow> ('w, bool) eff" where
  "waitForBrokerPVCResizeState env cr broker desired =
     PollImmediate (fe_retries env) 1 120 (tryE (brokerPVC env cr broker) missing_pvc (\<lambda>pvc.
       returnE (if pvc_capacity pvc \<ge> desired then Some False else if pvcResizePending pvc then Some True else None)))"

definition waitForBrokerPVCCapacity :: "('c, 'w) kafkaEnv \<Rightarrow> kafka \<Rightarrow> int \<Rightarrow> int \<Rightarrow> int \<Rightarrow> ('w, bool) eff" where
  "waitForBrokerPVCCapacity env cr broker desired timeout =
     tryE (PollImmediate (fe_retries env) 1 timeout (tryE (brokerPVC env cr broker) missing_pvc (\<lambda>pvc.
         returnE (if pvc_capacity pvc \<ge> desired then Some True else None))))
       (\<lambda>err. if err = Deadline then returnE False else throwE err) returnE"

definition waitUntilBrokerPodsDeleted :: "('c, 'w) kafkaEnv \<Rightarrow> kafka \<Rightarrow> int \<Rightarrow> ('w, unit) eff" where
  "waitUntilBrokerPodsDeleted env cr broker = PollImmediate (fe_retries env) 1 120
     (bindE (FindPodList (fe_kube env) (obj_Namespace cr) (broker_labels cr broker)) (\<lambda>pods.
        returnE (if pods = [] then Some () else None)))"

definition resize_timeout :: "int \<Rightarrow> go_error" where
  "resize_timeout broker = Err (''timeout waiting for broker '' @ strconv_Itoa broker @ '' PVC resize'')"

definition resize_delay :: "nat \<Rightarrow> int" where
  "resize_delay attempt = 10 * 2 ^ (attempt - 1)"

lemma resize_delay_grows: "int attempt \<le> resize_delay attempt"
proof (cases attempt)
  case (Suc n)
  have "n < 2 ^ n" by (rule less_exp)
  then have "Suc n \<le> 10 * 2 ^ n" by linarith
  then have "int (Suc n) \<le> int (10 * 2 ^ n)" by (rule of_nat_mono)
  then show ?thesis by (simp add: Suc resize_delay_def)
qed (simp add: resize_delay_def)

text \<open>
  The loop of \<open>scaleBrokerForPVCResize\<close>. A pause that is longer than the limit of the context never ends
  before the context is done.
\<close>

function resize_loop :: "('c, 'w) kafkaEnv \<Rightarrow> kafka \<Rightarrow> int \<Rightarrow> int \<Rightarrow> nat \<Rightarrow> ('w, unit) eff" where
  "resize_loop env cr broker desired attempt =
     bindE (getsE (fe_ctxDone env)) (\<lambda>isDone. if isDone then throwE (resize_timeout broker) else
     bindE (ScaleDeployment (fe_kube env) (broker_name cr broker) 0 (obj_Namespace cr)) (\<lambda>_.
     bindE (waitUntilBrokerPodsDeleted env cr broker) (\<lambda>_.
     bindE (getsE (fe_delayElapses env (resize_delay attempt))) (\<lambda>elapses.
     if resize_delay attempt > 600 then throwE (resize_timeout broker)
     else if \<not> elapses then throwE (resize_timeout broker) else
     bindE (ScaleDeployment (fe_kube env) (broker_name cr broker) 1 (obj_Namespace cr)) (\<lambda>_.
     bindE (waitForBrokerPVCCapacity env cr broker desired 30) (\<lambda>resized.
     if resized then waitUntilBrokerIsReady env cr broker 300
     else resize_loop env cr broker desired (attempt + 1)))))))"
  by pat_completeness auto

termination
proof (relation "measure (\<lambda>(env, cr, broker, desired, attempt). 700 - attempt)")
  fix attempt :: nat
  assume "\<not> 600 < resize_delay attempt"
  then have "attempt < 700" using resize_delay_grows[of attempt] by linarith
  then show "((env, cr, broker, desired, attempt + 1), env, cr, broker, desired, attempt)
      \<in> measure (\<lambda>(env, cr, broker, desired, attempt). 700 - attempt)" for env :: "('c, 'w) kafkaEnv" and cr broker desired
    by simp
qed simp

declare resize_loop.simps [simp del]

definition scaleBrokerForPVCResize :: "('c, 'w) kafkaEnv \<Rightarrow> kafka \<Rightarrow> int \<Rightarrow> int \<Rightarrow> ('w, unit) eff" where
  "scaleBrokerForPVCResize env cr broker desired = resize_loop env cr broker desired 1"

definition restartBrokerAfterPVCResize :: "('c, 'w) kafkaEnv \<Rightarrow> kafka \<Rightarrow> int \<Rightarrow> ('w, unit) eff" where
  "restartBrokerAfterPVCResize env cr broker =
     (if st_Size (kf_Storage cr) = [] then returnE () else
      bindE (liftE (pe_ParseQuantity (fe_provider env) (st_Size (kf_Storage cr)))) (\<lambda>desired.
      tryE (brokerPVC env cr broker) (\<lambda>err. if IsNotFound err then returnE () else throwE err) (\<lambda>pvc.
        if pvc_capacity pvc \<ge> desired then returnE () else
        bindE (waitForBrokerPVCResizeState env cr broker desired) (\<lambda>restartRequired.
          if \<not> restartRequired then returnE () else scaleBrokerForPVCResize env cr broker desired))))"

section \<open>Credentials\<close>

definition secretCredsHash :: "('c, 'w) kafkaEnv \<Rightarrow> secret \<Rightarrow> string \<Rightarrow> string \<Rightarrow> string" where
  "secretCredsHash env secret usernameKey passwordKey =
     (let nul = [CHR 0x00] in fe_StringHash env (usernameKey @ nul @ secret_data secret usernameKey @ nul @ passwordKey @ nul
        @ secret_data secret passwordKey))"

definition adminHash :: "('c, 'w) kafkaEnv \<Rightarrow> secret \<Rightarrow> string" where
  "adminHash env secret = secretCredsHash env secret ''admin-username'' ''admin-password''"

definition clientHash :: "('c, 'w) kafkaEnv \<Rightarrow> secret \<Rightarrow> string" where
  "clientHash env secret = secretCredsHash env secret ''client-username'' ''client-password''"

definition adminChanged :: "('c, 'w) kafkaEnv \<Rightarrow> kfMemory \<Rightarrow> secret \<Rightarrow> bool" where
  "adminChanged env m secret \<longleftrightarrow> mstr (kfm_ResourceHashes m) ''secret-admin-creds'' \<noteq> []
     \<and> mstr (kfm_ResourceHashes m) ''secret-admin-creds'' \<noteq> adminHash env secret"

definition clientChanged :: "('c, 'w) kafkaEnv \<Rightarrow> kfMemory \<Rightarrow> secret \<Rightarrow> bool" where
  "clientChanged env m secret \<longleftrightarrow> mstr (kfm_ResourceHashes m) ''secret-client-creds'' \<noteq> []
     \<and> mstr (kfm_ResourceHashes m) ''secret-client-creds'' \<noteq> clientHash env secret"

text \<open>In the script a single quote of a name or password is closed, put into double quotes, and opened again.\<close>

definition shell_escape :: "string \<Rightarrow> string" where
  "shell_escape s = strings_ReplaceAll s [CHR 0x27] [CHR 0x27, CHR 0x22, CHR 0x27, CHR 0x22, CHR 0x27]"

definition scram_args :: "string \<Rightarrow> string \<Rightarrow> string" where
  "scram_args username password =
     (let nl = [CHR ''\<newline>'']; sq = [CHR 0x27]; cont = '' '' @ [CHR 0x5C] @ nl in
      ''--alter --entity-type users --entity-name '' @ sq @ shell_escape username @ sq @ cont
      @ ''  --add-config '' @ sq @ ''SCRAM-SHA-512=[password='' @ shell_escape password @ '']'' @ sq @ nl)"

definition scram_script :: "string \<Rightarrow> string \<Rightarrow> string" where
  "scram_script username password =
     (let nl = [CHR ''\<newline>'']; dq = [CHR 0x22]; cont = '' '' @ [CHR 0x5C] @ nl in
      nl @ ''adminclient='' @ dq @ ''${KAFKA_HOME}/bin/adminclient.properties'' @ dq @ nl
      @ ''if [ -f /tmp/kafka/bin/adminclient.properties ]; then'' @ nl
      @ ''  adminclient=/tmp/kafka/bin/adminclient.properties'' @ nl
      @ ''fi'' @ nl
      @ ''${KAFKA_HOME}/bin/kafka-configs.sh --bootstrap-server localhost:9092'' @ cont
      @ ''  --command-config '' @ dq @ ''$adminclient'' @ dq @ cont
      @ ''  '' @ scram_args username password)"

definition updateScramUserInPod :: "('c, 'w) kafkaEnv \<Rightarrow> kafka \<Rightarrow> string \<Rightarrow> string \<Rightarrow> string \<Rightarrow> ('w, unit) eff" where
  "updateScramUserInPod env cr podName username password =
     bindE (runCommandInPod env podName ''kafka'' (obj_Namespace cr) [''/bin/sh'', ''-c'', scram_script username password])
       (\<lambda>_. returnE ())"

definition syncScramCredentials :: "('c, 'w) kafkaEnv \<Rightarrow> kafka \<Rightarrow> kfMemory \<Rightarrow> secret \<Rightarrow> ('w, unit) eff" where
  "syncScramCredentials env cr m kafkaSecret =
     (let adminUsername = secret_data kafkaSecret ''admin-username''; adminPassword = secret_data kafkaSecret ''admin-password'';
          clientUsername = secret_data kafkaSecret ''client-username''; clientPassword = secret_data kafkaSecret ''client-password'' in
      if adminUsername = [] \<or> adminPassword = [] then returnE () else
      bindE (FindPodList (fe_kube env) (obj_Namespace cr) (GetSelectorLabels cr)) (\<lambda>pods.
        case GetFirstAvailablePod pods of
          None \<Rightarrow> returnE ()
        | Some pod \<Rightarrow>
            forE ((if adminChanged env m kafkaSecret then [(adminUsername, adminPassword)] else [])
                @ (if clientChanged env m kafkaSecret \<and> clientUsername \<noteq> [] then [(clientUsername, clientPassword)] else []))
              (\<lambda>(name, password). tryE (updateScramUserInPod env cr (obj_Name pod) name password)
                (\<lambda>err. throwE (Err (''failed to update SCRAM credentials in pod '' @ obj_Name pod @ '': '' @ fe_Error env err))) returnE)))"

definition kf_getKafkaCredentials :: "('c, 'w) kafkaEnv \<Rightarrow> kafka \<Rightarrow> ('w, string \<times> string) eff" where
  "kf_getKafkaCredentials env cr =
     bindE (FindSecret (fe_kube env) (kf_SecretName cr) (obj_Namespace cr)) (\<lambda>foundSecret.
       returnE (secret_data foundSecret ''client-username'', secret_data foundSecret ''client-password''))"

definition kf_getKafkaCertificates :: "('c, 'w) kafkaEnv \<Rightarrow> kafka \<Rightarrow> ('w, sslCertificates) eff" where
  "kf_getKafkaCertificates env cr =
     (if ssl_Enabled (kf_Ssl cr) \<and> ssl_SecretName (kf_Ssl cr) \<noteq> [] then GetSslCertificates (fe_kube env) (ssl_SecretName (kf_Ssl cr)) (obj_Namespace cr)
      else returnE \<lparr>CaCert = [], TlsCert = [], TlsKey = []\<rparr>)"

section \<open>Brokers\<close>

definition addDeploymentAnnotation :: "string \<Rightarrow> string \<Rightarrow> deployment \<Rightarrow> deployment" where
  "addDeploymentAnnotation annotationName annotationValue d =
     d\<lparr>dep_TemplateAnnotations := mput annotationName annotationValue (dep_TemplateAnnotations d)\<rparr>"

definition rolloutBroker :: "('c, 'w) kafkaEnv \<Rightarrow> kafka \<Rightarrow> kfMemory \<Rightarrow> int \<Rightarrow> bool \<Rightarrow> secret \<Rightarrow> ('w, unit) eff" where
  "rolloutBroker env cr m broker kraft kafkaSecret =
     bindE (kf_apply_service env cr (NewKafkaBrokerServiceForCR cr broker)) (\<lambda>_.
      bindE (liftE (NewKafkaPersistentVolumeClaimForCR (fe_provider env) cr broker)) (\<lambda>persistentVolumeClaim.
      bindE (kf_apply_pvc env cr persistentVolumeClaim) (\<lambda>_.
      bindE (getRack env cr broker) (\<lambda>rack.
      bindE (if kraft then tryE (resolveClusterID env cr) (\<lambda>err. if err \<noteq> ErrNoKafkaPods then throwE err else returnE []) returnE
             else returnE []) (\<lambda>clusterID.
      bindE (liftE (NewKafkaBrokerDeploymentForCR (fe_provider env) cr broker rack kraft clusterID)) (\<lambda>brokerDeployment.
      bindE (kf_own env cr (fe_convertDeployment env) brokerDeployment) (\<lambda>_.
        CreateOrUpdateDeployment (fe_kube env) (fe_retryOnConflict env)
          (if adminChanged env m kafkaSecret \<or> clientChanged env m kafkaSecret
              \<or> mstr (obj_Annotations kafkaSecret) autoRestartAnnotation = ''true''
           then addDeploymentAnnotation (resourceVersionAnnotation (obj_Name kafkaSecret)) (obj_ResourceVersion kafkaSecret) brokerDeployment
           else brokerDeployment))))))))"

definition rolloutBrokers :: "('c, 'w) kafkaEnv \<Rightarrow> kafka \<Rightarrow> kfMemory \<Rightarrow> int \<Rightarrow> bool \<Rightarrow> secret \<Rightarrow> ('w, unit) eff" where
  "rolloutBrokers env cr m replicas kraft kafkaSecret =
     (let waitForEachBroker = (kf_RollingUpdate cr \<and> \<not> adminChanged env m kafkaSecret) in
      bindE (forE [1..replicas] (\<lambda>broker.
        bindE (rolloutBroker env cr m broker kraft kafkaSecret) (\<lambda>_.
        bindE (restartBrokerAfterPVCResize env cr broker) (\<lambda>_.
          whenE waitForEachBroker (waitUntilBrokerIsReady env cr broker 300))))) (\<lambda>_.
      whenE (adminChanged env m kafkaSecret) (waitUntilAllBrokersReady env cr (kf_PodsReadyTimeout cr))))"

text \<open>\<open>*deployment.Spec.Replicas\<close> is a nil dereference where the number is not set.\<close>

fun count_deployments :: "deployment list \<Rightarrow> go_error + int" where
  "count_deployments [] = Inr 0"
| "count_deployments (d # ds) = (case dep_Replicas d of
      None \<Rightarrow> Inl Panic
    | Some replicas \<Rightarrow> map_sum id (\<lambda>n. if 0 <s replicas then n + 1 else n) (count_deployments ds))"

definition getCurrentDeploymentsCount :: "('c, 'w) kafkaEnv \<Rightarrow> kafka \<Rightarrow> ('w, int) eff" where
  "getCurrentDeploymentsCount env cr =
     bindE (FindKafkaDeployments (fe_kube env) (obj_Name cr) (obj_Namespace cr)) (\<lambda>ds. liftE (count_deployments ds))"

definition strconv_ParseBool :: "string \<Rightarrow> go_error + bool" where
  "strconv_ParseBool s =
     (if s \<in> set [''1'', ''t'', ''T'', ''true'', ''TRUE'', ''True''] then Inr True
      else if s \<in> set [''0'', ''f'', ''F'', ''false'', ''FALSE'', ''False''] then Inr False
      else Inl (Err (''strconv.ParseBool: parsing '' @ [CHR 0x22] @ s @ [CHR 0x22] @ '': invalid syntax'')))"

definition isRollingUpdateApplicable :: "('c, 'w) kafkaEnv \<Rightarrow> kafka \<Rightarrow> int \<Rightarrow> ('w, bool) eff" where
  "isRollingUpdateApplicable env cr currentReplicas =
     (if currentReplicas < 3 then returnE False else
      bindE (FindKafkaDeployments (fe_kube env) (obj_Name cr) (obj_Namespace cr)) (\<lambda>deployments.
        case deployments of
          [] \<Rightarrow> throwE Panic
        | d # _ \<Rightarrow>
            bindE (liftE (GetDeploymentParameterWithDefault d ''ENABLE_SSL'' ''false'')) (\<lambda>value.
            bindE (liftE (strconv_ParseBool value)) (\<lambda>previousTLSEnabled.
              returnE (previousTLSEnabled = ssl_Enabled (kf_Ssl cr))))))"

definition performBrokerScalingIn :: "('c, 'w) kafkaEnv \<Rightarrow> kafka \<Rightarrow> int \<Rightarrow> int \<Rightarrow> ('w, unit) eff" where
  "performBrokerScalingIn env cr currentReplicas requiredReplicas =
     forE [requiredReplicas + 1..currentReplicas] (\<lambda>i. ScaleDeployment (fe_kube env) (broker_name cr i) 0 (obj_Namespace cr))"

section \<open>Moving partitions\<close>

definition set_reassignment :: "('c, 'w) kafkaEnv \<Rightarrow> kafka \<Rightarrow> string \<Rightarrow> ('w, unit) eff" where
  "set_reassignment env cr status = kf_updateStatus env cr (\<lambda>i. i\<lparr>kf_ReassignmentStatus := status\<rparr>)"

definition reassignPartitions :: "('c, 'w) kafkaEnv \<Rightarrow> kafka \<Rightarrow> int \<Rightarrow> bool \<Rightarrow> ('w, unit) eff" where
  "reassignPartitions env cr brokersCount clusterScaling =
     (if \<not> IsReassignPartitionsEnabled cr clusterScaling then set_reassignment env cr ''Disabled''
      else if clusterScaling \<or> kf_ReassignmentStatus cr \<noteq> ''Finished'' then
        bindE (set_reassignment env cr ''In Progress'') (\<lambda>_.
        bindE (kf_getKafkaCredentials env cr) (\<lambda>(username, password).
        bindE (kf_getKafkaCertificates env cr) (\<lambda>sslCertificates.
        bindE (NewKafkaClient (fe_x509KeyPair env) (fe_newConfig env) (fe_newClusterAdmin env) (GetServiceName cr) username password
          (ssl_Enabled (kf_Ssl cr)) sslCertificates brokersCount (GetAllBrokersStartTimeoutSeconds cr)
          (GetTopicReassignmentTimeoutSeconds cr)) (\<lambda>(kafkaClient, admin).
        bindE (fe_ReassignPartitions env kafkaClient admin) (\<lambda>_. set_reassignment env cr ''Finished'')))))
      else returnE ())"

definition reassignPartitionsWithStatusUpdate :: "('c, 'w) kafkaEnv \<Rightarrow> kafka \<Rightarrow> int \<Rightarrow> bool \<Rightarrow> ('w, unit) eff" where
  "reassignPartitionsWithStatusUpdate env cr replicas clusterScaling =
     tryE (reassignPartitions env cr replicas clusterScaling)
       (\<lambda>err. bindE (set_reassignment env cr ''Failed'') (\<lambda>_. throwE err)) returnE"

section \<open>From ZooKeeper to KRaft\<close>

text \<open>The deployment of a broker during the migration: with the environment variables added to its first
  container.\<close>

definition add_envs :: "envVar list \<Rightarrow> deployment \<Rightarrow> go_error + deployment" where
  "add_envs envs d = (case dep_Containers d of
      [] \<Rightarrow> Inl Panic
    | c # cs \<Rightarrow> Inr (d\<lparr>dep_Containers := c\<lparr>ctr_Env := ctr_Env c @ envs\<rparr> # cs\<rparr>))"

definition controller_voter :: "kafka \<Rightarrow> string" where
  "controller_voter cr = ''3000@'' @ controller_name cr @ '':9092''"

definition migration_deployment :: "providerEnv \<Rightarrow> kafka \<Rightarrow> int \<Rightarrow> string \<Rightarrow> int \<Rightarrow> string \<Rightarrow> bool \<Rightarrow> go_error + deployment" where
  "migration_deployment pe cr broker brokerRack replicas zkClusterID migrated =
     (if \<not> migrated then
        bindR (NewKafkaBrokerDeploymentForCR pe cr broker brokerRack False zkClusterID)
          (add_envs [var ''MIGRATION_BROKER'' ''true'', var ''VOTERS'' (controller_voter cr)])
      else
        bindR (NewKafkaBrokerDeploymentForCR pe cr broker brokerRack True zkClusterID)
          (add_envs [var ''VOTERS'' (strings_Join (map (broker_voter cr) [1..replicas] @ [controller_voter cr]) '','')]))"

definition updateBrokerDeploymentForMigration :: "('c, 'w) kafkaEnv \<Rightarrow> kafka \<Rightarrow> int \<Rightarrow> int \<Rightarrow> string \<Rightarrow> bool \<Rightarrow> ('w, unit) eff" where
  "updateBrokerDeploymentForMigration env cr broker replicas zkClusterID migrated =
     bindE (getRack env cr broker) (\<lambda>rack.
     bindE (liftE (migration_deployment (fe_provider env) cr broker rack replicas zkClusterID migrated)) (kf_apply_deployment env cr))"

definition createMigrationControllerEntities :: "('c, 'w) kafkaEnv \<Rightarrow> kafka \<Rightarrow> string \<Rightarrow> ('w, unit) eff" where
  "createMigrationControllerEntities env cr zkClusterID =
     bindE (kf_apply_service env cr (NewKafkaControllerServiceForCR cr)) (\<lambda>_.
      bindE (liftE (NewKafkaControllerPersistentVolumeClaimForCR (fe_provider env) cr)) (\<lambda>persistentVolumeClaim.
      bindE (kf_apply_pvc env cr persistentVolumeClaim) (\<lambda>_.
      bindE (kf_apply_deployment env cr (NewKafkaKraftControllerDeploymentForCR (fe_provider env) cr zkClusterID False True)) (\<lambda>_.
        waitUntilControllerIsReady env cr (kr_MigrationTimeout (kf_Kraft cr))))))"

definition removeMigrationControllerEntities :: "('c, 'w) kafkaEnv \<Rightarrow> kafka \<Rightarrow> string \<Rightarrow> ('w, unit) eff" where
  "removeMigrationControllerEntities env cr zkClusterID =
     bindE (DeleteService (fe_kube env) (NewKafkaControllerServiceForCR cr)) (\<lambda>_.
      bindE (liftE (NewKafkaControllerPersistentVolumeClaimForCR (fe_provider env) cr)) (\<lambda>persistentVolumeClaim.
      bindE (case persistentVolumeClaim of None \<Rightarrow> returnE () | Some pvc \<Rightarrow> DeletePersistentVolumeClaim (fe_kube env) pvc) (\<lambda>_.
        DeleteDeployment (fe_kube env) (NewKafkaKraftControllerDeploymentForCR (fe_provider env) cr zkClusterID False True))))"

definition updateMigrationControllerWithoutZooKeeper :: "('c, 'w) kafkaEnv \<Rightarrow> kafka \<Rightarrow> string \<Rightarrow> ('w, unit) eff" where
  "updateMigrationControllerWithoutZooKeeper env cr zkClusterID =
     bindE (kf_apply_deployment env cr (NewKafkaKraftControllerDeploymentForCR (fe_provider env) cr zkClusterID True False)) (\<lambda>_.
       waitUntilControllerIsReady env cr (kr_MigrationTimeout (kf_Kraft cr)))"

definition ensureMigrationControllerIsReady :: "('c, 'w) kafkaEnv \<Rightarrow> kafka \<Rightarrow> ('w, unit) eff" where
  "ensureMigrationControllerIsReady env cr =
     (let quoted = [CHR 0x22] @ controller_name cr @ [CHR 0x22] in
      tryE (FindDeployment (fe_kube env) (controller_name cr) (obj_Namespace cr))
        (\<lambda>err. if IsNotFound err
           then throwE (Err (''kraft migration controller deployment '' @ quoted @ '' was not found. See troubleshooting: '' @ troubleshootingURL))
           else throwE err)
        (\<lambda>_. bindE (AreDeploymentsReady (fe_kube env) (controller_labels cr) (obj_Namespace cr)) (\<lambda>ready.
           if \<not> ready then throwE (Err (''kraft migration controller deployment '' @ quoted
             @ '' is not ready yet. Wait until its readiness probe succeeds before continuing migration. See troubleshooting: ''
             @ troubleshootingURL))
           else returnE ())))"

definition wait_for_brokers :: "('c, 'w) kafkaEnv \<Rightarrow> kafka \<Rightarrow> int \<Rightarrow> ('w, unit) eff" where
  "wait_for_brokers env cr currentReplicas =
     forE [1..currentReplicas] (\<lambda>broker. waitUntilBrokerIsReady env cr broker (kr_MigrationTimeout (kf_Kraft cr)))"

definition updateBrokersAndWaitMigrationResult :: "('c, 'w) kafkaEnv \<Rightarrow> kafka \<Rightarrow> string \<Rightarrow> int \<Rightarrow> ('w, unit) eff" where
  "updateBrokersAndWaitMigrationResult env cr zkClusterID currentReplicas =
     bindE (forE [1..currentReplicas] (\<lambda>broker.
         bindE (updateBrokerDeploymentForMigration env cr broker currentReplicas zkClusterID False) (\<lambda>_.
           waitUntilBrokerIsReady env cr broker (kr_MigrationTimeout (kf_Kraft cr))))) (\<lambda>_.
       waitUntilMigrationCompleted env cr (kr_MigrationTimeout (kf_Kraft cr)))"

definition updateBrokersWithoutZooKeeper :: "('c, 'w) kafkaEnv \<Rightarrow> kafka \<Rightarrow> string \<Rightarrow> int \<Rightarrow> ('w, unit) eff" where
  "updateBrokersWithoutZooKeeper env cr zkClusterID currentReplicas =
     bindE (forE [1..currentReplicas] (\<lambda>broker. updateBrokerDeploymentForMigration env cr broker currentReplicas zkClusterID True))
       (\<lambda>_. wait_for_brokers env cr currentReplicas)"

definition updateBrokersWithoutKraftMigrationController :: "('c, 'w) kafkaEnv \<Rightarrow> kafka \<Rightarrow> string \<Rightarrow> int \<Rightarrow> ('w, unit) eff" where
  "updateBrokersWithoutKraftMigrationController env cr zkClusterID currentReplicas =
     bindE (forE [1..currentReplicas] (\<lambda>broker.
         bindE (getRack env cr broker) (\<lambda>rack.
         bindE (liftE (NewKafkaBrokerDeploymentForCR (fe_provider env) cr broker rack True zkClusterID)) (kf_apply_deployment env cr))))
       (\<lambda>_. wait_for_brokers env cr currentReplicas)"

definition migration_step :: "string \<Rightarrow> nat" where
  "migration_step status =
     (if status = ''Created Kraft controller with connection to ZooKeeper'' then 1
      else if status = ''Migrated metadata from ZooKeeper to Kraft in controller'' then 2
      else if status = ''Removed ZooKeeper connection and created Kraft cluster'' then 3
      else if status = ''Migration finished succesfully'' then 4
      else 0)"

definition set_migration :: "('c, 'w) kafkaEnv \<Rightarrow> kafka \<Rightarrow> string \<Rightarrow> ('w, unit) eff" where
  "set_migration env cr status = kf_updateStatus env cr (\<lambda>i. i\<lparr>kf_MigrationStatus := status\<rparr>)"

text \<open>The four stages, from the recorded step on.\<close>

definition migration_stages :: "('c, 'w) kafkaEnv \<Rightarrow> kafka \<Rightarrow> int \<Rightarrow> nat \<Rightarrow> string \<Rightarrow> ('w, unit) eff" where
  "migration_stages env cr currentReplicas step zkClusterID =
     bindE (whenE (step < 1)
       (bindE (createMigrationControllerEntities env cr zkClusterID) (\<lambda>_.
         set_migration env cr ''Created Kraft controller with connection to ZooKeeper''))) (\<lambda>_.
     bindE (whenE (step < 2) (ensureMigrationControllerIsReady env cr)) (\<lambda>_.
     bindE (whenE (step < 2)
       (bindE (updateBrokersAndWaitMigrationResult env cr zkClusterID currentReplicas) (\<lambda>_.
         set_migration env cr ''Migrated metadata from ZooKeeper to Kraft in controller''))) (\<lambda>_.
     bindE (whenE (step < 3)
       (bindE (updateBrokersWithoutZooKeeper env cr zkClusterID currentReplicas) (\<lambda>_.
        bindE (updateMigrationControllerWithoutZooKeeper env cr zkClusterID) (\<lambda>_.
         set_migration env cr ''Removed ZooKeeper connection and created Kraft cluster'')))) (\<lambda>_.
     whenE (step < 4)
       (bindE (updateBrokersWithoutKraftMigrationController env cr zkClusterID currentReplicas) (\<lambda>_.
        bindE (removeMigrationControllerEntities env cr zkClusterID) (\<lambda>_.
         set_migration env cr ''Migration finished succesfully'')))))))"

text \<open>Where the status cannot be read the pointer to it is \<open>nil\<close>, and writing through it panics.\<close>

definition kraft_migration :: "('c, 'w) kafkaEnv \<Rightarrow> kafka \<Rightarrow> int \<Rightarrow> ('w, unit) eff" where
  "kraft_migration env cr currentReplicas =
     tryE (GetStatus (kf_statusUpdater env cr) kf_MigrationStatus) (\<lambda>_. throwE Panic) (\<lambda>status.
       let step = migration_step status in
       bindE (if step < 4 then getZooKeeperClusterID env cr else returnE []) (\<lambda>zkClusterID.
         migration_stages env cr currentReplicas step zkClusterID))"

section \<open>The reconciler\<close>

definition NewServiceAccountForKafka :: "kafka \<Rightarrow> serviceAccount" where
  "NewServiceAccountForKafka cr = NewServiceAccount (kf_GetServiceAccountName cr) (obj_Namespace cr) (kf_DefaultLabels cr)"

definition scale_partitions :: "('c, 'w) kafkaEnv \<Rightarrow> kafka \<Rightarrow> int \<Rightarrow> ('w, unit) eff" where
  "scale_partitions env cr currentReplicas =
     (let replicas = kf_Replicas cr in
      if currentReplicas > 0 \<and> currentReplicas < replicas
      then reassignPartitionsWithStatusUpdate env cr (int32 replicas) True
      else bindE (reassignPartitionsWithStatusUpdate env cr (int32 replicas) False) (\<lambda>_.
        if currentReplicas > replicas \<and> IsBrokerScalingInEnabled cr then performBrokerScalingIn env cr currentReplicas replicas
        else returnE ()))"

definition common_objects :: "('c, 'w) kafkaEnv \<Rightarrow> kafka \<Rightarrow> ('w, unit) eff" where
  "common_objects env cr =
     (let k = fe_kube env in
      bindE (kf_apply_service env cr (NewKafkaClientServiceForCR cr)) (\<lambda>_.
      bindE (kf_apply_service env cr (NewKafkaDomainClientServiceForCR cr)) (\<lambda>_.
      bindE (CreateSecret k (NewEmptySecret cr (obj_Name cr @ ''-trusted-certs''))) (\<lambda>_.
      bindE (CreateSecret k (NewEmptySecret cr (obj_Name cr @ ''-public-certs''))) (\<lambda>_.
        CreateOrUpdateServiceAccount k (NewServiceAccountForKafka cr))))))"

definition processKafkaReplicas :: "('c, 'w) kafkaEnv \<Rightarrow> kafka \<Rightarrow> kfMemory \<Rightarrow> secret \<Rightarrow> ('w, unit) eff" where
  "processKafkaReplicas env cr m kafkaSecret =
     bindE (liftE (checkParamsForExternalAccess cr (kf_Replicas cr))) (\<lambda>_.
     bindE (liftE (checkRacksConfig cr (kf_Replicas cr))) (\<lambda>_.
     bindE (common_objects env cr) (\<lambda>_.
     bindE (getCurrentDeploymentsCount env cr) (\<lambda>currentReplicas.
     bindE (if kf_RollingUpdate cr
         then bindE (isRollingUpdateApplicable env cr currentReplicas) (\<lambda>ok. returnE (if ok then cr else cr\<lparr>kf_RollingUpdate := False\<rparr>))
         else returnE cr) (\<lambda>cr.
     bindE (whenE (kr_Migration (kf_Kraft cr)) (kraft_migration env cr currentReplicas)) (\<lambda>_.
     bindE (rolloutBrokers env cr m (kf_Replicas cr) (kr_Enabled (kf_Kraft cr)) kafkaSecret) (\<lambda>_.
       scale_partitions env cr currentReplicas)))))))"

definition updateKafkaStatus :: "('c, 'w) kafkaEnv \<Rightarrow> kafka \<Rightarrow> ('w, unit) eff" where
  "updateKafkaStatus env cr =
     bindE (FindPodList (fe_kube env) (obj_Namespace cr) (GetSelectorLabels cr)) (\<lambda>foundPodList.
       kf_updateStatus env cr (\<lambda>i. i\<lparr>kf_Brokers := sort (GetPodNames foundPodList)\<rparr>))"

text \<open>The credentials for the services; writing to the \<open>nil\<close> map of a secret without data panics.\<close>

definition update_services_secret :: "('c, 'w) kafkaEnv \<Rightarrow> kafka \<Rightarrow> secret \<Rightarrow> ('w, unit) eff" where
  "update_services_secret env cr kafkaSecret =
     tryE (FindSecret (fe_kube env) (obj_Name cr @ ''-services-secret'') (obj_Namespace cr))
       (\<lambda>err. if IsNotFound err then returnE () else throwE err)
       (\<lambda>kafkaServicesSecret. case sec_Data kafkaServicesSecret of
          None \<Rightarrow> throwE Panic
        | Some d \<Rightarrow>
            (let user = secret_data kafkaSecret ''client-username''; password = secret_data kafkaSecret ''client-password'' in
             UpdateSecret (fe_kube env) (fe_retryOnConflict env) (kafkaServicesSecret\<lparr>sec_Data :=
               Some (mput ''client-password'' password (mput ''client-username'' user
                 (mput ''admin-password'' password (mput ''admin-username'' user d))))\<rparr>)))"

definition Kafka_Reconcile :: "('c, 'w) kafkaEnv \<Rightarrow> kafka \<Rightarrow> ('w \<times> kfMemory, unit) eff" where
  "Kafka_Reconcile env cr =
     bindE (on_fst (WatchSecret (fe_kube env) (fe_retryOnConflict env) (fe_setControllerReference env) (fe_convertSecret env)
       (kf_SecretName cr) (kf_ref cr))) (\<lambda>kafkaSecret.
     bindE (liftE (fe_HashSpec env cr)) (\<lambda>kafkaSpecHash.
     bindE (getsE snd) (\<lambda>m.
       let secretChanged = (obj_Name kafkaSecret \<noteq> [] \<and> mstr (kfm_ResourceVersions m) (obj_Name kafkaSecret) \<noteq> obj_ResourceVersion kafkaSecret);
           specChanged = (mstr (kfm_ResourceHashes m) ''spec'' \<noteq> kafkaSpecHash) in
       bindE (on_fst (if \<not> (specChanged \<or> secretChanged) then returnE () else
           bindE (whenE (\<not> IsSecurityDisabled cr \<and> (clientChanged env m kafkaSecret \<or> adminChanged env m kafkaSecret))
             (syncScramCredentials env cr m kafkaSecret)) (\<lambda>_.
           bindE (whenE (kf_Replicas cr > 0) (processKafkaReplicas env cr m kafkaSecret)) (\<lambda>_.
             updateKafkaStatus env cr)))) (\<lambda>_.
       bindE (on_fst (whenE (obj_ResourceVersion kafkaSecret \<noteq> mstr (kfm_ResourceVersions m) (obj_Name kafkaSecret))
         (update_services_secret env cr kafkaSecret))) (\<lambda>_.
       modifyE (\<lambda>(w, m). (w, m\<lparr>
         kfm_ResourceVersions := mput (obj_Name kafkaSecret) (obj_ResourceVersion kafkaSecret) (kfm_ResourceVersions m),
         kfm_ResourceHashes := mput ''secret-client-creds'' (clientHash env kafkaSecret)
           (mput ''secret-admin-creds'' (adminHash env kafkaSecret) (mput ''spec'' kafkaSpecHash (kfm_ResourceHashes m)))\<rparr>)))))))"

definition Kafka_Status :: "('c, 'w) kafkaEnv \<Rightarrow> kafka \<Rightarrow> ('w, unit) eff" where
  "Kafka_Status env cr =
     bindE (kf_updateConditions env cr (NewCondition statusFalse typeInProgress ''KafkaReadinessStatus'' ''Kafka health check'')) (\<lambda>_.
       tryE (PollImmediate (fe_retries env) kf_waitingInterval (kf_PodsReadyTimeout cr) (kf_ready env cr (GetSelectorLabels cr)))
         (\<lambda>_. kf_updateConditions env cr (NewCondition statusFalse typeFailed ''KafkaReadinessStatus'' ''Kafka pods are not ready''))
         (\<lambda>_. kf_updateConditions env cr (NewCondition statusTrue typeReady ''KafkaReadinessStatus'' ''Kafka pods are ready'')))"

section \<open>The controller\<close>

definition kf_condition :: "('c, 'w) kafkaEnv \<Rightarrow> kafka \<Rightarrow> string \<Rightarrow> string \<Rightarrow> string \<Rightarrow> ('w, unit) eff" where
  "kf_condition env cr status type message = kf_updateConditions env cr (NewCondition status type ''ReconcileCycleStatus'' message)"

definition kf_writeFailedStatus :: "('c, 'w) kafkaEnv \<Rightarrow> kafka \<Rightarrow> string \<Rightarrow> ('w, unit) eff" where
  "kf_writeFailedStatus env cr errorMessage = tryE (kf_condition env cr statusFalse typeFailed errorMessage) (\<lambda>_. returnE ()) returnE"

definition updatePvcStatus :: "('c, 'w) kafkaEnv \<Rightarrow> kafka \<Rightarrow> ('w, unit) eff" where
  "updatePvcStatus env cr =
     (if maps_Equal (kf_PVCStatusAnnotations cr) (kf_PVCAnnotations cr) then returnE ()
      else kf_updateStatus env cr (\<lambda>i. i\<lparr>kf_PVCStatusAnnotations := kf_PVCAnnotations cr\<rparr>))"

text \<open>The part of \<open>Reconcile\<close> that reports a changed resource. There is one reconciler, \<open>ReconcileKafka\<close>.\<close>

definition kf_report :: "('c, 'w) kafkaEnv \<Rightarrow> kafka \<Rightarrow> ('w, unit) eff" where
  "kf_report env cr =
     bindE (whenE (kf_WaitForPodsReady cr)
       (bindE (kf_condition env cr statusFalse typeInProgress ''Checking deployment readiness status'') (\<lambda>_.
          tryE (Kafka_Status env cr)
            (\<lambda>err. bindE (kf_writeFailedStatus env cr (''The status reconciliation cycle failed for kafka.ReconcileKafka due to: ''
               @ fe_Error env err)) (\<lambda>_. throwE err)) returnE))) (\<lambda>_.
     tryE (GetStatus (kf_statusUpdater env cr) kf_Conditions)
       (\<lambda>err. bindE (kf_writeFailedStatus env cr (''Cannot obtain status for Kafka custom resource: '' @ fe_Error env err))
          (\<lambda>_. throwE err))
       (\<lambda>conditions. if hasFailedConditions conditions
          then kf_condition env cr statusFalse typeFailed ''The deployment readiness status check failed''
          else kf_condition env cr statusTrue typeSuccessful ''The deployment readiness status check is successful''))"

definition kf_Reconcile :: "('c, 'w) kafkaEnv \<Rightarrow> string \<Rightarrow> string \<Rightarrow> ('w \<times> kfMemory, reconcileResult) eff" where
  "kf_Reconcile env name namespace =
     tryE (on_fst (fe_Get env name namespace)) (\<lambda>err. if IsNotFound err then returnE done_result else throwE err) (\<lambda>instnce.
     if \<not> ApiGroupMatches (kf_APIVersion instnce) (fe_ApiGroup env) then returnE done_result else
     bindE (liftE (fe_HashSpec env instnce)) (\<lambda>specHash.
     bindE (liftE (fe_HashAnnotations env (obj_Annotations instnce))) (\<lambda>annotationsHash.
     bindE (getsE snd) (\<lambda>m.
       let isCustomResourceChanged = (mstr (kfm_ResourceHashes m) ''spec'' \<noteq> specHash
             \<or> mstr (kfm_ResourceHashes m) ''annotations'' \<noteq> annotationsHash) in
       bindE (on_fst (whenE isCustomResourceChanged (bindE (kf_clearAllConditions env instnce) (\<lambda>_.
         kf_condition env instnce statusFalse typeInProgress ''Reconciliation cycle started'')))) (\<lambda>_.
       let instnce = (if isCustomResourceChanged then instnce\<lparr>kf_Conditions := []\<rparr> else instnce) in
       bindE (tryE (Kafka_Reconcile env instnce)
         (\<lambda>err. bindE (on_fst (kf_writeFailedStatus env instnce (''Reconciliation cycle failed for kafka.ReconcileKafka due to: ''
            @ fe_Error env err))) (\<lambda>_. throwE err)) returnE) (\<lambda>_.
       bindE (on_fst (updatePvcStatus env instnce)) (\<lambda>_.
       bindE (on_fst (whenE isCustomResourceChanged (kf_report env instnce))) (\<lambda>_.
       bindE (modifyE (\<lambda>(w, m). (w, m\<lparr>kfm_ResourceHashes :=
         mput ''spec'' specHash (mput ''annotations'' annotationsHash (kfm_ResourceHashes m))\<rparr>))) (\<lambda>_. returnE done_result)))))))))"

definition mapSecretToKafka :: "('c, 'w) kafkaEnv \<Rightarrow> secret \<Rightarrow> ('w, (string \<times> string) list) eff" where
  "mapSecretToKafka env secret =
     tryE (fe_List env (obj_Namespace secret)) (\<lambda>_. returnE []) (\<lambda>kafkaList.
       returnE (map (\<lambda>item. (obj_Name item, obj_Namespace item)) (filter (\<lambda>item. kf_SecretName item = obj_Name secret) kafkaList)))"

definition kf_secret_UpdateFunc :: "operatorEnv \<Rightarrow> string \<Rightarrow> string \<Rightarrow> string \<Rightarrow> bool" where
  "kf_secret_UpdateFunc env oldVersion newVersion namespace \<longleftrightarrow> namespace = OPERATOR_NAMESPACE env \<and> newVersion \<noteq> oldVersion"

section \<open>Quoting for the shell\<close>

text \<open>
  How a POSIX shell splits a simple command into words: blanks separate words, single quotes take everything
  literally, double quotes everything but \<open>$\<close>, backquote and backslash, a backslash outside quotes takes the next character
  literally and joins lines. \<open>None\<close> where the text has an expansion, an operator or an open quote.
\<close>

datatype quoting = Plain | Single | Double

definition sh_emit :: "string option \<Rightarrow> string list" where
  "sh_emit word = (case word of None \<Rightarrow> [] | Some w \<Rightarrow> [w])"

definition sh_add :: "string option \<Rightarrow> string \<Rightarrow> string option" where
  "sh_add word s = Some ((case word of None \<Rightarrow> [] | Some w \<Rightarrow> w) @ s)"

fun sh_words :: "quoting \<Rightarrow> string option \<Rightarrow> string \<Rightarrow> string list option" where
  "sh_words Plain word [] = Some (sh_emit word)"
| "sh_words q word [] = None"
| "sh_words Single word (c # cs) = (if c = CHR 0x27 then sh_words Plain word cs else sh_words Single (sh_add word [c]) cs)"
| "sh_words Double word (c # cs) =
     (if c = CHR 0x22 then sh_words Plain word cs
      else if c = CHR ''$'' \<or> c = CHR 0x60 \<or> c = CHR 0x5C then None
      else sh_words Double (sh_add word [c]) cs)"
| "sh_words Plain word (c # cs) =
     (if c = CHR '' '' then map_option (\<lambda>ws. sh_emit word @ ws) (sh_words Plain None cs)
      else if c = CHR ''\<newline>'' then (if cs = [] then Some (sh_emit word) else None)
      else if c = CHR 0x27 then sh_words Single (sh_add word []) cs
      else if c = CHR 0x22 then sh_words Double (sh_add word []) cs
      else if c = CHR 0x5C then
        (case cs of [] \<Rightarrow> None
         | d # ds \<Rightarrow> if d = CHR ''\<newline>'' then sh_words Plain word ds else sh_words Plain (sh_add word [d]) ds)
      else if c \<in> set ''$&;|<>()*?#~'' \<or> c = CHR 0x60 then None
      else sh_words Plain (sh_add word [c]) cs)"

lemma sh_add_add [simp]: "sh_add (sh_add word s) t = sh_add word (s @ t)"
  by (simp add: sh_add_def)

lemma sh_words_escaped: "sh_words Single (sh_add word w) (shell_escape s @ t) = sh_words Single (sh_add word (w @ s)) t"
proof (induction s arbitrary: w)
  case (Cons c s)
  then show ?case by (cases "c = CHR 0x27") (simp_all add: shell_escape_def ReplaceAll_char)
qed (simp add: shell_escape_def)

lemma sh_words_quoted:
  "sh_words Plain word (CHR 0x27 # shell_escape s @ CHR 0x27 # t) = sh_words Plain (sh_add word s) t"
  using sh_words_escaped[of word "[]" s "CHR 0x27 # t"] by simp

text \<open>
  C14. User names and passwords reach \<open>kafka-configs.sh\<close> unchanged and cannot inject anything into the script: whatever characters
  they contain, quotes and newlines included, the shell splits the arguments that the operator writes into exactly the intended
  words, with the user name and the password inside.
\<close>

theorem scram_args_words:
  "sh_words Plain None (scram_args username password) =
     Some [''--alter'', ''--entity-type'', ''users'', ''--entity-name'', username, ''--add-config'',
       ''SCRAM-SHA-512=[password='' @ password @ '']'']"
proof -
  let ?rest = "CHR 0x27 # [CHR ''\<newline>'']"
  have pw: "sh_words Single (sh_add None ''SCRAM-SHA-512=[password='') (shell_escape password @ '']'' @ ?rest) =
      Some [''SCRAM-SHA-512=[password='' @ password @ '']'']"
    using sh_words_escaped[of None "''SCRAM-SHA-512=[password=''" password "'']'' @ ?rest"] by (simp add: sh_add_def sh_emit_def)
  show ?thesis
    using pw sh_words_quoted[of None username] by (simp add: scram_args_def Let_def sh_emit_def) (simp add: sh_add_def sh_emit_def)
qed

section \<open>What the checks of the specification cover\<close>

text \<open>
  C40. When the construction of the objects of a broker panics, for a specification that passes
  \<open>checkParamsForExternalAccess\<close> and \<open>checkRacksConfig\<close>. The checks rule out every access to the external
  host names and ports out of range; what is left is, for the deployment, a list of nodes that is too short (and with
  racks from node labels not even that), and for the claim a list of volumes or of labels that is too short, a label without
  an equals sign, and a size that is not a quantity.
\<close>

theorem broker_objects_panic:
  assumes "checkParamsForExternalAccess cr (kf_Replicas cr) = Inr ()" "checkRacksConfig cr (kf_Replicas cr) = Inr ()"
    and "1 \<le> broker" "broker \<le> kf_Replicas cr"
  shows "(NewKafkaBrokerDeploymentForCR pe cr broker brokerRack kraft zkClusterID = Inl e \<longleftrightarrow>
      e = Panic \<and> st_Nodes (kf_Storage cr) \<noteq> [] \<and> int (length (st_Nodes (kf_Storage cr))) < broker
        \<and> \<not> isGetRacksFromNodeLabelsEnabled cr)
    \<and> (NewKafkaPersistentVolumeClaimForCR pe cr broker = Inl e \<longleftrightarrow>
      e = Panic \<and> (let st = kf_Storage cr; badSize = isl (pe_ParseQuantity pe (st_Size st)) in
        (length (st_ClassName st) \<le> 1 \<or> length (st_ClassName st) = length (st_Volumes st)) \<and>
        (if st_Volumes st \<noteq> [] then int (length (st_Volumes st)) < broker \<or> badSize
         else if st_Labels st \<noteq> [] then int (length (st_Labels st)) < broker \<or> CHR ''='' \<notin> set (st_Labels st ! nat (broker - 1)) \<or> badSize
         else st_ClassName st \<noteq> [] \<and> badSize)))"
proof
  have "external_access cr broker \<noteq> Inl e" for e
    using assms(1,3,4)
    by (auto simp: external_access_def checkParamsForExternalAccess_def bindR_Inl nth_of_Inl Let_def split: if_splits)
  then obtain access where "external_access cr broker = Inr access" by (cases "external_access cr broker") auto
  moreover have "getBrokerAffinityForCR cr broker = Inl e \<longleftrightarrow> e = Panic \<and> st_Nodes (kf_Storage cr) \<noteq> []
      \<and> int (length (st_Nodes (kf_Storage cr))) < broker \<and> \<not> isGetRacksFromNodeLabelsEnabled cr"
    using assms(2-4) by (auto simp: getBrokerAffinityForCR_def checkRacksConfig_def bindR_Inl nth_of_Inl Let_def split: if_splits)
  ultimately show "NewKafkaBrokerDeploymentForCR pe cr broker brokerRack kraft zkClusterID = Inl e \<longleftrightarrow>
      e = Panic \<and> st_Nodes (kf_Storage cr) \<noteq> [] \<and> int (length (st_Nodes (kf_Storage cr))) < broker
        \<and> \<not> isGetRacksFromNodeLabelsEnabled cr"
    by (auto simp: NewKafkaBrokerDeploymentForCR_def Let_def bindR_Inl split: prod.splits)
  show "NewKafkaPersistentVolumeClaimForCR pe cr broker = Inl e \<longleftrightarrow>
      e = Panic \<and> (let st = kf_Storage cr; badSize = isl (pe_ParseQuantity pe (st_Size st)) in
        (length (st_ClassName st) \<le> 1 \<or> length (st_ClassName st) = length (st_Volumes st)) \<and>
        (if st_Volumes st \<noteq> [] then int (length (st_Volumes st)) < broker \<or> badSize
         else if st_Labels st \<noteq> [] then int (length (st_Labels st)) < broker \<or> CHR ''='' \<notin> set (st_Labels st ! nat (broker - 1)) \<or> badSize
         else st_ClassName st \<noteq> [] \<and> badSize))"
    using assms(3) by (rule claim_panics)
qed

theorem broker_objects_panic_witness:
  "let cr = sample_kafka\<lparr>kf_Storage := empty_storage\<lparr>st_Nodes := [''n1'', ''n2''], st_Volumes := [''v1'', ''v2'', ''v3'']\<rparr>\<rparr> in
   NewKafkaBrokerDeploymentForCR sample_providerEnv cr 3 [] False [] = Inl Panic
   \<and> NewKafkaPersistentVolumeClaimForCR sample_providerEnv cr 3 \<noteq> Inl Panic"
proof -
  let ?cr = "sample_kafka\<lparr>kf_Storage := empty_storage\<lparr>st_Nodes := [''n1'', ''n2''], st_Volumes := [''v1'', ''v2'', ''v3'']\<rparr>\<rparr>"
  have check: "checkParamsForExternalAccess ?cr (kf_Replicas ?cr) = Inr ()" "checkRacksConfig ?cr (kf_Replicas ?cr) = Inr ()"
    "1 \<le> (3::int)" "3 \<le> kf_Replicas ?cr" "\<not> isGetRacksFromNodeLabelsEnabled ?cr"
    by (simp_all add: checkParamsForExternalAccess_def checkRacksConfig_def isGetRacksFromNodeLabelsEnabled_def sample_kafka_def)
  from broker_objects_panic[OF check(1-4), of sample_providerEnv "[]" False "[]" Panic] check(5)
  show ?thesis by (simp add: Let_def empty_storage_def sample_providerEnv_def)
qed

section \<open>A cluster in memory\<close>

text \<open>An instance for concrete runs: the custom resource beside the objects of \<open>sample_kube\<close>.\<close>

type_synonym kfWorld = "kafka \<times> cluster"

definition kf_sample_kube :: "kfWorld kubeClient" where
  "kf_sample_kube = \<lparr>
     k_serviceAccounts = list_crud (cl_serviceAccounts \<circ> snd) (apsnd \<circ> cl_serviceAccounts_update),
     k_services = list_crud (cl_services \<circ> snd) (apsnd \<circ> cl_services_update),
     k_persistentVolumeClaims = list_crud (cl_persistentVolumeClaims \<circ> snd) (apsnd \<circ> cl_persistentVolumeClaims_update),
     k_deployments = list_crud (cl_deployments \<circ> snd) (apsnd \<circ> cl_deployments_update),
     k_configMaps = list_crud (cl_configMaps \<circ> snd) (apsnd \<circ> cl_configMaps_update),
     k_secrets = list_crud (cl_secrets \<circ> snd) (apsnd \<circ> cl_secrets_update),
     k_pods = list_crud (cl_pods \<circ> snd) (apsnd \<circ> cl_pods_update)\<rparr>"

definition sample_kafkaEnv :: "(unit, kfWorld) kafkaEnv" where
  "sample_kafkaEnv = \<lparr>fe_kube = kf_sample_kube, fe_Get = (\<lambda>_ _. getsE fst), fe_List = (\<lambda>_ w. (Inr [fst w], w)),
     fe_UpdateStatus = (\<lambda>i. modifyE (\<lambda>w. (i, snd w))), fe_retryOnConflict = DefaultRetry,
     fe_setControllerReference = (\<lambda>_ refs. Inr refs), fe_convertSecret = Inr, fe_convertService = Inr, fe_convertDeployment = Inr,
     fe_now = (\<lambda>_. ''now''), fe_retries = (\<lambda>_ _ _. 3), fe_ctxDone = (\<lambda>_. False), fe_delayElapses = (\<lambda>_ _. True),
     fe_HashSpec = (\<lambda>i. Inr (kf_Other i)), fe_HashAnnotations = (\<lambda>_. Inr ''h''), fe_StringHash = id, fe_Error = (\<lambda>_. ''error''),
     fe_Exec = (\<lambda>_ _ _ _. returnE (''false'', [])), fe_GetNode = (\<lambda>_. throwE NotFound), fe_x509KeyPair = (\<lambda>_ _. Inr ()),
     fe_newConfig = \<lparr>SASL_Enable = False, SASL_Mechanism = [], SASL_User = [], SASL_Password = [], SASL_SCRAMClientGenerator = False,
       TLS_Enable = False, TLS_Config = None, Version = []\<rparr>, fe_newClusterAdmin = (\<lambda>_ _. throwE (Err ''no broker'')),
     fe_ReassignPartitions = (\<lambda>_ _. returnE ()), fe_ApiGroup = ''qubership.org'', fe_provider = sample_providerEnv\<rparr>"

definition sample_pod :: "string \<Rightarrow> string gomap \<Rightarrow> pod" where
  "sample_pod name labels = \<lparr>obj_Name = name, obj_Namespace = ''ns'', obj_Labels = labels, obj_Annotations = [],
     obj_ResourceVersion = [], obj_OwnerReferences = [], pod_Conditions = [], pod_Containers = []\<rparr>"

definition sample_world :: "string \<Rightarrow> kfWorld" where
  "sample_world status = (sample_kafka\<lparr>kf_MigrationStatus := status\<rparr>,
     empty_cluster\<lparr>cl_pods := [sample_pod ''kafka-1-x'' [(''component'', ''kafka''), (''clusterName'', ''kafka'')]]\<rparr>)"

lemmas sample_kafka_world = sample_kafkaEnv_def kf_sample_kube_def sample_world_def list_crud_def list_view_def empty_cluster_def

end
