(* ===== verification/Kraft_Migration.thy ===== *)
theory Kraft_Migration
  imports Go_Prelude Kube_Objects Kube_Reconciler Provider_Common Kafka_Provider Kafka_Cluster
begin

text \<open>
  The migration from ZooKeeper to KRaft (\<open>kraft_migration\<close> of \<open>Kafka_Cluster\<close>): which deployments it may
  write before the metadata has been migrated, and how the step that the status records moves.
\<close>

section \<open>The migration and ZooKeeper\<close>

text \<open>
  \<open>I\<close> is a predicate on the world that reading, commands in pods and writes of services and claims
  leave alone, and that the write of a deployment leaves alone when its containers satisfy \<open>A\<close>.
\<close>

definition harmless :: "('w \<Rightarrow> bool) \<Rightarrow> (container list \<Rightarrow> bool) \<Rightarrow> ('c, 'w) kafkaEnv \<Rightarrow> bool" where
  "harmless I A env \<longleftrightarrow>
     (\<forall>n ns. keeps I (c_Get (k_services (fe_kube env)) n ns) \<and> keeps I (c_Get (k_persistentVolumeClaims (fe_kube env)) n ns)
        \<and> keeps I (c_Get (k_deployments (fe_kube env)) n ns) \<and> keeps I (fe_Get env n ns)) \<and>
     (\<forall>ns l. keeps I (c_List (k_pods (fe_kube env)) ns l) \<and> keeps I (c_List (k_deployments (fe_kube env)) ns l)) \<and>
     (\<forall>s. keeps I (c_Create (k_services (fe_kube env)) s) \<and> keeps I (c_Update (k_services (fe_kube env)) s)) \<and>
     (\<forall>p. keeps I (c_Create (k_persistentVolumeClaims (fe_kube env)) p) \<and> keeps I (c_Update (k_persistentVolumeClaims (fe_kube env)) p)) \<and>
     (\<forall>d. A (dep_Containers d) \<longrightarrow> keeps I (c_Create (k_deployments (fe_kube env)) d) \<and> keeps I (c_Update (k_deployments (fe_kube env)) d)) \<and>
     (\<forall>n. keeps I (fe_GetNode env n)) \<and>
     (\<forall>p c ns cmd. keeps I (fe_Exec env p c ns cmd)) \<and> fe_retryOnConflict env = DefaultRetry"

lemma harmlessD:
  assumes "harmless I A env"
  shows "keeps I (c_Get (k_services (fe_kube env)) n ns)" "keeps I (c_Get (k_persistentVolumeClaims (fe_kube env)) n ns)"
    "keeps I (c_Get (k_deployments (fe_kube env)) n ns)" "keeps I (fe_Get env n ns)"
    "keeps I (c_List (k_pods (fe_kube env)) ns l)" "keeps I (c_List (k_deployments (fe_kube env)) ns l)"
    "keeps I (c_Create (k_services (fe_kube env)) s)" "keeps I (c_Update (k_services (fe_kube env)) s)"
    "keeps I (c_Create (k_persistentVolumeClaims (fe_kube env)) p)" "keeps I (c_Update (k_persistentVolumeClaims (fe_kube env)) p)"
    "A (dep_Containers d) \<Longrightarrow> keeps I (c_Create (k_deployments (fe_kube env)) d)"
    "A (dep_Containers d) \<Longrightarrow> keeps I (c_Update (k_deployments (fe_kube env)) d)"
    "keeps I (fe_GetNode env nd)" "keeps I (fe_Exec env pd ct ns cmd)"
    "fe_retryOnConflict env = DefaultRetry"
  using assms unfolding harmless_def by simp_all

lemma keeps_own: "keeps I (kf_own env cr convert obj)"
  unfolding kf_own_def by (intro keeps_rules)

lemma harmless_service: "harmless I A env \<Longrightarrow> keeps I (kf_apply_service env cr s)"
  unfolding kf_apply_service_def CreateOrUpdateService_def
  by (intro keeps_rules keeps_own keeps_let) (simp_all add: harmlessD)

lemma harmless_pvc: "harmless I A env \<Longrightarrow> keeps I (kf_apply_pvc env cr pvc)"
  unfolding kf_apply_pvc_def CreatePersistentVolumeClaim_def GetPersistentVolumeClaim_def updatePersistentVolumeClaim_def
  by (intro keeps_rules keeps_let) (simp_all add: harmlessD)

lemma harmless_deployment:
  assumes "harmless I A env" "A (dep_Containers d)"
  shows "keeps I (kf_apply_deployment env cr d)"
proof -
  have "keeps I (update_deployment (fe_kube env) d)"
    unfolding update_deployment_def FindDeployment_def by (intro keeps_rules) (simp_all add: assms(2) harmlessD[OF assms(1)])
  then have "keeps I (DefaultRetry (update_deployment (fe_kube env) d))" by (rule defaultRetry.retry_keeps)
  then show ?thesis
    unfolding kf_apply_deployment_def CreateOrUpdateDeployment_def FindDeployment_def
    by (intro keeps_rules keeps_own) (simp_all add: assms(2) harmlessD[OF assms(1)])
qed

lemma harmless_status:
  assumes "harmless I A env" "\<And>i. keeps I (fe_UpdateStatus env i)"
  shows "keeps I (kf_updateStatus env cr f)"
  using assms(2) harmlessD(4,15)[OF assms(1)]
  unfolding kf_updateStatus_def UpdateStatusWithRetry_def reloadCR_def kf_statusUpdater_def
  by (simp add: defaultRetry.retry_keeps keeps_bind)

lemma harmless_ready: "harmless I A env \<Longrightarrow> keeps I (kf_ready env cr labels)"
  unfolding kf_ready_def AreDeploymentsReady_def FindDeploymentList_def
  by (intro keeps_rules) (simp_all add: harmlessD)

lemma harmless_waits:
  assumes "harmless I A env"
  shows "keeps I (waitUntilControllerIsReady env cr t)" "keeps I (waitUntilBrokerIsReady env cr broker t)"
  unfolding waitUntilControllerIsReady_def waitUntilBrokerIsReady_def
  by (intro keeps_rules PollImmediate_keeps harmless_ready[OF assms])+

lemma harmless_command: "harmless I A env \<Longrightarrow> keeps I (runCommandInPod env p c ns cmd)"
  unfolding runCommandInPod_def by (intro keeps_try keeps_if keeps_case_prod) (simp_all add: harmlessD)

lemma harmless_rack: "harmless I A env \<Longrightarrow> keeps I (getRack env cr broker)"
  unfolding getRack_def GetNodeLabel_def by (intro keeps_rules keeps_let) (simp_all add: harmlessD)

lemma keeps_case_list: "(xs = [] \<Longrightarrow> keeps I m) \<Longrightarrow> (\<And>y ys. xs = y # ys \<Longrightarrow> keeps I (f y ys)) \<Longrightarrow>
    keeps I (case xs of [] \<Rightarrow> m | y # ys \<Rightarrow> f y ys)"
  by (cases xs) auto

lemma harmless_pods:
  assumes "harmless I A env"
  shows "keeps I (getZooKeeperClusterID env cr)" "keeps I (getMigrationStatus env cr)"
  unfolding getZooKeeperClusterID_def getMigrationStatus_def FindPodList_def
  by (intro keeps_rules keeps_case_list harmless_command[OF assms] harmlessD[OF assms])+

lemma migration_status_false:
  assumes "\<And>pd ct ns cmd w out err w'. fe_Exec env pd ct ns cmd w = (Inr (out, err), w') \<Longrightarrow> strings_TrimSpace out \<noteq> ''true''"
  shows "getMigrationStatus env cr w \<noteq> (Inr True, w')"
proof
  assume "getMigrationStatus env cr w = (Inr True, w')"
  then obtain pd w1 out where "runCommandInPod env pd ''kafka'' (obj_Namespace cr)
      [''/bin/sh'', ''-c'', ''${KAFKA_HOME}/bin/get-kraft-migration-status.sh''] w1 = (Inr out, w')" "strings_TrimSpace out = ''true''"
    by (auto simp: getMigrationStatus_def tryE_def returnE_def throwE_def
        split: prod.splits sum.splits list.splits if_splits)
  then show False
    by (auto simp: runCommandInPod_def tryE_def returnE_def throwE_def split: prod.splits sum.splits if_splits dest: assms)
qed

lemma migration_wait_fails:
  assumes "\<And>pd ct ns cmd w out err w'. fe_Exec env pd ct ns cmd w = (Inr (out, err), w') \<Longrightarrow> strings_TrimSpace out \<noteq> ''true''"
  shows "fst (waitUntilMigrationCompleted env cr t w) \<noteq> Inr ()"
  unfolding waitUntilMigrationCompleted_def
proof (rule PollImmediate_never)
  show "bindE (getMigrationStatus env cr) (\<lambda>completed. returnE (if completed then Some () else None)) w1 \<noteq> (Inr (Some a), w2)"
    for w1 a w2
    using migration_status_false[where env = env and cr = cr and w = w1 and w' = w2] assms
    by (auto simp: bindE_def returnE_def split: prod.split sum.split)
qed

text \<open>A computation that never succeeds ends every sequence it is in.\<close>

definition never :: "('w, 'a) eff \<Rightarrow> bool" where
  "never m \<longleftrightarrow> (\<forall>w. isl (fst (m w)))"

lemma neverI: "(\<And>w a. fst (m w) \<noteq> Inr a) \<Longrightarrow> never m"
  unfolding never_def by (metis sum.collapse(2))

lemma never_bind_first:
  assumes "never m"
  shows "never (bindE m f)"
  unfolding never_def
proof
  fix w
  obtain r w' where m: "m w = (r, w')" by fastforce
  moreover have "isl r" using assms m unfolding never_def by (metis fst_conv)
  ultimately show "isl (fst (bindE m f w))" by (cases r) (simp_all add: bindE_def)
qed

lemma never_bind_second: "(\<And>a. never (f a)) \<Longrightarrow> never (bindE m f)"
  by (auto simp: never_def bindE_def split: prod.split sum.split)

lemma keeps_bind_never:
  assumes "keeps I m" "never m"
  shows "keeps I (bindE m f)"
  unfolding keeps_def
proof (intro allI impI)
  fix w assume "I w"
  obtain r w' where m: "m w = (r, w')" by fastforce
  moreover have "isl r" using assms(2) m unfolding never_def by (metis fst_conv)
  ultimately show "I (snd (bindE m f w))"
    using keepsD[OF assms(1) \<open>I w\<close> m] by (cases r) (simp_all add: bindE_def)
qed

lemma migration_before_step_two:
  assumes "harmless I A env"
    and "\<And>zk. A (dep_Containers (NewKafkaKraftControllerDeploymentForCR (fe_provider env) cr zk False True))"
    and "\<And>broker brokerRack zk d. migration_deployment (fe_provider env) cr broker brokerRack currentReplicas zk False = Inr d \<Longrightarrow> A (dep_Containers d)"
    and "\<And>n ns w i w'. fe_Get env n ns w = (Inr i, w') \<Longrightarrow> migration_step (kf_MigrationStatus i) < 2"
    and "\<And>pd ct ns cmd w out err w'. fe_Exec env pd ct ns cmd w = (Inr (out, err), w') \<Longrightarrow> strings_TrimSpace out \<noteq> ''true''"
    and "I w" "\<And>i. keeps I (fe_UpdateStatus env i)"
  shows "I (snd (kraft_migration env cr currentReplicas w)) \<and> isl (fst (kraft_migration env cr currentReplicas w))"
proof -
  note h = assms(1)
  let ?brokers = "\<lambda>zk. updateBrokersAndWaitMigrationResult env cr zk currentReplicas"
  have create: "keeps I (createMigrationControllerEntities env cr zk)" for zk
    unfolding createMigrationControllerEntities_def
    by (intro keeps_let keeps_bind keeps_lift harmless_service[OF h] harmless_pvc[OF h] harmless_deployment[OF h] harmless_waits[OF h]) (simp add: assms(2))
  have ensure: "keeps I (ensureMigrationControllerIsReady env cr)"
    unfolding ensureMigrationControllerIsReady_def AreDeploymentsReady_def FindDeploymentList_def FindDeployment_def
    by (intro keeps_rules keeps_let) (simp_all add: harmlessD[OF h])
  have deploy: "keeps I (updateBrokerDeploymentForMigration env cr broker currentReplicas zk False)" for broker zk
    unfolding updateBrokerDeploymentForMigration_def
  proof (rule keeps_bind[OF harmless_rack[OF h]], rule keeps_bind_result[OF keeps_lift])
    show "keeps I (kf_apply_deployment env cr d)"
      if "liftE (migration_deployment (fe_provider env) cr broker brokerRack currentReplicas zk False) w1 = (Inr d, w2)" for brokerRack d w1 w2
      using that by (intro harmless_deployment[OF h] assms(3)[of broker brokerRack zk]) (simp add: liftE_def)
  qed
  have brokers: "keeps I (?brokers zk)" for zk
    unfolding updateBrokersAndWaitMigrationResult_def waitUntilMigrationCompleted_def
    by (intro keeps_bind keeps_for deploy harmless_waits[OF h] PollImmediate_keeps harmless_pods[OF h] keeps_return)
  have stuck: "never (?brokers zk)" for zk
    unfolding updateBrokersAndWaitMigrationResult_def
    using assms(5) by (intro never_bind_second neverI) (simp add: migration_wait_fails)
  have stages: "keeps I (migration_stages env cr currentReplicas step zk) \<and> never (migration_stages env cr currentReplicas step zk)"
    if "step < 2" for step zk
  proof -
    let ?c = "bindE (?brokers zk) (\<lambda>_. set_migration env cr ''Migrated metadata from ZooKeeper to Kraft in controller'')"
    have c: "never ?c" "keeps I ?c" using stuck brokers by (auto intro: never_bind_first keeps_bind_never)
    have d: "keeps I (bindE (whenE (step < 2) ?c) f)" "never (bindE (whenE (step < 2) ?c) f)" for f
      unfolding whenE_def using that c by (simp_all add: keeps_bind_never never_bind_first)
    have a: "keeps I (bindE (createMigrationControllerEntities env cr zk) (\<lambda>_. set_migration env cr s))" for s
      unfolding set_migration_def by (intro keeps_bind create harmless_status[OF h assms(7)])
    show ?thesis unfolding migration_stages_def by (intro conjI keeps_bind keeps_when a ensure d never_bind_second)
  qed
  obtain r w1 where get: "GetStatus (kf_statusUpdater env cr) kf_MigrationStatus w = (r, w1)" by fastforce
  have "keeps I (GetStatus (kf_statusUpdater env cr) kf_MigrationStatus)"
    unfolding GetStatus_def reloadCR_def kf_statusUpdater_def by (intro keeps_rules) (simp add: harmlessD[OF h])
  then have "I w1" using assms(6) get by (rule keepsD)
  show ?thesis
  proof (cases r)
    case (Inl e)
    then show ?thesis using get \<open>I w1\<close> by (simp add: kraft_migration_def tryE_def throwE_def)
  next
    case (Inr status)
    then have step: "migration_step status < 2"
      using get assms(4) by (auto simp: GetStatus_def reloadCR_def kf_statusUpdater_def bindE_def returnE_def split: prod.splits sum.splits)
    let ?rest = "bindE (getZooKeeperClusterID env cr) (\<lambda>zk. migration_stages env cr currentReplicas (migration_step status) zk)"
    have "keeps I ?rest" "never ?rest" using stages[OF step] harmless_pods[OF h] by (auto intro!: keeps_bind never_bind_second)
    moreover have "kraft_migration env cr currentReplicas w = ?rest w1"
      using get Inr step by (simp add: kraft_migration_def tryE_def)
    ultimately show ?thesis using \<open>I w1\<close> by (simp add: keeps_def never_def)
  qed
qed

lemma migration_deployment_on_zookeeper:
  assumes "ranges pe" "migration_deployment pe cr broker brokerRack replicas zk False = Inr d"
  shows "on_zookeeper cr (dep_Containers d)"
proof -
  obtain d0 where d0: "NewKafkaBrokerDeploymentForCR pe cr broker brokerRack False zk = Inr d0"
    "add_envs [var ''MIGRATION_BROKER'' ''true'', var ''VOTERS'' (controller_voter cr)] d0 = Inr d"
    using assms(2) by (auto simp: migration_deployment_def bindR_Inr)
  obtain c cs where "dep_Containers d0 = c # cs"
    "dep_Containers d = c\<lparr>ctr_Env := ctr_Env c @ [var ''MIGRATION_BROKER'' ''true'', var ''VOTERS'' (controller_voter cr)]\<rparr> # cs"
    using d0(2) by (cases "dep_Containers d0") (auto simp: add_envs_def)
  with deployments_on_zookeeper(2)[OF assms(1) d0(1)] show ?thesis by (simp add: on_zookeeper_def effective_append)
qed

text \<open>
  C1. No broker loses ZooKeeper before the metadata has been migrated. While the recorded step of a
  migration is before the second and the migration controller does not report \<open>true\<close>, the migration ends
  with an error, and every deployment it has written connects to ZooKeeper, at the configured address
  (unless the variable was set by hand) in all its containers: a property \<open>I\<close> of the cluster that the writes of such
  deployments, of services, claims and the status do not break holds afterwards.
\<close>

theorem zookeeper_kept_until_migrated:
  assumes "harmless I (on_zookeeper cr) env" "ranges (fe_provider env)"
    and "\<And>n ns w i w'. fe_Get env n ns w = (Inr i, w') \<Longrightarrow> migration_step (kf_MigrationStatus i) < 2"
    and "\<And>pd ct ns cmd w out err w'. fe_Exec env pd ct ns cmd w = (Inr (out, err), w') \<Longrightarrow> strings_TrimSpace out \<noteq> ''true''"
    and "I w" "\<And>i. keeps I (fe_UpdateStatus env i)"
  shows "I (snd (kraft_migration env cr currentReplicas w)) \<and> isl (fst (kraft_migration env cr currentReplicas w))"
  using migration_before_step_two[OF assms(1) deployments_on_zookeeper(1)[OF assms(2)]
      migration_deployment_on_zookeeper[OF assms(2)] assms(3,4,5,6)] .

lemma sample_harmless:
  "harmless (\<lambda>w. \<forall>d\<in>set (cl_deployments (snd w)). A (dep_Containers d)) A sample_kafkaEnv"
  "harmless (\<lambda>w. fst w = x) A sample_kafkaEnv"
  by (auto simp: harmless_def sample_kafkaEnv_def kf_sample_kube_def list_crud_def keeps_def eff_defs)

theorem zookeeper_kept_until_migrated_witness:
  "let env = sample_kafkaEnv\<lparr>fe_Get := (\<lambda>_ _. returnE sample_kafka)\<rparr>; result = kraft_migration env sample_kafka 3 (sample_world [])
   in isl (fst result) \<and> (\<forall>d\<in>set (cl_deployments (snd (snd result))). on_zookeeper sample_kafka (dep_Containers d))"
proof -
  let ?env = "sample_kafkaEnv\<lparr>fe_Get := (\<lambda>_ _. returnE sample_kafka)\<rparr>"
  let ?I = "\<lambda>w :: kfWorld. \<forall>d\<in>set (cl_deployments (snd w)). on_zookeeper sample_kafka (dep_Containers d)"
  have "harmless ?I (on_zookeeper sample_kafka) ?env"
    using sample_harmless(1)[of "on_zookeeper sample_kafka"] by (simp add: harmless_def)
  moreover have "ranges (fe_provider ?env)" using sample_ranges by (simp add: sample_kafkaEnv_def)
  moreover have "migration_step (kf_MigrationStatus i) < 2" if "fe_Get ?env n ns w = (Inr i, w')" for n ns w i w'
    using that by (auto simp: returnE_def sample_kafka_def migration_step_def)
  moreover have "strings_TrimSpace out \<noteq> ''true''" if "fe_Exec ?env pd ct ns cmd w = (Inr (out, err), w')" for pd ct ns cmd w out err w'
  proof -
    have "out = ''false''" using that by (simp add: sample_kafkaEnv_def returnE_def)
    moreover have "strings_TrimSpace ''false'' \<noteq> ''true''" by code_simp
    ultimately show ?thesis by simp
  qed
  moreover have "?I (sample_world [])" "\<And>i. keeps ?I (fe_UpdateStatus ?env i)"
    by (simp_all add: sample_world_def empty_cluster_def sample_kafkaEnv_def keeps_def modifyE_def)
  ultimately show ?thesis
    unfolding Let_def using zookeeper_kept_until_migrated[of ?I sample_kafka ?env "sample_world []" 3] by blast
qed

section \<open>The recorded step\<close>

text \<open>
  The API server keeps the custom resource, as \<open>stored\<close>: reading gives it, an update of the status replaces
  it or fails, and no operation on another object changes it.
\<close>

definition quiet_on :: "('w \<Rightarrow> kafka) \<Rightarrow> ('w, 'a) eff \<Rightarrow> bool" where
  "quiet_on stored m \<longleftrightarrow> (\<forall>x. keeps (\<lambda>w. stored w = x) m)"

definition records :: "('w \<Rightarrow> kafka) \<Rightarrow> ('c, 'w) kafkaEnv \<Rightarrow> bool" where
  "records stored env \<longleftrightarrow>
     (\<forall>n ns w. fe_Get env n ns w = (Inr (stored w), w)) \<and>
     (\<forall>i w r w'. fe_UpdateStatus env i w = (r, w') \<longrightarrow> stored w' = (if isl r then stored w else i)) \<and>
     (\<forall>x. harmless (\<lambda>w. stored w = x) (\<lambda>_. True) env) \<and>
     (\<forall>s. quiet_on stored (c_Delete (k_services (fe_kube env)) s)) \<and>
     (\<forall>p. quiet_on stored (c_Delete (k_persistentVolumeClaims (fe_kube env)) p)) \<and>
     (\<forall>d. quiet_on stored (c_Delete (k_deployments (fe_kube env)) d))"

abbreviation recorded_step :: "('w \<Rightarrow> kafka) \<Rightarrow> 'w \<Rightarrow> nat" where
  "recorded_step stored w \<equiv> migration_step (kf_MigrationStatus (stored w))"

lemma quiet_onI: "(\<And>x. keeps (\<lambda>w. stored w = x) m) \<Longrightarrow> quiet_on stored m"
  by (simp add: quiet_on_def)

lemma quiet_on_bind: "quiet_on stored m \<Longrightarrow> (\<And>a. quiet_on stored (f a)) \<Longrightarrow> quiet_on stored (bindE m f)"
  by (simp add: quiet_on_def keeps_bind)

lemma quiet_on_same: "quiet_on stored m \<Longrightarrow> m w = (r, w') \<Longrightarrow> stored w' = stored w"
  using keepsD[of "\<lambda>v. stored v = stored w" m w r w'] by (simp add: quiet_on_def)

lemma valid_quiet: "quiet_on stored m \<Longrightarrow> valid (\<lambda>w. P (stored w)) m (\<lambda>_ w. P (stored w)) (\<lambda>_ w. P (stored w))"
  by (rule validI; metis quiet_on_same)

lemma valid_return_same [simp]: "valid P (returnE a) (\<lambda>_. P) E"
  by (simp add: valid_def returnE_def)

lemma set_migration_records:
  assumes "records stored env" "set_migration env cr s w = (r, w')"
  shows "stored w' = (if isl r then stored w else (stored w)\<lparr>kf_MigrationStatus := s\<rparr>)"
proof -
  let ?f = "bindE (reloadCR (kf_statusUpdater env cr)) (\<lambda>i. fe_UpdateStatus env (i\<lparr>kf_MigrationStatus := s\<rparr>))"
  have f: "?f w1 = fe_UpdateStatus env ((stored w1)\<lparr>kf_MigrationStatus := s\<rparr>) w1" for w1
    using assms(1) by (simp add: bindE_def reloadCR_def kf_statusUpdater_def records_def)
  have "fe_retryOnConflict env = DefaultRetry" using assms(1) harmlessD(15) unfolding records_def by blast
  then have "DefaultRetry ?f w = (r, w')"
    using assms(2) by (simp add: set_migration_def kf_updateStatus_def UpdateStatusWithRetry_def kf_statusUpdater_def)
  moreover have "stored w2 = stored w1" if "?f w1 = (Inl e, w2)" for w1 e w2
    using that assms(1) unfolding f records_def by (metis isl_def)
  ultimately obtain w1 where "stored w1 = stored w" "?f w1 = (r, w')" using defaultRetry.retry_view[of ?f stored w r w'] by blast
  then show ?thesis using assms(1) unfolding f records_def by metis
qed

lemma stage_records:
  assumes "records stored env" "quiet_on stored m" "migration_step s = i" "k \<le> i"
  shows "valid (\<lambda>w. k \<le> recorded_step stored w) (bindE m (\<lambda>_. set_migration env cr s))
    (\<lambda>_ w. recorded_step stored w = i) (\<lambda>_ w. k \<le> recorded_step stored w)"
proof (rule valid_bind[OF _ valid_quiet[OF assms(2), of "\<lambda>x. k \<le> migration_step (kf_MigrationStatus x)"]])
  show "valid (\<lambda>w. k \<le> recorded_step stored w) (set_migration env cr s)
    (\<lambda>_ w. recorded_step stored w = i) (\<lambda>_ w. k \<le> recorded_step stored w)" for a :: 'a
    using set_migration_records[OF assms(1), of cr s] assms(3) by (intro validI) (fastforce dest: sym)+
qed

lemma records_quiet:
  assumes "records stored env"
  shows "quiet_on stored (createMigrationControllerEntities env cr zk)" "quiet_on stored (ensureMigrationControllerIsReady env cr)"
    "quiet_on stored (updateBrokersAndWaitMigrationResult env cr zk n)" "quiet_on stored (updateBrokersWithoutZooKeeper env cr zk n)"
    "quiet_on stored (updateMigrationControllerWithoutZooKeeper env cr zk)"
    "quiet_on stored (updateBrokersWithoutKraftMigrationController env cr zk n)"
    "quiet_on stored (removeMigrationControllerEntities env cr zk)" "quiet_on stored (getZooKeeperClusterID env cr)"
proof -
  have h: "harmless (\<lambda>w. stored w = x) (\<lambda>_. True) env" for x using assms by (simp add: records_def)
  note w = harmless_service[OF h] harmless_pvc[OF h] harmless_deployment[OF h TrueI] harmless_waits[OF h] harmless_rack[OF h]
    harmless_pods[OF h] PollImmediate_keeps keeps_let keeps_bind keeps_lift keeps_for keeps_return
  have deploy: "keeps (\<lambda>w. stored w = x) (updateBrokerDeploymentForMigration env cr broker n zk b)" for x broker b
    unfolding updateBrokerDeploymentForMigration_def by (intro w)
  show "quiet_on stored (createMigrationControllerEntities env cr zk)" "quiet_on stored (updateBrokersAndWaitMigrationResult env cr zk n)"
    "quiet_on stored (updateBrokersWithoutZooKeeper env cr zk n)" "quiet_on stored (updateMigrationControllerWithoutZooKeeper env cr zk)"
    "quiet_on stored (updateBrokersWithoutKraftMigrationController env cr zk n)" "quiet_on stored (getZooKeeperClusterID env cr)"
    unfolding createMigrationControllerEntities_def updateBrokersAndWaitMigrationResult_def updateBrokersWithoutZooKeeper_def
      updateMigrationControllerWithoutZooKeeper_def updateBrokersWithoutKraftMigrationController_def waitUntilMigrationCompleted_def
      wait_for_brokers_def
    by (intro quiet_onI w deploy)+
  show "quiet_on stored (ensureMigrationControllerIsReady env cr)"
    unfolding ensureMigrationControllerIsReady_def AreDeploymentsReady_def FindDeploymentList_def FindDeployment_def
    by (intro quiet_onI keeps_rules keeps_let) (simp_all add: harmlessD[OF h])
  have "quiet_on stored (DeleteService (fe_kube env) s)" "quiet_on stored (DeletePersistentVolumeClaim (fe_kube env) p)"
    "quiet_on stored (DeleteDeployment (fe_kube env) d)" for s p d
    using assms unfolding DeleteService_def DeletePersistentVolumeClaim_def DeleteDeployment_def GetPersistentVolumeClaim_def FindDeployment_def
    by (intro quiet_onI keeps_rules; simp add: records_def quiet_on_def harmlessD[OF h])+
  then show "quiet_on stored (removeMigrationControllerEntities env cr zk)"
    unfolding removeMigrationControllerEntities_def
    by (intro quiet_on_bind) (auto simp: quiet_on_def split: option.split)
qed

text \<open>The stages from the recorded step \<open>k\<close> on.\<close>

lemma stages_record:
  assumes "records stored env" "k \<le> 4"
  shows "valid (\<lambda>w. recorded_step stored w = k) (migration_stages env cr n k zk) (\<lambda>_ w. recorded_step stored w = 4)
    (\<lambda>_ w. k \<le> recorded_step stored w)"
proof (cases "k = 4")
  case True
  then show ?thesis by (simp add: migration_stages_def whenE_def)
next
  case False
  let ?J = "\<lambda>w. k \<le> recorded_step stored w"
  note q = records_quiet[OF assms(1)]
  have stage: "valid ?J (whenE (k < i) (bindE m (\<lambda>_. set_migration env cr s))) (\<lambda>_. ?J) (\<lambda>_. ?J)"
    if "quiet_on stored m" "migration_step s = i" for i s and m :: "('a, unit) eff"
    using stage_records[OF assms(1) that, of k cr]
    by (cases "k < i") (auto simp: whenE_def elim!: valid_conseq)
  have ensure: "valid ?J (whenE b (ensureMigrationControllerIsReady env cr)) (\<lambda>_. ?J) (\<lambda>_. ?J)" for b
    unfolding whenE_def using valid_quiet[OF q(2), of "\<lambda>x. k \<le> migration_step (kf_MigrationStatus x)"]
    by simp
  have last: "valid ?J (whenE (k < 4) (bindE m (\<lambda>_. set_migration env cr ''Migration finished succesfully'')))
      (\<lambda>_ w. recorded_step stored w = 4) (\<lambda>_. ?J)" if "quiet_on stored m" for m :: "('a, unit) eff"
    using stage_records[OF assms(1) that, of "''Migration finished succesfully''" 4 k cr] False assms(2)
    by (simp add: whenE_def migration_step_def)
  have "valid ?J (migration_stages env cr n k zk) (\<lambda>_ w. recorded_step stored w = 4) (\<lambda>_. ?J)"
    unfolding migration_stages_def bindE_assoc[symmetric, of "updateBrokersWithoutZooKeeper env cr zk n"]
      bindE_assoc[symmetric, of "updateBrokersWithoutKraftMigrationController env cr zk n"]
    by (intro valid_bind[OF _ stage] valid_bind[OF _ ensure] last quiet_on_bind q) (simp_all add: migration_step_def)
  then show ?thesis by (rule valid_conseq) auto
qed


lemma sample_records: "records fst sample_kafkaEnv"
  unfolding records_def quiet_on_def
  by (intro conjI allI sample_harmless)
     (auto simp: sample_kafkaEnv_def kf_sample_kube_def list_crud_def keeps_def eff_defs)


end
