(* ===== verification/Service_Types.thy ===== *)
theory Service_Types
  imports Go_Prelude Kube_Objects Kube_Reconciler Kmm_Config Replication_Audit Provider_Common
begin

text \<open>
  \<open>operator/api/v7/kafkaservice_types.go\<close>: the \<open>KafkaService\<close> resource. The fields named \<open>Other\<close> stand for the remaining
  fields of a section, which the controller hands to the hash of the specification only.
\<close>

record serviceCluster = mmCluster +
  cl_BootstrapServers :: string
  cl_NodeLabel :: string

record kafkaSsl =
  ksl_Enabled :: bool
  ksl_SecretName :: string

record globalSpec =
  gl_WaitForPodsReady :: bool
  gl_PodsReadyTimeout :: int
  gl_CustomLabels :: "string gomap"
  gl_DefaultLabels :: "string gomap"
  gl_KafkaSaslMechanism :: string
  gl_KafkaSsl :: kafkaSsl
  gl_Kraft :: bool

record disasterRecovery =
  dr_Mode :: string
  dr_Region :: string
  dr_NoWait :: bool
  dr_MirrorMakerReplication :: bool
  dr_TopicsBackup :: bool

text \<open>What the sections for monitoring, AKHQ and Mirror Maker have in common.\<close>

record podSection =
  ps_DockerImage :: string
  ps_Affinity :: affinity
  ps_Tolerations :: string
  ps_PriorityClassName :: string
  ps_Resources :: resourceRequirements
  ps_SecurityContext :: string
  ps_CustomLabels :: "string gomap"

record lagExporterSpec =
  le_DockerImage :: string
  le_MetricsPort :: int

record monitoringSpec = podSection +
  mo_MonitoringType :: string
  mo_SmDbHost :: string
  mo_SmDbName :: string
  mo_DataCollectionInterval :: string
  mo_KafkaExecPluginTimeout :: string
  mo_SecretName :: string
  mo_BootstrapServers :: string
  mo_KafkaTotalBrokerCount :: int
  mo_LagExporter :: "lagExporterSpec option"
  mo_Other :: string

record ldapServer =
  ls_Server :: string
  ls_ManagerDn :: string
  ls_ManagerPass :: string
  ls_Base :: string
  ls_Filter :: string
  ls_GroupsEnabled :: bool

text \<open>A user or a group of the LDAP configuration: its name and its groups.\<close>

record ldapEntry =
  lu_Name :: string
  lu_Groups :: "string list"

record ldapConfig =
  ld_Enabled :: bool
  ld_EnableSsl :: bool
  ld_TrustedCerts :: "string gomap"
  ld_Server :: ldapServer
  ld_Groups :: "ldapEntry list"
  ld_Users :: "ldapEntry list"

record akhqSpec = podSection +
  ak_KafkaPollTimeout :: "int option"
  ak_EnableAccessLog :: "bool option"
  ak_BootstrapServers :: string
  ak_EnvironmentVariables :: "string list"
  ak_HeapSize :: "int option"
  ak_SchemaRegistryUrl :: string
  ak_SchemaRegistryType :: string
  ak_Ldap :: "ldapConfig option"
  ak_Other :: string

record mirrorMakerSpec = podSection +
  mm_HeapSize :: int
  mm_Replicas :: int
  mm_Clusters :: "serviceCluster list"
  mm_TopicsToReplicate :: string
  mm_ReplicationFactor :: int
  mm_ConfiguratorEnabled :: bool
  mm_RefreshTopicsIntervalSeconds :: "32 word option"
  mm_RefreshGroupsIntervalSeconds :: "32 word option"
  mm_ConfigurationName :: string
  mm_SecretName :: string
  mm_EnvironmentVariables :: "string list"
  mm_Config :: "string gomap"
  mm_RegionName :: string
  mm_RepeatedReplication :: "bool option"
  mm_ReplicationFlowEnabled :: bool
  mm_ReplicationPrefixEnabled :: bool
  mm_Transformation :: "transformation option"
  mm_TasksMax :: "32 word option"
  mm_InternalRestEnabled :: "bool option"
  mm_Other :: string

record mirrorMakerMonitoringSpec = podSection +
  mmm_MonitoringType :: string
  mmm_SmDbHost :: string
  mmm_SmDbName :: string
  mmm_KmmExecPluginTimeout :: string
  mmm_KmmCollectionInterval :: string
  mmm_SecretName :: string
  mmm_Other :: string

record integrationTestsSpec =
  it_ServiceName :: string
  it_WaitForResult :: bool
  it_Timeout :: int
  it_RandomRunTrigger :: string

record disasterRecoveryStatus =
  ds_Mode :: string
  ds_Status :: string
  ds_Message :: string

record kafkaService = k8sObject +
  ks_APIVersion :: string
  ks_Kind :: string
  ks_Global :: "globalSpec option"
  ks_DisasterRecovery :: "disasterRecovery option"
  ks_Monitoring :: "monitoringSpec option"
  ks_Akhq :: "akhqSpec option"
  ks_MirrorMaker :: "mirrorMakerSpec option"
  ks_MirrorMakerMonitoring :: "mirrorMakerMonitoringSpec option"
  ks_IntegrationTests :: "integrationTestsSpec option"
  ks_BackupDaemon :: "string option"
  ks_Other :: string
  ks_AkhqNodes :: "string list"
  ks_MonitoringNodes :: "string list"
  ks_MirrorMakerNodes :: "string list"
  ks_DisasterRecoveryStatus :: disasterRecoveryStatus
  ks_Conditions :: "statusCondition list"

section \<open>What the providers share\<close>

text \<open>
  The labels of every service: \<open>app.kubernetes.io/name\<close>, then those of the selector, then the default labels of the
  resource; the labels of a pod have the custom labels underneath. \<open>g\<close> is \<open>*cr.Spec.Global\<close>: without it
  the providers dereference \<open>nil\<close>.
\<close>

definition service_labels :: "globalSpec \<Rightarrow> string gomap \<Rightarrow> string gomap \<Rightarrow> string gomap" where
  "service_labels g labels selectorLabels = JoinMaps (JoinMaps labels selectorLabels) (gl_DefaultLabels g)"

definition pod_labels :: "globalSpec \<Rightarrow> string gomap \<Rightarrow> string gomap \<Rightarrow> string gomap" where
  "pod_labels g customLabels labels = JoinMaps (JoinMaps (gl_CustomLabels g) customLabels) labels"

definition ssl_secret :: "globalSpec \<Rightarrow> string option" where
  "ssl_secret g = (if ksl_Enabled (gl_KafkaSsl g) \<and> ksl_SecretName (gl_KafkaSsl g) \<noteq> [] then Some (ksl_SecretName (gl_KafkaSsl g)) else None)"

definition ssl_volumes :: "globalSpec \<Rightarrow> volume list" where
  "ssl_volumes g = (case ssl_secret g of None \<Rightarrow> [] | Some s \<Rightarrow> [vol ''ssl-certs'' (SecretVolume s None [])])"

definition ssl_mounts :: "globalSpec \<Rightarrow> volumeMount list" where
  "ssl_mounts g = (case ssl_secret g of None \<Rightarrow> [] | Some _ \<Rightarrow> [mnt ''ssl-certs'' ''/tls''])"

definition service_deployment :: "kafkaService \<Rightarrow> globalSpec \<Rightarrow> 'a podSection_scheme \<Rightarrow> string \<Rightarrow> string \<Rightarrow> string gomap \<Rightarrow>
    string gomap \<Rightarrow> 32 word \<Rightarrow> volume list \<Rightarrow> container list \<Rightarrow> affinity \<Rightarrow> string \<Rightarrow> deployment" where
  "service_deployment cr g spec name serviceAccountName labels selectorLabels replicas volumes containers aff strategy =
     (new_deployment name (obj_Namespace cr) labels)
       \<lparr>dep_Strategy := strategy, dep_Replicas := Some replicas, dep_Selector := selectorLabels,
        dep_TemplateLabels := pod_labels g (ps_CustomLabels spec) labels, dep_Volumes := volumes, dep_InitContainers := [],
        dep_Containers := containers, dep_SecurityContext := ps_SecurityContext spec, dep_ServiceAccountName := serviceAccountName,
        dep_Hostname := name, dep_Affinity := aff, dep_Tolerations := ps_Tolerations spec,
        dep_PriorityClassName := ps_PriorityClassName spec\<rparr>"

text \<open>The two labels that every deployment of a service adds to those of its service.\<close>

definition instance_labels :: "string \<Rightarrow> string \<Rightarrow> string \<Rightarrow> string gomap \<Rightarrow> string gomap" where
  "instance_labels technology name namespace labels =
     mput ''app.kubernetes.io/instance'' (name @ ''-'' @ namespace) (mput ''app.kubernetes.io/technology'' technology labels)"

section \<open>When a service deployment is well-formed\<close>

lemma service_deployment_simps [simp]:
  "dep_Selector (service_deployment cr g spec n sa l s r vs cs a st) = s" "dep_Volumes (service_deployment cr g spec n sa l s r vs cs a st) = vs"
  "dep_Containers (service_deployment cr g spec n sa l s r vs cs a st) = cs" "dep_InitContainers (service_deployment cr g spec n sa l s r vs cs a st) = []"
  "dep_TemplateLabels (service_deployment cr g spec n sa l s r vs cs a st) = pod_labels g (ps_CustomLabels spec) l"
  "dep_Replicas (service_deployment cr g spec n sa l s r vs cs a st) = Some r"
  by (simp_all add: service_deployment_def new_deployment_def)

lemma map_of_pod_labels:
  assumes "wf_map (gl_CustomLabels g)" "wf_map customLabels" "wf_map labels" "map_of labels k = Some v"
  shows "map_of (pod_labels g customLabels labels) k = Some v"
  using assms by (simp add: pod_labels_def map_of_JoinMaps)

text \<open>A label that the default labels do not set keeps its value.\<close>

lemma map_of_service_labels:
  assumes "wf_map (gl_DefaultLabels g)" "wf_map labels" "wf_map selectorLabels" "map_of (gl_DefaultLabels g) k = None"
  shows "map_of (service_labels g labels selectorLabels) k = (map_of labels ++ map_of selectorLabels) k"
  using assms by (simp add: service_labels_def map_of_JoinMaps map_add_def split: option.split)

lemma wf_service_labels [simp]: "wf_map (service_labels g labels selectorLabels)" "wf_map labels \<Longrightarrow> wf_map (instance_labels t n ns labels)"
  by (simp_all add: service_labels_def instance_labels_def)

section \<open>A sample\<close>

text \<open>A resource with monitoring, two clusters of Mirror Maker and the given region, on which the properties are evaluated.\<close>

definition sample_section :: podSection where
  "sample_section = \<lparr>ps_DockerImage = ''image'', ps_Affinity = \<lparr>aff_NodeAffinity = None, aff_Other = []\<rparr>, ps_Tolerations = [],
     ps_PriorityClassName = [], ps_Resources = \<lparr>res_Requests = [], res_Limits = []\<rparr>, ps_SecurityContext = [], ps_CustomLabels = []\<rparr>"

definition sample_cluster :: "string \<Rightarrow> serviceCluster" where
  "sample_cluster name = \<lparr>mc_Name = name, mc_EnableSsl = True, mc_SslSecretName = ''tls'', mc_SaslMechanism = ''SCRAM-SHA-512'',
     cl_BootstrapServers = ''kafka:9092'', cl_NodeLabel = []\<rparr>"

definition sample_global :: globalSpec where
  "sample_global = \<lparr>gl_WaitForPodsReady = True, gl_PodsReadyTimeout = 600, gl_CustomLabels = [], gl_DefaultLabels = [(''team'', ''kafka'')],
     gl_KafkaSaslMechanism = ''SCRAM-SHA-512'', gl_KafkaSsl = \<lparr>ksl_Enabled = True, ksl_SecretName = ''tls''\<rparr>, gl_Kraft = False\<rparr>"

definition sample_mirrorMaker :: "string \<Rightarrow> mirrorMakerSpec" where
  "sample_mirrorMaker region = podSection.extend sample_section \<lparr>mm_HeapSize = 256, mm_Replicas = 2,
     mm_Clusters = [sample_cluster ''DC1'', sample_cluster ''dc2''], mm_TopicsToReplicate = [], mm_ReplicationFactor = 3,
     mm_ConfiguratorEnabled = True, mm_RefreshTopicsIntervalSeconds = None, mm_RefreshGroupsIntervalSeconds = None,
     mm_ConfigurationName = ''mm-config'', mm_SecretName = ''mm-secret'', mm_EnvironmentVariables = [], mm_Config = [],
     mm_RegionName = region, mm_RepeatedReplication = None, mm_ReplicationFlowEnabled = True, mm_ReplicationPrefixEnabled = False,
     mm_Transformation = None, mm_TasksMax = None, mm_InternalRestEnabled = None, mm_Other = []\<rparr>"

definition sample_monitoring :: monitoringSpec where
  "sample_monitoring = podSection.extend sample_section \<lparr>mo_MonitoringType = ''prometheus'', mo_SmDbHost = [], mo_SmDbName = [],
     mo_DataCollectionInterval = [], mo_KafkaExecPluginTimeout = [], mo_SecretName = [], mo_BootstrapServers = ''kafka:9092'',
     mo_KafkaTotalBrokerCount = 3, mo_LagExporter = Some \<lparr>le_DockerImage = ''lag'', le_MetricsPort = 8000\<rparr>, mo_Other = []\<rparr>"

definition sample_resource :: "string \<Rightarrow> kafkaService" where
  "sample_resource region = \<lparr>obj_Name = ''kafka'', obj_Namespace = ''ns'', obj_Labels = [], obj_Annotations = [],
     obj_ResourceVersion = [], obj_OwnerReferences = [], ks_APIVersion = ''netcracker.com/v7'', ks_Kind = ''KafkaService'',
     ks_Global = Some sample_global, ks_DisasterRecovery = None, ks_Monitoring = Some sample_monitoring, ks_Akhq = None,
     ks_MirrorMaker = Some (sample_mirrorMaker region), ks_MirrorMakerMonitoring = None, ks_IntegrationTests = None, ks_BackupDaemon = None,
     ks_Other = [], ks_AkhqNodes = [], ks_MonitoringNodes = [], ks_MirrorMakerNodes = [],
     ks_DisasterRecoveryStatus = \<lparr>ds_Mode = [], ds_Status = [], ds_Message = []\<rparr>, ks_Conditions = []\<rparr>"

lemmas sample_resource_defs = sample_resource_def sample_global_def sample_monitoring_def sample_mirrorMaker_def sample_cluster_def
  sample_section_def podSection.defs

end
