(* ===== verification/Monitoring_Provider.thy ===== *)
theory Monitoring_Provider
  imports Go_Prelude Kube_Objects Operator_Util Provider_Common Service_Types
begin

text \<open>
  \<open>operator/controllers/provider\<close>: \<open>monitoring_provider.go\<close>, \<open>lag_exporter_provider.go\<close> and
  \<open>mirror_maker_monitoring_provider.go\<close>, the services and deployments of the monitoring agents.
\<close>

section \<open>Lag exporter\<close>

definition le_name :: "kafkaService \<Rightarrow> string" where
  "le_name cr = obj_Name cr @ ''-lag-exporter''"

definition le_getPorts :: "lagExporterSpec \<Rightarrow> containerPort list" where
  "le_getPorts le = [port ''http'' (int32 (le_MetricsPort le)) ProtocolTCP]"

definition le_getEnvs :: "globalSpec \<Rightarrow> envVar list" where
  "le_getEnvs g = [var ''KAFKA_SASL_MECHANISM'' (gl_KafkaSaslMechanism g),
     var ''KAFKA_ENABLE_SSL'' (FormatBool (ksl_Enabled (gl_KafkaSsl g))), var ''PYTHONDONTWRITEBYTECODE'' ''1'']"

definition le_getVolumeMounts :: "globalSpec \<Rightarrow> volumeMount list" where
  "le_getVolumeMounts g = [mnt ''config-volume'' ''/opt/docker/src/'',
      readonly_mnt ''monitoring-pod-secrets'' ''/etc/secrets/monitoring-pod-secrets'']
     @ ssl_mounts g @ [getTmpVolumeMount]"

definition le_getVolume :: "kafkaService \<Rightarrow> volume" where
  "le_getVolume cr = vol ''config-volume'' (ConfigMapVolume (le_name cr @ ''-configmap'') [])"

definition tcp_probe :: "int \<Rightarrow> probe" where
  "tcp_probe p = mk_probe (TCPSocketAction p) 30 5 15 1 20"

definition le_getContainer :: "globalSpec \<Rightarrow> monitoringSpec \<Rightarrow> lagExporterSpec \<Rightarrow> container" where
  "le_getContainer g spec le = (new_container ''kafka-lag-exporter'' (le_DockerImage le))
     \<lparr>ctr_Ports := le_getPorts le, ctr_Env := le_getEnvs g, ctr_Resources := ps_Resources spec,
      ctr_VolumeMounts := le_getVolumeMounts g, ctr_ImagePullPolicy := ''Always'',
      ctr_SecurityContext := Some getDefaultContainerSecurityContext,
      ctr_LivenessProbe := Some (tcp_probe (int32 (le_MetricsPort le))), ctr_ReadinessProbe := Some (tcp_probe (int32 (le_MetricsPort le)))\<rparr>"

section \<open>Monitoring\<close>

definition mo_serviceName :: "kafkaService \<Rightarrow> string" where
  "mo_serviceName cr = obj_Name cr @ ''-monitoring''"

definition GetMonitoringSelectorLabels :: "kafkaService \<Rightarrow> string gomap" where
  "GetMonitoringSelectorLabels cr = [(''component'', ''kafka-monitoring''), (''name'', mo_serviceName cr)]"

definition GetMonitoringLabels :: "kafkaService \<Rightarrow> globalSpec \<Rightarrow> string gomap" where
  "GetMonitoringLabels cr g = service_labels g [(''app.kubernetes.io/name'', mo_serviceName cr)] (GetMonitoringSelectorLabels cr)"

definition mo_GetServiceAccountName :: "kafkaService \<Rightarrow> string" where
  "mo_GetServiceAccountName cr = mo_serviceName cr"

definition NewMonitoringClientService :: "kafkaService \<Rightarrow> go_error + service" where
  "NewMonitoringClientService cr =
     bindR (deref (ks_Global cr)) (\<lambda>g. bindR (deref (ks_Monitoring cr)) (\<lambda>spec.
       Inr (newServiceForCR (mo_serviceName cr) (obj_Namespace cr) (GetMonitoringLabels cr g) (GetMonitoringSelectorLabels cr)
         ([tcp ''kafka-monitoring-statsd'' 8125, tcp ''kafka-monitoring-tcp'' 8094, udp ''kafka-monitoring-udp'' 8092]
          @ (if mo_MonitoringType spec = ''prometheus'' then [tcp ''prometheus-cli'' 8096] else [])
          @ (case mo_LagExporter spec of None \<Rightarrow> [] | Some le \<Rightarrow> [tcp ''http'' (int32 (le_MetricsPort le))])))))"

definition getMonitoringContainerPorts :: "containerPort list" where
  "getMonitoringContainerPorts = [port [] 8125 ProtocolTCP, port [] 8094 ProtocolTCP, port [] 8092 ProtocolUDP,
     port ''prometheus-cli'' 8096 ProtocolTCP]"

definition project :: "string \<Rightarrow> envVar" where
  "project name = \<lparr>env_Name = name, env_Value = [], env_ValueFrom = Some (FieldRef ''metadata.namespace'')\<rparr>"

definition getMonitoringEnvironmentVariables :: "kafkaService \<Rightarrow> globalSpec \<Rightarrow> monitoringSpec \<Rightarrow> envVar list" where
  "getMonitoringEnvironmentVariables cr g spec =
     [project ''OS_PROJECT'', var ''KAFKA_SERVICE_NAME'' (obj_Name cr),
      var ''KAFKA_EXEC_PLUGIN_TIMEOUT'' (DefaultIfEmpty (mo_KafkaExecPluginTimeout spec) ''10s''),
      var ''KAFKA_TOTAL_BROKERS_COUNT'' (strconv_Itoa (mo_KafkaTotalBrokerCount spec)), var ''KAFKA_ADDRESSES'' (mo_BootstrapServers spec),
      var ''KAFKA_SASL_MECHANISM'' (gl_KafkaSaslMechanism g), var ''KAFKA_ENABLE_SSL'' (FormatBool (ksl_Enabled (gl_KafkaSsl g))),
      var ''DATA_COLLECTION_INTERVAL'' (DefaultIfEmpty (mo_DataCollectionInterval spec) ''10s''), var ''PYTHONDONTWRITEBYTECODE'' ''1'']"

definition getMonitoringEnvs :: "kafkaService \<Rightarrow> globalSpec \<Rightarrow> monitoringSpec \<Rightarrow> envVar list" where
  "getMonitoringEnvs cr g spec = getMonitoringEnvironmentVariables cr g spec
     @ (if mo_MonitoringType spec = ''influxdb'' then [var ''SM_DB_HOST'' (mo_SmDbHost spec), var ''SM_DB_NAME'' (mo_SmDbName spec)] else [])"

definition getMonitoringVolumes :: "kafkaService \<Rightarrow> globalSpec \<Rightarrow> monitoringSpec \<Rightarrow> volume list" where
  "getMonitoringVolumes cr g spec =
     [vol ''config'' (ConfigMapVolume (mo_serviceName cr @ ''-configuration'') [(''config'', ''telegraf.conf'')]),
      vol ''monitoring-pod-secrets'' (ProjectedVolume (Some 420)
        (SecretProjection (obj_Name cr @ ''-services-secret'') [(''client-username'', ''client_username''), (''client-password'', ''client_password'')]
         # (if mo_SecretName spec \<noteq> [] \<and> mo_MonitoringType spec = ''influxdb''
            then [SecretProjection (mo_SecretName spec) [(''sm-db-username'', ''sm_db_username''), (''sm-db-password'', ''sm_db_password'')]] else [])))]
     @ ssl_volumes g @ (if mo_LagExporter spec \<noteq> None then [le_getVolume cr] else []) @ [getTmpVolume ''32Mi'']"

definition getMonitoringVolumeMounts :: "globalSpec \<Rightarrow> volumeMount list" where
  "getMonitoringVolumeMounts g = [mnt ''config'' ''/etc/telegraf'',
      readonly_mnt ''monitoring-pod-secrets'' ''/etc/secrets/monitoring-pod-secrets'']
     @ ssl_mounts g @ [getTmpVolumeMount]"

definition getMonitoringContainers :: "kafkaService \<Rightarrow> globalSpec \<Rightarrow> monitoringSpec \<Rightarrow> container list" where
  "getMonitoringContainers cr g spec = (new_container (mo_serviceName cr) (ps_DockerImage spec))
     \<lparr>ctr_Ports := getMonitoringContainerPorts, ctr_Env := getMonitoringEnvs cr g spec, ctr_Resources := ps_Resources spec,
      ctr_VolumeMounts := getMonitoringVolumeMounts g, ctr_ImagePullPolicy := ''Always'',
      ctr_SecurityContext := Some getDefaultContainerSecurityContext, ctr_LivenessProbe := Some (tcp_probe 8096),
      ctr_ReadinessProbe := Some (tcp_probe 8096)\<rparr>
     # (case mo_LagExporter spec of None \<Rightarrow> [] | Some le \<Rightarrow> [le_getContainer g spec le])"

text \<open>The version of the config map is an argument of the method that no part of the deployment depends on.\<close>

definition NewMonitoringDeployment :: "kafkaService \<Rightarrow> string \<Rightarrow> go_error + deployment" where
  "NewMonitoringDeployment cr cmVersion =
     bindR (deref (ks_Global cr)) (\<lambda>g. bindR (deref (ks_Monitoring cr)) (\<lambda>spec.
       Inr (service_deployment cr g spec (mo_serviceName cr) (mo_GetServiceAccountName cr)
         (instance_labels ''python'' (mo_serviceName cr) (obj_Namespace cr) (GetMonitoringLabels cr g)) (GetMonitoringSelectorLabels cr) 1
         (getMonitoringVolumes cr g spec) (getMonitoringContainers cr g spec) (ps_Affinity spec) ''Recreate'')))"

section \<open>Mirror Maker monitoring\<close>

definition mmm_serviceName :: "kafkaService \<Rightarrow> string" where
  "mmm_serviceName cr = obj_Name cr @ ''-mirror-maker-monitoring''"

definition GetMirrorMakerMonitoringSelectorLabels :: "kafkaService \<Rightarrow> string gomap" where
  "GetMirrorMakerMonitoringSelectorLabels cr = [(''component'', ''kafka-mirror-maker-monitoring''), (''name'', mmm_serviceName cr)]"

definition GetMirrorMakerMonitoringLabels :: "kafkaService \<Rightarrow> globalSpec \<Rightarrow> string gomap" where
  "GetMirrorMakerMonitoringLabels cr g =
     service_labels g [(''app.kubernetes.io/name'', mmm_serviceName cr)] (GetMirrorMakerMonitoringSelectorLabels cr)"

definition mmm_GetServiceAccountName :: "kafkaService \<Rightarrow> string" where
  "mmm_GetServiceAccountName cr = mmm_serviceName cr"

definition BuildServiceName :: "kafkaService \<Rightarrow> string" where
  "BuildServiceName cr = obj_Name cr @ ''-mirror-maker''"

definition prometheus_url :: "kafkaService \<Rightarrow> string \<Rightarrow> string" where
  "prometheus_url cr clusterName = ''http://'' @ clusterName @ ''-'' @ BuildServiceName cr @ ''.'' @ obj_Namespace cr @ '':8080''"

definition buildPrometheusUrlsByMirrorMakerConfig :: "kafkaService \<Rightarrow> go_error + string list" where
  "buildPrometheusUrlsByMirrorMakerConfig cr =
     bindR (deref (ks_MirrorMaker cr)) (\<lambda>spec.
       let names = map (\<lambda>cluster. strings_ToLower (mc_Name cluster)) (mm_Clusters spec) in
       Inr (map (prometheus_url cr) (if mm_RegionName spec = [] then names
         else (case find (\<lambda>n. n = mm_RegionName spec) names of None \<Rightarrow> [] | Some n \<Rightarrow> [n]))))"

text \<open>\<open>json.Marshal\<close> of a string and of a slice of strings; a slice without elements is \<open>nil\<close> here.\<close>

definition json_char :: "char \<Rightarrow> string" where
  "json_char c =
     (let hex = (\<lambda>n. ''0123456789abcdef'' ! n); n = of_char c in
      if c = CHR 0x22 \<or> c = CHR 0x5C then [CHR 0x5C, c]
      else if c = CHR 0x08 then [CHR 0x5C, CHR ''b'']
      else if c = CHR 0x0C then [CHR 0x5C, CHR ''f'']
      else if c = CHR 0x0A then [CHR 0x5C, CHR ''n'']
      else if c = CHR 0x0D then [CHR 0x5C, CHR ''r'']
      else if c = CHR 0x09 then [CHR 0x5C, CHR ''t'']
      else if n < 32 \<or> c \<in> set ''<>&'' then [CHR 0x5C] @ ''u00'' @ [hex (n div 16), hex (n mod 16)]
      else [c])"

definition json_string :: "string \<Rightarrow> string" where
  "json_string s = [CHR 0x22] @ concat (map json_char s) @ [CHR 0x22]"

definition json_strings :: "string list \<Rightarrow> string" where
  "json_strings xs = (if xs = [] then ''null'' else ''['' @ strings_Join (map json_string xs) '','' @ '']'')"

definition getPrometheusUrls :: "kafkaService \<Rightarrow> go_error + string" where
  "getPrometheusUrls cr = map_sum id json_strings (buildPrometheusUrlsByMirrorMakerConfig cr)"

definition mmm_getMonitoringEnvironmentVariables :: "mirrorMakerMonitoringSpec \<Rightarrow> string \<Rightarrow> envVar list" where
  "mmm_getMonitoringEnvironmentVariables spec urls =
     [project ''OS_PROJECT'', var ''PROMETHEUS_URLS'' urls,
      var ''KMM_EXEC_PLUGIN_TIMEOUT'' (DefaultIfEmpty (mmm_KmmExecPluginTimeout spec) ''20s''),
      var ''KMM_COLLECTION_INTERVAL'' (DefaultIfEmpty (mmm_KmmCollectionInterval spec) ''5s''), var ''PYTHONDONTWRITEBYTECODE'' ''1'']"

definition mmm_NewMonitoringClientService :: "kafkaService \<Rightarrow> go_error + service" where
  "mmm_NewMonitoringClientService cr =
     bindR (deref (ks_Global cr)) (\<lambda>g. bindR (deref (ks_MirrorMakerMonitoring cr)) (\<lambda>spec.
       Inr (newServiceForCR (mmm_serviceName cr) (obj_Namespace cr) (GetMirrorMakerMonitoringLabels cr g)
         (GetMirrorMakerMonitoringSelectorLabels cr)
         ([tcp ''kmm-monitoring-statsd'' 8125, tcp ''kmm-monitoring-tcp'' 8094, udp ''kmm-monitoring-udp'' 8092]
          @ (if mmm_MonitoringType spec = ''prometheus'' then [tcp ''prometheus-cli'' 8096] else [])))))"

definition mmm_getContainerPorts :: "mirrorMakerMonitoringSpec \<Rightarrow> containerPort list" where
  "mmm_getContainerPorts spec = [port [] 8125 ProtocolTCP, port [] 8094 ProtocolTCP, port [] 8092 ProtocolUDP]
     @ (if mmm_MonitoringType spec = ''prometheus'' then [port ''prometheus-cli'' 8096 ProtocolTCP] else [])"

definition mmm_secret_mounted :: "mirrorMakerMonitoringSpec \<Rightarrow> bool" where
  "mmm_secret_mounted spec \<longleftrightarrow> mmm_SecretName spec \<noteq> [] \<and> mmm_MonitoringType spec = ''influxdb''"

definition getMirrorMakerMonitoringVolumes :: "kafkaService \<Rightarrow> mirrorMakerMonitoringSpec \<Rightarrow> volume list" where
  "getMirrorMakerMonitoringVolumes cr spec =
     [vol ''config'' (ConfigMapVolume (mmm_serviceName cr @ ''-configuration'') [(''config'', ''telegraf.conf'')]), getTmpVolume ''16Mi'']
     @ (if mmm_secret_mounted spec then [vol ''mirror-maker-monitoring-pod-secrets'' (SecretVolume (mmm_SecretName spec) (Some 420)
          [(''sm-db-username'', ''sm_db_username''), (''sm-db-password'', ''sm_db_password'')])] else [])"

definition getMirrorMakerMonitoringVolumeMounts :: "mirrorMakerMonitoringSpec \<Rightarrow> volumeMount list" where
  "getMirrorMakerMonitoringVolumeMounts spec = [mnt ''config'' ''/etc/telegraf'', getTmpVolumeMount]
     @ (if mmm_secret_mounted spec
        then [readonly_mnt ''mirror-maker-monitoring-pod-secrets'' ''/etc/secrets/mirror-maker-monitoring-pod-secrets''] else [])"

definition mmm_replicas :: "kafkaService \<Rightarrow> 32 word" where
  "mmm_replicas cr = (case ks_DisasterRecovery cr of
      Some dr \<Rightarrow> if dr_Mode dr = ''active'' \<or> dr_Mode dr = ''disabled'' then 0 else 1
    | None \<Rightarrow> 1)"

definition NewMirrorMakerMonitoringDeployment :: "kafkaService \<Rightarrow> go_error + deployment" where
  "NewMirrorMakerMonitoringDeployment cr =
     bindR (deref (ks_Global cr)) (\<lambda>g. bindR (deref (ks_MirrorMakerMonitoring cr)) (\<lambda>spec. bindR (getPrometheusUrls cr) (\<lambda>urls.
       let name = mmm_serviceName cr;
           envVars = mmm_getMonitoringEnvironmentVariables spec urls
             @ (if mmm_MonitoringType spec = ''influxdb'' then [var ''SM_DB_HOST'' (mmm_SmDbHost spec), var ''SM_DB_NAME'' (mmm_SmDbName spec)] else []) in
       Inr (service_deployment cr g spec name (mmm_GetServiceAccountName cr)
         (instance_labels ''python'' name (obj_Namespace cr) (GetMirrorMakerMonitoringLabels cr g)) (GetMirrorMakerMonitoringSelectorLabels cr)
         (mmm_replicas cr) (getMirrorMakerMonitoringVolumes cr spec)
         [(new_container name (ps_DockerImage spec))
            \<lparr>ctr_Ports := mmm_getContainerPorts spec, ctr_Env := envVars, ctr_Resources := ps_Resources spec,
             ctr_VolumeMounts := getMirrorMakerMonitoringVolumeMounts spec, ctr_ImagePullPolicy := ''Always'',
             ctr_SecurityContext := Some getDefaultContainerSecurityContext, ctr_LivenessProbe := Some (tcp_probe 8096),
             ctr_ReadinessProbe := Some (tcp_probe 8096)\<rparr>]
         (ps_Affinity spec) ''Recreate''))))"

end
