(* ===== verification/Akhq_Provider.thy ===== *)
theory Akhq_Provider
  imports Go_Prelude Kube_Objects Operator_Util Akhq_Config Provider_Common Service_Types
begin

text \<open>
  \<open>operator/controllers/provider/akhq_provider.go\<close>: the objects of AKHQ, its secrets, config maps, service and
  deployment, and the texts of its LDAP configuration.
\<close>

section \<open>Labels, service and configuration\<close>

definition akhq_serviceName :: string where "akhq_serviceName = ''akhq''"

definition GetAkhqSelectorLabels :: "string gomap" where
  "GetAkhqSelectorLabels = [(''component'', ''akhq''), (''name'', akhq_serviceName)]"

definition GetAkhqLabels :: "globalSpec \<Rightarrow> string gomap" where
  "GetAkhqLabels g = service_labels g [(''app.kubernetes.io/name'', akhq_serviceName)] GetAkhqSelectorLabels"

definition akhq_GetServiceAccountName :: string where
  "akhq_GetServiceAccountName = akhq_serviceName"

definition getKafkaPollTimeout :: "akhqSpec \<Rightarrow> int" where
  "getKafkaPollTimeout spec = (case ak_KafkaPollTimeout spec of Some t \<Rightarrow> t | None \<Rightarrow> 10000)"

definition isAccessLogEnabled :: "akhqSpec \<Rightarrow> bool" where
  "isAccessLogEnabled spec = (case ak_EnableAccessLog spec of Some b \<Rightarrow> b | None \<Rightarrow> False)"

definition NewAkhqClientService :: "kafkaService \<Rightarrow> go_error + service" where
  "NewAkhqClientService cr = bindR (deref (ks_Global cr)) (\<lambda>g.
     Inr (newServiceForCR akhq_serviceName (obj_Namespace cr) (GetAkhqLabels g) GetAkhqSelectorLabels [tcp ''akhq-http'' 8080]))"

text \<open>The loop over the certificates; the result is \<open>nil\<close> at the first one that does not decode.\<close>

fun decode_certs :: "string gomap \<Rightarrow> string gomap option" where
  "decode_certs [] = Some []"
| "decode_certs ((key, cert) # rest) =
     (case base64_Decode cert of Inl _ \<Rightarrow> None | Inr d \<Rightarrow> map_option (\<lambda>m. (key, d) # m) (decode_certs rest))"

definition NewLdapTrustedSecret :: "kafkaService \<Rightarrow> string \<Rightarrow> go_error + secret option" where
  "NewLdapTrustedSecret cr secretName =
     bindR (deref (ks_Global cr)) (\<lambda>g. bindR (deref (ks_Akhq cr)) (\<lambda>spec. bindR (deref (ak_Ldap spec)) (\<lambda>ldap.
       let sec = new_secret secretName (obj_Namespace cr) (GetAkhqLabels g) in
       Inr (if ld_Enabled ldap \<and> ld_EnableSsl ldap
            then map_option (\<lambda>m. sec\<lparr>sec_Data := Some m\<rparr>) (decode_certs (ld_TrustedCerts ldap)) else Some sec))))"

definition ProtectedSecretsFields :: "string list" where
  "ProtectedSecretsFields = [''security_groups_config'', ''basic_auth_users_config'']"

definition GetLdapServerProperties :: "ldapConfig \<Rightarrow> string" where
  "GetLdapServerProperties ldap =
     (let q = (\<lambda>s. [CHR 0x27] @ s @ [CHR 0x27]); srv = ld_Server ldap in
      strings_Join (if ld_Enabled ldap then
        [''context:'', ''  server: '' @ q ((if ld_EnableSsl ldap then ''ldaps'' else ''ldap'') @ ''://'' @ ls_Server srv),
         ''  managerDn: '' @ q (ls_ManagerDn srv), ''  managerPassword: '' @ q (ls_ManagerPass srv), ''search:'',
         ''  base: '' @ q (ls_Base srv), ''  filter: '' @ q (ls_Filter srv)]
        @ (if ls_GroupsEnabled srv then [''groups:'', ''  enabled: true''] else []) else []) [CHR ''\<newline>''])"

definition ldap_items :: "string list \<Rightarrow> string list" where
  "ldap_items groups = map (\<lambda>g. ''        - '' @ g) (filter (\<lambda>g. g \<noteq> []) groups)"

definition GetLdapUsersProperties :: "ldapConfig \<Rightarrow> string" where
  "GetLdapUsersProperties ldap = strings_Join (if ld_Enabled ldap then
      concat (map (\<lambda>user. if lu_Name user \<noteq> [] then [''ldap:'', ''  users:'', ''    - username: '' @ lu_Name user, ''      groups:'']
        @ ldap_items (lu_Groups user) else []) (ld_Users ldap))
      @ concat (map (\<lambda>group. if lu_Name group \<noteq> [] then [''  groups:'', ''    - name: '' @ lu_Name group, ''      subgroups:'']
        @ ldap_items (lu_Groups group) else []) (ld_Groups ldap))
     else []) [CHR ''\<newline>'']"

definition NewSecurityConfiguration :: "kafkaService \<Rightarrow> go_error + secret" where
  "NewSecurityConfiguration cr =
     bindR (deref (ks_Global cr)) (\<lambda>g.
       let (server, users) = (case ks_Akhq cr of
             Some spec \<Rightarrow> (case ak_Ldap spec of
                 Some ldap \<Rightarrow> if ld_Enabled ldap then (GetLdapServerProperties ldap, GetLdapUsersProperties ldap) else ([], [])
               | None \<Rightarrow> ([], []))
           | None \<Rightarrow> ([], [])) in
       Inr ((new_secret ''akhq-security-configuration'' (obj_Namespace cr) (GetAkhqLabels g))\<lparr>sec_StringData :=
         Some [(''security_groups_config'', []), (''basic_auth_users_config'', []), (''ldap_server_config'', server), (''ldap_users_config'', users)]\<rparr>))"

definition NewConfigMapWithKey :: "kafkaService \<Rightarrow> string \<Rightarrow> string \<Rightarrow> go_error + configMap" where
  "NewConfigMapWithKey cr configMapName key = bindR (deref (ks_Global cr)) (\<lambda>g.
     Inr ((new_configMap configMapName (obj_Namespace cr) (GetAkhqLabels g))\<lparr>cm_Data := [(key, [])]\<rparr>))"

definition NewConfigMapWithKeyValue :: "kafkaService \<Rightarrow> string \<Rightarrow> string \<Rightarrow> string \<Rightarrow> go_error + configMap" where
  "NewConfigMapWithKeyValue cr configMapName key value = bindR (deref (ks_Global cr)) (\<lambda>g.
     Inr ((new_configMap configMapName (obj_Namespace cr) (GetAkhqLabels g))\<lparr>cm_Data := [(key, value)]\<rparr>))"

definition NewBinaryConfigMap :: "kafkaService \<Rightarrow> string \<Rightarrow> go_error + configMap" where
  "NewBinaryConfigMap cr configMapName = bindR (deref (ks_Global cr)) (\<lambda>g.
     Inr (new_configMap configMapName (obj_Namespace cr) (GetAkhqLabels g)))"

definition NewConfigurationMapForLdap :: "kafkaService \<Rightarrow> string \<Rightarrow> go_error + configMap" where
  "NewConfigurationMapForLdap cr configMapName =
     bindR (deref (ks_Global cr)) (\<lambda>g. bindR (deref (ks_Akhq cr)) (\<lambda>spec. bindR (deref (ak_Ldap spec)) (\<lambda>ldap.
       Inr ((new_configMap configMapName (obj_Namespace cr) (GetAkhqLabels g))\<lparr>cm_Data :=
         [(''ldap_server_config'', CHR ''\<newline>'' # GetLdapServerProperties ldap), (''ldap_users_config'', CHR ''\<newline>'' # GetLdapUsersProperties ldap)]\<rparr>))))"

section \<open>Deployment\<close>

definition same_items :: "string list \<Rightarrow> (string \<times> string) list" where
  "same_items keys = map (\<lambda>k. (k, k)) keys"

definition createProjectedVolumeForProtoKeysMaps :: "configMap list \<Rightarrow> volume" where
  "createProjectedVolumeForProtoKeysMaps deserializationConfigMaps =
     vol ''proto-keys'' (ProjectedVolume None (map (\<lambda>cm. ConfigMapProjection (obj_Name cm)) deserializationConfigMaps))"

definition getAkhqVolumes :: "kafkaService \<Rightarrow> globalSpec \<Rightarrow> akhqSpec \<Rightarrow> ldapConfig \<Rightarrow> configMap list \<Rightarrow> volume list" where
  "getAkhqVolumes cr g spec ldap deserializationConfigMaps =
     [vol ''trusted-certs'' (SecretVolume ''akhq-trusted-certs'' None [])]
     @ (if deserializationConfigMaps \<noteq> [] then [createProjectedVolumeForProtoKeysMaps deserializationConfigMaps] else [])
     @ ssl_volumes g
     @ (if ld_Enabled ldap then [vol ''ldap-config'' (ConfigMapVolume ''akhq-security-configuration'' [])] else [])
     @ [vol ''akhq-pod-secrets'' (ProjectedVolume (Some 420)
          ([SecretProjection (obj_Name cr @ ''-services-secret'') (same_items [''client-username'', ''client-password'']),
            SecretProjection ''akhq-secret'' (same_items [''akhq_default_user'', ''akhq_default_password'']),
            SecretProjection ''akhq-security-configuration''
              (same_items [''security_groups_config'', ''basic_auth_users_config'', ''ldap_server_config'', ''ldap_users_config''])]
           @ (if ld_Enabled ldap then [SecretProjection ''akhq-ldap-secret'' (same_items [''LDAP_ADMIN_USER'', ''LDAP_ADMIN_PASSWORD''])] else [])
           @ (if ak_SchemaRegistryUrl spec \<noteq> [] then [SecretProjection ''schema-registry-secret'' (same_items [''username'', ''password''])] else []))),
        getTmpVolume ''32Mi'']"

definition getAkhqVolumeMounts :: "globalSpec \<Rightarrow> ldapConfig \<Rightarrow> configMap list \<Rightarrow> volumeMount list" where
  "getAkhqVolumeMounts g ldap deserializationConfigMaps =
     [mnt ''trusted-certs'' ''/app/trustcerts'']
     @ (if deserializationConfigMaps \<noteq> [] then [mnt ''proto-keys'' ''/app/config/descs-compressed''] else [])
     @ ssl_mounts g @ (if ld_Enabled ldap then [mnt ''ldap-config'' ''/app/config/ldap''] else [])
     @ [readonly_mnt ''akhq-pod-secrets'' ''/etc/secrets/akhq-pod-secrets'', getTmpVolumeMount]"

definition getAkhqEnvironmentVariables :: "kafkaService \<Rightarrow> globalSpec \<Rightarrow> akhqSpec \<Rightarrow> string \<Rightarrow> envVar list" where
  "getAkhqEnvironmentVariables cr g spec protobufConfigMapVersion =
     [var ''KAFKA_SERVICE_NAME'' (obj_Name cr), var ''KAFKA_POLL_TIMEOUT_MS'' (strconv_Itoa (getKafkaPollTimeout spec)),
      var ''BOOTSTRAP_SERVERS'' (ak_BootstrapServers spec), var ''KAFKA_SASL_MECHANISM'' (gl_KafkaSaslMechanism g),
      var ''KAFKA_ENABLE_SSL'' (FormatBool (ksl_Enabled (gl_KafkaSsl g))), var ''ENABLE_ACCESS_LOG'' (FormatBool (isAccessLogEnabled spec)),
      \<lparr>env_Name = ''PROTOBUF_CONFIGURATION'', env_Value = [],
        env_ValueFrom = Some (getConfigMapEnvVarSource (akhq_serviceName @ ''-protobuf-configuration'') ''config'')\<rparr>,
      var ''PROTOBUF_CONFIGURATION_VERSION'' protobufConfigMapVersion]
     @ (case ak_HeapSize spec of None \<Rightarrow> [] | Some n \<Rightarrow> [var ''HEAP_OPTS'' (heap_opts n)])
     @ (if ak_SchemaRegistryUrl spec \<noteq> [] then [var ''SCHEMA_REGISTRY_URL'' (ak_SchemaRegistryUrl spec),
          var ''SCHEMA_REGISTRY_TYPE'' (ak_SchemaRegistryType spec)] else [])"

definition NewAkhqDeployment :: "providerEnv \<Rightarrow> kafkaService \<Rightarrow> string \<Rightarrow> configMap list \<Rightarrow> go_error + deployment" where
  "NewAkhqDeployment pe cr protobufConfigMapVersion deserializationConfigMaps =
     bindR (deref (ks_Global cr)) (\<lambda>g. bindR (deref (ks_Akhq cr)) (\<lambda>spec. bindR (deref (ak_Ldap spec)) (\<lambda>ldap.
       Inr (service_deployment cr g spec akhq_serviceName akhq_GetServiceAccountName
         (instance_labels ''java-others'' akhq_serviceName (obj_Namespace cr) (GetAkhqLabels g)) GetAkhqSelectorLabels 1
         (getAkhqVolumes cr g spec ldap deserializationConfigMaps)
         [(new_container akhq_serviceName (ps_DockerImage spec))
            \<lparr>ctr_Ports := [port [] 8080 ProtocolTCP, port [] 8081 ProtocolTCP],
             ctr_LivenessProbe := Some (mk_probe (TCPSocketAction 8080) 30 5 15 1 5),
             ctr_ReadinessProbe := Some (mk_probe (HTTPGetAction ''/health'' 8081 ''HTTP'') 40 15 15 1 5),
             ctr_Env := buildEnvs pe (getAkhqEnvironmentVariables cr g spec protobufConfigMapVersion) (ak_EnvironmentVariables spec),
             ctr_Resources := ps_Resources spec, ctr_VolumeMounts := getAkhqVolumeMounts g ldap deserializationConfigMaps,
             ctr_ImagePullPolicy := ''Always'', ctr_SecurityContext := Some getDefaultContainerSecurityContext\<rparr>]
         (ps_Affinity spec) ''RollingUpdate''))))"

end
