(* ===== verification/Mirror_Maker_Provider.thy ===== *)
theory Mirror_Maker_Provider
  imports Go_Prelude Kube_Objects Operator_Util Kmm_Config Provider_Common Service_Types Monitoring_Provider
begin

text \<open>
  \<open>operator/controllers/provider/mirror_maker_provider.go\<close>: the configuration of Mirror Maker 2 (the text of its
  properties), and its config map, service and deployments.
\<close>

section \<open>Properties\<close>

definition getIntValueOrDefault :: "32 word option \<Rightarrow> 32 word \<Rightarrow> 32 word" where
  "getIntValueOrDefault intValue defaultValue = (case intValue of None \<Rightarrow> defaultValue | Some v \<Rightarrow> v)"

definition getBoolValueOrDefault :: "bool option \<Rightarrow> bool \<Rightarrow> bool" where
  "getBoolValueOrDefault boolValue defaultValue = (case boolValue of None \<Rightarrow> defaultValue | Some v \<Rightarrow> v)"

definition isRepeatedReplication :: "mirrorMakerSpec \<Rightarrow> bool" where
  "isRepeatedReplication spec = getBoolValueOrDefault (mm_RepeatedReplication spec) False"

definition drEnabled :: "kafkaService \<Rightarrow> bool" where
  "drEnabled cr = (case ks_DisasterRecovery cr of None \<Rightarrow> False | Some dr \<Rightarrow> dr_MirrorMakerReplication dr)"

text \<open>The lines that do not depend on the clusters.\<close>

definition replication_head :: "kafkaService \<Rightarrow> mirrorMakerSpec \<Rightarrow> string list" where
  "replication_head cr spec =
     (if drEnabled cr then [''emit.checkpoints.enabled = true'', ''emit.checkpoints.interval.seconds = 5'',
        ''sync.group.offsets.enabled = true'', ''sync.group.offsets.interval.seconds = 5''] else [])
     @ (if drEnabled cr \<or> \<not> mm_ReplicationPrefixEnabled spec
        then [ReplicationPolicyClassConfig @ '' = '' @ IdentityReplicationPolicy] else [])
     @ (if \<not> mm_ConfiguratorEnabled spec \<and> mm_TopicsToReplicate spec \<noteq> [] then [''topics = '' @ mm_TopicsToReplicate spec] else [])
     @ [[], ''# configure a specific source->target replication flow'']"

text \<open>The lines of one flow, appended to the configuration so far.\<close>

definition flow_lines :: "kafkaService \<Rightarrow> mirrorMakerSpec \<Rightarrow> string \<Rightarrow> string list \<Rightarrow> string \<Rightarrow> string list" where
  "flow_lines cr spec sourceClusterName replicationConfig targetClusterName =
     (if sourceClusterName = targetClusterName then replicationConfig else
      let replicationFlow = NewReplicationFlow sourceClusterName targetClusterName;
          replicationFlowEnabled = (drEnabled cr \<or> mm_ReplicationFlowEnabled spec);
          replicationConfig = replicationConfig @ [replicationFlow @ ''.enabled = '' @ FormatBool replicationFlowEnabled];
          replicationConfig = (if replicationFlowEnabled \<and> \<not> mm_ConfiguratorEnabled spec
            then AddTransformationProperties (NewTransformationConfigurator (mm_Transformation spec) []) replicationConfig
              sourceClusterName targetClusterName (drEnabled cr \<or> \<not> mm_ReplicationPrefixEnabled spec)
            else replicationConfig) in
      if drEnabled cr then replicationConfig
      else replicationConfig @ [replicationFlow @ ''.sync.group.offsets.enabled = false'', replicationFlow @ ''.sync.group.offsets.interval.seconds = 5''])"

definition createReplicationFlowConfig :: "kafkaService \<Rightarrow> mirrorMakerSpec \<Rightarrow> string list \<Rightarrow> string list \<Rightarrow> bool \<Rightarrow> string list" where
  "createReplicationFlowConfig cr spec sourceNames targetNames repeatedReplication =
     foldl (\<lambda>config source. foldl (flow_lines cr spec source) config targetNames) (replication_head cr spec) sourceNames
     @ (if repeatedReplication then [] else
        [''topics.blacklist = '' @ strings_Join (map (\<lambda>source. source @ [CHR 0x5C] @ ''.*'') sourceNames
          @ [''.*'' @ [CHR 0x5C] @ ''..*-internal'', ''.*'' @ [CHR 0x5C] @ ''..*'' @ [CHR 0x5C] @ ''.internal'', ''__.*'']) '',''])"

definition cluster_names :: "mirrorMakerSpec \<Rightarrow> string list" where
  "cluster_names spec = map (\<lambda>cluster. strings_ToLower (mc_Name cluster)) (mm_Clusters spec)"

definition common_lines :: "mirrorMakerSpec \<Rightarrow> string list" where
  "common_lines spec =
     (let factor = strconv_Itoa (mm_ReplicationFactor spec) in
      [''# mm2.properties'', ''clusters = '' @ strings_Join (cluster_names spec) '', '', ''replication.factor = '' @ factor,
       ''config.storage.replication.factor = '' @ factor, ''offset.storage.replication.factor = '' @ factor,
       ''status.storage.replication.factor = '' @ factor, ''heartbeats.topic.replication.factor = '' @ factor,
       ''checkpoints.topic.replication.factor = '' @ factor, ''offset-syncs.topic.replication.factor = '' @ factor,
       ''refresh.topics.interval.seconds = '' @ strconv_Itoa (sint (getIntValueOrDefault (mm_RefreshTopicsIntervalSeconds spec) 5)),
       ''refresh.groups.interval.seconds = '' @ strconv_Itoa (sint (getIntValueOrDefault (mm_RefreshGroupsIntervalSeconds spec) 5)),
       ''dedicated.mode.enable.internal.rest = '' @ FormatBool (getBoolValueOrDefault (mm_InternalRestEnabled spec) True),
       ''tasks.max = '' @ strconv_Itoa (sint (getIntValueOrDefault (mm_TasksMax spec) (word_of_int (mm_Replicas spec)))),
       ''sync.topic.acls.enabled = false'', []])"

definition server_lines :: "mirrorMakerSpec \<Rightarrow> string list" where
  "server_lines spec = concat (map (\<lambda>cluster. let clusterName = strings_ToLower (mc_Name cluster) in
     [''# configure ['' @ clusterName @ ''] cluster'', clusterName @ ''.bootstrap.servers = '' @ cl_BootstrapServers cluster, []])
     (mm_Clusters spec))"

definition properties_lines :: "kafkaService \<Rightarrow> mirrorMakerSpec \<Rightarrow> string list" where
  "properties_lines cr spec =
     common_lines spec @ server_lines spec
     @ (if mm_RegionName spec \<noteq> [] then [''target.dc='' @ mm_RegionName spec] else [])
     @ createReplicationFlowConfig cr spec (cluster_names spec)
         (if mm_RegionName spec \<noteq> [] then [strings_ToLower (mm_RegionName spec)] else cluster_names spec) (isRepeatedReplication spec)"

definition GetMirrorMakerProperties :: "kafkaService \<Rightarrow> go_error + string" where
  "GetMirrorMakerProperties cr = bindR (deref (ks_MirrorMaker cr)) (\<lambda>spec.
     Inr (strings_Join (properties_lines cr spec) [CHR ''\<newline>'']))"

section \<open>Objects\<close>

definition GetMirrorMakerSelectorLabels :: "kafkaService \<Rightarrow> string gomap" where
  "GetMirrorMakerSelectorLabels cr = [(''component'', ''kafka-mm''), (''clusterName'', BuildServiceName cr)]"

definition GetMirrorMakerLabels :: "kafkaService \<Rightarrow> globalSpec \<Rightarrow> string gomap" where
  "GetMirrorMakerLabels cr g = service_labels g [(''app.kubernetes.io/name'', BuildServiceName cr), (''name'', BuildServiceName cr)]
     (GetMirrorMakerSelectorLabels cr)"

definition mm_GetServiceName :: "kafkaService \<Rightarrow> string" where
  "mm_GetServiceName cr = BuildServiceName cr"

definition mm_GetServiceAccountName :: "kafkaService \<Rightarrow> string" where
  "mm_GetServiceAccountName cr = mm_GetServiceName cr"

definition NewConfigurationMapForCR :: "kafkaService \<Rightarrow> go_error + configMap" where
  "NewConfigurationMapForCR cr =
     bindR (deref (ks_Global cr)) (\<lambda>g. bindR (deref (ks_MirrorMaker cr)) (\<lambda>spec. bindR (GetMirrorMakerProperties cr) (\<lambda>properties.
       Inr ((new_configMap (mm_ConfigurationName spec) (obj_Namespace cr) (GetMirrorMakerLabels cr g))\<lparr>cm_Data := [(''config'', properties)]\<rparr>))))"

definition mm_GetService :: "kafkaService \<Rightarrow> string \<Rightarrow> go_error + service" where
  "mm_GetService cr deploymentName = bindR (deref (ks_Global cr)) (\<lambda>g.
     Inr (newServiceForCR deploymentName (obj_Namespace cr) (mput ''name'' deploymentName (GetMirrorMakerLabels cr g))
       (mput ''name'' deploymentName (GetMirrorMakerSelectorLabels cr)) [tcp ''prometheus-http'' 8080]))"

definition getMirrorMakerVolumes :: "mirrorMakerSpec \<Rightarrow> volume list" where
  "getMirrorMakerVolumes spec =
     [vol ''log'' (EmptyDirVolume None), vol ''data'' (EmptyDirVolume None),
      vol ''config'' (ConfigMapVolume (mm_ConfigurationName spec) [(''config'', ''kmm.conf'')]), getTmpVolume ''32Mi'']
     @ (if mm_SecretName spec \<noteq> [] then [vol ''mm-secrets'' (SecretVolume (mm_SecretName spec) (Some 420) [])] else [])"

definition getMirrorMakerVolumeMounts :: "mirrorMakerSpec \<Rightarrow> volumeMount list" where
  "getMirrorMakerVolumeMounts spec =
     [mnt ''data'' ''/var/opt/kafka/data'', mnt ''log'' ''/opt/kafka/logs'', mnt ''config'' ''/opt/kafka/config/kmm'', getTmpVolumeMount]
     @ (if mm_SecretName spec \<noteq> [] then [readonly_mnt ''mm-secrets'' ''/etc/secrets/mirror-maker-pod-secrets''] else [])"

definition getAffinityRules :: "mirrorMakerSpec \<Rightarrow> serviceCluster \<Rightarrow> go_error + affinity" where
  "getAffinityRules spec cluster =
     (if cl_NodeLabel cluster \<noteq> [] then bindR (label_pair (cl_NodeLabel cluster)) (\<lambda>(k, v).
        Inr ((ps_Affinity spec)\<lparr>aff_NodeAffinity := Some [[\<lparr>nsr_Key = k, nsr_Operator = ''In'', nsr_Values = [v]\<rparr>]]\<rparr>))
      else Inr (ps_Affinity spec))"

definition cluster_ssl :: "serviceCluster \<Rightarrow> bool" where
  "cluster_ssl cluster \<longleftrightarrow> mc_EnableSsl cluster \<and> mc_SslSecretName cluster \<noteq> []"

definition cluster_volumes :: "serviceCluster list \<Rightarrow> volume list" where
  "cluster_volumes clusters =
     map (\<lambda>cluster. vol (mc_Name cluster @ ''-ssl-certs'') (SecretVolume (mc_SslSecretName cluster) None [])) (filter cluster_ssl clusters)"

definition cluster_mounts :: "serviceCluster list \<Rightarrow> volumeMount list" where
  "cluster_mounts clusters =
     map (\<lambda>cluster. mnt (mc_Name cluster @ ''-ssl-certs'') (''/opt/kafka/tls/'' @ mc_Name cluster)) (filter cluster_ssl clusters)"

definition mm_envs :: "mirrorMakerSpec \<Rightarrow> serviceCluster list \<Rightarrow> string \<Rightarrow> string \<Rightarrow> string \<Rightarrow> envVar list" where
  "mm_envs spec clusters secretVersion configMapVersion currentClusterName =
     [var ''SECRET_VERSION'' secretVersion, var ''CONFIG_MAP_VERSION'' configMapVersion, var ''HEAP_OPTS'' (heap_opts (mm_HeapSize spec)),
      var ''PROMETHEUS_PORT'' ''8080'', var ''CLUSTER'' currentClusterName]
     @ concat (map (\<lambda>cluster. let n = strings_ToUpper (mc_Name cluster) in
          [var (n @ ''_BOOTSTRAP_SERVERS'') (cl_BootstrapServers cluster), var (n @ ''_ENABLE_SSL'') (FormatBool (mc_EnableSsl cluster)),
           var (n @ ''_SASL_MECHANISM'') (mc_SaslMechanism cluster)]) clusters)
     @ [var ''CLUSTERS'' (strings_Join (map (\<lambda>cluster. strings_ToLower (mc_Name cluster)) clusters) '', '')]"

definition mm_replicas :: "kafkaService \<Rightarrow> mirrorMakerSpec \<Rightarrow> 32 word" where
  "mm_replicas cr spec = (case ks_DisasterRecovery cr of
      Some dr \<Rightarrow> if dr_Mode dr = ''active'' \<or> dr_Mode dr = ''disable'' then 0 else word_of_int (mm_Replicas spec)
    | None \<Rightarrow> word_of_int (mm_Replicas spec))"

definition NewMirrorMakerDeploymentForCR :: "providerEnv \<Rightarrow> kafkaService \<Rightarrow> serviceCluster \<Rightarrow> serviceCluster list \<Rightarrow> string \<Rightarrow> string \<Rightarrow>
    string \<Rightarrow> string \<Rightarrow> go_error + deployment" where
  "NewMirrorMakerDeploymentForCR pe cr cluster clusters secretVersion configMapVersion currentClusterName deploymentName =
     bindR (deref (ks_Global cr)) (\<lambda>g. bindR (deref (ks_MirrorMaker cr)) (\<lambda>spec. bindR (getAffinityRules spec cluster) (\<lambda>aff.
       Inr (service_deployment cr g spec deploymentName (mm_GetServiceAccountName cr)
         (instance_labels ''java-others'' deploymentName (obj_Namespace cr) (mput ''name'' deploymentName (GetMirrorMakerLabels cr g)))
         (mput ''name'' deploymentName (GetMirrorMakerSelectorLabels cr)) (mm_replicas cr spec)
         (getMirrorMakerVolumes spec @ cluster_volumes clusters)
         [(new_container ''kafka-mirror-maker'' (ps_DockerImage spec))
            \<lparr>ctr_Ports := [port [] 8080 ProtocolTCP],
             ctr_LivenessProbe := Some (mk_probe (ExecAction [''./bin/health.sh'', ''live'']) 50 5 15 1 5),
             ctr_ReadinessProbe := Some (mk_probe (ExecAction [''./bin/health.sh'', ''ready'']) 60 15 15 1 5),
             ctr_Env := buildEnvs pe (configMapToEnvVars (mm_Config spec) ''CONF_'' (mm_EnvironmentVariables spec)
               @ mm_envs spec clusters secretVersion configMapVersion currentClusterName) (mm_EnvironmentVariables spec),
             ctr_Resources := ps_Resources spec, ctr_VolumeMounts := getMirrorMakerVolumeMounts spec @ cluster_mounts clusters,
             ctr_ImagePullPolicy := ''Always'', ctr_SecurityContext := Some getDefaultContainerSecurityContext\<rparr>]
         aff ''Recreate''))))"

end
