(* ===== verification/Service_Deployments.thy ===== *)
theory Service_Deployments
  imports Go_Prelude Operator_Util Kube_Objects Kmm_Config Provider_Common Service_Types Monitoring_Provider Akhq_Provider
    Mirror_Maker_Provider
begin

text \<open>
  What the providers of the \<open>KafkaService\<close> resource promise: their deployments are well-formed, their services
  reach them, and the configuration that they write for Mirror Maker is the one that the \<open>KmmConfig\<close>
  controller reads.
\<close>

section \<open>Deployments and services\<close>

text \<open>The default labels of the resource leave a selector alone.\<close>

definition labels_kept :: "globalSpec \<Rightarrow> string gomap \<Rightarrow> bool" where
  "labels_kept g selector \<longleftrightarrow> (\<forall>(k, v)\<in>set selector. map_of (gl_DefaultLabels g) k \<in> {None, Some v})"

definition wf_labels :: "globalSpec \<Rightarrow> 'a podSection_scheme \<Rightarrow> bool" where
  "wf_labels g spec \<longleftrightarrow> wf_map (gl_DefaultLabels g) \<and> wf_map (gl_CustomLabels g) \<and> wf_map (ps_CustomLabels spec)"

lemma map_of_labels:
  assumes "wf_map (gl_DefaultLabels g)" "wf_map labels" "wf_map sel"
  shows "map_of (service_labels g labels sel) k = (map_of labels ++ map_of sel ++ map_of (gl_DefaultLabels g)) k"
  using assms by (simp add: service_labels_def map_of_JoinMaps)

lemma map_of_pod:
  assumes "wf_labels g spec" "wf_map labels"
  shows "map_of (pod_labels g (ps_CustomLabels spec) labels) k =
    (case map_of labels k of Some v \<Rightarrow> Some v | None \<Rightarrow> (map_of (gl_CustomLabels g) ++ map_of (ps_CustomLabels spec)) k)"
  using assms by (simp add: pod_labels_def wf_labels_def map_of_JoinMaps map_add_def split: option.split)

definition wf_selector :: "string gomap \<Rightarrow> bool" where
  "wf_selector sel \<longleftrightarrow> wf_map sel \<and> fst ` set sel \<inter> {''app.kubernetes.io/instance'', ''app.kubernetes.io/technology''} = {}"

lemma wf_selectors [simp]: "wf_selector (GetMonitoringSelectorLabels cr)" "wf_selector (GetMirrorMakerMonitoringSelectorLabels cr)"
  "wf_selector GetAkhqSelectorLabels"
  by (simp_all add: wf_selector_def GetMonitoringSelectorLabels_def GetMirrorMakerMonitoringSelectorLabels_def GetAkhqSelectorLabels_def)

lemma template_selects:
  assumes wf: "wf_labels g spec" "wf_map labels" "wf_selector sel"
  shows "selects sel (pod_labels g (ps_CustomLabels spec) (instance_labels t n ns (service_labels g labels sel))) \<longleftrightarrow> labels_kept g sel"
proof -
  have "map_of (pod_labels g (ps_CustomLabels spec) (instance_labels t n ns (service_labels g labels sel))) k = Some v
      \<longleftrightarrow> map_of (gl_DefaultLabels g) k \<in> {None, Some v}" if "(k, v) \<in> set sel" for k v
  proof -
    have "map_of sel k = Some v" using that wf(3) by (simp add: wf_selector_def)
    moreover have "k \<noteq> ''app.kubernetes.io/instance''" "k \<noteq> ''app.kubernetes.io/technology''" using that wf(3) by (force simp: wf_selector_def)+
    ultimately show ?thesis
      using wf by (auto simp: map_of_pod map_of_labels instance_labels_def wf_labels_def wf_selector_def map_add_def dest: eq_key_imp_eq_value split: option.split)
  qed
  then show ?thesis by (auto simp: selects_def labels_kept_def)
qed

lemma wf_service_deployment:
  "wf_deployment (service_deployment cr g spec n sa l sel r vs cs a st) \<longleftrightarrow>
     selects sel (pod_labels g (ps_CustomLabels spec) l) \<and> (\<forall>c\<in>set cs. mounts_declared vs c)
     \<and> distinct (map vol_Name vs) \<and> distinct (map ctr_Name cs) \<and> cs \<noteq> []"
  by (simp add: wf_deployment_def)

lemma new_container_name [simp]: "ctr_Name (new_container n i) = n"
  by (simp add: new_container_def)

lemma monitoring_deployment_wf:
  assumes "ks_Global cr = Some g" "ks_Monitoring cr = Some spec" "wf_labels g spec" "NewMonitoringDeployment cr version = Inr d"
  shows "wf_deployment d \<longleftrightarrow> labels_kept g (GetMonitoringSelectorLabels cr)"
proof -
  have "mo_serviceName cr \<noteq> ''kafka-lag-exporter''"
  proof
    assume "mo_serviceName cr = ''kafka-lag-exporter''"
    then have "last (mo_serviceName cr) = last ''kafka-lag-exporter''" by (rule arg_cong)
    then show False by (simp add: mo_serviceName_def)
  qed
  then have "distinct (map ctr_Name (getMonitoringContainers cr g spec))" "getMonitoringContainers cr g spec \<noteq> []"
    by (simp_all add: getMonitoringContainers_def le_getContainer_def split: option.split)
  moreover have "\<forall>c\<in>set (getMonitoringContainers cr g spec). mounts_declared (getMonitoringVolumes cr g spec) c"
    by (cases "mo_LagExporter spec"; cases "ssl_secret g"; simp add: getMonitoringContainers_def getMonitoringVolumes_def getMonitoringVolumeMounts_def ssl_volumes_def ssl_mounts_def
        le_getContainer_def le_getVolumeMounts_def le_getVolume_def mounts_declared_def)
  moreover have "distinct (map vol_Name (getMonitoringVolumes cr g spec))"
    by (cases "mo_LagExporter spec"; cases "ssl_secret g"; simp add: getMonitoringVolumes_def ssl_volumes_def le_getVolume_def)
  moreover have "wf_deployment d \<longleftrightarrow> labels_kept g (GetMonitoringSelectorLabels cr)
      \<and> (\<forall>c\<in>set (getMonitoringContainers cr g spec). mounts_declared (getMonitoringVolumes cr g spec) c)
      \<and> distinct (map vol_Name (getMonitoringVolumes cr g spec)) \<and> distinct (map ctr_Name (getMonitoringContainers cr g spec))
      \<and> getMonitoringContainers cr g spec \<noteq> []"
    using assms by (clarsimp simp: NewMonitoringDeployment_def deref_def GetMonitoringLabels_def template_selects wf_service_deployment)
  ultimately show ?thesis by blast
qed

lemma mirror_maker_monitoring_deployment_wf:
  assumes "ks_Global cr = Some g" "ks_MirrorMakerMonitoring cr = Some spec" "wf_labels g spec" "NewMirrorMakerMonitoringDeployment cr = Inr d"
  shows "wf_deployment d \<longleftrightarrow> labels_kept g (GetMirrorMakerMonitoringSelectorLabels cr)"
  using assms by (auto simp: NewMirrorMakerMonitoringDeployment_def bindR_Inr Let_def deref_def GetMirrorMakerMonitoringLabels_def
        template_selects wf_service_deployment mounts_declared_def getMirrorMakerMonitoringVolumes_def getMirrorMakerMonitoringVolumeMounts_def)

lemma akhq_deployment_wf:
  assumes "ks_Global cr = Some g" "ks_Akhq cr = Some spec" "wf_labels g spec" "NewAkhqDeployment pe cr version sources = Inr d"
  shows "wf_deployment d \<longleftrightarrow> labels_kept g GetAkhqSelectorLabels"
proof -
  have "set (map vm_Name (getAkhqVolumeMounts g ldap sources)) \<subseteq> set (map vol_Name (getAkhqVolumes cr g spec ldap sources))"
    "distinct (map vol_Name (getAkhqVolumes cr g spec ldap sources))" for ldap
    by (cases "ssl_secret g"; cases "ld_Enabled ldap"; cases "sources = []"; simp add: getAkhqVolumes_def getAkhqVolumeMounts_def
        ssl_volumes_def ssl_mounts_def createProjectedVolumeForProtoKeysMaps_def)+
  then show ?thesis
    using assms by (clarsimp simp: NewAkhqDeployment_def bindR_Inr deref_def GetAkhqLabels_def template_selects wf_service_deployment
        mounts_declared_def simp del: set_map)
qed

lemma mirror_maker_template:
  assumes "wf_labels g spec"
  shows "selects (mput ''name'' m (GetMirrorMakerSelectorLabels cr))
      (pod_labels g (ps_CustomLabels spec) (instance_labels t n ns (mput ''name'' n (GetMirrorMakerLabels cr g))))
    \<longleftrightarrow> m = n \<and> labels_kept g (GetMirrorMakerSelectorLabels cr)"
  using assms by (auto simp: selects_def labels_kept_def GetMirrorMakerSelectorLabels_def GetMirrorMakerLabels_def
    map_of_pod map_of_labels instance_labels_def wf_labels_def map_add_def dest: eq_key_imp_eq_value split: option.split)

text \<open>The names of the TLS volumes of Mirror Maker end in a way that no other volume of the pod does.\<close>

lemma tls_volume_names:
  "map vol_Name (cluster_volumes clusters) = map (\<lambda>c. mc_Name c @ ''-ssl-certs'') (filter cluster_ssl clusters)"
  "map vm_Name (cluster_mounts clusters) = map vol_Name (cluster_volumes clusters)"
  by (simp_all add: cluster_volumes_def cluster_mounts_def)

lemma tls_name_differs: "x @ ''-ssl-certs'' = y \<Longrightarrow> take 10 (rev y) = rev ''-ssl-certs''"
  by auto

lemma tls_names_fresh:
  "set (map vol_Name (getMirrorMakerVolumes spec)) \<inter> set (map vol_Name (cluster_volumes clusters)) = {}"
proof -
  have "n \<notin> {''log'', ''data'', ''config'', ''tmp'', ''mm-secrets''}" if "n \<in> set (map vol_Name (cluster_volumes clusters))" for n
    using that unfolding tls_volume_names by (auto dest: tls_name_differs)
  moreover have "set (map vol_Name (getMirrorMakerVolumes spec)) \<subseteq> {''log'', ''data'', ''config'', ''tmp'', ''mm-secrets''}"
    by (auto simp: getMirrorMakerVolumes_def)
  ultimately show ?thesis by blast
qed

lemma distinct_suffixed: "distinct (map (\<lambda>c. f c @ z) xs) \<longleftrightarrow> distinct (map f xs)"
  by (induction xs) auto

lemma mirror_maker_deployment_wf:
  assumes "ks_Global cr = Some g" "ks_MirrorMaker cr = Some spec" "wf_labels g spec"
    and "NewMirrorMakerDeploymentForCR pe cr cluster clusters sv cv cn n = Inr d"
  shows "wf_deployment d \<longleftrightarrow> labels_kept g (GetMirrorMakerSelectorLabels cr) \<and> distinct (map mc_Name (filter cluster_ssl clusters))"
proof -
  let ?vs = "getMirrorMakerVolumes spec @ cluster_volumes clusters"
  let ?ms = "getMirrorMakerVolumeMounts spec @ cluster_mounts clusters"
  have "set (map vm_Name ?ms) \<subseteq> set (map vol_Name ?vs)"
    using tls_volume_names(2)[of clusters]
    by (auto simp del: set_map simp: getMirrorMakerVolumes_def getMirrorMakerVolumeMounts_def)
  moreover have "distinct (map vol_Name ?vs) \<longleftrightarrow> distinct (map mc_Name (filter cluster_ssl clusters))"
    using tls_names_fresh[of spec clusters] unfolding map_append distinct_append tls_volume_names(1) distinct_suffixed
    by (auto simp: getMirrorMakerVolumes_def)
  moreover have "wf_deployment d \<longleftrightarrow> labels_kept g (GetMirrorMakerSelectorLabels cr)
      \<and> set (map vm_Name ?ms) \<subseteq> set (map vol_Name ?vs) \<and> distinct (map vol_Name ?vs)"
    using assms by (clarsimp simp: NewMirrorMakerDeploymentForCR_def bindR_Inr deref_def wf_service_deployment mounts_declared_def
        mirror_maker_template simp del: map_append set_append)
  ultimately show ?thesis by blast
qed

text \<open>All the maps of labels of the resource are maps.\<close>

definition wf_service_labels_of :: "kafkaService \<Rightarrow> globalSpec \<Rightarrow> bool" where
  "wf_service_labels_of cr g \<longleftrightarrow> pred_option (wf_labels g) (ks_Monitoring cr) \<and> pred_option (wf_labels g) (ks_Akhq cr)
     \<and> pred_option (wf_labels g) (ks_MirrorMaker cr) \<and> pred_option (wf_labels g) (ks_MirrorMakerMonitoring cr)"

text \<open>
  What a provider promises to the reconciler that applies its objects: \<open>build\<close> makes a deployment and \<open>front\<close> the
  service before it, with one selector, whose labels \<open>selector\<close> the default labels of the resource can redefine. The label
  \<open>component\<close> tells the deployments of a provider from those of another.
\<close>

locale workload =
  fixes selector :: "kafkaService \<Rightarrow> string gomap"
    and build :: "kafkaService \<Rightarrow> 'i \<Rightarrow> go_error + deployment"
    and front :: "kafkaService \<Rightarrow> 'i \<Rightarrow> go_error + service"
    and valid :: "'i \<Rightarrow> bool"
    and component :: string
  assumes well_formed: "ks_Global cr = Some g \<Longrightarrow> wf_service_labels_of cr g \<Longrightarrow> build cr i = Inr d \<Longrightarrow> valid i \<Longrightarrow>
      wf_deployment d \<longleftrightarrow> labels_kept g (selector cr)"
    and one_selector: "build cr i = Inr d \<Longrightarrow> front cr i = Inr s \<Longrightarrow> svc_Selector s = dep_Selector d"
    and labelled: "build cr i = Inr d \<Longrightarrow> (''component'', component) \<in> set (dep_Selector d)"
begin

lemma satisfies_selector:
  "ks_Global cr = Some g \<Longrightarrow> wf_service_labels_of cr g \<Longrightarrow> build cr i = Inr d \<Longrightarrow> valid i \<Longrightarrow> labels_kept g (selector cr) \<Longrightarrow>
    selects (dep_Selector d) (dep_TemplateLabels d)"
  using well_formed unfolding wf_deployment_def by blast

text \<open>A selector that names another component does not select the pods.\<close>

lemma isolated:
  assumes "ks_Global cr = Some g" "wf_service_labels_of cr g" "build cr i = Inr d" "valid i" "labels_kept g (selector cr)"
    and "(''component'', c) \<in> set sel" "c \<noteq> component"
  shows "\<not> selects sel (dep_TemplateLabels d)"
  using satisfies_selector[OF assms(1-5)] labelled[OF assms(3)] assms(6,7) by (fastforce simp: selects_def)

end

type_synonym mirrorMakerArgs = "serviceCluster \<times> serviceCluster list \<times> string \<times> string \<times> string \<times> string"

definition mirror_maker_build :: "providerEnv \<Rightarrow> kafkaService \<Rightarrow> mirrorMakerArgs \<Rightarrow> go_error + deployment" where
  "mirror_maker_build pe cr = (\<lambda>(cluster, clusters, secretVersion, version, currentClusterName, deploymentName).
     NewMirrorMakerDeploymentForCR pe cr cluster clusters secretVersion version currentClusterName deploymentName)"

definition mirror_maker_front :: "kafkaService \<Rightarrow> mirrorMakerArgs \<Rightarrow> go_error + service" where
  "mirror_maker_front cr = (\<lambda>(cluster, clusters, secretVersion, version, currentClusterName, deploymentName). mm_GetService cr deploymentName)"

definition distinct_tls :: "mirrorMakerArgs \<Rightarrow> bool" where
  "distinct_tls = (\<lambda>(cluster, clusters, rest). distinct (map mc_Name (filter cluster_ssl clusters)))"

lemma deref_Inr: "deref p = Inr a \<longleftrightarrow> p = Some a"
  by (simp add: deref_def split: option.split)

lemma section_present:
  "NewMonitoringDeployment cr version = Inr d \<Longrightarrow> \<exists>spec. ks_Monitoring cr = Some spec"
  "NewAkhqDeployment pe cr version sources = Inr d \<Longrightarrow> \<exists>spec. ks_Akhq cr = Some spec"
  "mirror_maker_build pe cr args = Inr d \<Longrightarrow> \<exists>spec. ks_MirrorMaker cr = Some spec"
  "NewMirrorMakerMonitoringDeployment cr = Inr d \<Longrightarrow> \<exists>spec. ks_MirrorMakerMonitoring cr = Some spec"
  by (auto simp: NewMonitoringDeployment_def bindR_Inr deref_Inr)
    (auto simp: NewAkhqDeployment_def bindR_Inr deref_Inr, auto simp: mirror_maker_build_def NewMirrorMakerDeploymentForCR_def bindR_Inr
      deref_Inr split: prod.splits, auto simp: NewMirrorMakerMonitoringDeployment_def bindR_Inr deref_Inr)

lemma monitoring_selectors:
  "NewMonitoringDeployment cr version = Inr d \<Longrightarrow> dep_Selector d = GetMonitoringSelectorLabels cr"
  "NewMonitoringClientService cr = Inr s \<Longrightarrow> svc_Selector s = GetMonitoringSelectorLabels cr"
  by (auto simp: NewMonitoringDeployment_def NewMonitoringClientService_def bindR_Inr service_defs)

lemma akhq_selectors:
  "NewAkhqDeployment pe cr version sources = Inr d \<Longrightarrow> dep_Selector d = GetAkhqSelectorLabels"
  "NewAkhqClientService cr = Inr s \<Longrightarrow> svc_Selector s = GetAkhqSelectorLabels"
  by (auto simp: NewAkhqDeployment_def NewAkhqClientService_def bindR_Inr service_defs)

lemma mirror_maker_monitoring_selectors:
  "NewMirrorMakerMonitoringDeployment cr = Inr d \<Longrightarrow> dep_Selector d = GetMirrorMakerMonitoringSelectorLabels cr"
  "mmm_NewMonitoringClientService cr = Inr s \<Longrightarrow> svc_Selector s = GetMirrorMakerMonitoringSelectorLabels cr"
  by (auto simp: NewMirrorMakerMonitoringDeployment_def mmm_NewMonitoringClientService_def bindR_Inr Let_def service_defs)

lemma mirror_maker_selectors:
  "mirror_maker_build pe cr args = Inr d \<Longrightarrow> mirror_maker_front cr args = Inr s \<Longrightarrow> svc_Selector s = dep_Selector d"
  "mirror_maker_build pe cr args = Inr d \<Longrightarrow> \<exists>n. dep_Selector d = mput ''name'' n (GetMirrorMakerSelectorLabels cr)"
  by (cases args; auto simp: mirror_maker_build_def mirror_maker_front_def NewMirrorMakerDeploymentForCR_def mm_GetService_def bindR_Inr service_defs)+

lemmas selector_labels = GetMonitoringSelectorLabels_def GetAkhqSelectorLabels_def GetMirrorMakerSelectorLabels_def
  GetMirrorMakerMonitoringSelectorLabels_def

interpretation monitoring: workload GetMonitoringSelectorLabels NewMonitoringDeployment "\<lambda>cr _. NewMonitoringClientService cr"
  "\<lambda>_. True" "''kafka-monitoring''"
  by unfold_locales
    (use section_present(1) in \<open>fastforce simp: monitoring_deployment_wf wf_service_labels_of_def\<close>,
     auto dest!: monitoring_selectors simp: selector_labels)

interpretation akhq: workload "\<lambda>_. GetAkhqSelectorLabels" "\<lambda>cr (version, sources). NewAkhqDeployment pe cr version sources"
  "\<lambda>cr _. NewAkhqClientService cr" "\<lambda>_. True" "''akhq''"
  by unfold_locales
    (use section_present(2) in \<open>fastforce simp: akhq_deployment_wf wf_service_labels_of_def\<close>,
     auto dest!: akhq_selectors simp: selector_labels)

interpretation mirrorMaker: workload GetMirrorMakerSelectorLabels "mirror_maker_build pe" mirror_maker_front distinct_tls "''kafka-mm''"
  by unfold_locales
    (use section_present(3) in \<open>fastforce simp: mirror_maker_build_def distinct_tls_def mirror_maker_deployment_wf wf_service_labels_of_def\<close>,
     blast intro: mirror_maker_selectors(1), use mirror_maker_selectors(2) in \<open>fastforce simp: selector_labels\<close>)

interpretation mirrorMakerMonitoring: workload GetMirrorMakerMonitoringSelectorLabels "\<lambda>cr (_ :: unit). NewMirrorMakerMonitoringDeployment cr"
  "\<lambda>cr _. mmm_NewMonitoringClientService cr" "\<lambda>_. True" "''kafka-mirror-maker-monitoring''"
  by unfold_locales
    (use section_present(4) in \<open>fastforce simp: mirror_maker_monitoring_deployment_wf wf_service_labels_of_def\<close>,
     auto dest!: mirror_maker_monitoring_selectors simp: selector_labels)

text \<open>
  A deployment that the controller writes for the resource, with the service in front of it and the part of
  its selector that the default labels can redefine.
\<close>

inductive provided :: "providerEnv \<Rightarrow> kafkaService \<Rightarrow> string gomap \<Rightarrow> deployment \<Rightarrow> service \<Rightarrow> bool" for pe cr where
  monitoring: "NewMonitoringDeployment cr version = Inr d \<Longrightarrow> NewMonitoringClientService cr = Inr s \<Longrightarrow>
    provided pe cr (GetMonitoringSelectorLabels cr) d s"
| akhq: "NewAkhqDeployment pe cr version sources = Inr d \<Longrightarrow> NewAkhqClientService cr = Inr s \<Longrightarrow>
    provided pe cr GetAkhqSelectorLabels d s"
| mirror_maker: "mirror_maker_build pe cr args = Inr d \<Longrightarrow> mirror_maker_front cr args = Inr s \<Longrightarrow> distinct_tls args \<Longrightarrow>
    provided pe cr (GetMirrorMakerSelectorLabels cr) d s"
| mirror_maker_monitoring: "NewMirrorMakerMonitoringDeployment cr = Inr d \<Longrightarrow> mmm_NewMonitoringClientService cr = Inr s \<Longrightarrow>
    provided pe cr (GetMirrorMakerMonitoringSelectorLabels cr) d s"

lemma provided_wf:
  assumes "provided pe cr rel d s" "ks_Global cr = Some g" "wf_service_labels_of cr g"
  shows "wf_deployment d \<longleftrightarrow> labels_kept g rel"
  using assms
  by (cases rule: provided.cases)
    (use monitoring.well_formed akhq.well_formed mirrorMaker.well_formed mirrorMakerMonitoring.well_formed in auto)

text \<open>The selectors of the four kinds of deployments, and the selector of the service, which is the same.\<close>

lemma provided_selector:
  assumes "provided pe cr rel d s"
  shows "svc_Selector s = dep_Selector d
    \<and> (dep_Selector d = rel \<and> rel \<in> {GetMonitoringSelectorLabels cr, GetAkhqSelectorLabels, GetMirrorMakerMonitoringSelectorLabels cr}
       \<or> (\<exists>n. dep_Selector d = mput ''name'' n (GetMirrorMakerSelectorLabels cr)))"
  using assms
  by (cases rule: provided.cases)
    (auto simp: mirror_maker_selectors(1) dest!: monitoring_selectors akhq_selectors mirror_maker_selectors(2) mirror_maker_monitoring_selectors)

lemma selectors_apart:
  assumes "provided pe cr rel d s" "provided pe cr rel' d' s'"
    and "selects (dep_Selector d) labels" "selects (dep_Selector d') labels"
  shows "dep_Selector d = dep_Selector d'"
  using provided_selector[OF assms(1)] provided_selector[OF assms(2)] assms(3,4)
  by (auto simp: selects_def selector_labels)

text \<open>
  C22. The deployments of the services are well-formed and their services reach them: for the deployments of monitoring, AKHQ,
  Mirror Maker (with distinct names of the clusters with TLS) and Mirror Maker monitoring, every mount
  refers to a volume, the names are distinct and the pods satisfy the selector, exactly if the default labels of the
  resource do not redefine a label of the selector. The service of a deployment selects the pods of a
  well-formed deployment of the same resource exactly if the two have the same selector: no service
  routes to the pods of another component, or of another cluster of Mirror Maker.
\<close>

theorem service_deployments_wf:
  assumes "ks_Global cr = Some g" "wf_service_labels_of cr g" "provided pe cr rel d s" "provided pe cr rel' d' s'"
  shows "(wf_deployment d \<longleftrightarrow> labels_kept g rel)
    \<and> (labels_kept g rel' \<longrightarrow> (selects (svc_Selector s) (dep_TemplateLabels d') \<longleftrightarrow> dep_Selector d = dep_Selector d'))"
proof (intro conjI impI)
  show "wf_deployment d \<longleftrightarrow> labels_kept g rel" using provided_wf[OF assms(3,1,2)] .
  assume "labels_kept g rel'"
  then have own: "selects (dep_Selector d') (dep_TemplateLabels d')"
    using provided_wf[OF assms(4,1,2)] by (simp add: wf_deployment_def)
  show "selects (svc_Selector s) (dep_TemplateLabels d') \<longleftrightarrow> dep_Selector d = dep_Selector d'"
    using own provided_selector[OF assms(3)] selectors_apart[OF assms(3,4)] by auto
qed

theorem service_deployments_wf_witness:
  "let cr = sample_resource []; args = (sample_cluster ''DC1'', [sample_cluster ''DC1'', sample_cluster ''dc2''], [], [], ''dc1'', ''dc1-mm'') in
   \<exists>d s d' s'. NewMonitoringDeployment cr [] = Inr d \<and> NewMonitoringClientService cr = Inr s \<and> wf_deployment d
     \<and> selects (svc_Selector s) (dep_TemplateLabels d)
     \<and> mirror_maker_build sample_providerEnv cr args = Inr d' \<and> mirror_maker_front cr args = Inr s'
     \<and> \<not> selects (svc_Selector s) (dep_TemplateLabels d')"
proof -
  let ?cr = "sample_resource []" and ?args = "(sample_cluster ''DC1'', [sample_cluster ''DC1'', sample_cluster ''dc2''], [], [], ''dc1'', ''dc1-mm'')"
  have g: "ks_Global ?cr = Some sample_global" "wf_service_labels_of ?cr sample_global"
    by (simp_all add: sample_resource_defs wf_service_labels_of_def wf_labels_def)
  have kept: "labels_kept sample_global (GetMonitoringSelectorLabels ?cr)" "labels_kept sample_global (GetMirrorMakerSelectorLabels ?cr)"
    by (simp_all add: labels_kept_def selector_labels sample_global_def)
  obtain d s where ds: "NewMonitoringDeployment ?cr [] = Inr d" "NewMonitoringClientService ?cr = Inr s"
    by (simp add: NewMonitoringDeployment_def NewMonitoringClientService_def deref_def sample_resource_def)
  obtain d' s' where ds': "mirror_maker_build sample_providerEnv ?cr ?args = Inr d'" "mirror_maker_front ?cr ?args = Inr s'"
    by (simp add: mirror_maker_build_def mirror_maker_front_def NewMirrorMakerDeploymentForCR_def mm_GetService_def deref_def
        sample_resource_def getAffinityRules_def sample_cluster_def)
  have p: "provided sample_providerEnv ?cr (GetMonitoringSelectorLabels ?cr) d s" using ds by (rule provided.monitoring)
  have p': "provided sample_providerEnv ?cr (GetMirrorMakerSelectorLabels ?cr) d' s'"
    using ds' by (rule provided.mirror_maker) (simp add: distinct_tls_def cluster_ssl_def sample_cluster_def)
  have "dep_Selector d \<noteq> dep_Selector d'"
    using monitoring_selectors(1)[OF ds(1)] mirror_maker_selectors(2)[OF ds'(1)] by (auto simp: selector_labels)
  with service_deployments_wf[OF g p p] service_deployments_wf[OF g p p'] kept ds ds' show ?thesis
    unfolding Let_def by blast
qed

end
