(* ===== verification/Mirror_Maker_Text.thy ===== *)
theory Mirror_Maker_Text
  imports Go_Prelude Operator_Util Kmm_Config Provider_Common Service_Types Mirror_Maker_Provider
begin

text \<open>
  The composition of \<open>mirror_maker_provider.go\<close> with \<open>kmmconfig_controller.go\<close>: the provider writes the
  properties of Mirror Maker as text, and the \<open>KmmConfig\<close> controller reads that text back.
\<close>

section \<open>What a file says\<close>

definition row_says :: "string list \<Rightarrow> (string \<times> prop_value) set" where
  "row_says rows = {kv. \<exists>row\<in>set rows. row_entry row = Some [kv]}"

lemma row_says_simps [simp]:
  "row_says [] = {}" "row_says (xs @ ys) = row_says xs \<union> row_says ys" "row_says ([] # rows) = row_says rows"
  "row_says ((CHR ''#'' # c) # rows) = row_says rows"
  by (auto simp: row_says_def row_entry_def strings_HasPrefix_def)

lemma readable_rows [simp]: "row_entry [] \<noteq> None" "row_entry (CHR ''#'' # c) \<noteq> None"
  by (auto simp: row_entry_def strings_HasPrefix_def)

lemma file_lookup_says: "readable rows \<Longrightarrow> file_lookup rows k = Some v \<Longrightarrow> (k, v) \<in> row_says rows"
proof (induction rows)
  case (Cons row rows)
  then show ?case
    by (cases rule: row_entry_cases[of row]) (auto simp: row_says_def split: option.splits if_splits)
qed simp

lemma file_lookup_said: "(k, v) \<in> row_says rows \<Longrightarrow> \<exists>v'. file_lookup rows k = Some v'"
  by (induction rows) (fastforce simp: row_says_def split: option.splits)+

lemma file_lookup_none: "readable rows \<Longrightarrow> (\<forall>v. (k, v) \<notin> row_says rows) \<Longrightarrow> file_lookup rows k = None"
  using file_lookup_says by (cases "file_lookup rows k") auto

lemma file_lookup_unique:
  "readable rows \<Longrightarrow> (k, v) \<in> row_says rows \<Longrightarrow> (\<forall>v'. (k, v') \<in> row_says rows \<longrightarrow> v' = v) \<Longrightarrow> file_lookup rows k = Some v"
  using file_lookup_said file_lookup_says by metis

text \<open>The rows of a file, none of which has a line end or makes the reader panic, and the properties that they set.\<close>

definition sheet :: "string list \<Rightarrow> (string \<times> string) set \<Rightarrow> bool" where
  "sheet rows kvs \<longleftrightarrow> readable rows \<and> (\<forall>row\<in>set rows. CHR ''\<newline>'' \<notin> set row)
     \<and> row_says rows = (\<lambda>(k, v). (k, getTrimmedPropertyValue v)) ` kvs"

lemma sheet_append: "sheet xs as \<Longrightarrow> sheet ys bs \<Longrightarrow> sheet (xs @ ys) (as \<union> bs)"
  by (auto simp: sheet_def)

lemma sheet_nil [simp]: "sheet [] {}" "sheet [[]] {}" "CHR ''\<newline>'' \<notin> set c \<Longrightarrow> sheet [CHR ''#'' # c] {}"
  by (auto simp: sheet_def)

lemma sheet_concat: "(\<And>x. x \<in> set xs \<Longrightarrow> sheet (f x) (g x)) \<Longrightarrow> sheet (concat (map f xs)) (\<Union>x\<in>set xs. g x)"
  by (induction xs) (auto intro: sheet_append)

lemma sheet_line: "plain_key k \<Longrightarrow> plain_value v \<Longrightarrow> sheet [property_line (k, v)] {(k, v)}"
  by (auto simp: sheet_def row_says_def row_entry_property_line) (auto simp: property_line_def plain_key_def plain_value_def)

lemma sheet_lines:
  assumes "\<forall>(k, v)\<in>set kvs. plain_key k \<and> plain_value v"
  shows "sheet (map property_line kvs) (set kvs)"
  using assms by (induction kvs) (use sheet_append[OF sheet_line] in fastforce)+

lemma sheet_tight: "plain_key k \<Longrightarrow> plain_value v \<Longrightarrow> sheet [k @ ''='' @ v] {(k, v)}"
proof -
  assume k: "plain_key k" and v: "plain_value v"
  have "strings_Split (k @ ''='' @ v) (CHR ''='') = [k, v]"
    using k v Split_append_sep[of "CHR ''=''" k v] by (auto simp: plain_key_def plain_value_def)
  moreover have "\<not> strings_HasPrefix (k @ ''='' @ v) ''#''" "strings_Trim k = k"
    using k by (cases k; auto simp: plain_key_def strings_HasPrefix_def)+
  ultimately have "row_entry (k @ ''='' @ v) = Some [(k, getTrimmedPropertyValue v)]" by (simp add: row_entry_def)
  with k v show ?thesis by (auto simp: sheet_def row_says_def plain_key_def plain_value_def)
qed

text \<open>Reading a sheet: no panic, and a key that is set to one value has that value.\<close>

lemma sheet_read:
  assumes "sheet rows kvs" "rows \<noteq> []"
  obtains props where "GetProperties (strings_Join rows ''\<newline>'') = Inr props"
    "\<And>k v. (k, v) \<in> kvs \<Longrightarrow> \<forall>v'. (k, v') \<in> kvs \<longrightarrow> v' = v \<Longrightarrow> map_of props k = Some (getTrimmedPropertyValue v)"
    "\<And>k. \<forall>v. (k, v) \<notin> kvs \<Longrightarrow> map_of props k = None"
proof -
  have r: "readable rows" and says: "row_says rows = (\<lambda>(k, v). (k, getTrimmedPropertyValue v)) ` kvs"
    using assms(1) by (simp_all add: sheet_def)
  have "strings_Split (strings_Join rows ''\<newline>'') (CHR ''\<newline>'') = rows"
    using assms by (intro Split_Join) (auto simp: sheet_def)
  with read_rows_file[OF r] obtain props where read: "GetProperties (strings_Join rows ''\<newline>'') = Inr props"
    and lookup: "map_of props = file_lookup rows"
    by (auto simp: GetProperties_def)
  show thesis
  proof (rule that[OF read], unfold lookup)
    show "file_lookup rows k = Some (getTrimmedPropertyValue v)" if "(k, v) \<in> kvs" "\<forall>v'. (k, v') \<in> kvs \<longrightarrow> v' = v" for k v
    proof (rule file_lookup_unique[OF r])
      show "(k, getTrimmedPropertyValue v) \<in> row_says rows" using that(1) unfolding says by force
      show "\<forall>v'. (k, v') \<in> row_says rows \<longrightarrow> v' = getTrimmedPropertyValue v" using that(2) unfolding says by fastforce
    qed
    show "file_lookup rows k = None" if "\<forall>v. (k, v) \<notin> kvs" for k
      using that by (intro file_lookup_none[OF r]) (auto simp: says)
  qed
qed

section \<open>The properties of Mirror Maker\<close>

text \<open>
  The name of a cluster, in lower case, is the first part of the name of a service, so its characters are those of a DNS label.
\<close>

definition dns_label :: "string \<Rightarrow> bool" where
  "dns_label n \<longleftrightarrow> n \<noteq> [] \<and> set n \<subseteq> set ''abcdefghijklmnopqrstuvwxyz0123456789-''"

lemma dns_label_chars:
  "dns_label n \<Longrightarrow> n \<noteq> [] \<and> set n \<inter> {CHR ''='', CHR '' '', CHR ''\<newline>'', CHR '','', CHR ''>'', CHR ''.'', CHR ''#''} = {}"
  by (auto simp: dns_label_def)

lemma dns_key: "dns_label n \<Longrightarrow> set r \<inter> {CHR ''='', CHR '' '', CHR ''\<newline>''} = {} \<Longrightarrow> plain_key (n @ r)"
  using dns_label_chars[of n] by (cases n) (auto simp: plain_key_def)

lemma Itoa_plain: "plain_value (strconv_Itoa i)"
  using itoa_nat_digits[of "CHR ''=''"] itoa_nat_digits[of "CHR ''\<newline>''"] by (auto simp: plain_value_def strconv_Itoa_def)

lemma FormatBool_plain [simp]: "plain_value (FormatBool b)" "getTrimmedPropertyValue (FormatBool b) = PString (FormatBool b)"
  by (cases b; simp add: plain_value_def FormatBool_def getTrimmedPropertyValue_def)+

definition common_properties :: "mirrorMakerSpec \<Rightarrow> (string \<times> string) list" where
  "common_properties spec =
     (let factor = strconv_Itoa (mm_ReplicationFactor spec) in
      [(''clusters'', strings_Join (cluster_names spec) '', ''), (''replication.factor'', factor),
       (''config.storage.replication.factor'', factor), (''offset.storage.replication.factor'', factor),
       (''status.storage.replication.factor'', factor), (''heartbeats.topic.replication.factor'', factor),
       (''checkpoints.topic.replication.factor'', factor), (''offset-syncs.topic.replication.factor'', factor),
       (''refresh.topics.interval.seconds'', strconv_Itoa (sint (getIntValueOrDefault (mm_RefreshTopicsIntervalSeconds spec) 5))),
       (''refresh.groups.interval.seconds'', strconv_Itoa (sint (getIntValueOrDefault (mm_RefreshGroupsIntervalSeconds spec) 5))),
       (''dedicated.mode.enable.internal.rest'', FormatBool (getBoolValueOrDefault (mm_InternalRestEnabled spec) True)),
       (''tasks.max'', strconv_Itoa (sint (getIntValueOrDefault (mm_TasksMax spec) (word_of_int (mm_Replicas spec))))),
       (''sync.topic.acls.enabled'', ''false'')])"

lemma common_lines_eq: "common_lines spec = [''# mm2.properties''] @ map property_line (common_properties spec) @ [[]]"
  by (simp add: common_lines_def common_properties_def property_line_def Let_def)

definition head_properties :: "kafkaService \<Rightarrow> mirrorMakerSpec \<Rightarrow> (string \<times> string) list" where
  "head_properties cr spec =
     (if drEnabled cr then [(''emit.checkpoints.enabled'', ''true''), (''emit.checkpoints.interval.seconds'', ''5''),
        (''sync.group.offsets.enabled'', ''true''), (''sync.group.offsets.interval.seconds'', ''5'')] else [])
     @ (if drEnabled cr \<or> \<not> mm_ReplicationPrefixEnabled spec then [(ReplicationPolicyClassConfig, IdentityReplicationPolicy)] else [])"

lemma replication_head_eq:
  "mm_ConfiguratorEnabled spec \<Longrightarrow> replication_head cr spec =
     map property_line (head_properties cr spec) @ [[]] @ [''# configure a specific source->target replication flow'']"
  by (simp add: replication_head_def head_properties_def property_line_def)

definition flow_properties :: "kafkaService \<Rightarrow> mirrorMakerSpec \<Rightarrow> string \<Rightarrow> string \<Rightarrow> (string \<times> string) list" where
  "flow_properties cr spec source target =
     (let flow = NewReplicationFlow source target in
      if source = target then [] else
      (flow @ ''.enabled'', FormatBool (drEnabled cr \<or> mm_ReplicationFlowEnabled spec))
      # (if drEnabled cr then [] else [(flow @ ''.sync.group.offsets.enabled'', ''false''), (flow @ ''.sync.group.offsets.interval.seconds'', ''5'')]))"

lemma flow_lines_eq:
  "mm_ConfiguratorEnabled spec \<Longrightarrow> flow_lines cr spec source config target = config @ map property_line (flow_properties cr spec source target)"
  by (simp add: flow_lines_def flow_properties_def property_line_def Let_def)

lemma foldl_lines: "(\<And>acc x. f acc x = acc @ g x) \<Longrightarrow> foldl f acc xs = acc @ concat (map g xs)"
  by (induction xs arbitrary: acc) auto

lemma createReplicationFlowConfig_eq:
  assumes "mm_ConfiguratorEnabled spec"
  shows "\<exists>hidden. createReplicationFlowConfig cr spec sources targets repeated =
    replication_head cr spec @ concat (map (\<lambda>s. concat (map (\<lambda>t. map property_line (flow_properties cr spec s t)) targets)) sources)
    @ (if repeated then [] else [property_line (''topics.blacklist'', hidden)])
    \<and> ((\<forall>s\<in>set sources. plain_value s) \<longrightarrow> plain_value hidden)"
proof -
  let ?hidden = "strings_Join (map (\<lambda>source. source @ [CHR 0x5C] @ ''.*'') sources
    @ [''.*'' @ [CHR 0x5C] @ ''..*-internal'', ''.*'' @ [CHR 0x5C] @ ''..*'' @ [CHR 0x5C] @ ''.internal'', ''__.*'']) '',''"
  have "foldl (flow_lines cr spec s) acc targets = acc @ concat (map (\<lambda>t. map property_line (flow_properties cr spec s t)) targets)" for s acc
    using assms by (intro foldl_lines) (simp add: flow_lines_eq)
  then have "foldl (\<lambda>config source. foldl (flow_lines cr spec source) config targets) (replication_head cr spec) sources =
      replication_head cr spec @ concat (map (\<lambda>s. concat (map (\<lambda>t. map property_line (flow_properties cr spec s t)) targets)) sources)"
    by (rule foldl_lines)
  moreover have "(\<forall>s\<in>set sources. plain_value s) \<longrightarrow> plain_value ?hidden"
  proof
    assume "\<forall>s\<in>set sources. plain_value s"
    then show "plain_value ?hidden" by (intro plain_Join) (auto simp: plain_value_def)
  qed
  ultimately show ?thesis
    by (intro exI[of _ ?hidden]) (simp add: createReplicationFlowConfig_def property_line_def)
qed

definition targets :: "mirrorMakerSpec \<Rightarrow> string list" where
  "targets spec = (if mm_RegionName spec \<noteq> [] then [strings_ToLower (mm_RegionName spec)] else cluster_names spec)"

text \<open>What the text of a resource whose names are labels sets.\<close>

definition wf_mirror_maker :: "mirrorMakerSpec \<Rightarrow> bool" where
  "wf_mirror_maker spec \<longleftrightarrow> length (mm_Clusters spec) > 1
     \<and> (\<forall>c\<in>set (mm_Clusters spec). dns_label (strings_ToLower (mc_Name c)) \<and> plain_value (cl_BootstrapServers c))
     \<and> (mm_RegionName spec = [] \<or> dns_label (strings_ToLower (mm_RegionName spec)))"

definition text_properties :: "kafkaService \<Rightarrow> mirrorMakerSpec \<Rightarrow> string \<Rightarrow> (string \<times> string) set" where
  "text_properties cr spec hidden =
     set (common_properties spec)
     \<union> (\<lambda>c. (strings_ToLower (mc_Name c) @ ''.bootstrap.servers'', cl_BootstrapServers c)) ` set (mm_Clusters spec)
     \<union> (if mm_RegionName spec \<noteq> [] then {(''target.dc'', mm_RegionName spec)} else {})
     \<union> set (head_properties cr spec)
     \<union> (\<Union>s\<in>set (cluster_names spec). \<Union>t\<in>set (targets spec). set (flow_properties cr spec s t))
     \<union> (if isRepeatedReplication spec then {} else {(''topics.blacklist'', hidden)})"

lemma ToLower_keeps: "c \<in> set s \<Longrightarrow> to_lower_char c = c \<Longrightarrow> c \<in> set (strings_ToLower s)"
  by (force simp: strings_ToLower_def)

lemma label_plain: "dns_label (strings_ToLower n) \<Longrightarrow> set n \<inter> {CHR ''='', CHR ''\<newline>'', CHR '','', CHR '' ''} = {}"
  using dns_label_chars[of "strings_ToLower n"] by (auto dest!: ToLower_keeps simp: to_lower_char_def)

lemma names_labels:
  assumes "wf_mirror_maker spec"
  shows "n \<in> set (cluster_names spec) \<Longrightarrow> dns_label n" "n \<in> set (targets spec) \<Longrightarrow> dns_label n"
  using assms by (auto simp: wf_mirror_maker_def cluster_names_def targets_def split: if_splits)

lemma flow_sheet: "dns_label s \<Longrightarrow> dns_label t \<Longrightarrow> sheet (map property_line (flow_properties cr spec s t)) (set (flow_properties cr spec s t))"
  using dns_label_chars[of t] dns_label_chars[of s]
  by (intro sheet_lines)
    (auto simp: flow_properties_def Let_def NewReplicationFlow_def plain_value_def[of "''false''"] plain_value_def[of "''5''"] intro!: dns_key)

lemma common_sheet:
  assumes "wf_mirror_maker spec"
  shows "sheet (common_lines spec) (set (common_properties spec))"
proof -
  have "plain_value (strings_Join (cluster_names spec) '', '')"
  proof -
    have "set (strings_Join xs '', '') \<subseteq> {CHR '','', CHR '' ''} \<union> (\<Union>x\<in>set xs. set x)" for xs
      by (induction xs "'', ''" rule: strings_Join.induct) auto
    then have "x \<in> {CHR '','', CHR '' ''} \<union> (\<Union>n\<in>set (cluster_names spec). set n)" if "x \<in> set (strings_Join (cluster_names spec) '', '')" for x
      using that by blast
    then show ?thesis using names_labels(1)[OF assms] dns_label_chars by (fastforce simp: plain_value_def)
  qed
  then have "sheet (map property_line (common_properties spec)) (set (common_properties spec))"
    by (intro sheet_lines) (auto simp: common_properties_def Let_def Itoa_plain plain_key_def plain_value_def[of "''false''"])
  moreover have "sheet [''# mm2.properties''] {}" by simp
  ultimately show ?thesis
    unfolding common_lines_eq using sheet_append[OF _ sheet_append[OF _ sheet_nil(2)]] by fastforce
qed

lemma server_sheet:
  assumes "wf_mirror_maker spec"
  shows "sheet (server_lines spec)
    ((\<lambda>c. (strings_ToLower (mc_Name c) @ ''.bootstrap.servers'', cl_BootstrapServers c)) ` set (mm_Clusters spec))"
proof -
  let ?kv = "\<lambda>c. (strings_ToLower (mc_Name c) @ ''.bootstrap.servers'', cl_BootstrapServers c)"
  let ?comment = "\<lambda>c. ''# configure ['' @ strings_ToLower (mc_Name c) @ ''] cluster''"
  have "sheet ([?comment c] @ [property_line (?kv c)] @ [[]]) ({} \<union> ({?kv c} \<union> {}))" if "c \<in> set (mm_Clusters spec)" for c
  proof -
    have c: "dns_label (strings_ToLower (mc_Name c))" "plain_value (cl_BootstrapServers c)"
      using that assms by (auto simp: wf_mirror_maker_def)
    have "sheet [property_line (?kv c)] {?kv c}" by (intro sheet_line dns_key c) auto
    moreover have "sheet [?comment c] {}" using dns_label_chars[OF c(1)] by simp
    ultimately show ?thesis by (intro sheet_append) simp_all
  qed
  from sheet_concat[OF this] show ?thesis
    by (auto simp: server_lines_def Let_def property_line_def UNION_singleton_eq_range)
qed

lemma text_sheet:
  assumes "wf_mirror_maker spec" "mm_ConfiguratorEnabled spec"
  shows "\<exists>hidden. sheet (properties_lines cr spec) (text_properties cr spec hidden)"
proof -
  obtain hidden where flows: "createReplicationFlowConfig cr spec (cluster_names spec) (targets spec) (isRepeatedReplication spec) =
      replication_head cr spec
      @ concat (map (\<lambda>s. concat (map (\<lambda>t. map property_line (flow_properties cr spec s t)) (targets spec))) (cluster_names spec))
      @ (if isRepeatedReplication spec then [] else [property_line (''topics.blacklist'', hidden)])"
    and hidden: "plain_value hidden"
  proof -
    have "plain_value n" if "n \<in> set (cluster_names spec)" for n
      using dns_label_chars[OF names_labels(1)[OF assms(1) that]] by (auto simp: plain_value_def)
    then show thesis
      using that createReplicationFlowConfig_eq[OF assms(2), of cr "cluster_names spec" "targets spec" "isRepeatedReplication spec"] by blast
  qed
  have region: "sheet (if mm_RegionName spec \<noteq> [] then [''target.dc='' @ mm_RegionName spec] else [])
      (if mm_RegionName spec \<noteq> [] then {(''target.dc'', mm_RegionName spec)} else {})"
    using assms(1) sheet_tight[of "''target.dc''" "mm_RegionName spec"] label_plain[of "mm_RegionName spec"]
    by (auto simp: wf_mirror_maker_def plain_key_def plain_value_def)
  have "sheet (map property_line (head_properties cr spec)) (set (head_properties cr spec))"
    by (intro sheet_lines) (auto simp: head_properties_def plain_key_def plain_value_def ReplicationPolicyClassConfig_def IdentityReplicationPolicy_def)
  moreover have "sheet ([[]] @ [''# configure a specific source->target replication flow'']) ({} \<union> {})"
    by (intro sheet_append) simp_all
  ultimately have head: "sheet (replication_head cr spec) (set (head_properties cr spec))"
    unfolding replication_head_eq[OF assms(2)] using sheet_append by fastforce
  have pairs: "sheet (concat (map (\<lambda>s. concat (map (\<lambda>t. map property_line (flow_properties cr spec s t)) (targets spec))) (cluster_names spec)))
      (\<Union>s\<in>set (cluster_names spec). \<Union>t\<in>set (targets spec). set (flow_properties cr spec s t))"
    using names_labels[OF assms(1)] by (intro sheet_concat flow_sheet)
  have last: "sheet (if isRepeatedReplication spec then [] else [property_line (''topics.blacklist'', hidden)])
      (if isRepeatedReplication spec then {} else {(''topics.blacklist'', hidden)})"
    using hidden by (auto intro!: sheet_line simp: plain_key_def)
  have "properties_lines cr spec = common_lines spec @ server_lines spec
      @ (if mm_RegionName spec \<noteq> [] then [''target.dc='' @ mm_RegionName spec] else [])
      @ createReplicationFlowConfig cr spec (cluster_names spec) (targets spec) (isRepeatedReplication spec)"
    by (simp add: properties_lines_def targets_def)
  then have "sheet (properties_lines cr spec) (text_properties cr spec hidden)"
    using sheet_append[OF common_sheet[OF assms(1)] sheet_append[OF server_sheet[OF assms(1)] sheet_append[OF region
      sheet_append[OF head sheet_append[OF pairs last]]]]]
    unfolding flows text_properties_def by (simp only: Un_assoc append_assoc)
  then show ?thesis ..
qed

section \<open>Reading the text back\<close>

lemma separated: "x \<notin> set p \<Longrightarrow> x \<notin> set q \<Longrightarrow> p @ x # u = q @ x # v \<longleftrightarrow> p = q \<and> u = v"
proof (induction p arbitrary: q)
  case Nil
  then show ?case by (cases q) auto
next
  case (Cons a p)
  then show ?case by (cases q) auto
qed

lemma flow_key_eq:
  assumes "dns_label s" "dns_label t" "dns_label s'" "dns_label t'"
  shows "NewReplicationFlow s t @ CHR ''.'' # r = NewReplicationFlow s' t' @ CHR ''.'' # r' \<longleftrightarrow> s = s' \<and> t = t' \<and> r = r'"
proof -
  have "s @ ''-'' @ CHR ''>'' # t @ CHR ''.'' # r = s' @ ''-'' @ CHR ''>'' # t' @ CHR ''.'' # r' \<longleftrightarrow>
      s @ ''-'' = s' @ ''-'' \<and> t @ CHR ''.'' # r = t' @ CHR ''.'' # r'"
    using separated[of "CHR ''>''" "s @ ''-''" "s' @ ''-''"] assms(1,3)[THEN dns_label_chars] by auto
  also have "\<dots> \<longleftrightarrow> s = s' \<and> t = t' \<and> r = r'"
    using separated[of "CHR ''.''" t t'] assms(2,4)[THEN dns_label_chars] by auto
  finally show ?thesis by (simp add: NewReplicationFlow_def)
qed

lemma flow_properties_keys:
  "(k, v) \<in> set (flow_properties cr spec s t) \<Longrightarrow> s \<noteq> t \<and> (\<exists>r. k = NewReplicationFlow s t @ CHR ''.'' # r
     \<and> (r = ''enabled'' \<longrightarrow> v = FormatBool (drEnabled cr \<or> mm_ReplicationFlowEnabled spec)))"
  by (auto simp: flow_properties_def Let_def split: if_splits)

lemma flow_key_marked: "(k, v) \<in> set (flow_properties cr spec s t) \<Longrightarrow> CHR ''>'' \<in> set k \<and> CHR ''.'' \<in> set k"
  by (auto dest!: flow_properties_keys simp: NewReplicationFlow_def)

lemma other_keys:
  assumes "wf_mirror_maker spec" "(k, v) \<in> text_properties cr spec hidden" "CHR ''>'' \<in> set k"
  obtains s t where "s \<in> set (cluster_names spec)" "t \<in> set (targets spec)" "(k, v) \<in> set (flow_properties cr spec s t)"
proof -
  have "CHR ''>'' \<notin> set (strings_ToLower (mc_Name c))" if "c \<in> set (mm_Clusters spec)" for c
    using that assms(1) dns_label_chars[of "strings_ToLower (mc_Name c)"] by (auto simp: wf_mirror_maker_def)
  with assms(2,3) show thesis
    by (auto simp: text_properties_def common_properties_def head_properties_def Let_def ReplicationPolicyClassConfig_def
        split: if_splits intro: that)
qed

lemma text_clusters:
  assumes "wf_mirror_maker spec"
  shows "(''clusters'', strings_Join (cluster_names spec) '', '') \<in> text_properties cr spec hidden
    \<and> (\<forall>v'. (''clusters'', v') \<in> text_properties cr spec hidden \<longrightarrow> v' = strings_Join (cluster_names spec) '', '')"
proof -
  have "''clusters'' \<noteq> n @ ''.bootstrap.servers''" for n
  proof
    assume eq: "''clusters'' = n @ ''.bootstrap.servers''"
    have "CHR ''.'' \<in> set ''clusters''" unfolding eq by simp
    then show False by simp
  qed
  then show ?thesis
    by (auto simp: text_properties_def common_properties_def head_properties_def Let_def ReplicationPolicyClassConfig_def
        dest!: flow_key_marked split: if_splits)
qed

lemma text_target:
  assumes "wf_mirror_maker spec"
  shows "(''target.dc'', v) \<in> text_properties cr spec hidden \<longleftrightarrow> mm_RegionName spec \<noteq> [] \<and> v = mm_RegionName spec"
proof -
  have "''target.dc'' \<noteq> n @ ''.bootstrap.servers''" if "dns_label n" for n
    using separated[of "CHR ''.''" "''target''" n "''dc''" "''bootstrap.servers''"] dns_label_chars[OF that] by auto
  then show ?thesis
    using assms by (auto simp: text_properties_def common_properties_def head_properties_def Let_def ReplicationPolicyClassConfig_def
        wf_mirror_maker_def dest!: flow_key_marked split: if_splits)
qed

lemma text_flow:
  assumes "wf_mirror_maker spec" "dns_label s" "dns_label t"
  shows "(NewReplicationFlow s t @ ''.enabled'', v) \<in> text_properties cr spec hidden \<longleftrightarrow>
    s \<in> set (cluster_names spec) \<and> t \<in> set (targets spec) \<and> s \<noteq> t \<and> v = FormatBool (drEnabled cr \<or> mm_ReplicationFlowEnabled spec)"
proof
  assume "(NewReplicationFlow s t @ ''.enabled'', v) \<in> text_properties cr spec hidden"
  then obtain s' t' where st: "s' \<in> set (cluster_names spec)" "t' \<in> set (targets spec)"
    "(NewReplicationFlow s t @ ''.enabled'', v) \<in> set (flow_properties cr spec s' t')"
    by (rule other_keys[OF assms(1)]) (simp add: NewReplicationFlow_def)
  from flow_properties_keys[OF st(3)] obtain r where r: "s' \<noteq> t'" "NewReplicationFlow s t @ ''.enabled'' = NewReplicationFlow s' t' @ CHR ''.'' # r"
    "r = ''enabled'' \<longrightarrow> v = FormatBool (drEnabled cr \<or> mm_ReplicationFlowEnabled spec)" by auto
  moreover have "s = s' \<and> t = t' \<and> ''enabled'' = r"
    using r(2) flow_key_eq[OF assms(2,3) names_labels(1)[OF assms(1) st(1)] names_labels(2)[OF assms(1) st(2)], of "''enabled''" r] by simp
  ultimately show "s \<in> set (cluster_names spec) \<and> t \<in> set (targets spec) \<and> s \<noteq> t
      \<and> v = FormatBool (drEnabled cr \<or> mm_ReplicationFlowEnabled spec)"
    using st by simp
next
  assume "s \<in> set (cluster_names spec) \<and> t \<in> set (targets spec) \<and> s \<noteq> t \<and> v = FormatBool (drEnabled cr \<or> mm_ReplicationFlowEnabled spec)"
  then show "(NewReplicationFlow s t @ ''.enabled'', v) \<in> text_properties cr spec hidden"
    by (auto simp: text_properties_def flow_properties_def Let_def)
qed

text \<open>The list of clusters is read as it was written.\<close>

lemma Split_comma_space:
  assumes "length xs > 1" "\<forall>x\<in>set xs. CHR '','' \<notin> set x \<and> CHR '' '' \<notin> set x"
  shows "getTrimmedPropertyValue (strings_Join xs '', '') = PSlice xs"
proof -
  have join: "strings_Join (y # ys) '', '' = strings_Join (y # map (\<lambda>x. CHR '' '' # x) ys) '',''" for y ys
  proof (induction ys arbitrary: y)
    case (Cons a ys)
    have "strings_Join ((CHR '' '' # a) # zs) '','' = CHR '' '' # strings_Join (a # zs) '',''" for zs by (cases zs) auto
    with Cons show ?case by simp
  qed simp
  obtain y ys where xs: "xs = y # ys" "ys \<noteq> []" using assms(1) by (cases xs) auto
  let ?zs = "y # map (\<lambda>x. CHR '' '' # x) ys"
  have "strings_Split (strings_Join ?zs '','') (CHR '','') = ?zs"
    using assms(2) xs by (intro Split_Join) auto
  moreover have "map strings_Trim ?zs = xs" using assms(2) xs by (auto intro: map_idI)
  ultimately show ?thesis using xs by (simp add: getTrimmedPropertyValue_def join Let_def)
qed

text \<open>What the reader finds in the text of a resource.\<close>

lemma mirror_maker_text_read:
  assumes "mm_ConfiguratorEnabled spec" "wf_mirror_maker spec"
  obtains properties where "GetProperties (strings_Join (properties_lines cr spec) ''\<newline>'') = Inr properties"
    "map_of properties ''clusters'' = Some (PSlice (cluster_names spec))"
    "mm_RegionName spec \<noteq> [] \<Longrightarrow> map_of properties ''target.dc'' = Some (PString (mm_RegionName spec))"
    "\<And>s t. dns_label s \<Longrightarrow> dns_label t \<Longrightarrow> map_of properties (NewReplicationFlow s t @ ''.enabled'') =
      (if s \<in> set (cluster_names spec) \<and> t \<in> set (targets spec) \<and> s \<noteq> t
       then Some (PString (FormatBool (drEnabled cr \<or> mm_ReplicationFlowEnabled spec))) else None)"
proof -
  obtain hidden where "sheet (properties_lines cr spec) (text_properties cr spec hidden)"
    using text_sheet[OF assms(2,1)] by blast
  moreover have "properties_lines cr spec \<noteq> []" by (simp add: properties_lines_def common_lines_def Let_def)
  ultimately obtain properties where read: "GetProperties (strings_Join (properties_lines cr spec) ''\<newline>'') = Inr properties"
    and set: "\<And>k v. (k, v) \<in> text_properties cr spec hidden \<Longrightarrow> \<forall>v'. (k, v') \<in> text_properties cr spec hidden \<longrightarrow> v' = v
      \<Longrightarrow> map_of properties k = Some (getTrimmedPropertyValue v)"
    and unset: "\<And>k. \<forall>v. (k, v) \<notin> text_properties cr spec hidden \<Longrightarrow> map_of properties k = None"
    by (rule sheet_read) blast
  show thesis
  proof (rule that[OF read])
    have "length (cluster_names spec) > 1" using assms(2) by (simp add: wf_mirror_maker_def cluster_names_def)
    moreover have "CHR '','' \<notin> set n \<and> CHR '' '' \<notin> set n" if "n \<in> set (cluster_names spec)" for n
      using dns_label_chars[OF names_labels(1)[OF assms(2) that]] by auto
    ultimately have "getTrimmedPropertyValue (strings_Join (cluster_names spec) '', '') = PSlice (cluster_names spec)"
      by (intro Split_comma_space) auto
    then show "map_of properties ''clusters'' = Some (PSlice (cluster_names spec))"
      using set[OF conjunct1[OF text_clusters[OF assms(2)]] conjunct2[OF text_clusters[OF assms(2)]]] by simp
    show "map_of properties ''target.dc'' = Some (PString (mm_RegionName spec))" if "mm_RegionName spec \<noteq> []"
    proof -
      have "CHR '','' \<notin> set (mm_RegionName spec)" "CHR '' '' \<notin> set (mm_RegionName spec)"
        using assms(2) that label_plain[of "mm_RegionName spec"] by (auto simp: wf_mirror_maker_def)
      then have "getTrimmedPropertyValue (mm_RegionName spec) = PString (mm_RegionName spec)"
        by (simp add: getTrimmedPropertyValue_def)
      moreover have "map_of properties ''target.dc'' = Some (getTrimmedPropertyValue (mm_RegionName spec))"
        using that by (intro set) (simp_all add: text_target[OF assms(2)])
      ultimately show ?thesis by simp
    qed
    show "map_of properties (NewReplicationFlow s t @ ''.enabled'') =
        (if s \<in> set (cluster_names spec) \<and> t \<in> set (targets spec) \<and> s \<noteq> t
         then Some (PString (FormatBool (drEnabled cr \<or> mm_ReplicationFlowEnabled spec))) else None)" if "dns_label s" "dns_label t" for s t
    proof (cases "s \<in> set (cluster_names spec) \<and> t \<in> set (targets spec) \<and> s \<noteq> t")
      case True
      have "map_of properties (NewReplicationFlow s t @ ''.enabled'') =
          Some (getTrimmedPropertyValue (FormatBool (drEnabled cr \<or> mm_ReplicationFlowEnabled spec)))"
        by (rule set) (use True in \<open>simp_all only: text_flow[OF assms(2) that]\<close>, simp_all)
      with True show ?thesis by simp
    next
      case False
      then have "\<forall>v. (NewReplicationFlow s t @ ''.enabled'', v) \<notin> text_properties cr spec hidden"
        by (simp only: text_flow[OF assms(2) that]) blast
      from unset[OF this] False show ?thesis by simp
    qed
  qed
qed

text \<open>
  C21. The configuration of Mirror Maker is read as it was meant: for a resource with the configurator on, at
  least two clusters and names that can be part of a DNS label, \<open>GetProperties\<close> of the text of
  \<open>GetMirrorMakerProperties\<close> does not panic. It finds the list of the clusters in lower case and a
  flow between two names exactly if they are different, the first is a cluster and the second a target; the flow is on
  exactly if replication is. The target data center is the name of the region as it was given, not
  in lower case: for a region \<open>DC1\<close>, a \<open>KmmConfig\<close> without data centers is resolved to the target
  \<open>DC1\<close>, which is no cluster, and to all the clusters as sources.
\<close>

theorem mirror_maker_config_read_back:
  assumes "ks_MirrorMaker cr = Some spec" "mm_ConfiguratorEnabled spec" "wf_mirror_maker spec"
  shows "\<exists>content properties. GetMirrorMakerProperties cr = Inr content \<and> GetProperties content = Inr properties
    \<and> map_of properties ''clusters'' = Some (PSlice (cluster_names spec))
    \<and> (\<forall>s t. dns_label s \<and> dns_label t \<longrightarrow> map_of properties (NewReplicationFlow s t @ ''.enabled'') =
        (if s \<in> set (cluster_names spec) \<and> t \<in> set (targets spec) \<and> s \<noteq> t
         then Some (PString (FormatBool (drEnabled cr \<or> mm_ReplicationFlowEnabled spec))) else None))
    \<and> (mm_RegionName spec \<noteq> [] \<longrightarrow> (\<forall>topics errors. kt_SourceDc topics = [] \<and> kt_TargetDc topics = [] \<longrightarrow>
        recognizeTargetAndSourceDc topics properties errors =
          (Inr ([mm_RegionName spec], filter (\<lambda>dc. dc \<noteq> mm_RegionName spec) (cluster_names spec)), errors)))"
proof -
  obtain properties where read: "GetProperties (strings_Join (properties_lines cr spec) ''\<newline>'') = Inr properties"
    and clusters: "map_of properties ''clusters'' = Some (PSlice (cluster_names spec))"
    and target: "mm_RegionName spec \<noteq> [] \<Longrightarrow> map_of properties ''target.dc'' = Some (PString (mm_RegionName spec))"
    and flow: "\<And>s t. dns_label s \<Longrightarrow> dns_label t \<Longrightarrow> map_of properties (NewReplicationFlow s t @ ''.enabled'') =
      (if s \<in> set (cluster_names spec) \<and> t \<in> set (targets spec) \<and> s \<noteq> t
       then Some (PString (FormatBool (drEnabled cr \<or> mm_ReplicationFlowEnabled spec))) else None)"
    using mirror_maker_text_read[OF assms(2,3)] by blast
  have "recognizeTargetAndSourceDc topics properties errors =
      (Inr ([mm_RegionName spec], filter (\<lambda>dc. dc \<noteq> mm_RegionName spec) (cluster_names spec)), errors)"
    if "mm_RegionName spec \<noteq> []" "kt_SourceDc topics = []" "kt_TargetDc topics = []" for topics errors
    using that(2,3) by (simp add: recognizeTargetAndSourceDc_def clusters target[OF that(1)] bindE_def returnE_def)
  moreover have "GetMirrorMakerProperties cr = Inr (strings_Join (properties_lines cr spec) ''\<newline>'')"
    using assms(1) by (simp add: GetMirrorMakerProperties_def deref_def)
  ultimately show ?thesis using read clusters flow by blast
qed

theorem mirror_maker_config_read_back_witness:
  "\<exists>content properties. GetMirrorMakerProperties (sample_resource ''DC1'') = Inr content \<and> GetProperties content = Inr properties
    \<and> map_of properties ''dc2->dc1.enabled'' = Some (PString ''true'') \<and> map_of properties ''dc1->dc2.enabled'' = None
    \<and> recognizeTargetAndSourceDc \<lparr>kt_Topics = ''t'', kt_SourceDc = [], kt_TargetDc = [], kt_Transformation = None\<rparr> properties []
      = (Inr ([''DC1''], [''dc1'', ''dc2'']), [])"
proof -
  let ?spec = "sample_mirrorMaker ''DC1''"
  have "strings_ToLower ''DC1'' = ''dc1''" "strings_ToLower ''dc2'' = ''dc2''"
    by (simp_all add: strings_ToLower_def to_lower_char_def char_of_def bit_iff_odd)
  then have s: "ks_MirrorMaker (sample_resource ''DC1'') = Some ?spec" "mm_ConfiguratorEnabled ?spec" "wf_mirror_maker ?spec"
    "cluster_names ?spec = [''dc1'', ''dc2'']" "targets ?spec = [''dc1'']" "mm_RegionName ?spec = ''DC1''"
    "(drEnabled (sample_resource ''DC1'') \<or> mm_ReplicationFlowEnabled ?spec) = True"
    by (simp_all add: sample_resource_defs wf_mirror_maker_def cluster_names_def targets_def dns_label_def plain_value_def)
  have l: "dns_label ''dc1''" "dns_label ''dc2''" by (simp_all add: dns_label_def)
  let ?t = "\<lparr>kt_Topics = ''t'', kt_SourceDc = [], kt_TargetDc = [], kt_Transformation = None\<rparr>"
  from mirror_maker_config_read_back[OF s(1-3)] obtain content properties where
    r: "GetMirrorMakerProperties (sample_resource ''DC1'') = Inr content" "GetProperties content = Inr properties"
    and flow: "\<forall>s t. dns_label s \<and> dns_label t \<longrightarrow> map_of properties (NewReplicationFlow s t @ ''.enabled'') =
      (if s \<in> set [''dc1'', ''dc2''] \<and> t \<in> set [''dc1''] \<and> s \<noteq> t then Some (PString (FormatBool True)) else None)"
    and dc: "\<forall>topics errors. kt_SourceDc topics = [] \<and> kt_TargetDc topics = [] \<longrightarrow> recognizeTargetAndSourceDc topics properties errors =
      (Inr ([''DC1''], filter (\<lambda>dc. dc \<noteq> ''DC1'') [''dc1'', ''dc2'']), errors)"
    unfolding s(4-7) by auto
  moreover have "map_of properties ''dc2->dc1.enabled'' = Some (PString ''true'')" "map_of properties ''dc1->dc2.enabled'' = None"
    using flow[rule_format, of "''dc2''" "''dc1''"] flow[rule_format, of "''dc1''" "''dc2''"] l by (simp_all add: NewReplicationFlow_def FormatBool_def)
  moreover have "recognizeTargetAndSourceDc ?t properties [] = (Inr ([''DC1''], [''dc1'', ''dc2'']), [])"
    using dc[rule_format, of ?t "[]"] by simp
  ultimately show ?thesis by blast
qed

end
