(* ===== verification/Monitoring_Metrics.thy ===== *)
theory Monitoring_Metrics
  imports Go_Prelude Float64 "HOL-Library.Multiset"
begin

text \<open>
  \<open>monitoring/main.go\<close>: the program that the monitoring agent runs at every interval. It asks the cluster for its metadata
  and configurations and prints metrics in the line protocol of the agent: one line per broker with its
  threads and skews, one per topic with unclean leader election, one per topic without a leader.

  Arguments (fields of \<open>metricsEnv\<close>): the environment variables and the file system, the Kafka client of
  package kafka-go, the clock, the parsing of certificates, the orders in which the \<open>range\<close> loops visit their maps, and what the
  conversion of a NaN to \<open>int\<close> yields, which Go leaves to the machine. \<open>log.Fatalf\<close> ends the program: it is an
  error that nothing catches. Numbers are \<open>float64\<close> as in \<open>Float64\<close>; the only operation that leaves the finite values is the
  division by the number of brokers when no partition has a replica.
\<close>

section \<open>Data\<close>

text \<open>The fields of the types of kafka-go that the program reads. A broker is compared as a whole when it is the key of a map.\<close>

record kgBroker =
  kb_Host :: string
  kb_Port :: int
  kb_ID :: int
  kb_Rack :: string

record kgPartition =
  kp_Leader :: kgBroker
  kp_Replicas :: "kgBroker list"

record kgTopic =
  kgt_Name :: string
  kgt_Partitions :: "kgPartition list"

record kgMetadata =
  kgm_Brokers :: "kgBroker list"
  kgm_Topics :: "kgTopic list"

record configEntry =
  ce_ConfigName :: string
  ce_ConfigValue :: string

record configResource =
  dc_ResourceName :: string
  dc_ConfigEntries :: "configEntry list"

datatype resourceType = ResourceTypeTopic | ResourceTypeBroker

datatype scramHash = SHA256 | SHA512

text \<open>A client certificate (\<open>None\<close> is the zero value, an empty certificate) and the pool of certificate authorities.\<close>

record kgTls =
  kg_cert :: "string option"
  kg_RootCAs :: "string list"

record kgClient =
  kg_Addr :: "string list"
  kg_SASL :: "(scramHash \<times> string \<times> string) option"
  kg_TLS :: "kgTls option"

record 'w metricsEnv =
  me_LookupEnv :: "string \<Rightarrow> string option"
  me_ReadFile :: "string \<Rightarrow> go_error + string"
  me_StatIsDir :: "string \<Rightarrow> go_error + bool"
  me_OpenLog :: "string \<Rightarrow> go_error + unit"
  me_Println :: "string \<Rightarrow> 'w \<Rightarrow> 'w"
  me_timestamp :: "'w \<Rightarrow> string"
  me_UnixMilli :: "'w \<Rightarrow> int"
  me_FormatFloat :: "float64 \<Rightarrow> string"
  me_LoadX509KeyPair :: "string \<Rightarrow> string \<Rightarrow> go_error + string"
  me_CertsFromPEM :: "string \<Rightarrow> string list option"
  me_ScramMechanism :: "scramHash \<Rightarrow> string \<Rightarrow> string \<Rightarrow> (scramHash \<times> string \<times> string) option"
  me_Error :: "go_error \<Rightarrow> string"
  me_Metadata :: "kgClient \<Rightarrow> ('w, kgMetadata) eff"
  me_DescribeConfigs :: "kgClient \<Rightarrow> (resourceType \<times> string) list \<Rightarrow> ('w, configResource list) eff"
  me_range_counts :: "nat \<Rightarrow> (kgBroker \<times> int) list \<Rightarrow> (kgBroker \<times> int) list"
  me_range_result :: "string gomap \<Rightarrow> string gomap"
  me_NaN_to_int :: int

section \<open>Settings\<close>

definition getEnv :: "'w metricsEnv \<Rightarrow> string \<Rightarrow> string \<Rightarrow> string" where
  "getEnv env key defaultValue = (case me_LookupEnv env key of Some value \<Rightarrow> value | None \<Rightarrow> defaultValue)"

definition getBoolEnv :: "'w metricsEnv \<Rightarrow> string \<Rightarrow> string \<Rightarrow> bool" where
  "getBoolEnv env key defaultValue \<longleftrightarrow> strings_ToLower (getEnv env key defaultValue) = ''true''"

definition getSecretFromFileOrEnv :: "'w metricsEnv \<Rightarrow> string \<Rightarrow> string \<Rightarrow> string" where
  "getSecretFromFileOrEnv env filePath envKey =
     (case me_ReadFile env filePath of Inr secretBytes \<Rightarrow> strings_TrimSpace secretBytes | Inl _ \<Rightarrow> getEnv env envKey [])"

definition monitoringSecretsBaseDir :: string where
  "monitoringSecretsBaseDir = ''/etc/secrets/monitoring-pod-secrets''"

definition saslUsername :: "'w metricsEnv \<Rightarrow> string" where
  "saslUsername env = getSecretFromFileOrEnv env (monitoringSecretsBaseDir @ ''/client_username'') ''KAFKA_USER''"

definition saslPassword :: "'w metricsEnv \<Rightarrow> string" where
  "saslPassword env = getSecretFromFileOrEnv env (monitoringSecretsBaseDir @ ''/client_password'') ''KAFKA_PASSWORD''"

definition metrics_serviceName :: "'w metricsEnv \<Rightarrow> string" where
  "metrics_serviceName env = getEnv env ''KAFKA_SERVICE_NAME'' ''kafka''"

definition isDebugEnabled :: "'w metricsEnv \<Rightarrow> bool" where
  "isDebugEnabled env = getBoolEnv env ''KAFKA_MONITORING_SCRIPT_DEBUG'' ''false''"

text \<open>
  The logger: \<open>None\<close> is the \<open>nil\<close> that is left when the log file cannot be opened, since the error is dropped. Its
  method dereferences it whether or not debugging is on.
\<close>

definition initLogger :: "'w metricsEnv \<Rightarrow> string \<Rightarrow> bool option" where
  "initLogger env logFile = (case me_OpenLog env logFile of Inl _ \<Rightarrow> None | Inr _ \<Rightarrow> Some (isDebugEnabled env))"

text \<open>\<open>filepath.Join\<close> up to the cleaning of the path, which names the same file.\<close>

definition filepath_Join :: "string \<Rightarrow> string \<Rightarrow> string" where
  "filepath_Join dir file = (if dir = [] then file else dir @ ''/'' @ file)"

definition debugLogger :: "'w metricsEnv \<Rightarrow> bool option" where
  "debugLogger env = initLogger env (filepath_Join (getEnv env ''MONITORING_LOGS'' ''/tmp/monitoring/logs'') ''additional-metrics.log'')"

definition Debug :: "'w metricsEnv \<Rightarrow> bool option \<Rightarrow> string \<Rightarrow> ('w, unit) eff" where
  "Debug env c message = (case c of
       None \<Rightarrow> throwE Panic
     | Some debug \<Rightarrow> whenE debug (modifyE (\<lambda>w. me_Println env (''['' @ me_timestamp env w @ ''][DEBUG] '' @ message) w)))"

text \<open>An error of \<open>os.Stat\<close> other than that the file does not exist leaves \<open>info\<close> at \<open>nil\<close>.\<close>

definition fileExists :: "'w metricsEnv \<Rightarrow> string \<Rightarrow> go_error + bool" where
  "fileExists env filename = (case me_StatIsDir env filename of
       Inl e \<Rightarrow> (if e = NotFound then Inr False else Inl Panic)
     | Inr isDir \<Rightarrow> Inr (\<not> isDir))"

definition createTLSConfig :: "'w metricsEnv \<Rightarrow> string \<Rightarrow> string \<Rightarrow> string \<Rightarrow> ('w, kgTls) eff" where
  "createTLSConfig env caFile certFile keyFile =
     bindE (liftE (fileExists env certFile)) (\<lambda>hasCert.
     bindE (if hasCert then liftE (fileExists env keyFile) else returnE False) (\<lambda>hasPair.
     bindE (if hasPair
            then (case me_LoadX509KeyPair env certFile keyFile of
                    Inl e \<Rightarrow> throwE (Err (''could not load client key pair: '' @ me_Error env e))
                  | Inr cert \<Rightarrow> returnE (Some cert))
            else returnE None) (\<lambda>cert.
     bindE (liftE (fileExists env caFile)) (\<lambda>hasCa.
     if hasCa
     then (case me_ReadFile env caFile of
             Inl e \<Rightarrow> throwE (Err (''could not read ca certificate: '' @ me_Error env e))
           | Inr caCert \<Rightarrow> (case me_CertsFromPEM env caCert of
               None \<Rightarrow> throwE (Err ''failed to append ca cert to pool'')
             | Some cas \<Rightarrow> returnE \<lparr>kg_cert = cert, kg_RootCAs = cas\<rparr>))
     else returnE \<lparr>kg_cert = cert, kg_RootCAs = []\<rparr>))))"

section \<open>Metrics of topics\<close>

definition calcUncleanElectionLeaderTopics :: "configResource list \<Rightarrow> string list" where
  "calcUncleanElectionLeaderTopics configs =
     map (\<lambda>res. ''kafka_cluster,topic='' @ dc_ResourceName res @ '' unclean_election_topics=1'')
       (filter (\<lambda>res. list_ex (\<lambda>entry. ce_ConfigName entry = ''unclean.leader.election.enable'' \<and> ce_ConfigValue entry = ''true'')
          (dc_ConfigEntries res)) configs)"

definition CalcTopicsWithoutLeader :: "kgTopic list \<Rightarrow> string list" where
  "CalcTopicsWithoutLeader topics =
     map (\<lambda>topic. ''kafka_cluster,topic='' @ kgt_Name topic @ '' topics_without_leader=1'')
       (filter (\<lambda>topic. list_ex (\<lambda>partition. kb_ID (kp_Leader partition) = 0) (kgt_Partitions topic)) topics)"

section \<open>Metrics of brokers\<close>

text \<open>\<open>counts[broker]++\<close> and \<open>result[key] += text\<close>.\<close>

definition increment :: "kgBroker \<Rightarrow> (kgBroker \<times> int) list \<Rightarrow> (kgBroker \<times> int) list" where
  "increment b m = mput b ((case map_of m b of None \<Rightarrow> 0 | Some n \<Rightarrow> n) + 1) m"

definition append_text :: "string \<Rightarrow> string \<Rightarrow> string gomap \<Rightarrow> string gomap" where
  "append_text key text m = mput key (mstr m key @ text) m"

definition tally :: "kgBroker list \<Rightarrow> (kgBroker \<times> int) list" where
  "tally xs = fold increment xs []"

definition leaders :: "kgTopic list \<Rightarrow> kgBroker list" where
  "leaders topics = concat (map (\<lambda>topic. map kp_Leader (kgt_Partitions topic)) topics)"

definition replicas :: "kgTopic list \<Rightarrow> kgBroker list" where
  "replicas topics = concat (map (\<lambda>topic. concat (map kp_Replicas (kgt_Partitions topic))) topics)"

definition brokerLeaders :: "kgTopic list \<Rightarrow> (kgBroker \<times> int) list" where
  "brokerLeaders topics = tally (leaders topics)"

definition brokerPartitions :: "kgTopic list \<Rightarrow> (kgBroker \<times> int) list" where
  "brokerPartitions topics = tally (replicas topics)"

definition sum_counts :: "(kgBroker \<times> int) list \<Rightarrow> float64" where
  "sum_counts counts = fold (\<lambda>(_, n) s. fl (s + fl (of_int n))) counts 0"

text \<open>The mean is \<open>None\<close> for the quotient by zero, the infinity; the deviation from it is a NaN.\<close>

definition mean :: "float64 \<Rightarrow> nat \<Rightarrow> float64 option" where
  "mean s numBrokers = (if numBrokers = 0 then None else Some (fl (s / fl (of_nat numBrokers))))"

definition deviation :: "'w metricsEnv \<Rightarrow> int \<Rightarrow> float64 option \<Rightarrow> int" where
  "deviation env n average = (case average of
       None \<Rightarrow> me_NaN_to_int env
     | Some a \<Rightarrow> trunc_int (fl (fl (fl (fl (of_int n) - a) / a) * 100)))"

definition brokerSignature :: "'w metricsEnv \<Rightarrow> string \<Rightarrow> string" where
  "brokerSignature env broker = metrics_serviceName env @ ''-'' @ broker"

abbreviation broker_key :: "'w metricsEnv \<Rightarrow> kgBroker \<Rightarrow> string" where
  "broker_key env b \<equiv> brokerSignature env (strconv_Itoa (kb_ID b))"

definition add_skews :: "'w metricsEnv \<Rightarrow> string \<Rightarrow> float64 option \<Rightarrow> (kgBroker \<times> int) list \<Rightarrow> string gomap \<Rightarrow> string gomap" where
  "add_skews env field average counts result =
     fold (\<lambda>(broker, n). append_text (broker_key env broker)
       ('','' @ field @ ''='' @ strconv_Itoa (deviation env n average) @ ''i'')) counts result"

text \<open>Writing to a \<open>bytes.Buffer\<close> does not fail, so the return of the empty string is never reached.\<close>

definition print_result :: "string gomap \<Rightarrow> string" where
  "print_result result = concat (map (\<lambda>(_, metricPerBroker).
     if strings_Contains metricPerBroker ''kafka,broker='' then metricPerBroker @ ''\<newline>'' else []) result)"

definition CalcSkewNFormMetric :: "'w metricsEnv \<Rightarrow> kgTopic list \<Rightarrow> string gomap \<Rightarrow> string" where
  "CalcSkewNFormMetric env topics result =
     (let partitions = brokerPartitions topics; leads = brokerLeaders topics;
          sumPartitions = sum_counts (me_range_counts env 0 partitions);
          sumLeaders = sum_counts (me_range_counts env 1 leads);
          numBrokers = length partitions;
          meanPartitions = mean sumPartitions numBrokers;
          meanLeaders = mean sumLeaders numBrokers;
          result = add_skews env ''broker_skew'' meanPartitions (me_range_counts env 2 partitions) result;
          result = add_skews env ''broker_leader_skew'' meanLeaders (me_range_counts env 3 leads) result
      in print_result (me_range_result env result))"

text \<open>The two values are declared outside the loop: a broker without the entry is given the value of the one before.\<close>

definition thread_values :: "configEntry list \<Rightarrow> string \<times> string \<Rightarrow> string \<times> string" where
  "thread_values entries vals = fold (\<lambda>entry (cleanerVal, fetchersVal).
     (if ce_ConfigName entry = ''log.cleaner.threads'' then ce_ConfigValue entry else cleanerVal,
      if ce_ConfigName entry = ''num.replica.fetchers'' then ce_ConfigValue entry else fetchersVal)) entries vals"

definition thread_text :: "string \<times> string \<Rightarrow> string" where
  "thread_text vals =
     ''log_cleaner_threads_count='' @ fst vals @ ''i,replica_fetcher_threads_count='' @ snd vals @ ''i''"

fun add_threads :: "'w metricsEnv \<Rightarrow> string \<times> string \<Rightarrow> configResource list \<Rightarrow> string gomap \<Rightarrow> string gomap" where
  "add_threads env vals [] result = result"
| "add_threads env vals (resource # rest) result =
     (let vals = thread_values (dc_ConfigEntries resource) vals
      in add_threads env vals rest (append_text (brokerSignature env (dc_ResourceName resource)) (thread_text vals) result))"

definition broker_heads :: "'w metricsEnv \<Rightarrow> kgBroker list \<Rightarrow> string gomap" where
  "broker_heads env brokers = fold (\<lambda>broker. let key = broker_key env broker
     in mput key (''kafka,broker='' @ key @ '' '')) brokers []"

definition log_Fatal :: "'w metricsEnv \<Rightarrow> string \<Rightarrow> go_error \<Rightarrow> ('w, 'a) eff" where
  "log_Fatal env text e = throwE (Err (text @ me_Error env e))"

definition CalcCleanerNReplicaThreads :: "'w metricsEnv \<Rightarrow> kgClient \<Rightarrow> kgMetadata \<Rightarrow> ('w, string gomap) eff" where
  "CalcCleanerNReplicaThreads env client metadata =
     tryE (me_DescribeConfigs env client (map (\<lambda>broker. (ResourceTypeBroker, strconv_Itoa (kb_ID broker))) (kgm_Brokers metadata)))
       (log_Fatal env ''Failed to describe configs: '')
       (\<lambda>resources. returnE (add_threads env ([], []) resources (broker_heads env (kgm_Brokers metadata))))"

section \<open>The program\<close>

definition CollectMetrics :: "'w metricsEnv \<Rightarrow> configResource list \<Rightarrow> kgMetadata \<Rightarrow> kgClient \<Rightarrow> ('w, string) eff" where
  "CollectMetrics env configs metadata client =
     (let uncleanTopics = strings_Join (calcUncleanElectionLeaderTopics configs) ''\<newline>'';
          topicsWithoutLeader = strings_Join (CalcTopicsWithoutLeader (kgm_Topics metadata)) ''\<newline>''
      in bindE (CalcCleanerNReplicaThreads env client metadata) (\<lambda>threads.
           returnE (CalcSkewNFormMetric env (kgm_Topics metadata) threads @ uncleanTopics @ ''\<newline>'' @ topicsWithoutLeader)))"

definition sasl_mechanism :: "'w metricsEnv \<Rightarrow> (scramHash \<times> string \<times> string) option" where
  "sasl_mechanism env =
     (if saslUsername env \<noteq> [] \<and> saslPassword env \<noteq> []
      then me_ScramMechanism env (if getEnv env ''KAFKA_SASL_MECHANISM'' ''SCRAM-SHA-512'' = ''SCRAM-SHA-512'' then SHA512 else SHA256)
             (saslUsername env) (saslPassword env)
      else None)"

definition metrics_main :: "'w metricsEnv \<Rightarrow> ('w, string) eff" where
  "metrics_main env =
     bindE (Debug env (debugLogger env) ''Start of additional metrics script execution'') (\<lambda>_.
     bindE (getsE (me_UnixMilli env)) (\<lambda>startTime.
     bindE (if getBoolEnv env ''KAFKA_ENABLE_SSL'' ''false''
            then tryE (createTLSConfig env ''/tls/ca.crt'' ''/tls/tls.crt'' ''/tls/tls.key'')
                   (log_Fatal env ''Failed to create TLS config: '') (\<lambda>tls. returnE (Some tls))
            else returnE None) (\<lambda>tls.
     let client = \<lparr>kg_Addr = strings_Split (getEnv env ''KAFKA_ADDRESSES'' []) (CHR '',''), kg_SASL = sasl_mechanism env, kg_TLS = tls\<rparr> in
     tryE (me_Metadata env client) (log_Fatal env ''Failed to get metadata: '') (\<lambda>metadata.
     tryE (me_DescribeConfigs env client (map (\<lambda>topic. (ResourceTypeTopic, kgt_Name topic)) (kgm_Topics metadata)))
       (log_Fatal env ''Failed to describe configs: '') (\<lambda>configs.
     bindE (CollectMetrics env configs metadata client) (\<lambda>metrics.
     bindE (\<lambda>w. Debug env (debugLogger env) (''Time of additional metrics script execution: ''
         @ me_FormatFloat env (fl (fl (of_int (me_UnixMilli env w - startTime)) / 1000))) w) (\<lambda>_.
     returnE (metrics @ ''\<newline>''))))))))"

section \<open>Counting\<close>

lemma increment_get: "map_of (fold increment xs m) b = (if b \<in> set xs then Some ((case map_of m b of None \<Rightarrow> 0 | Some n \<Rightarrow> n) + int (count_list xs b)) else map_of m b)"
  by (induction xs arbitrary: m) (auto simp: increment_def)

lemma increment_wf: "wf_map m \<Longrightarrow> wf_map (fold increment xs m)"
  by (induction xs arbitrary: m) (auto simp: increment_def)

lemma increment_keys: "fst ` set (fold increment xs m) = set xs \<union> fst ` set m"
proof -
  have "dom (map_of (fold increment xs m)) = set xs \<union> dom (map_of m)" by (auto simp: dom_def increment_get)
  then show ?thesis by (simp add: dom_map_of_conv_image_fst)
qed

lemma sum_increment: "wf_map m \<Longrightarrow> sum_list (map snd (increment b m)) = sum_list (map snd m) + (1 :: int)"
proof (induction m)
  case (Cons p m)
  obtain k v where [simp]: "p = (k, v)" by fastforce
  show ?case
  proof (cases "k = b")
    case False
    then have "increment b ((k, v) # m) = (k, v) # increment b m" by (simp add: increment_def)
    then show ?thesis using Cons by simp
  qed (simp add: increment_def)
qed (simp add: increment_def)

lemma sum_increments: "wf_map m \<Longrightarrow> sum_list (map snd (fold increment xs m)) = sum_list (map snd m) + int (length xs)"
proof (induction xs arbitrary: m)
  case (Cons x xs)
  have "wf_map (increment x m)" using Cons.prems by (simp add: increment_def)
  then show ?case using Cons.IH[of "increment x m"] sum_increment[OF Cons.prems, of x] by simp
qed simp

lemma tally_wf [simp]: "wf_map (tally xs)"
  by (simp add: tally_def increment_wf)

lemma set_tally: "set (tally xs) = {(b, int (count_list xs b)) |b. b \<in> set xs}"
proof -
  have "(b, n) \<in> set (tally xs) \<longleftrightarrow> b \<in> set xs \<and> n = int (count_list xs b)" for b n
    unfolding map_of_eq_Some_iff[OF tally_wf, symmetric] by (auto simp: tally_def increment_get)
  then show ?thesis by auto
qed

lemma sum_tally: "sum_list (map snd (tally xs)) = int (length xs)"
  using sum_increments[of "[]" xs] by (simp add: tally_def)

lemma length_tally: "length (tally xs) = card (set xs)"
  using wf_map_length[OF tally_wf, of xs] by (simp add: dom_map_of_conv_image_fst increment_keys tally_def)

lemma sum_counts_exact:
  assumes "\<forall>c\<in>snd ` set counts. 0 \<le> c" "sum_list (map snd counts) < 2 ^ 53"
  shows "sum_counts counts = of_int (sum_list (map snd counts))"
proof -
  have "fold (\<lambda>(_, n) s. fl (s + fl (of_int n))) counts (of_int s) = (of_int (s + sum_list (map snd counts)) :: float64)"
    if "0 \<le> s" "s + sum_list (map snd counts) < 2 ^ 53" for s
    using assms(1) that
  proof (induction counts arbitrary: s)
    case (Cons p counts)
    have "0 \<le> sum_list (map snd counts)" using Cons.prems(1) by (auto intro!: sum_list_nonneg)
    then have "fl (of_int s + fl (of_int (snd p))) = of_int (s + snd p)"
      using Cons.prems fl_of_int[of "snd p"] fl_of_int[of "s + snd p"] by simp
    then show ?case using Cons.IH[of "s + snd p"] Cons.prems by (simp add: split_beta add.assoc)
  qed simp
  from this[of 0] assms(2) show ?thesis by (simp add: sum_counts_def)
qed

text \<open>What a deviation in percent says: never below \<open>-100\<close>, and on the right side of zero.\<close>

lemma deviation_sides:
  fixes env :: "'w metricsEnv"
  assumes "0 < t" "0 < n" "0 \<le> c" "c < 2 ^ 53" "int n < 2 ^ 53"
  defines "skew \<equiv> deviation env c (mean (of_int t) n)"
  shows "- 100 \<le> skew \<and> (t \<le> c * int n \<longrightarrow> 0 \<le> skew) \<and> (c * int n \<le> t \<longrightarrow> skew \<le> 0)"
proof -
  define a where "a = fl (of_int t / of_nat n)"
  have "fl (of_nat n) = (of_nat n :: rat)" using fl_of_int[of "int n"] assms(5) by simp
  then have skew: "skew = trunc_int (fl (fl (fl (of_int c - a) / a) * 100))"
    using assms fl_of_int[of c] by (simp add: skew_def deviation_def mean_def a_def)
  have a: "0 < a" unfolding a_def using assms by (intro fl_pos) simp
  have mono: "trunc_int (fl (fl (fl x / a) * 100)) \<le> trunc_int (fl (fl (fl y / a) * 100))" if "x \<le> y" for x y
    using that a by (intro trunc_int_mono fl_mono mult_right_mono divide_right_mono) auto
  have zero: "trunc_int (fl (fl (fl 0 / a) * 100)) = 0" using trunc_int_of_int[of 0] by simp
  have c: "fl (of_int c) = of_int c" using assms fl_of_int[of c] by simp
  have "fl (- a) = - a" by (simp add: a_def fl_minus)
  then have "trunc_int (fl (fl (fl (- a) / a) * 100)) = trunc_int (of_int (- 100))"
    using a fl_of_int[of "- 100"] by (simp add: fl_minus)
  then have "- 100 \<le> skew" unfolding skew using mono[of "- a" "of_int c - a"] assms(3) by (simp only: trunc_int_of_int)
  moreover have "0 \<le> skew" if "t \<le> c * int n"
  proof -
    have "of_int t / of_nat n \<le> (of_int c :: rat)"
      using that assms(2) of_int_le_iff[of t "c * int n", where 'a = rat] by (simp add: divide_le_eq)
    then have "a \<le> of_int c" using fl_mono c unfolding a_def by metis
    then show ?thesis unfolding skew using mono[of 0 "of_int c - a"] zero by simp
  qed
  moreover have "skew \<le> 0" if "c * int n \<le> t"
  proof -
    have "(of_int c :: rat) \<le> of_int t / of_nat n"
      using that assms(2) of_int_le_iff[of "c * int n" t, where 'a = rat] by (simp add: le_divide_eq)
    then have "of_int c \<le> a" using fl_mono c unfolding a_def by metis
    then show ?thesis unfolding skew using mono[of "of_int c - a" 0] zero by simp
  qed
  ultimately show ?thesis by blast
qed

section \<open>The lines of the brokers\<close>

lemma append_texts_get:
  "mstr (fold (\<lambda>x. append_text (f x) (g x)) xs m) k = mstr m k @ concat (map g (filter (\<lambda>x. f x = k) xs))"
  by (induction xs arbitrary: m) (auto simp: append_text_def)

lemma append_texts_keys:
  "fst ` set (fold (\<lambda>x. append_text (f x) (g x)) xs m) = f ` set xs \<union> fst ` set m"
proof (induction xs arbitrary: m)
  case (Cons x xs)
  have "fst ` set (append_text (f x) (g x) m) = insert (f x) (fst ` set m)"
    using keys_mput[of "f x" "mstr m (f x) @ g x" m] by (simp add: append_text_def)
  with Cons show ?case by simp
qed simp

lemma append_texts_wf: "wf_map m \<Longrightarrow> wf_map (fold (\<lambda>x. append_text (f x) (g x)) xs m)"
  by (induction xs arbitrary: m) (auto simp: append_text_def)

lemma signature_inj [simp]: "brokerSignature env a = brokerSignature env b \<longleftrightarrow> a = b"
  by (simp add: brokerSignature_def)

text \<open>The values a resource is given: those of the last entries up to and including its own.\<close>

fun upto_resource :: "string \<Rightarrow> configResource list \<Rightarrow> configEntry list" where
  "upto_resource name [] = []"
| "upto_resource name (r # rs) = dc_ConfigEntries r @ (if dc_ResourceName r = name then [] else upto_resource name rs)"

definition latest :: "string \<Rightarrow> configEntry list \<Rightarrow> string" where
  "latest name entries = (case filter (\<lambda>e. ce_ConfigName e = name) (rev entries) of [] \<Rightarrow> [] | e # _ \<Rightarrow> ce_ConfigValue e)"

lemma latest_snoc: "latest name (entries @ [e]) = (if ce_ConfigName e = name then ce_ConfigValue e else latest name entries)"
  by (simp add: latest_def)

lemma thread_values_append: "thread_values (xs @ ys) v = thread_values ys (thread_values xs v)"
  by (simp add: thread_values_def)

lemma thread_values_latest: "thread_values entries ([], []) = (latest ''log.cleaner.threads'' entries, latest ''num.replica.fetchers'' entries)"
proof (induction entries rule: rev_induct)
  case (snoc e es)
  then show ?case by (simp only: thread_values_append latest_snoc) (simp add: thread_values_def)
qed (simp add: thread_values_def latest_def)

text \<open>The loop over the resources, as a loop over keys and texts.\<close>

fun thread_texts :: "string \<times> string \<Rightarrow> configResource list \<Rightarrow> (string \<times> string) list" where
  "thread_texts vals [] = []"
| "thread_texts vals (r # rs) = (let vals = thread_values (dc_ConfigEntries r) vals
     in (dc_ResourceName r, thread_text vals) # thread_texts vals rs)"

lemma add_threads_fold:
  "add_threads env vals rs m = fold (\<lambda>p. append_text (brokerSignature env (fst p)) (snd p)) (thread_texts vals rs) m"
  by (induction rs arbitrary: vals m) (simp_all add: Let_def)

lemma thread_texts_names [simp]: "map fst (thread_texts vals rs) = map dc_ResourceName rs"
  by (induction rs arbitrary: vals) (simp_all add: Let_def)

lemma thread_texts_set: "fst ` set (thread_texts vals rs) = dc_ResourceName ` set rs"
  by (simp only: thread_texts_names flip: set_map)

lemma thread_texts_of:
  assumes "distinct (map dc_ResourceName rs)" "name \<in> dc_ResourceName ` set rs"
  shows "map snd (filter (\<lambda>p. fst p = name) (thread_texts vals rs)) = [thread_text (thread_values (upto_resource name rs) vals)]"
  using assms
proof (induction rs arbitrary: vals)
  case (Cons r rs)
  have none: "filter (\<lambda>p. fst p = name) (thread_texts v rs) = []" if "name \<notin> dc_ResourceName ` set rs" for v
    using that thread_texts_names[of v rs] unfolding filter_empty_conv by (metis image_eqI list.set_map)
  show ?case
    using Cons by (cases "dc_ResourceName r = name") (auto simp: Let_def none thread_values_append)
qed simp

lemma heads_get:
  "map_of (broker_heads env bs) = (\<lambda>k. if k \<in> broker_key env ` set bs then Some (''kafka,broker='' @ k @ '' '') else None)"
  "wf_map (broker_heads env bs)"
proof -
  have "map_of (fold (\<lambda>b. let key = broker_key env b in mput key (''kafka,broker='' @ key @ '' '')) bs m) k =
      (if k \<in> broker_key env ` set bs then Some (''kafka,broker='' @ k @ '' '') else map_of m k)" for m k
    by (induction bs arbitrary: m) (auto simp: Let_def)
  from this[of "[]"] show "map_of (broker_heads env bs) = (\<lambda>k. if k \<in> broker_key env ` set bs
      then Some (''kafka,broker='' @ k @ '' '') else None)" by (auto simp: broker_heads_def)
  have "wf_map (fold (\<lambda>b. let key = broker_key env b in mput key (''kafka,broker='' @ key @ '' '')) bs m) \<longleftrightarrow> wf_map m" for m
    by (induction bs arbitrary: m) (auto simp: Let_def)
  then show "wf_map (broker_heads env bs)" by (simp add: broker_heads_def)
qed

text \<open>
  The skew of a broker among the replicas or leaders \<open>xs\<close>, and the line of a broker. Both depend on the counts only, not on
  the order of any map.
\<close>

definition skew_of :: "'w metricsEnv \<Rightarrow> nat \<Rightarrow> kgBroker list \<Rightarrow> kgBroker \<Rightarrow> int" where
  "skew_of env n xs b = deviation env (int (count_list xs b)) (mean (of_nat (length xs)) n)"

definition skew_field :: "'w metricsEnv \<Rightarrow> nat \<Rightarrow> string \<Rightarrow> kgBroker list \<Rightarrow> kgBroker \<Rightarrow> string" where
  "skew_field env n field xs b = (if b \<in> set xs then '','' @ field @ ''='' @ strconv_Itoa (skew_of env n xs b) @ ''i'' else [])"

definition metric_line :: "'w metricsEnv \<Rightarrow> configResource list \<Rightarrow> kgTopic list \<Rightarrow> kgBroker \<Rightarrow> string" where
  "metric_line env resources topics b =
     (let n = card (set (replicas topics)); entries = upto_resource (strconv_Itoa (kb_ID b)) resources in
      ''kafka,broker='' @ broker_key env b @ '' ''
      @ ''log_cleaner_threads_count='' @ latest ''log.cleaner.threads'' entries
      @ ''i,replica_fetcher_threads_count='' @ latest ''num.replica.fetchers'' entries @ ''i''
      @ skew_field env n ''broker_skew'' (replicas topics) b @ skew_field env n ''broker_leader_skew'' (leaders topics) b)"

definition orders_maps :: "'w metricsEnv \<Rightarrow> bool" where
  "orders_maps env \<longleftrightarrow> (\<forall>i m. mset (me_range_counts env i m) = mset m) \<and> (\<forall>m. mset (me_range_result env m) = mset m)"

lemma filter_tally:
  assumes "mset counts = mset (tally xs)" "\<forall>x\<in>set xs. kb_ID x = kb_ID b \<longrightarrow> x = b"
  shows "filter (\<lambda>p. kb_ID (fst p) = kb_ID b) counts = (if b \<in> set xs then [(b, int (count_list xs b))] else [])" (is "?f = _")
proof -
  have "set counts = set (tally xs)" using assms(1) by (rule mset_eq_setD)
  then have "set ?f = (if b \<in> set xs then {(b, int (count_list xs b))} else {})" using assms(2) by (auto simp: set_tally)
  moreover have "distinct (tally xs)" using tally_wf[of xs] by (simp add: distinct_map)
  then have "distinct ?f" using mset_eq_imp_distinct_iff[OF assms(1)] by simp
  moreover have "ys = [y]" if "distinct ys" "set ys = {y}" for ys and y :: "kgBroker \<times> int"
    using that by (cases ys; cases "tl ys") auto
  ultimately show ?thesis by (metis set_empty)
qed

lemma sum_counts_tally:
  assumes "mset counts = mset (tally xs)" "length xs < 2 ^ 53"
  shows "sum_counts counts = of_nat (length xs)"
proof -
  have "sum_list (map snd counts) = int (length xs)"
    using sum_tally[of xs] assms(1) by (metis mset_map sum_mset_sum_list)
  moreover have "\<forall>c\<in>snd ` set counts. 0 \<le> c" using mset_eq_setD[OF assms(1)] by (auto simp: set_tally)
  ultimately show ?thesis using sum_counts_exact[of counts] assms(2) by simp
qed

text \<open>What \<open>add_skews\<close> appends to the text of a broker, for the counts in any order.\<close>

lemma add_skews_get:
  assumes "mset counts = mset (tally xs)" "\<forall>x\<in>set xs. kb_ID x = kb_ID b \<longrightarrow> x = b"
  shows "mstr (add_skews env field (mean (of_nat (length xs)) n) counts m) (broker_key env b) =
    mstr m (broker_key env b) @ skew_field env n field xs b"
  by (simp add: add_skews_def append_texts_get case_prod_unfold filter_tally[OF assms] skew_field_def skew_of_def)

lemma add_skews_keys:
  assumes "mset counts = mset (tally xs)"
  shows "fst ` set (add_skews env field a counts m) = broker_key env ` set xs \<union> fst ` set m"
proof -
  have "fst ` set counts = set xs" using mset_eq_setD[OF assms] by (force simp: set_tally)
  then have "(\<lambda>p. broker_key env (fst p)) ` set counts = broker_key env ` set xs"
    by (metis image_image)
  then show ?thesis by (simp add: add_skews_def case_prod_unfold append_texts_keys)
qed

lemma add_skews_wf: "wf_map m \<Longrightarrow> wf_map (add_skews env field a counts m)"
  by (simp add: add_skews_def case_prod_unfold append_texts_wf)

text \<open>The text of a key that no broker has is a list of skews, which is not printed.\<close>

lemma skews_not_printed:
  assumes "mstr m k = []" "CHR ''f'' \<notin> set field"
  shows "\<not> strings_Contains (mstr (add_skews env field a counts m) k) ''kafka,broker=''"
proof -
  have "CHR ''f'' \<notin> set (strconv_Itoa i)" for i
    using itoa_nat_digits[of "CHR ''f''"] by (auto simp: strconv_Itoa_def)
  then have "CHR ''f'' \<notin> set (mstr (add_skews env field a counts m) k)"
    using assms by (auto simp: add_skews_def case_prod_unfold append_texts_get)
  then show ?thesis by (fastforce simp: Contains_iff)
qed

section \<open>The report\<close>

text \<open>The documented behaviour of the cluster: the metadata lists the brokers once, and every replica and every leader, where there is one, is listed.\<close>

definition listed_cluster :: "kgMetadata \<Rightarrow> bool" where
  "listed_cluster metadata \<longleftrightarrow> distinct (map kb_ID (kgm_Brokers metadata))
     \<and> set (replicas (kgm_Topics metadata)) \<subseteq> set (kgm_Brokers metadata)
     \<and> (\<forall>l\<in>set (leaders (kgm_Topics metadata)). l \<in> set (kgm_Brokers metadata) \<or> kb_ID l \<notin> kb_ID ` set (kgm_Brokers metadata))
     \<and> length (replicas (kgm_Topics metadata)) < 2 ^ 53 \<and> length (leaders (kgm_Topics metadata)) < 2 ^ 53"

lemma print_lines:
  "print_result result = concat (map (\<lambda>l. l @ ''\<newline>'') (map snd (filter (\<lambda>p. strings_Contains (snd p) ''kafka,broker='') result)))"
  by (induction result) (auto simp: print_result_def)

text \<open>The entries of a map with distinct keys that satisfy \<open>P\<close>, as a list over the keys.\<close>

lemma mset_entries:
  assumes "wf_map m" "inj_on f (set bs)" "distinct bs" "\<forall>b\<in>set bs. f b \<in> fst ` set m \<and> mstr m (f b) = g b \<and> P (g b)"
    and "\<forall>k\<in>fst ` set m. k \<notin> f ` set bs \<longrightarrow> \<not> P (mstr m k)"
  shows "mset (map snd (filter (\<lambda>p. P (snd p)) m)) = mset (map g bs)"
proof -
  have value_of: "v = mstr m k" if "(k, v) \<in> set m" for k v using map_of_eq_Some_iff[OF assms(1), of k v] that by (simp add: mstr_def)
  have "set (filter (\<lambda>p. P (snd p)) m) = set (map (\<lambda>b. (f b, g b)) bs)"
  proof (intro set_eqI iffI)
    fix p assume "p \<in> set (filter (\<lambda>p. P (snd p)) m)"
    moreover obtain k v where p: "p = (k, v)" by (rule prod.exhaust)
    ultimately have kv: "(k, v) \<in> set m" "P v" by auto
    note v = value_of[OF kv(1)]
    have "k \<in> f ` set bs" using assms(5) kv image_eqI[of k fst "(k, v)" "set m"] v by auto
    then show "p \<in> set (map (\<lambda>b. (f b, g b)) bs)" using assms(4) p v by auto
  next
    fix p assume "p \<in> set (map (\<lambda>b. (f b, g b)) bs)"
    then obtain b where b: "b \<in> set bs" "p = (f b, g b)" by auto
    then have "f b \<in> fst ` set m" using assms(4) by simp
    then obtain v where "(f b, v) \<in> set m" by (auto simp: image_iff)
    moreover from this have "v = g b" using value_of[of "f b" v] assms(4) b(1) by simp
    ultimately show "p \<in> set (filter (\<lambda>p. P (snd p)) m)" using assms(4) b by simp
  qed
  moreover have "distinct (filter (\<lambda>p. P (snd p)) m)" "distinct (map (\<lambda>b. (f b, g b)) bs)"
    using assms(1-3) by (auto simp: distinct_map inj_on_def)
  ultimately have "mset (filter (\<lambda>p. P (snd p)) m) = mset (map (\<lambda>b. (f b, g b)) bs)" by (simp only: set_eq_iff_mset_eq_distinct)
  then have "image_mset snd (mset (filter (\<lambda>p. P (snd p)) m)) = image_mset snd (mset (map (\<lambda>b. (f b, g b)) bs))" by (rule arg_cong)
  then show ?thesis by (simp add: mset_map multiset.map_comp comp_def del: mset_filter)
qed

lemma threads_get:
  fixes env :: "'w metricsEnv"
  assumes "distinct (map kb_ID bs)" "mset (map dc_ResourceName resources) = mset (map (\<lambda>b. strconv_Itoa (kb_ID b)) bs)"
  defines "m \<equiv> add_threads env ([], []) resources (broker_heads env bs)"
  shows "wf_map m" "fst ` set m = broker_key env ` set bs"
    "b \<in> set bs \<Longrightarrow> mstr m (broker_key env b) = ''kafka,broker='' @ broker_key env b @ '' ''
       @ thread_text (thread_values (upto_resource (strconv_Itoa (kb_ID b)) resources) ([], []))"
proof -
  have keys: "fst ` set (broker_heads env bs) = broker_key env ` set bs"
    using heads_get(1)[of env bs] by (simp add: flip: dom_map_of_conv_image_fst) (auto simp: dom_def split: if_splits)
  show "wf_map m" unfolding m_def add_threads_fold by (intro append_texts_wf heads_get(2))
  have names: "dc_ResourceName ` set resources = (\<lambda>b. strconv_Itoa (kb_ID b)) ` set bs" using mset_eq_setD[OF assms(2)] by simp
  have "(\<lambda>p. brokerSignature env (fst p)) ` set (thread_texts v resources) = brokerSignature env ` fst ` set (thread_texts v resources)" for v
    by (simp add: image_image)
  also have "brokerSignature env ` fst ` set (thread_texts v resources) = broker_key env ` set bs" for v by (simp add: thread_texts_set names image_image)
  finally have "(\<lambda>p. brokerSignature env (fst p)) ` set (thread_texts v resources) = broker_key env ` set bs" for v .
  then show "fst ` set m = broker_key env ` set bs" by (simp add: m_def add_threads_fold append_texts_keys keys)
  assume b: "b \<in> set bs"
  have "distinct (map (\<lambda>b. strconv_Itoa (kb_ID b)) bs)" using assms(1) by (simp add: distinct_map inj_on_def)
  then have "distinct (map dc_ResourceName resources)" using mset_eq_imp_distinct_iff[OF assms(2)] by simp
  moreover have "strconv_Itoa (kb_ID b) \<in> dc_ResourceName ` set resources" using names b by auto
  ultimately have "map snd (filter (\<lambda>p. fst p = strconv_Itoa (kb_ID b)) (thread_texts ([], []) resources)) =
      [thread_text (thread_values (upto_resource (strconv_Itoa (kb_ID b)) resources) ([], []))]" by (rule thread_texts_of)
  moreover have "mstr (broker_heads env bs) (broker_key env b) = ''kafka,broker='' @ broker_key env b @ '' ''"
    using b by (auto simp: mstr_def heads_get(1))
  ultimately show "mstr m (broker_key env b) = ''kafka,broker='' @ broker_key env b @ '' ''
       @ thread_text (thread_values (upto_resource (strconv_Itoa (kb_ID b)) resources) ([], []))"
    by (simp add: m_def add_threads_fold append_texts_get)
qed

lemma skews_sides:
  assumes "length xs < 2 ^ 53" "0 < n" "n < 2 ^ 53" "b \<in> set xs"
  shows "- 100 \<le> skew_of env n xs b \<and> (length xs \<le> count_list xs b * n \<longrightarrow> 0 \<le> skew_of env n xs b)
    \<and> (count_list xs b * n \<le> length xs \<longrightarrow> skew_of env n xs b \<le> 0)"
proof -
  have "count_list xs b \<le> length xs" by (rule count_le_length)
  moreover have "0 < length xs" using assms(4) by (cases xs) auto
  moreover have "int (length xs) \<le> int (count_list xs b) * int n \<longleftrightarrow> length xs \<le> count_list xs b * n"
    "int (count_list xs b) * int n \<le> int (length xs) \<longleftrightarrow> count_list xs b * n \<le> length xs"
    by (metis of_nat_le_iff of_nat_mult)+
  ultimately show ?thesis
    using deviation_sides[of "int (length xs)" n "int (count_list xs b)" env] assms by (simp add: skew_of_def)
qed

lemma broker_lines:
  assumes "orders_maps env" "listed_cluster metadata"
    and "mset (map dc_ResourceName resources) = mset (map (\<lambda>b. strconv_Itoa (kb_ID b)) (kgm_Brokers metadata))"
  shows "\<exists>lines. mset lines = mset (map (metric_line env resources (kgm_Topics metadata)) (kgm_Brokers metadata))
    \<and> CalcSkewNFormMetric env (kgm_Topics metadata) (add_threads env ([], []) resources (broker_heads env (kgm_Brokers metadata)))
        = concat (map (\<lambda>l. l @ ''\<newline>'') lines)"
proof -
  let ?bs = "kgm_Brokers metadata" and ?rs = "replicas (kgm_Topics metadata)" and ?ls = "leaders (kgm_Topics metadata)"
  let ?n = "card (set ?rs)" and ?order = "me_range_counts env" and ?P = "\<lambda>s. strings_Contains s ''kafka,broker=''"
  note listed = assms(2)[unfolded listed_cluster_def]
  have ids: "distinct (map kb_ID ?bs)" using listed by blast
  have order: "mset (?order i m) = mset m" "mset (me_range_result env m') = mset m'" for i m m'
    using assms(1) by (simp_all add: orders_maps_def)
  define m0 where "m0 = add_threads env ([], []) resources (broker_heads env ?bs)"
  define m1 where "m1 = add_skews env ''broker_skew'' (mean (of_nat (length ?rs)) ?n) (?order 2 (tally ?rs)) m0"
  define m2 where "m2 = add_skews env ''broker_leader_skew'' (mean (of_nat (length ?ls)) ?n) (?order 3 (tally ?ls)) m1"
  have result: "CalcSkewNFormMetric env (kgm_Topics metadata) m0 = print_result (me_range_result env m2)"
    using sum_counts_tally[OF order(1)] listed
    by (simp add: CalcSkewNFormMetric_def Let_def brokerPartitions_def brokerLeaders_def length_tally m1_def m2_def)
  note m0 = threads_get[OF ids assms(3), where env = env, folded m0_def]
  have unique: "b \<in> set ?bs \<Longrightarrow> c \<in> set ?bs \<Longrightarrow> kb_ID c = kb_ID b \<Longrightarrow> c = b" for b c
    using ids by (auto simp: distinct_map inj_on_def)
  have line: "mstr m2 (broker_key env b) = metric_line env resources (kgm_Topics metadata) b" if "b \<in> set ?bs" for b
  proof -
    have "\<forall>x\<in>set ?rs. kb_ID x = kb_ID b \<longrightarrow> x = b" "\<forall>x\<in>set ?ls. kb_ID x = kb_ID b \<longrightarrow> x = b"
      using listed unique[OF that] that by (blast, metis image_eqI)
    then show ?thesis
      using that m0(3) by (simp add: m2_def m1_def add_skews_get order(1) metric_line_def thread_values_latest thread_text_def Let_def)
  qed
  have keys1: "fst ` set m1 = broker_key env ` set ?bs"
    unfolding m1_def add_skews_keys[OF order(1)] m0(2) using listed by blast
  have keys2: "broker_key env b \<in> fst ` set m2" if "b \<in> set ?bs" for b
    unfolding m2_def add_skews_keys[OF order(1)] keys1 using that by simp
  have other: "\<not> ?P (mstr m2 k)" if "k \<notin> broker_key env ` set ?bs" for k
  proof -
    have "map_of m1 k = None" using that keys1 by (simp add: map_of_eq_None_iff)
    then have "mstr m1 k = []" by (simp add: mstr_def)
    then show ?thesis unfolding m2_def by (rule skews_not_printed) simp
  qed
  have "mset (map snd (filter (\<lambda>p. ?P (snd p)) m2)) = mset (map (metric_line env resources (kgm_Topics metadata)) ?bs)"
  proof (rule mset_entries[where f = "broker_key env"])
    show "wf_map m2" by (simp add: m2_def m1_def add_skews_wf m0(1))
    show "inj_on (broker_key env) (set ?bs)" "distinct ?bs" using ids by (auto simp: distinct_map inj_on_def)
    have "?P (metric_line env resources (kgm_Topics metadata) b)" for b
      unfolding Contains_iff metric_line_def Let_def by (rule exI[of _ "[]"]) simp
    then show "\<forall>b\<in>set ?bs. broker_key env b \<in> fst ` set m2 \<and> mstr m2 (broker_key env b) = metric_line env resources (kgm_Topics metadata) b
        \<and> ?P (metric_line env resources (kgm_Topics metadata) b)"
      using line keys2 by simp
  qed (use other in blast)
  moreover have "mset (map snd (filter (\<lambda>p. ?P (snd p)) (me_range_result env m2))) = mset (map snd (filter (\<lambda>p. ?P (snd p)) m2))"
    by (simp add: mset_map mset_filter order(2))
  ultimately show ?thesis using result print_lines[of "me_range_result env m2"] unfolding m0_def by metis
qed

text \<open>
  C25. What the metrics program reports. For a cluster whose metadata lists its brokers once, and whose replicas and leaders
  are listed, the report has exactly one line for every broker, whatever the order of the maps: the numbers of
  threads are the last values in the answer of the cluster up to the resource of the broker, and a skew is given
  exactly for the brokers with replicas, or with partitions they lead; no line is printed for a missing leader. The lines on
  the topics follow. A skew is at least \<open>-100\<close>, it is not negative for a broker with at least the average number and not
  positive for a broker with at most the average number, in spite of the rounding of floating-point numbers.
\<close>

theorem broker_metrics:
  assumes "orders_maps env" "listed_cluster metadata"
    and "me_DescribeConfigs env client (map (\<lambda>b. (ResourceTypeBroker, strconv_Itoa (kb_ID b))) (kgm_Brokers metadata)) w = (Inr resources, w')"
    and "mset (map dc_ResourceName resources) = mset (map (\<lambda>b. strconv_Itoa (kb_ID b)) (kgm_Brokers metadata))"
  shows "(\<exists>lines. mset lines = mset (map (metric_line env resources (kgm_Topics metadata)) (kgm_Brokers metadata))
      \<and> CollectMetrics env configs metadata client w = (Inr (concat (map (\<lambda>l. l @ ''\<newline>'') lines)
          @ strings_Join (calcUncleanElectionLeaderTopics configs) ''\<newline>'' @ ''\<newline>''
          @ strings_Join (CalcTopicsWithoutLeader (kgm_Topics metadata)) ''\<newline>''), w'))
    \<and> (let n = card (set (replicas (kgm_Topics metadata))) in
       \<forall>xs\<in>{replicas (kgm_Topics metadata), leaders (kgm_Topics metadata)}. \<forall>b\<in>set xs. 0 < n \<longrightarrow>
         - 100 \<le> skew_of env n xs b \<and> (length xs \<le> count_list xs b * n \<longrightarrow> 0 \<le> skew_of env n xs b)
         \<and> (count_list xs b * n \<le> length xs \<longrightarrow> skew_of env n xs b \<le> 0))"
proof
  from broker_lines[OF assms(1,2,4)]
  show "\<exists>lines. mset lines = mset (map (metric_line env resources (kgm_Topics metadata)) (kgm_Brokers metadata))
      \<and> CollectMetrics env configs metadata client w = (Inr (concat (map (\<lambda>l. l @ ''\<newline>'') lines)
          @ strings_Join (calcUncleanElectionLeaderTopics configs) ''\<newline>'' @ ''\<newline>''
          @ strings_Join (CalcTopicsWithoutLeader (kgm_Topics metadata)) ''\<newline>''), w')"
    using assms(3) by (auto simp: CollectMetrics_def CalcCleanerNReplicaThreads_def Let_def tryE_def bindE_def returnE_def)
  have "card (set (replicas (kgm_Topics metadata))) < 2 ^ 53"
    using assms(2) card_length[of "replicas (kgm_Topics metadata)"] unfolding listed_cluster_def by linarith
  with assms(2) skews_sides
  show "let n = card (set (replicas (kgm_Topics metadata))) in
       \<forall>xs\<in>{replicas (kgm_Topics metadata), leaders (kgm_Topics metadata)}. \<forall>b\<in>set xs. 0 < n \<longrightarrow>
         - 100 \<le> skew_of env n xs b \<and> (length xs \<le> count_list xs b * n \<longrightarrow> 0 \<le> skew_of env n xs b)
         \<and> (count_list xs b * n \<le> length xs \<longrightarrow> skew_of env n xs b \<le> 0)"
    unfolding listed_cluster_def Let_def by blast
qed

definition sample_metricsEnv :: "unit metricsEnv" where
  "sample_metricsEnv = \<lparr>me_LookupEnv = (\<lambda>_. None), me_ReadFile = (\<lambda>_. Inl NotFound), me_StatIsDir = (\<lambda>_. Inl NotFound), me_OpenLog = (\<lambda>_. Inr ()),
     me_Println = (\<lambda>_ w. w), me_timestamp = (\<lambda>_. []), me_UnixMilli = (\<lambda>_. 0), me_FormatFloat = (\<lambda>_. []), me_LoadX509KeyPair = (\<lambda>_ _. Inl NotFound),
     me_CertsFromPEM = (\<lambda>_. None), me_ScramMechanism = (\<lambda>h u p. Some (h, u, p)), me_Error = (\<lambda>_. []), me_Metadata = (\<lambda>_. throwE NotFound),
     me_DescribeConfigs = (\<lambda>_ resources. returnE (map (\<lambda>(_, name). \<lparr>dc_ResourceName = name,
         dc_ConfigEntries = (if name = ''1'' then [\<lparr>ce_ConfigName = ''log.cleaner.threads'', ce_ConfigValue = ''2''\<rparr>] else [])
           @ [\<lparr>ce_ConfigName = ''num.replica.fetchers'', ce_ConfigValue = ''4''\<rparr>]\<rparr>) resources)),
     me_range_counts = (\<lambda>i m. if even i then m else rev m), me_range_result = rev, me_NaN_to_int = - (2 ^ 63)\<rparr>"

definition sample_broker :: "int \<Rightarrow> kgBroker" where
  "sample_broker i = \<lparr>kb_Host = ''host'', kb_Port = 9092, kb_ID = i, kb_Rack = []\<rparr>"

definition sample_metadata :: kgMetadata where
  "sample_metadata = \<lparr>kgm_Brokers = [sample_broker 1, sample_broker 2],
     kgm_Topics = [\<lparr>kgt_Name = ''orders'', kgt_Partitions =
       [\<lparr>kp_Leader = sample_broker 1, kp_Replicas = [sample_broker 1, sample_broker 2]\<rparr>,
        \<lparr>kp_Leader = sample_broker 1, kp_Replicas = [sample_broker 1]\<rparr>,
        \<lparr>kp_Leader = \<lparr>kb_Host = [], kb_Port = 0, kb_ID = 0, kb_Rack = []\<rparr>, kp_Replicas = [sample_broker 2, sample_broker 1]\<rparr>]\<rparr>]\<rparr>"

text \<open>
  Two brokers, the second of them without a value for the cleaner threads, and a partition without a leader.
\<close>

theorem broker_metrics_witness:
  "\<exists>lines. mset lines =
      {#''kafka,broker=kafka-1 log_cleaner_threads_count=2i,replica_fetcher_threads_count=4i,broker_skew=20i,broker_leader_skew=33i'',
        ''kafka,broker=kafka-2 log_cleaner_threads_count=2i,replica_fetcher_threads_count=4i,broker_skew=-20i''#}
    \<and> CollectMetrics sample_metricsEnv [] sample_metadata \<lparr>kg_Addr = [], kg_SASL = None, kg_TLS = None\<rparr> () =
      (Inr (concat (map (\<lambda>l. l @ ''\<newline>'') lines) @ ''\<newline>kafka_cluster,topic=orders topics_without_leader=1''), ())"
proof -
  let ?client = "\<lparr>kg_Addr = [], kg_SASL = None, kg_TLS = None\<rparr> :: kgClient"
  define resources where "resources = [\<lparr>dc_ResourceName = ''1'', dc_ConfigEntries = [\<lparr>ce_ConfigName = ''log.cleaner.threads'', ce_ConfigValue = ''2''\<rparr>,
      \<lparr>ce_ConfigName = ''num.replica.fetchers'', ce_ConfigValue = ''4''\<rparr>]\<rparr>,
    \<lparr>dc_ResourceName = ''2'', dc_ConfigEntries = [\<lparr>ce_ConfigName = ''num.replica.fetchers'', ce_ConfigValue = ''4''\<rparr>]\<rparr>]"
  have ids: "strconv_Itoa 1 = ''1''" "strconv_Itoa 2 = ''2''" by code_simp+
  have "orders_maps sample_metricsEnv" by (simp add: orders_maps_def sample_metricsEnv_def)
  moreover have "listed_cluster sample_metadata"
    by (simp add: listed_cluster_def sample_metadata_def sample_broker_def replicas_def leaders_def)
  moreover have "me_DescribeConfigs sample_metricsEnv ?client (map (\<lambda>b. (ResourceTypeBroker, strconv_Itoa (kb_ID b))) (kgm_Brokers sample_metadata)) () = (Inr resources, ())"
    by (simp add: sample_metricsEnv_def sample_metadata_def sample_broker_def ids returnE_def resources_def)
  moreover have "mset (map dc_ResourceName resources) = mset (map (\<lambda>b. strconv_Itoa (kb_ID b)) (kgm_Brokers sample_metadata))"
    by (simp add: sample_metadata_def sample_broker_def ids resources_def)
  moreover have "map (metric_line sample_metricsEnv resources (kgm_Topics sample_metadata)) (kgm_Brokers sample_metadata) =
      [''kafka,broker=kafka-1 log_cleaner_threads_count=2i,replica_fetcher_threads_count=4i,broker_skew=20i,broker_leader_skew=33i'',
        ''kafka,broker=kafka-2 log_cleaner_threads_count=2i,replica_fetcher_threads_count=4i,broker_skew=-20i'']"
    unfolding resources_def by code_simp
  moreover have "CalcTopicsWithoutLeader (kgm_Topics sample_metadata) = [''kafka_cluster,topic=orders topics_without_leader=1'']"
    "calcUncleanElectionLeaderTopics [] = []" by code_simp+
  ultimately show ?thesis
    using broker_metrics[of sample_metricsEnv sample_metadata ?client "()" resources "()" "[]"] by simp
qed

end
