(* ===== verification/Kafka_Service.thy ===== *)
theory Kafka_Service
  imports Go_Prelude Operator_Util Kube_Reconciler Replication_Audit Akhq_Config Provider_Common Service_Types
    Monitoring_Provider Akhq_Provider Mirror_Maker_Provider
begin

text \<open>
  \<open>operator/controllers/kafkaservice\<close>: the controller of the \<open>KafkaService\<close> resource with the reconcilers
  of monitoring, AKHQ, Mirror Maker, Mirror Maker monitoring, integration tests and the backup daemon,
  and the switchover between the sides of a disaster-recovery pair. The cluster is one half of the
  state, what the process remembers between calls (\<open>ResourceHashes\<close>, \<open>ResourceVersions\<close>, the package
  variables) the other half.

  Arguments (fields of \<open>serviceEnv\<close>): the Kubernetes client, the clock, SHA-256 over JSON (\<open>util.Hash\<close>),
  HTTP, JSON and the file system, and what the resource providers take from libraries (\<open>providerEnv\<close>).
\<close>

section \<open>Data\<close>

record httpRequest =
  rq_Method :: string
  rq_Url :: string
  rq_Body :: "string option"
  rq_ContentType :: "string option"
  rq_BasicAuth :: "(string \<times> string) option"
  rq_RootCAs :: "string option"

record backupInfoResponse =
  bi_DBList :: string
  bi_CustomVars :: "string gomap"

text \<open>
  \<open>ke_retries\<close> is the clock of the polling loops. \<open>ke_version\<close> is the resource version that the client has left in an object it
  read or wrote. \<open>ke_replicationDone\<close> runs the audit of \<open>Replication_Audit\<close>: \<open>None\<close> when the ticker of 300
  seconds comes first.
\<close>

record 'w serviceEnv =
  ke_kube :: "'w kubeClient"
  ke_Get :: "string \<Rightarrow> string \<Rightarrow> ('w, kafkaService) eff"
  ke_UpdateStatus :: "kafkaService \<Rightarrow> ('w, unit) eff"
  ke_retryOnConflict :: "'w retrier"
  ke_setControllerReference :: refSetter
  ke_convertSecret :: "secret \<Rightarrow> go_error + secret"
  ke_convertService :: "service \<Rightarrow> go_error + service"
  ke_convertDeployment :: "deployment \<Rightarrow> go_error + deployment"
  ke_convertConfigMap :: "configMap \<Rightarrow> go_error + configMap"
  ke_version :: "configMap \<Rightarrow> 'w \<Rightarrow> string"
  ke_now :: "'w \<Rightarrow> string"
  ke_retries :: "int \<Rightarrow> int \<Rightarrow> 'w \<Rightarrow> nat"
  ke_HashSpec :: "kafkaService \<Rightarrow> go_error + string"
  ke_HashGlobal :: "globalSpec option \<Rightarrow> go_error + string"
  ke_HashAnnotations :: "string gomap \<Rightarrow> go_error + string"
  ke_HashMonitoring :: "monitoringSpec \<Rightarrow> go_error + string"
  ke_HashAkhq :: "akhqSpec \<Rightarrow> go_error + string"
  ke_HashMirrorMaker :: "mirrorMakerSpec \<Rightarrow> go_error + string"
  ke_HashMirrorMakerMonitoring :: "mirrorMakerMonitoringSpec \<Rightarrow> go_error + string"
  ke_HashDisasterRecovery :: "disasterRecovery \<Rightarrow> go_error + string"
  ke_Error :: "go_error \<Rightarrow> string"
  ke_replicationDone :: "kafkaService \<Rightarrow> 'w \<Rightarrow> (go_error + unit) option \<times> 'w"
  ke_ReadFile :: "string \<Rightarrow> ('w, string) eff"
  ke_Do :: "httpRequest \<Rightarrow> ('w, string) eff"
  ke_UnmarshalStatus :: "string \<Rightarrow> go_error + string"
  ke_UnmarshalList :: "string \<Rightarrow> go_error + string list"
  ke_UnmarshalInfo :: "string \<Rightarrow> go_error + backupInfoResponse"
  ke_MarshalVault :: "string \<Rightarrow> go_error + string"
  ke_provider :: providerEnv

record ksMemory =
  km_ResourceHashes :: "string gomap"
  km_ResourceVersions :: "string gomap"
  km_controllerReferenceSet :: bool
  km_globalSpecHash :: string

type_synonym ('w, 'a) svc = "('w \<times> ksMemory, 'a) eff"

section \<open>Waiting\<close>

definition waitingInterval :: int where "waitingInterval = 10"

definition ready_condition :: "'w serviceEnv \<Rightarrow> string gomap \<Rightarrow> string \<Rightarrow> ('w, unit option) eff" where
  "ready_condition env labels namespace =
     bindE (AreDeploymentsReady (ke_kube env) labels namespace) (\<lambda>ready. returnE (if ready then Some () else None))"

section \<open>Status of the custom resource\<close>

definition cr_ref :: "kafkaService \<Rightarrow> crRef" where
  "cr_ref cr = \<lparr>cr_Name = obj_Name cr, cr_Namespace = obj_Namespace cr, cr_APIVersion = ks_APIVersion cr, cr_Kind = ks_Kind cr\<rparr>"

definition ks_statusUpdater :: "'w serviceEnv \<Rightarrow> kafkaService \<Rightarrow> (kafkaService, 'w) statusUpdater" where
  "ks_statusUpdater env cr = \<lparr>su_Get = ke_Get env, su_UpdateStatus = ke_UpdateStatus env,
     su_name = obj_Name cr, su_namespace = obj_Namespace cr\<rparr>"

definition ks_updateStatus :: "'w serviceEnv \<Rightarrow> kafkaService \<Rightarrow> (kafkaService \<Rightarrow> kafkaService) \<Rightarrow> ('w, unit) eff" where
  "ks_updateStatus env cr = UpdateStatusWithRetry (ks_statusUpdater env cr) (ke_retryOnConflict env)"

definition map_conditions :: "(statusCondition list \<Rightarrow> statusCondition list) \<Rightarrow> kafkaService \<Rightarrow> kafkaService" where
  "map_conditions f cr = cr\<lparr>ks_Conditions := f (ks_Conditions cr)\<rparr>"

definition ks_updateConditions :: "'w serviceEnv \<Rightarrow> kafkaService \<Rightarrow> statusCondition \<Rightarrow> ('w, unit) eff" where
  "ks_updateConditions env cr condition =
     (\<lambda>w. updateConditions (ks_statusUpdater env cr) (ke_retryOnConflict env) map_conditions (ke_now env w) condition w)"

definition ks_clearAllConditions :: "'w serviceEnv \<Rightarrow> kafkaService \<Rightarrow> ('w, unit) eff" where
  "ks_clearAllConditions env cr = clearAllConditions (ks_statusUpdater env cr) (ke_retryOnConflict env) map_conditions"

text \<open>The shape of every \<open>Status\<close> method: in progress, wait for the deployments, then ready or failed.\<close>

definition readiness_status :: "'w serviceEnv \<Rightarrow> kafkaService \<Rightarrow> string \<Rightarrow> string \<Rightarrow> go_error + int \<Rightarrow> string gomap \<Rightarrow>
    string \<Rightarrow> string \<Rightarrow> ('w, unit) eff" where
  "readiness_status env cr reason started timeout labels notReady isReady =
     bindE (ks_updateConditions env cr (NewCondition statusFalse typeInProgress reason started)) (\<lambda>_.
     bindE (liftE timeout) (\<lambda>timeout.
       tryE (PollImmediate (ke_retries env) waitingInterval timeout (ready_condition env labels (obj_Namespace cr)))
         (\<lambda>_. ks_updateConditions env cr (NewCondition statusFalse typeFailed reason notReady))
         (\<lambda>_. ks_updateConditions env cr (NewCondition statusTrue typeReady reason isReady))))"

definition pods_timeout :: "kafkaService \<Rightarrow> go_error + int" where
  "pods_timeout cr = map_sum id gl_PodsReadyTimeout (deref (ks_Global cr))"

section \<open>The backup daemon\<close>

definition certificateFilePath :: string where "certificateFilePath = ''/backupTLS/ca.crt''"

definition scaleTimeout :: int where "scaleTimeout = 120"
definition backupRestoreTimeout :: int where "backupRestoreTimeout = 60"

text \<open>The fields of \<open>ReconcileBackupDaemon\<close> that \<open>Reconcile\<close> sets.\<close>

record backupDaemon =
  bd_username :: string
  bd_password :: string
  bd_backupDaemonUrl :: string

definition processRequest :: "'w serviceEnv \<Rightarrow> backupDaemon \<Rightarrow> string \<Rightarrow> string \<Rightarrow> string option \<Rightarrow> ('w, string) eff" where
  "processRequest env r method url body =
     (let send = (\<lambda>rootCAs. ke_Do env \<lparr>rq_Method = method, rq_Url = url, rq_Body = body,
            rq_ContentType = (if body \<noteq> None then Some ''application/json'' else None),
            rq_BasicAuth = (if bd_username r \<noteq> [] \<and> bd_password r \<noteq> [] then Some (bd_username r, bd_password r) else None),
            rq_RootCAs = rootCAs\<rparr>)
      in tryE (ke_ReadFile env certificateFilePath) (\<lambda>_. send None) (\<lambda>caCert. send (Some caCert)))"

definition getBackupDaemonCredentials :: "'w serviceEnv \<Rightarrow> kafkaService \<Rightarrow> ('w, string \<times> string) eff" where
  "getBackupDaemonCredentials env cr =
     tryE (FindSecret (ke_kube env) (obj_Name cr @ ''-backup-daemon-secret'') (obj_Namespace cr))
       (\<lambda>_. returnE ([], []))
       (\<lambda>foundSecret. returnE (secret_data foundSecret ''username'', secret_data foundSecret ''password''))"

definition ks_GetBackupDaemonLabels :: "kafkaService \<Rightarrow> string gomap" where
  "ks_GetBackupDaemonLabels cr = [(''component'', ''kafka-backup-daemon''), (''name'', obj_Name cr @ ''-backup-daemon'')]"

definition getBackupStatus :: "'w serviceEnv \<Rightarrow> string \<Rightarrow> go_error + string" where
  "getBackupStatus env response = ke_UnmarshalStatus env response"

definition getBackupList :: "'w serviceEnv \<Rightarrow> string \<Rightarrow> go_error + string list" where
  "getBackupList env response = ke_UnmarshalList env response"

definition other_region :: "disasterRecovery \<Rightarrow> backupInfoResponse \<Rightarrow> bool" where
  "other_region dr info \<longleftrightarrow> bi_DBList info = ''full backup'' \<and> bi_CustomVars info \<noteq> []
     \<and> mstr (bi_CustomVars info) ''region'' \<noteq> dr_Region dr"

text \<open>The loop of \<open>getLastFullBackup\<close> over the sorted list.\<close>

fun first_full_backup :: "'w serviceEnv \<Rightarrow> backupDaemon \<Rightarrow> disasterRecovery \<Rightarrow> string list \<Rightarrow> ('w, string) eff" where
  "first_full_backup env r dr [] = returnE []"
| "first_full_backup env r dr (backup # rest) =
     bindE (processRequest env r ''GET'' (bd_backupDaemonUrl r @ ''/listbackups/'' @ backup) None) (\<lambda>response.
     bindE (liftE (ke_UnmarshalInfo env response)) (\<lambda>info.
       if other_region dr info then returnE backup else first_full_backup env r dr rest))"

definition getLastFullBackup :: "'w serviceEnv \<Rightarrow> backupDaemon \<Rightarrow> disasterRecovery \<Rightarrow> string list \<Rightarrow> ('w, string) eff" where
  "getLastFullBackup env r dr backups = first_full_backup env r dr (rev (sort backups))"

definition restoreLastBackup :: "'w serviceEnv \<Rightarrow> backupDaemon \<Rightarrow> disasterRecovery \<Rightarrow> int \<Rightarrow> int \<Rightarrow> ('w, string \<times> string) eff" where
  "restoreLastBackup env r dr interval timeout = PollImmediate (ke_retries env) interval timeout
     (let again = (\<lambda>_. returnE None) in
      tryE (processRequest env r ''GET'' (bd_backupDaemonUrl r @ ''/listbackups'') None) again (\<lambda>response.
      tryE (liftE (getBackupList env response)) again (\<lambda>backupList.
      tryE (getLastFullBackup env r dr backupList) again (\<lambda>lastFullBackup.
        if lastFullBackup = [] then returnE (if dr_NoWait dr then Some ([], []) else None)
        else tryE (liftE (ke_MarshalVault env lastFullBackup)) again (\<lambda>byteData.
          tryE (processRequest env r ''POST'' (bd_backupDaemonUrl r @ ''/restore'') (Some byteData)) again
            (\<lambda>jobId. returnE (Some (lastFullBackup, jobId))))))))"

text \<open>\<open>checkRestoreStatus\<close> and \<open>checkBackupStatus\<close> differ in their log messages only.\<close>

definition job_condition :: "'w serviceEnv \<Rightarrow> backupDaemon \<Rightarrow> string \<Rightarrow> ('w, unit option) eff" where
  "job_condition env r jobId =
     tryE (processRequest env r ''GET'' (bd_backupDaemonUrl r @ ''/jobstatus/'' @ jobId) None) (\<lambda>_. returnE None)
       (\<lambda>response. tryE (liftE (getBackupStatus env response)) (\<lambda>_. returnE None)
          (\<lambda>status. returnE (if status \<noteq> ''Successful'' then None else Some ())))"

definition checkRestoreStatus :: "'w serviceEnv \<Rightarrow> backupDaemon \<Rightarrow> string \<Rightarrow> int \<Rightarrow> int \<Rightarrow> ('w, unit) eff" where
  "checkRestoreStatus env r jobId interval timeout = PollImmediate (ke_retries env) interval timeout (job_condition env r jobId)"

definition checkBackupStatus :: "'w serviceEnv \<Rightarrow> backupDaemon \<Rightarrow> string \<Rightarrow> int \<Rightarrow> int \<Rightarrow> ('w, unit) eff" where
  "checkBackupStatus env r vaultId interval timeout = PollImmediate (ke_retries env) interval timeout (job_condition env r vaultId)"

definition performBackup :: "'w serviceEnv \<Rightarrow> backupDaemon \<Rightarrow> int \<Rightarrow> int \<Rightarrow> ('w, string) eff" where
  "performBackup env r interval timeout = PollImmediate (ke_retries env) interval timeout
     (tryE (processRequest env r ''POST'' (bd_backupDaemonUrl r @ ''/backup'') None) (\<lambda>_. returnE None)
        (\<lambda>response. returnE (Some response)))"

definition scaleDeployment :: "'w serviceEnv \<Rightarrow> kafkaService \<Rightarrow> 32 word \<Rightarrow> ('w, unit) eff" where
  "scaleDeployment env cr replicas =
     bindE (FindDeployment (ke_kube env) (obj_Name cr @ ''-backup-daemon'') (obj_Namespace cr)) (\<lambda>d.
       c_Update (k_deployments (ke_kube env)) (d\<lparr>dep_Replicas := Some replicas\<rparr>))"

definition scaleDeploymentWithCheck :: "'w serviceEnv \<Rightarrow> kafkaService \<Rightarrow> 32 word \<Rightarrow> int \<Rightarrow> int \<Rightarrow> ('w, unit) eff" where
  "scaleDeploymentWithCheck env cr replicas interval timeout =
     bindE (scaleDeployment env cr replicas) (\<lambda>_.
       PollImmediate (ke_retries env) interval timeout (ready_condition env (ks_GetBackupDaemonLabels cr) (obj_Namespace cr)))"

definition switch_needed :: "kafkaService \<Rightarrow> disasterRecovery \<Rightarrow> bool" where
  "switch_needed cr dr \<longleftrightarrow> ds_Mode (ks_DisasterRecoveryStatus cr) \<noteq> [] \<and> ds_Mode (ks_DisasterRecoveryStatus cr) \<noteq> dr_Mode dr
     \<or> ds_Status (ks_DisasterRecoveryStatus cr) = ''failed''"

definition backup_switch :: "'w serviceEnv \<Rightarrow> kafkaService \<Rightarrow> disasterRecovery \<Rightarrow> backupDaemon \<Rightarrow> ('w, unit) eff" where
  "backup_switch env cr dr r =
     (if strings_ToLower (dr_Mode dr) = ''active'' then
        bindE (scaleDeploymentWithCheck env cr 1 waitingInterval scaleTimeout) (\<lambda>_.
        bindE (restoreLastBackup env r dr waitingInterval backupRestoreTimeout) (\<lambda>(lastFullBackup, jobId).
          if lastFullBackup \<noteq> [] then checkRestoreStatus env r jobId waitingInterval backupRestoreTimeout else returnE ()))
      else if strings_ToLower (dr_Mode dr) = ''standby''
          \<and> strings_ToLower (ds_Mode (ks_DisasterRecoveryStatus cr)) \<noteq> ''disable'' then
        bindE (performBackup env r waitingInterval backupRestoreTimeout) (\<lambda>vaultId.
        bindE (checkBackupStatus env r vaultId waitingInterval backupRestoreTimeout) (\<lambda>_.
          scaleDeploymentWithCheck env cr 0 waitingInterval backupRestoreTimeout))
      else if strings_ToLower (dr_Mode dr) = ''disable'' then
        scaleDeploymentWithCheck env cr 0 waitingInterval backupRestoreTimeout
      else returnE ())"

definition BackupDaemon_Reconcile :: "'w serviceEnv \<Rightarrow> kafkaService \<Rightarrow> ('w, unit) eff" where
  "BackupDaemon_Reconcile env cr =
     (let k = ke_kube env; backupDaemonName = obj_Name cr @ ''-backup-daemon'' in
      bindE (WatchSecret k (ke_retryOnConflict env) (ke_setControllerReference env) (ke_convertSecret env)
        (obj_Name cr @ ''-services-secret'') (cr_ref cr)) (\<lambda>kafkaServicesSecret.
      bindE (FindDeployment k backupDaemonName (obj_Namespace cr)) (\<lambda>_.
      bindE (updateDeploymentSecretRestartAnnotations k (ke_retryOnConflict env) (obj_Namespace cr) backupDaemonName
        [Some kafkaServicesSecret]) (\<lambda>_.
      case ks_DisasterRecovery cr of
        None \<Rightarrow> returnE ()
      | Some dr \<Rightarrow>
          (if \<not> dr_TopicsBackup dr then returnE ()
           else if switch_needed cr dr then
             bindE (getBackupDaemonCredentials env cr) (\<lambda>(username, password).
             bindE (tryE (ke_ReadFile env certificateFilePath)
                 (\<lambda>_. returnE (''http://'' @ obj_Name cr @ ''-backup-daemon.'' @ obj_Namespace cr @ '':8080''))
                 (\<lambda>_. returnE (''https://'' @ obj_Name cr @ ''-backup-daemon.'' @ obj_Namespace cr @ '':8443''))) (\<lambda>url.
             bindE (backup_switch env cr dr \<lparr>bd_username = username, bd_password = password, bd_backupDaemonUrl = url\<rparr>) (\<lambda>_.
               ks_updateStatus env cr (\<lambda>i. i\<lparr>ks_DisasterRecoveryStatus :=
                 (ks_DisasterRecoveryStatus i)\<lparr>ds_Status := ''done'', ds_Message := []\<rparr>\<rparr>))))
           else returnE ())))))"

definition BackupDaemon_Status :: "'w serviceEnv \<Rightarrow> kafkaService \<Rightarrow> ('w, unit) eff" where
  "BackupDaemon_Status env cr =
     (if (case ks_DisasterRecovery cr of None \<Rightarrow> False | Some dr \<Rightarrow> dr_Mode dr = ''standby'' \<and> dr_TopicsBackup dr)
      then returnE ()
      else readiness_status env cr ''KafkaBackupDaemonReadinessStatus'' ''Kafka Backup Daemon health check'' (pods_timeout cr)
        (ks_GetBackupDaemonLabels cr) ''Kafka backupDaemonConditionReason pod is not ready''
        ''Kafka backupDaemonConditionReason pod is ready'')"

section \<open>What the reconcilers share\<close>

definition remember_version :: "string \<Rightarrow> string \<Rightarrow> ('w, unit) svc" where
  "remember_version name version =
     modifyE (\<lambda>(w, m). (w, m\<lparr>km_ResourceVersions := mput name version (km_ResourceVersions m)\<rparr>))"

definition remember_hash :: "string \<Rightarrow> string \<Rightarrow> ('w, unit) svc" where
  "remember_hash name hash = modifyE (\<lambda>(w, m). (w, m\<lparr>km_ResourceHashes := mput name hash (km_ResourceHashes m)\<rparr>))"

definition hash_differs :: "ksMemory \<Rightarrow> string \<Rightarrow> string \<Rightarrow> bool" where
  "hash_differs m name hash \<longleftrightarrow> mstr (km_ResourceHashes m) name \<noteq> hash"

definition version_differs :: "ksMemory \<Rightarrow> string \<Rightarrow> string \<Rightarrow> bool" where
  "version_differs m name version \<longleftrightarrow> name \<noteq> [] \<and> mstr (km_ResourceVersions m) name \<noteq> version"

definition ks_WatchSecret :: "'w serviceEnv \<Rightarrow> kafkaService \<Rightarrow> string \<Rightarrow> ('w, secret) eff" where
  "ks_WatchSecret env cr secretName = WatchSecret (ke_kube env) (ke_retryOnConflict env) (ke_setControllerReference env)
     (ke_convertSecret env) secretName (cr_ref cr)"

definition own :: "'w serviceEnv \<Rightarrow> kafkaService \<Rightarrow> ('o k8sObject_scheme \<Rightarrow> go_error + 'o k8sObject_scheme) \<Rightarrow>
    'o k8sObject_scheme \<Rightarrow> ('w, unit) eff" where
  "own env cr convert obj =
     bindE (liftE (SetControllerReference (ke_setControllerReference env) convert (cr_ref cr) (Typed obj))) (\<lambda>_. returnE ())"

definition apply_service :: "'w serviceEnv \<Rightarrow> kafkaService \<Rightarrow> service \<Rightarrow> ('w, unit) eff" where
  "apply_service env cr s = bindE (own env cr (ke_convertService env) s) (\<lambda>_. CreateOrUpdateService (ke_kube env) s)"

definition apply_service_account :: "'w serviceEnv \<Rightarrow> kafkaService \<Rightarrow> string \<Rightarrow> ('w, unit) eff" where
  "apply_service_account env cr name =
     bindE (liftE (deref (ks_Global cr))) (\<lambda>global.
       CreateOrUpdateServiceAccount (ke_kube env) (NewServiceAccount name (obj_Namespace cr) (gl_DefaultLabels global)))"

definition apply_deployment :: "'w serviceEnv \<Rightarrow> kafkaService \<Rightarrow> deployment \<Rightarrow> secret option list \<Rightarrow> ('w, unit) eff" where
  "apply_deployment env cr d secrets =
     bindE (own env cr (ke_convertDeployment env) d) (\<lambda>_.
       CreateOrUpdateDeployment (ke_kube env) (ke_retryOnConflict env)
         (d\<lparr>dep_TemplateAnnotations := fst (applyAutoRestartSecretAnnotations (dep_TemplateAnnotations d) secrets)\<rparr>))"

definition update_nodes :: "'w serviceEnv \<Rightarrow> kafkaService \<Rightarrow> string gomap \<Rightarrow> (string list \<Rightarrow> kafkaService \<Rightarrow> kafkaService) \<Rightarrow>
    ('w, unit) eff" where
  "update_nodes env cr labels setNodes =
     bindE (FindPodList (ke_kube env) (obj_Namespace cr) labels) (\<lambda>foundPodList.
       ks_updateStatus env cr (setNodes (GetPodNames foundPodList)))"

text \<open>\<open>&corev1.Secret{}\<close> and \<open>&corev1.ConfigMap{}\<close>\<close>

definition empty_secret :: secret where
  "empty_secret = new_secret [] [] []"

definition empty_configMap :: configMap where
  "empty_configMap = new_configMap [] [] []"

section \<open>Monitoring\<close>

definition isDeploymentUpdateNeededForKafkaLagExporter :: "monitoringSpec \<Rightarrow> ksMemory \<Rightarrow> string \<Rightarrow> bool" where
  "isDeploymentUpdateNeededForKafkaLagExporter spec m currentCMResourceVersion =
     (if mo_LagExporter spec = None then False
      else if mstr (km_ResourceVersions m) ''kafka-lag-exporter-cm'' = [] \<or> currentCMResourceVersion = [] then False
      else currentCMResourceVersion \<noteq> mstr (km_ResourceVersions m) ''kafka-lag-exporter-cm'')"

definition updateMonitoringStatus :: "'w serviceEnv \<Rightarrow> kafkaService \<Rightarrow> string gomap \<Rightarrow> ('w, unit) eff" where
  "updateMonitoringStatus env cr labels = update_nodes env cr labels (\<lambda>nodes i. i\<lparr>ks_MonitoringNodes := nodes\<rparr>)"

definition monitoring_secret :: "'w serviceEnv \<Rightarrow> kafkaService \<Rightarrow> monitoringSpec \<Rightarrow> ('w, secret) eff" where
  "monitoring_secret env cr spec =
     (if mo_SecretName spec \<noteq> [] then
        tryE (ks_WatchSecret env cr (mo_SecretName spec))
          (\<lambda>err. if IsNotFound err then returnE empty_secret else throwE err) returnE
      else returnE empty_secret)"

text \<open>The config map of the lag exporter; a failed read is only logged.\<close>

definition lag_exporter_version :: "'w serviceEnv \<Rightarrow> kafkaService \<Rightarrow> monitoringSpec \<Rightarrow> ('w, string) eff" where
  "lag_exporter_version env cr spec =
     (if mo_LagExporter spec \<noteq> None then
        bindE (tryE (FindConfigMap (ke_kube env) (obj_Name cr @ ''-lag-exporter-configmap'') (obj_Namespace cr))
            (\<lambda>_. returnE empty_configMap) returnE) (\<lambda>configMap.
        bindE (own env cr (ke_convertConfigMap env) configMap) (\<lambda>_.
        bindE (CreateOrUpdateConfigMap (ke_kube env) configMap) (\<lambda>_. getsE (ke_version env configMap))))
      else returnE [])"

definition Monitoring_Reconcile :: "'w serviceEnv \<Rightarrow> kafkaService \<Rightarrow> monitoringSpec \<Rightarrow> ('w, unit) svc" where
  "Monitoring_Reconcile env cr spec =
     bindE (on_fst (monitoring_secret env cr spec)) (\<lambda>monitoringSecret.
     bindE (on_fst (ks_WatchSecret env cr (obj_Name cr @ ''-services-secret''))) (\<lambda>kafkaServicesSecret.
     bindE (on_fst (lag_exporter_version env cr spec)) (\<lambda>currentCMResourceVersion.
     bindE (liftE (ke_HashMonitoring env spec)) (\<lambda>monitoringHash.
     bindE (getsE snd) (\<lambda>m.
     bindE (if hash_differs m ''spec.monitoring'' monitoringHash
          \<or> hash_differs m ''spec.global'' (km_globalSpecHash m)
          \<or> version_differs m (obj_Name monitoringSecret) (obj_ResourceVersion monitoringSecret)
          \<or> version_differs m (obj_Name kafkaServicesSecret) (obj_ResourceVersion kafkaServicesSecret)
          \<or> isDeploymentUpdateNeededForKafkaLagExporter spec m currentCMResourceVersion
        then on_fst (
            bindE (liftE (NewMonitoringClientService cr)) (\<lambda>clientService.
            bindE (apply_service env cr clientService) (\<lambda>_.
            bindE (apply_service_account env cr (mo_GetServiceAccountName cr)) (\<lambda>_.
            bindE (liftE (NewMonitoringDeployment cr currentCMResourceVersion)) (\<lambda>deployment.
            bindE (apply_deployment env cr deployment [Some monitoringSecret, Some kafkaServicesSecret]) (\<lambda>_.
              updateMonitoringStatus env cr (GetMonitoringSelectorLabels cr)))))))
        else returnE ()) (\<lambda>_.
     bindE (whenE (obj_Name monitoringSecret \<noteq> [])
       (remember_version (obj_Name monitoringSecret) (obj_ResourceVersion monitoringSecret))) (\<lambda>_.
     bindE (remember_version (obj_Name kafkaServicesSecret) (obj_ResourceVersion kafkaServicesSecret)) (\<lambda>_.
     bindE (remember_hash ''spec.monitoring'' monitoringHash) (\<lambda>_.
       whenE (mo_LagExporter spec \<noteq> None) (remember_version ''kafka-lag-exporter-cm'' currentCMResourceVersion))))))))))"

definition Monitoring_Status :: "'w serviceEnv \<Rightarrow> kafkaService \<Rightarrow> ('w, unit) eff" where
  "Monitoring_Status env cr = readiness_status env cr ''KafkaMonitoringReadinessStatus'' ''Kafka Monitoring health check''
     (pods_timeout cr) (GetMonitoringSelectorLabels cr) ''Kafka Monitoring pod is not ready''
     ''Kafka Monitoring pod is ready''"

section \<open>AKHQ\<close>

definition getProtobufConfigMap :: "'w serviceEnv \<Rightarrow> kafkaService \<Rightarrow> ('w, configMap) svc" where
  "getProtobufConfigMap env cr =
     bindE (getsE (\<lambda>(w, m). km_controllerReferenceSet m)) (\<lambda>controllerReferenceSet.
     bindE (liftE (map_sum id (\<lambda>g. Some (GetAkhqLabels g)) (deref (ks_Global cr)))) (\<lambda>labels.
       if \<not> controllerReferenceSet then
         bindE (on_fst (CreateProtobufConfigMapIfNotExist (obj_Namespace cr) (ke_kube env) labels
             (Some (cr_ref cr, ke_setControllerReference env)))) (\<lambda>protobufConfigMap.
         bindE (modifyE (\<lambda>(w, m). (w, m\<lparr>km_controllerReferenceSet := True\<rparr>))) (\<lambda>_. returnE protobufConfigMap))
       else on_fst (CreateProtobufConfigMapIfNotExist (obj_Namespace cr) (ke_kube env) labels None)))"

definition getLdapConfigMap :: "'w serviceEnv \<Rightarrow> kafkaService \<Rightarrow> string \<Rightarrow> ('w, configMap) eff" where
  "getLdapConfigMap env cr configMapName =
     bindE (liftE (NewConfigurationMapForLdap cr configMapName)) (\<lambda>ldapConfigMap.
     bindE (CreateOrUpdateConfigMap (ke_kube env) ldapConfigMap) (\<lambda>_. returnE ldapConfigMap))"

definition deleteLegacyConfigMap :: "'w serviceEnv \<Rightarrow> kafkaService \<Rightarrow> ('w, unit) eff" where
  "deleteLegacyConfigMap env cr = DeleteConfigMapByName (ke_kube env) ''akhq-deserialization-keys'' (obj_Namespace cr)"

text \<open>The expression \<open>^akhqdcm-(.*)$\<close> matches the names with this prefix that have no line end after it.\<close>

definition findDeserializationConfigMaps :: "'w serviceEnv \<Rightarrow> kafkaService \<Rightarrow> ('w, configMap list) eff" where
  "findDeserializationConfigMaps env cr =
     bindE (GetAllConfigMapsFromNamespace (ke_kube env) (obj_Namespace cr)) (\<lambda>cms.
       returnE (filter (\<lambda>item. strings_HasPrefix (obj_Name item) akhqDeserializationCMPrefix
         \<and> CHR ''\<newline>'' \<notin> set (obj_Name item)) cms))"

definition updateAkhqStatus :: "'w serviceEnv \<Rightarrow> kafkaService \<Rightarrow> string gomap \<Rightarrow> ('w, unit) eff" where
  "updateAkhqStatus env cr labels = update_nodes env cr labels (\<lambda>nodes i. i\<lparr>ks_AkhqNodes := nodes\<rparr>)"

text \<open>
  The objects of AKHQ. The result tells whether the method goes on: where the old security
  configuration cannot be read, it returns the value of \<open>err\<close>, which is \<open>nil\<close>, in place of that of \<open>errSec\<close>.
  \<open>NewLdapTrustedSecret\<close> is \<open>nil\<close> where a certificate is no base 64 text, and \<open>CreateOrUpdateSecret\<close> dereferences it.
\<close>

definition akhq_objects :: "'w serviceEnv \<Rightarrow> kafkaService \<Rightarrow> string \<Rightarrow> configMap list \<Rightarrow> secret option list \<Rightarrow> ('w, bool) eff" where
  "akhq_objects env cr protobufVersion sources secrets =
     (let k = ke_kube env in
      bindE (liftE (bindR (NewLdapTrustedSecret cr ''akhq-trusted-certs'') deref)) (\<lambda>trustCertsSecret.
      bindE (CreateOrUpdateSecret k trustCertsSecret) (\<lambda>_.
      bindE (liftE (NewAkhqClientService cr)) (\<lambda>clientService.
      bindE (apply_service env cr clientService) (\<lambda>_.
      bindE (apply_service_account env cr akhq_GetServiceAccountName) (\<lambda>_.
      bindE (liftE (NewSecurityConfiguration cr)) (\<lambda>securityConfiguration.
      tryE (RestoreSpecFields k securityConfiguration ProtectedSecretsFields)
        (\<lambda>_. returnE False)
        (\<lambda>securityConfiguration.
           bindE (CreateOrUpdateSecret k securityConfiguration) (\<lambda>_.
           bindE (liftE (NewAkhqDeployment (ke_provider env) cr protobufVersion sources)) (\<lambda>deployment.
           bindE (apply_deployment env cr deployment secrets) (\<lambda>_.
           bindE (updateAkhqStatus env cr GetAkhqSelectorLabels) (\<lambda>_. returnE True))))))))))))"

definition opt_version_differs :: "ksMemory \<Rightarrow> (string \<times> string) option \<Rightarrow> bool" where
  "opt_version_differs m x = (case x of None \<Rightarrow> False | Some (name, version) \<Rightarrow> version_differs m name version)"

definition Akhq_Reconcile :: "'w serviceEnv \<Rightarrow> kafkaService \<Rightarrow> akhqSpec \<Rightarrow> ('w, unit) svc" where
  "Akhq_Reconcile env cr spec =
     bindE (on_fst (ks_WatchSecret env cr ''akhq-secret'')) (\<lambda>akhqSecret.
     bindE (on_fst (ks_WatchSecret env cr (obj_Name cr @ ''-services-secret''))) (\<lambda>kafkaServicesSecret.
     bindE (on_fst (deleteLegacyConfigMap env cr)) (\<lambda>_.
     bindE (getProtobufConfigMap env cr) (\<lambda>protobufConfigMap.
     bindE (on_fst (getsE (ke_version env protobufConfigMap))) (\<lambda>protobufVersion.
     bindE (liftE (deref (ak_Ldap spec))) (\<lambda>ldap.
     bindE (if ld_Enabled ldap then
         bindE (on_fst (ks_WatchSecret env cr ''akhq-ldap-secret'')) (\<lambda>ldapSecret.
         bindE (on_fst (getLdapConfigMap env cr ''akhq-security-configuration'')) (\<lambda>ldapConfigMap.
         bindE (on_fst (getsE (ke_version env ldapConfigMap))) (\<lambda>version.
           returnE (Some ldapSecret, Some (obj_Name ldapConfigMap, version)))))
       else returnE (None, None)) (\<lambda>(ldapSecret, ldapConfigMap).
     bindE (on_fst (findDeserializationConfigMaps env cr)) (\<lambda>sources.
     bindE (liftE (ke_HashAkhq env spec)) (\<lambda>akhqSpecHash.
     bindE (getsE snd) (\<lambda>m.
     bindE (if hash_differs m ''spec.akhq'' akhqSpecHash
          \<or> hash_differs m ''spec.global'' (km_globalSpecHash m)
          \<or> version_differs m (obj_Name akhqSecret) (obj_ResourceVersion akhqSecret)
          \<or> opt_version_differs m (map_option (\<lambda>s. (obj_Name s, obj_ResourceVersion s)) ldapSecret)
          \<or> version_differs m (obj_Name kafkaServicesSecret) (obj_ResourceVersion kafkaServicesSecret)
          \<or> version_differs m (obj_Name protobufConfigMap) protobufVersion
          \<or> opt_version_differs m ldapConfigMap
        then on_fst (akhq_objects env cr protobufVersion sources [Some akhqSecret, Some kafkaServicesSecret, ldapSecret])
        else returnE True) (\<lambda>goOn.
     if \<not> goOn then returnE () else
     bindE (remember_version (obj_Name akhqSecret) (obj_ResourceVersion akhqSecret)) (\<lambda>_.
     bindE (remember_version (obj_Name kafkaServicesSecret) (obj_ResourceVersion kafkaServicesSecret)) (\<lambda>_.
     bindE (remember_version (obj_Name protobufConfigMap) protobufVersion) (\<lambda>_.
     bindE (remember_hash ''spec.akhq'' akhqSpecHash) (\<lambda>_.
     bindE (case ldapSecret of None \<Rightarrow> returnE ()
       | Some s \<Rightarrow> remember_version (obj_Name s) (obj_ResourceVersion s)) (\<lambda>_.
       case ldapConfigMap of None \<Rightarrow> returnE () | Some (name, version) \<Rightarrow> remember_version name version))))))))))))))))"

definition Akhq_Status :: "'w serviceEnv \<Rightarrow> kafkaService \<Rightarrow> ('w, unit) eff" where
  "Akhq_Status env cr = readiness_status env cr ''AkhqReadinessStatus'' ''AKHQ health check'' (pods_timeout cr)
     GetAkhqSelectorLabels ''AKHQ pod is not ready'' ''AKHQ pod is ready''"

section \<open>Mirror Maker\<close>

definition createDeployment :: "'w serviceEnv \<Rightarrow> kafkaService \<Rightarrow> mirrorMakerSpec \<Rightarrow> serviceCluster \<Rightarrow> secret \<Rightarrow> string \<Rightarrow> ('w, unit) eff" where
  "createDeployment env cr spec cluster secret configurationVersion =
     (let currentClusterName = strings_ToLower (mc_Name cluster);
          deploymentName = currentClusterName @ ''-'' @ mm_GetServiceName cr in
      bindE (liftE (NewMirrorMakerDeploymentForCR (ke_provider env) cr cluster (mm_Clusters spec) (obj_ResourceVersion secret)
        configurationVersion currentClusterName deploymentName)) (\<lambda>mirrorMakerDeployment.
      bindE (own env cr (ke_convertDeployment env) mirrorMakerDeployment) (\<lambda>_.
      bindE (liftE (mm_GetService cr deploymentName)) (\<lambda>mirrorMakerService.
      bindE (apply_service env cr mirrorMakerService) (\<lambda>_.
        CreateOrUpdateDeployment (ke_kube env) (ke_retryOnConflict env) (mirrorMakerDeployment\<lparr>dep_TemplateAnnotations :=
          fst (applyAutoRestartSecretAnnotations (dep_TemplateAnnotations mirrorMakerDeployment) [Some secret])\<rparr>))))))"

definition updateMirrorMakerStatus :: "'w serviceEnv \<Rightarrow> kafkaService \<Rightarrow> ('w, unit) eff" where
  "updateMirrorMakerStatus env cr = update_nodes env cr (GetMirrorMakerSelectorLabels cr)
     (\<lambda>nodes i. i\<lparr>ks_MirrorMakerNodes := nodes\<rparr>)"

text \<open>The config map: created where it is missing, rewritten where the configurator is off.\<close>

definition mirror_maker_config :: "'w serviceEnv \<Rightarrow> kafkaService \<Rightarrow> mirrorMakerSpec \<Rightarrow> ('w, configMap) eff" where
  "mirror_maker_config env cr spec =
     (let k = ke_kube env in
      tryE (FindConfigMap k (mm_ConfigurationName spec) (obj_Namespace cr))
        (\<lambda>err. if IsNotFound err then
             bindE (liftE (NewConfigurationMapForCR cr)) (\<lambda>configMap.
             bindE (own env cr (ke_convertConfigMap env) configMap) (\<lambda>_.
             bindE (CreateOrUpdateConfigMap k configMap) (\<lambda>_. returnE configMap)))
           else throwE err)
        (\<lambda>configMap. if \<not> mm_ConfiguratorEnabled spec then
             bindE (liftE (GetMirrorMakerProperties cr)) (\<lambda>properties.
             if cm_Data configMap = [] then throwE Panic
             else let configMap = configMap\<lparr>cm_Data := mput ''config'' properties (cm_Data configMap)\<rparr>
               in bindE (CreateOrUpdateConfigMap k configMap) (\<lambda>_. returnE configMap))
           else returnE configMap))"

definition disaster_recovery_hash :: "'w serviceEnv \<Rightarrow> kafkaService \<Rightarrow> go_error + string" where
  "disaster_recovery_hash env cr = (case ks_DisasterRecovery cr of None \<Rightarrow> Inr [] | Some dr \<Rightarrow> ke_HashDisasterRecovery env dr)"

definition mirror_maker_clusters :: "mirrorMakerSpec \<Rightarrow> serviceCluster list" where
  "mirror_maker_clusters spec = (if mm_RegionName spec = [] then mm_Clusters spec
     else case find (\<lambda>cluster. mc_Name cluster = mm_RegionName spec) (mm_Clusters spec) of None \<Rightarrow> [] | Some c \<Rightarrow> [c])"

definition MirrorMaker_Reconcile :: "'w serviceEnv \<Rightarrow> kafkaService \<Rightarrow> bool \<Rightarrow> mirrorMakerSpec \<Rightarrow> ('w, unit) svc" where
  "MirrorMaker_Reconcile env cr drChecked spec =
     (if length (mm_Clusters spec) > 1 then
        let secretKey = mm_SecretName spec @ ''.'' @ obj_Namespace cr;
            configurationKey = mm_ConfigurationName spec @ ''.'' @ obj_Namespace cr in
        bindE (on_fst (ks_WatchSecret env cr (mm_SecretName spec))) (\<lambda>secret.
        bindE (on_fst (mirror_maker_config env cr spec)) (\<lambda>configMap.
        bindE (on_fst (getsE (ke_version env configMap))) (\<lambda>configurationVersion.
        bindE (liftE (ke_HashMirrorMaker env spec)) (\<lambda>mirrorMakerHash.
        bindE (liftE (disaster_recovery_hash env cr)) (\<lambda>disasterRecoveryHash.
        bindE (getsE snd) (\<lambda>m.
        bindE (if hash_differs m ''spec.mirrorMaker'' mirrorMakerHash \<or> drChecked
             \<or> obj_Name secret \<noteq> [] \<and> mstr (km_ResourceVersions m) secretKey \<noteq> obj_ResourceVersion secret
             \<or> mstr (km_ResourceVersions m) configurationKey \<noteq> configurationVersion
           then on_fst (
             bindE (apply_service_account env cr (mm_GetServiceAccountName cr)) (\<lambda>_.
             bindE (forE (mirror_maker_clusters spec) (\<lambda>cluster. createDeployment env cr spec cluster secret configurationVersion)) (\<lambda>_.
               updateMirrorMakerStatus env cr)))
           else returnE ()) (\<lambda>_.
        bindE (remember_version secretKey (obj_ResourceVersion secret)) (\<lambda>_.
        bindE (remember_version configurationKey configurationVersion) (\<lambda>_.
        bindE (remember_hash ''spec.mirrorMaker'' mirrorMakerHash) (\<lambda>_.
          remember_hash ''spec.disasterRecovery'' disasterRecoveryHash))))))))))
      else returnE ())"

definition MirrorMaker_Status :: "'w serviceEnv \<Rightarrow> kafkaService \<Rightarrow> ('w, unit) eff" where
  "MirrorMaker_Status env cr = readiness_status env cr ''KafkaMirrorMakerReadinessStatus'' ''Kafka Mirror Maker health check''
     (pods_timeout cr) (GetMirrorMakerSelectorLabels cr) ''Kafka Mirror Maker pods are not ready''
     ''Kafka Mirror Maker pods are ready''"

section \<open>Mirror Maker monitoring\<close>

text \<open>An error of the hash of the disaster-recovery section ends the method with \<open>nil\<close>.\<close>

definition MirrorMakerMonitoring_Reconcile :: "'w serviceEnv \<Rightarrow> kafkaService \<Rightarrow> bool \<Rightarrow> mirrorMakerMonitoringSpec \<Rightarrow> ('w, unit) svc" where
  "MirrorMakerMonitoring_Reconcile env cr drChecked spec =
     bindE (on_fst (ks_WatchSecret env cr (mmm_SecretName spec))) (\<lambda>secret.
     bindE (liftE (ke_HashMirrorMakerMonitoring env spec)) (\<lambda>mirrorMakerMonitoringHash.
     tryE (liftE (disaster_recovery_hash env cr)) (\<lambda>_. returnE ()) (\<lambda>disasterRecoveryHash.
     bindE (getsE snd) (\<lambda>m.
     bindE (if hash_differs m ''spec.mirrorMakerMonitoring'' mirrorMakerMonitoringHash \<or> drChecked
          \<or> version_differs m (obj_Name secret) (obj_ResourceVersion secret)
        then on_fst (
          bindE (liftE (mmm_NewMonitoringClientService cr)) (\<lambda>clientService.
          bindE (apply_service env cr clientService) (\<lambda>_.
          bindE (apply_service_account env cr (mmm_GetServiceAccountName cr)) (\<lambda>_.
          bindE (liftE (NewMirrorMakerMonitoringDeployment cr)) (\<lambda>deployment.
            apply_deployment env cr deployment [Some secret])))))
        else returnE ()) (\<lambda>_.
     bindE (remember_version (obj_Name secret) (obj_ResourceVersion secret)) (\<lambda>_.
     bindE (remember_hash ''spec.mirrorMakerMonitoring'' mirrorMakerMonitoringHash) (\<lambda>_.
       remember_hash ''spec.disasterRecovery'' disasterRecoveryHash)))))))"

definition MirrorMakerMonitoring_Status :: "'w serviceEnv \<Rightarrow> kafkaService \<Rightarrow> ('w, unit) eff" where
  "MirrorMakerMonitoring_Status env cr = readiness_status env cr ''KafkaMirrorMakerMonitoringReadinessStatus''
     ''Kafka Mirror Maker Monitoring health check'' (pods_timeout cr)
     (GetMirrorMakerMonitoringSelectorLabels cr) ''Kafka Mirror Maker Monitoring pod is not ready''
     ''Kafka Mirror Maker Monitoring pod is ready''"

section \<open>Integration tests\<close>

definition IntegrationTests_Reconcile :: "('w, unit) svc" where
  "IntegrationTests_Reconcile = returnE ()"

definition IntegrationTests_Status :: "'w serviceEnv \<Rightarrow> kafkaService \<Rightarrow> integrationTestsSpec \<Rightarrow> ('w, unit) eff" where
  "IntegrationTests_Status env cr spec =
     (if \<not> it_WaitForResult spec then returnE ()
      else readiness_status env cr ''KafkaIntegrationTestsStatus'' ''Start checking Kafka Integration Tests''
        (Inr (it_Timeout spec)) [(''name'', it_ServiceName spec)]
        ''Kafka Integration Tests failed. See more details in integration test logs''
        ''Kafka Integration Tests performed successfully'')"

section \<open>The controller\<close>

datatype reconcileService =
    ReconcileMonitoring monitoringSpec
  | ReconcileAkhq akhqSpec
  | ReconcileMirrorMaker mirrorMakerSpec bool
  | ReconcileMirrorMakerMonitoring mirrorMakerMonitoringSpec bool
  | ReconcileIntegrationTests integrationTestsSpec
  | ReconcileBackupDaemon

definition reconciler_of :: "('a \<Rightarrow> reconcileService) \<Rightarrow> 'a option \<Rightarrow> reconcileService list" where
  "reconciler_of f x = (case x of None \<Rightarrow> [] | Some a \<Rightarrow> [f a])"

definition buildReconcilers :: "kafkaService \<Rightarrow> bool \<Rightarrow> reconcileService list" where
  "buildReconcilers cr drChecked =
     reconciler_of ReconcileMonitoring (ks_Monitoring cr) @ reconciler_of ReconcileAkhq (ks_Akhq cr)
     @ reconciler_of (\<lambda>s. ReconcileMirrorMaker s drChecked) (ks_MirrorMaker cr)
     @ reconciler_of (\<lambda>s. ReconcileMirrorMakerMonitoring s drChecked) (ks_MirrorMakerMonitoring cr)
     @ reconciler_of ReconcileIntegrationTests (ks_IntegrationTests cr)
     @ reconciler_of (\<lambda>_. ReconcileBackupDaemon) (ks_BackupDaemon cr)"

text \<open>The methods of the interface \<open>ReconcileService\<close>, and the name that \<open>%T\<close> prints.\<close>

fun service_Reconcile :: "'w serviceEnv \<Rightarrow> kafkaService \<Rightarrow> reconcileService \<Rightarrow> ('w, unit) svc" where
  "service_Reconcile env cr (ReconcileMonitoring spec) = Monitoring_Reconcile env cr spec"
| "service_Reconcile env cr (ReconcileAkhq spec) = Akhq_Reconcile env cr spec"
| "service_Reconcile env cr (ReconcileMirrorMaker spec drChecked) = MirrorMaker_Reconcile env cr drChecked spec"
| "service_Reconcile env cr (ReconcileMirrorMakerMonitoring spec drChecked) = MirrorMakerMonitoring_Reconcile env cr drChecked spec"
| "service_Reconcile env cr (ReconcileIntegrationTests spec) = IntegrationTests_Reconcile"
| "service_Reconcile env cr ReconcileBackupDaemon = on_fst (BackupDaemon_Reconcile env cr)"

fun service_Status :: "'w serviceEnv \<Rightarrow> kafkaService \<Rightarrow> reconcileService \<Rightarrow> ('w, unit) eff" where
  "service_Status env cr (ReconcileMonitoring spec) = Monitoring_Status env cr"
| "service_Status env cr (ReconcileAkhq spec) = Akhq_Status env cr"
| "service_Status env cr (ReconcileMirrorMaker spec drChecked) = MirrorMaker_Status env cr"
| "service_Status env cr (ReconcileMirrorMakerMonitoring spec drChecked) = MirrorMakerMonitoring_Status env cr"
| "service_Status env cr (ReconcileIntegrationTests spec) = IntegrationTests_Status env cr spec"
| "service_Status env cr ReconcileBackupDaemon = BackupDaemon_Status env cr"

fun service_type :: "reconcileService \<Rightarrow> string" where
  "service_type (ReconcileMonitoring spec) = ''kafkaservice.ReconcileMonitoring''"
| "service_type (ReconcileAkhq spec) = ''kafkaservice.ReconcileAkhq''"
| "service_type (ReconcileMirrorMaker spec drChecked) = ''kafkaservice.ReconcileMirrorMaker''"
| "service_type (ReconcileMirrorMakerMonitoring spec drChecked) = ''kafkaservice.ReconcileMirrorMakerMonitoring''"
| "service_type (ReconcileIntegrationTests spec) = ''kafkaservice.ReconcileIntegrationTests''"
| "service_type ReconcileBackupDaemon = ''kafkaservice.ReconcileBackupDaemon''"

definition kafkaServiceConditionReason :: string where
  "kafkaServiceConditionReason = ''ReconcileCycleStatus''"

definition service_condition :: "'w serviceEnv \<Rightarrow> kafkaService \<Rightarrow> string \<Rightarrow> string \<Rightarrow> string \<Rightarrow> ('w, unit) eff" where
  "service_condition env cr status type message =
     ks_updateConditions env cr (NewCondition status type kafkaServiceConditionReason message)"

definition writeFailedStatus :: "'w serviceEnv \<Rightarrow> kafkaService \<Rightarrow> string \<Rightarrow> ('w, unit) eff" where
  "writeFailedStatus env cr errorMessage = tryE (service_condition env cr statusFalse typeFailed errorMessage) (\<lambda>_. returnE ()) returnE"

definition isCheckNeeded :: "kafkaService \<Rightarrow> disasterRecovery \<Rightarrow> bool" where
  "isCheckNeeded instnce dr =
     (if dr_NoWait dr then False
      else if \<not> dr_MirrorMakerReplication dr then False
      else let specMode = strings_ToLower (dr_Mode dr);
               statusMode = strings_ToLower (ds_Mode (ks_DisasterRecoveryStatus instnce));
               switchoverStatus = strings_ToLower (ds_Status (ks_DisasterRecoveryStatus instnce))
           in specMode = ''active'' \<and> (statusMode \<noteq> ''active'' \<or> statusMode = ''active'' \<and> switchoverStatus = ''failed''))"

definition switchover_due :: "kafkaService \<Rightarrow> disasterRecovery \<Rightarrow> bool" where
  "switchover_due instnce dr \<longleftrightarrow> ds_Mode (ks_DisasterRecoveryStatus instnce) \<noteq> dr_Mode dr
     \<or> ds_Status (ks_DisasterRecoveryStatus instnce) = ''running'' \<or> ds_Status (ks_DisasterRecoveryStatus instnce) = ''failed''"

definition set_switchover :: "string \<Rightarrow> string \<Rightarrow> string \<Rightarrow> kafkaService \<Rightarrow> kafkaService" where
  "set_switchover mode status message instnce =
     instnce\<lparr>ks_DisasterRecoveryStatus := \<lparr>ds_Mode = mode, ds_Status = status, ds_Message = message\<rparr>\<rparr>"

definition updateDisasterRecoveryStatus :: "'w serviceEnv \<Rightarrow> kafkaService \<Rightarrow> disasterRecovery \<Rightarrow> string \<Rightarrow> string \<Rightarrow> ('w, unit) eff" where
  "updateDisasterRecoveryStatus env cr dr status message = ks_updateStatus env cr (set_switchover (dr_Mode dr) status message)"

text \<open>
  The check before the switch: the values of \<open>status\<close>, \<open>message\<close> and \<open>drChecked\<close> after it. A panic of the audit,
  which runs in a goroutine of its own, ends the process.
\<close>

definition switchover_check :: "'w serviceEnv \<Rightarrow> kafkaService \<Rightarrow> disasterRecovery \<Rightarrow> ('w, string \<times> string \<times> bool) eff" where
  "switchover_check env instnce dr =
     (if isCheckNeeded instnce dr then (\<lambda>w.
        case ke_replicationDone env instnce w of
          (Some (Inl Panic), w) \<Rightarrow> (Inl Panic, w)
        | (replicationDone, w) \<Rightarrow> (Inr (case CheckFullReplication replicationDone of
              (False, _) \<Rightarrow> (''failed'', ''timeout occurred during replication check'', False)
            | (True, Some errSwitchover) \<Rightarrow> (''failed'', ''Error is occurred during switching: '' @ ke_Error env errSwitchover, False)
            | (True, None) \<Rightarrow> (''done'', ''replication has finished successfully'', True)), w))
      else returnE (''done'', ''Switchover mode has been changed without replication check'', True))"

text \<open>
  The function that \<open>Reconcile\<close> defers. It sees the variable \<open>err\<close>, which is \<open>nil\<close> when the method panics: every
  statement that can panic is reached with \<open>err == nil\<close> only.
\<close>

definition finish_switchover :: "'w serviceEnv \<Rightarrow> kafkaService \<Rightarrow> disasterRecovery \<Rightarrow> string \<Rightarrow> string \<Rightarrow> go_error option \<Rightarrow> ('w, unit) eff" where
  "finish_switchover env cr dr status message err =
     (let (status, message) = (if status = ''failed'' then (status, message)
        else case err of
            None \<Rightarrow> (status, message)
          | Some e \<Rightarrow> (''failed'', ''Error is occurred during Kafka switching: '' @ ke_Error env e))
      in tryE (updateDisasterRecoveryStatus env cr dr status message) (\<lambda>_. returnE ()) returnE)"

definition run_reconcilers :: "'w serviceEnv \<Rightarrow> kafkaService \<Rightarrow> reconcileService list \<Rightarrow> ('w, unit) svc" where
  "run_reconcilers env cr reconcilers = forE reconcilers (\<lambda>reconciler.
     tryE (service_Reconcile env cr reconciler)
       (\<lambda>err. bindE (on_fst (writeFailedStatus env cr (''Reconciliation cycle failed for '' @ service_type reconciler
          @ '' due to: '' @ ke_Error env err))) (\<lambda>_. throwE err)) returnE)"

definition check_statuses :: "'w serviceEnv \<Rightarrow> kafkaService \<Rightarrow> reconcileService list \<Rightarrow> ('w, unit) eff" where
  "check_statuses env cr reconcilers = forE reconcilers (\<lambda>reconciler.
     tryE (service_Status env cr reconciler)
       (\<lambda>err. bindE (writeFailedStatus env cr (''The status reconciliation cycle failed for '' @ service_type reconciler
          @ '' due to: '' @ ke_Error env err)) (\<lambda>_. throwE err)) returnE)"

text \<open>The last value of \<open>err\<close>; failed conditions set it, but the method returns \<open>nil\<close>.\<close>

definition final_status :: "'w serviceEnv \<Rightarrow> kafkaService \<Rightarrow> reconcileService list \<Rightarrow> ('w, go_error option) eff" where
  "final_status env cr reconcilers =
     bindE (if (case ks_Global cr of None \<Rightarrow> False | Some global \<Rightarrow> gl_WaitForPodsReady global) then
         bindE (service_condition env cr statusFalse typeInProgress ''Checking deployment readiness status'')
           (\<lambda>_. check_statuses env cr reconcilers)
       else returnE ()) (\<lambda>_.
     tryE (GetStatus (ks_statusUpdater env cr) ks_Conditions)
       (\<lambda>err. bindE (writeFailedStatus env cr (''Cannot obtain status for Kafka custom resource: '' @ ke_Error env err))
          (\<lambda>_. throwE err))
       (\<lambda>conditions.
          if hasFailedConditions conditions then
            bindE (service_condition env cr statusFalse typeFailed ''The deployment readiness status check failed'')
              (\<lambda>_. returnE (Some (Err ''status for Kafka service contains failed conditions'')))
          else bindE (service_condition env cr statusTrue typeSuccessful ''The deployment readiness status check is successful'')
              (\<lambda>_. returnE None)))"

text \<open>The part of \<open>Reconcile\<close> after the switchover section: the last value of \<open>err\<close>, with a \<open>nil\<close> result.\<close>

definition reconcile_services :: "'w serviceEnv \<Rightarrow> kafkaService \<Rightarrow> bool \<Rightarrow> bool \<Rightarrow> string \<Rightarrow> string \<Rightarrow> ('w, go_error option) svc" where
  "reconcile_services env cr isCustomResourceChanged drChecked specHash annotationsHash =
     (let reconcilers = buildReconcilers cr drChecked in
      bindE (run_reconcilers env cr reconcilers) (\<lambda>_.
      bindE (if isCustomResourceChanged then on_fst (final_status env cr reconcilers) else returnE None) (\<lambda>err.
      bindE (remember_hash ''annotations'' annotationsHash) (\<lambda>_.
      bindE (remember_hash ''spec'' specHash) (\<lambda>_.
      bindE (getsE (\<lambda>(w, m). km_globalSpecHash m)) (\<lambda>globalSpecHash.
      bindE (remember_hash ''spec.global'' globalSpecHash) (\<lambda>_. returnE err)))))))"

text \<open>A computation followed by the deferred function, whatever its outcome.\<close>

definition with_deferred :: "(go_error option \<Rightarrow> ('s, unit) eff) \<Rightarrow> ('s, go_error option) eff \<Rightarrow> ('s, go_error option) eff" where
  "with_deferred deferred body = (\<lambda>s. case body s of (r, s) \<Rightarrow>
     (case deferred (case r of Inl e \<Rightarrow> (if e = Panic then None else Some e) | Inr err \<Rightarrow> err) s of
        (Inl Panic, s) \<Rightarrow> (Inl Panic, s) | (_, s) \<Rightarrow> (r, s)))"

definition reconcile_instance :: "'w serviceEnv \<Rightarrow> kafkaService \<Rightarrow> bool \<Rightarrow> string \<Rightarrow> string \<Rightarrow> ('w, go_error option) svc" where
  "reconcile_instance env instnce isCustomResourceChanged specHash annotationsHash =
     (case ks_DisasterRecovery instnce of
        None \<Rightarrow> reconcile_services env instnce isCustomResourceChanged False specHash annotationsHash
      | Some dr \<Rightarrow>
          (if switchover_due instnce dr then
             bindE (on_fst (updateDisasterRecoveryStatus env instnce dr ''running'' ''The switchover process for Kafka has been started'')) (\<lambda>_.
             bindE (on_fst (switchover_check env instnce dr)) (\<lambda>(status, message, drChecked).
               with_deferred (\<lambda>err. on_fst (finish_switchover env instnce dr status message err))
                 (reconcile_services env instnce isCustomResourceChanged drChecked specHash annotationsHash)))
           else reconcile_services env instnce isCustomResourceChanged False specHash annotationsHash))"

definition ks_Reconcile :: "'w serviceEnv \<Rightarrow> string \<Rightarrow> string \<Rightarrow> ('w, reconcileResult) svc" where
  "ks_Reconcile env name namespace =
     tryE (on_fst (ke_Get env name namespace)) (\<lambda>err. if IsNotFound err then returnE done_result else throwE err) (\<lambda>instnce.
     bindE (liftE (ke_HashSpec env instnce)) (\<lambda>specHash.
     bindE (modifyE (\<lambda>(w, m). (w, m\<lparr>km_globalSpecHash := (case ke_HashGlobal env (ks_Global instnce) of
       Inl _ \<Rightarrow> [] | Inr globalSpecHash \<Rightarrow> globalSpecHash)\<rparr>))) (\<lambda>_.
     bindE (liftE (ke_HashGlobal env (ks_Global instnce))) (\<lambda>_.
     bindE (liftE (ke_HashAnnotations env (obj_Annotations instnce))) (\<lambda>annotationsHash.
     bindE (getsE snd) (\<lambda>m.
       let isCustomResourceChanged = hash_differs m ''spec'' specHash \<or> hash_differs m ''annotations'' annotationsHash in
       bindE (if isCustomResourceChanged then on_fst (
           bindE (ks_clearAllConditions env instnce) (\<lambda>_.
             service_condition env instnce statusFalse typeInProgress ''Reconciliation cycle started''))
         else returnE ()) (\<lambda>_.
       bindE (reconcile_instance env (if isCustomResourceChanged then instnce\<lparr>ks_Conditions := []\<rparr> else instnce)
         isCustomResourceChanged specHash annotationsHash) (\<lambda>_. returnE done_result))))))))"

text \<open>The event filters: the resource itself, and the objects it owns.\<close>

definition ks_UpdateFunc :: "operatorEnv \<Rightarrow> int \<Rightarrow> string gomap \<Rightarrow> int \<Rightarrow> string gomap \<Rightarrow> string \<Rightarrow> bool" where
  "ks_UpdateFunc env oldGeneration oldAnnotations newGeneration newAnnotations namespace \<longleftrightarrow>
     (oldGeneration \<noteq> newGeneration \<or> \<not> EqualPlainMaps oldAnnotations newAnnotations) \<and> namespace = OPERATOR_NAMESPACE env"

definition ks_DeleteFunc :: "operatorEnv \<Rightarrow> bool \<Rightarrow> string \<Rightarrow> bool" where
  "ks_DeleteFunc env deleteStateUnknown namespace \<longleftrightarrow> \<not> deleteStateUnknown \<and> namespace = OPERATOR_NAMESPACE env"

definition ks_owned_UpdateFunc :: "operatorEnv \<Rightarrow> string \<Rightarrow> string \<Rightarrow> string \<Rightarrow> bool" where
  "ks_owned_UpdateFunc env oldVersion newVersion namespace \<longleftrightarrow> namespace = OPERATOR_NAMESPACE env \<and> newVersion \<noteq> oldVersion"

section \<open>A service in memory\<close>

text \<open>
  An instance of the environment on a world that is the stored resource: no other object exists, the
  audit fails, the daemon answers the requests for the backups by their names and reports no job as
  successful.
\<close>

definition absent :: "('o, 'w) crud" where
  "absent = \<lparr>c_Get = (\<lambda>_ _. throwE NotFound), c_Create = (\<lambda>_. throwE (Err ''denied'')), c_Update = (\<lambda>_. throwE NotFound),
     c_Delete = (\<lambda>_. throwE NotFound), c_List = (\<lambda>_ _. returnE [])\<rparr>"

definition absent_kube :: "'w kubeClient" where
  "absent_kube = \<lparr>k_serviceAccounts = absent, k_services = absent, k_persistentVolumeClaims = absent, k_deployments = absent,
     k_configMaps = absent, k_secrets = absent, k_pods = absent\<rparr>"

definition sample_info :: "string \<Rightarrow> backupInfoResponse" where
  "sample_info b = \<lparr>bi_DBList = (if b = ''20240103'' then ''granular'' else ''full backup''),
     bi_CustomVars = [(''region'', if b = ''20240104'' then ''left'' else ''right'')]\<rparr>"

definition sample_serviceEnv :: "kafkaService serviceEnv" where
  "sample_serviceEnv = \<lparr>ke_kube = absent_kube, ke_Get = (\<lambda>n ns w. (Inr (w\<lparr>obj_Name := n, obj_Namespace := ns\<rparr>), w)),
     ke_UpdateStatus = (\<lambda>cr w. (Inr (), cr)), ke_retryOnConflict = DefaultRetry, ke_setControllerReference = (\<lambda>_. Inr),
     ke_convertSecret = Inr, ke_convertService = Inr, ke_convertDeployment = Inr, ke_convertConfigMap = Inr,
     ke_version = (\<lambda>_ _. []), ke_now = (\<lambda>_. []), ke_retries = (\<lambda>_ _ _. 6), ke_HashSpec = (\<lambda>_. Inr ''s''),
     ke_HashGlobal = (\<lambda>_. Inr ''g''), ke_HashAnnotations = (\<lambda>_. Inr ''a''), ke_HashMonitoring = (\<lambda>_. Inr []),
     ke_HashAkhq = (\<lambda>_. Inr []), ke_HashMirrorMaker = (\<lambda>_. Inr []), ke_HashMirrorMakerMonitoring = (\<lambda>_. Inr []),
     ke_HashDisasterRecovery = (\<lambda>_. Inr []), ke_Error = (\<lambda>_. ''error''), ke_replicationDone = (\<lambda>_ w. (Some (Inl (Err ''lag'')), w)),
     ke_ReadFile = (\<lambda>_. throwE (Err ''no such file'')), ke_Do = (\<lambda>request. returnE (rev (takeWhile (\<lambda>c. c \<noteq> CHR ''/'') (rev (rq_Url request))))),
     ke_UnmarshalStatus = (\<lambda>_. Inr ''Processing''), ke_UnmarshalList = (\<lambda>_. Inr []), ke_UnmarshalInfo = (\<lambda>b. Inr (sample_info b)),
     ke_MarshalVault = Inr, ke_provider = sample_providerEnv\<rparr>"

definition sample_dr :: "string \<Rightarrow> disasterRecovery" where
  "sample_dr mode = \<lparr>dr_Mode = mode, dr_Region = ''left'', dr_NoWait = False, dr_MirrorMakerReplication = True, dr_TopicsBackup = True\<rparr>"

definition sample_kafkaService :: "string \<Rightarrow> string \<Rightarrow> kafkaService" where
  "sample_kafkaService mode current = \<lparr>obj_Name = ''kafka'', obj_Namespace = ''ns'', obj_Labels = [], obj_Annotations = [],
     obj_ResourceVersion = [], obj_OwnerReferences = [], ks_APIVersion = ''netcracker.com/v7'', ks_Kind = ''KafkaService'',
     ks_Global = None, ks_DisasterRecovery = Some (sample_dr mode), ks_Monitoring = None, ks_Akhq = None, ks_MirrorMaker = None,
     ks_MirrorMakerMonitoring = None, ks_IntegrationTests = None, ks_BackupDaemon = None, ks_Other = [], ks_AkhqNodes = [],
     ks_MonitoringNodes = [], ks_MirrorMakerNodes = [],
     ks_DisasterRecoveryStatus = \<lparr>ds_Mode = current, ds_Status = ''done'', ds_Message = []\<rparr>, ks_Conditions = []\<rparr>"

definition sample_backupDaemon :: backupDaemon where
  "sample_backupDaemon = \<lparr>bd_username = ''admin'', bd_password = ''secret'', bd_backupDaemonUrl = ''http://kafka-backup-daemon.ns:8080''\<rparr>"

section \<open>The switchover\<close>

text \<open>
  An API server that answers every request for the custom resource \<open>key\<close> without a conflict; \<open>status\<close> is
  the disaster-recovery part of the status it holds.
\<close>

definition answering :: "string \<times> string \<Rightarrow> ('w \<Rightarrow> disasterRecoveryStatus) \<Rightarrow> 'w serviceEnv \<Rightarrow> bool" where
  "answering key status env \<longleftrightarrow>
     (\<forall>w. \<exists>cr w'. ke_Get env (fst key) (snd key) w = (Inr cr, w') \<and> obj_key cr = key) \<and>
     (\<forall>cr w. obj_key cr = key \<longrightarrow> (\<exists>w'. ke_UpdateStatus env cr w = (Inr (), w') \<and> status w' = ks_DisasterRecoveryStatus cr))"

lemma DefaultRetry_success: "f w = (Inr u, w') \<Longrightarrow> DefaultRetry f w = (Inr u, w')"
  by (simp add: DefaultRetry_def eval_nat_numeral)

lemma updateDisasterRecoveryStatus_run:
  assumes "answering (obj_key cr) status env" "ke_retryOnConflict env = DefaultRetry"
  shows "\<exists>w'. updateDisasterRecoveryStatus env cr dr s msg w = (Inr (), w') \<and>
    status w' = \<lparr>ds_Mode = dr_Mode dr, ds_Status = s, ds_Message = msg\<rparr>"
proof -
  obtain i w1 where get: "ke_Get env (obj_Name cr) (obj_Namespace cr) w = (Inr i, w1)" "obj_key i = obj_key cr"
    using assms(1) unfolding answering_def obj_key_def by force
  let ?i = "set_switchover (dr_Mode dr) s msg i"
  have "obj_key ?i = obj_key cr" using get(2) by (simp add: set_switchover_def obj_key_def)
  then obtain w' where upd: "ke_UpdateStatus env ?i w1 = (Inr (), w')" "status w' = ks_DisasterRecoveryStatus ?i"
    using assms(1) unfolding answering_def by blast
  have "bindE (reloadCR (ks_statusUpdater env cr)) (\<lambda>i. su_UpdateStatus (ks_statusUpdater env cr) (set_switchover (dr_Mode dr) s msg i)) w
      = (Inr (), w')"
    using get(1) upd(1) by (simp add: reloadCR_def ks_statusUpdater_def bindE_def)
  then show ?thesis using upd(2)
    by (simp add: updateDisasterRecoveryStatus_def ks_updateStatus_def UpdateStatusWithRetry_def assms(2) DefaultRetry_success
        set_switchover_def)
qed

lemma finish_switchover_run:
  assumes "answering (obj_key cr) status env" "ke_retryOnConflict env = DefaultRetry"
  shows "\<exists>w'. finish_switchover env cr dr s msg err w = (Inr (), w') \<and> ds_Mode (status w') = dr_Mode dr
    \<and> ds_Status (status w') = (if s = ''failed'' \<or> err \<noteq> None then ''failed'' else s)"
proof -
  define s' where "s' = (if s = ''failed'' \<or> err \<noteq> None then ''failed'' else s)"
  define msg' where "msg' = (case err of Some e \<Rightarrow> if s = ''failed'' then msg
      else ''Error is occurred during Kafka switching: '' @ ke_Error env e | None \<Rightarrow> msg)"
  have fin: "finish_switchover env cr dr s msg err =
      tryE (updateDisasterRecoveryStatus env cr dr s' msg') (\<lambda>_. returnE ()) returnE"
    by (simp add: finish_switchover_def s'_def msg'_def split: option.split)
  obtain w' where "updateDisasterRecoveryStatus env cr dr s' msg' w = (Inr (), w')"
    "status w' = \<lparr>ds_Mode = dr_Mode dr, ds_Status = s', ds_Message = msg'\<rparr>"
    using updateDisasterRecoveryStatus_run[OF assms] by blast
  then show ?thesis unfolding fin s'_def[symmetric] by (intro exI[of _ w']) (simp add: tryE_def returnE_def)
qed

lemma with_deferred_result:
  assumes "with_deferred (\<lambda>err. on_fst (deferred err)) body s = (r, (w', m'))"
    and "\<And>err w. \<exists>w'. deferred err w = (Inr (), w') \<and> P err w'"
  shows "P (case r of Inl e \<Rightarrow> if e = Panic then None else Some e | Inr err \<Rightarrow> err) w'"
proof -
  obtain q w1 m1 where body: "body s = (q, (w1, m1))" by (metis prod.exhaust)
  define err where "err = (case q of Inl e \<Rightarrow> if e = Panic then None else Some e | Inr err \<Rightarrow> err)"
  obtain w2 where w2: "deferred err w1 = (Inr (), w2)" "P err w2" using assms(2) by blast
  have "(r, (w', m')) = (q, (w2, m1))"
    using assms(1) body w2(1) by (simp add: with_deferred_def on_fst_def err_def[symmetric])
  then show ?thesis using w2(2) by (simp add: err_def)
qed

text \<open>
  C6. How a switchover ends. With an API server that answers: the status of the resource gets the
  requested mode, and \<open>done\<close> if the replication check was not needed or the audit ended without an
  error before its timeout, and the rest of the reconciliation either went through with no failed
  condition or panicked; otherwise \<open>failed\<close>. That a panic counts as \<open>done\<close> is because the deferred
  function sees no error then.
\<close>

theorem switchover_outcome:
  assumes "answering (obj_key instnce) status env" "ke_retryOnConflict env = DefaultRetry"
    and "ks_DisasterRecovery instnce = Some dr" "switchover_due instnce dr"
    and started: "updateDisasterRecoveryStatus env instnce dr ''running'' ''The switchover process for Kafka has been started'' w
      = (Inr (), w1)"
    and "isCheckNeeded instnce dr \<Longrightarrow> fst (ke_replicationDone env instnce w1) \<noteq> Some (Inl Panic)"
    and "reconcile_instance env instnce changed specHash annotationsHash (w, m) = (r, (w', m'))"
  shows "ds_Mode (status w') = dr_Mode dr \<and>
    ds_Status (status w') = (if (isCheckNeeded instnce dr \<longrightarrow> fst (ke_replicationDone env instnce w1) = Some (Inr ()))
      \<and> (r = Inr None \<or> r = Inl Panic) then ''done'' else ''failed'')"
proof -
  let ?ok = "isCheckNeeded instnce dr \<longrightarrow> fst (ke_replicationDone env instnce w1) = Some (Inr ())"
  obtain s msg checked w2 where chk: "switchover_check env instnce dr w1 = (Inr (s, msg, checked), w2)"
    "s = (if ?ok then ''done'' else ''failed'')"
  proof (cases "isCheckNeeded instnce dr")
    case True
    obtain res w2 where res: "ke_replicationDone env instnce w1 = (res, w2)" by fastforce
    then have no_panic: "res \<noteq> Some (Inl Panic)" using assms(6) True by simp
    have "switchover_check env instnce dr w1 = (Inr (case CheckFullReplication res of
          (False, _) \<Rightarrow> (''failed'', ''timeout occurred during replication check'', False)
        | (True, Some errSwitchover) \<Rightarrow> (''failed'', ''Error is occurred during switching: '' @ ke_Error env errSwitchover, False)
        | (True, None) \<Rightarrow> (''done'', ''replication has finished successfully'', True)), w2)"
      using True res no_panic by (auto simp: switchover_check_def split: option.split sum.split go_error.split)
    then show ?thesis using that res True
      by (cases res; cases "the res") (auto simp: CheckFullReplication_def)
  next
    case False
    then show ?thesis using that by (simp add: switchover_check_def returnE_def)
  qed
  have "with_deferred (\<lambda>err. on_fst (finish_switchover env instnce dr s msg err))
      (reconcile_services env instnce changed checked specHash annotationsHash) (w2, m) = (r, (w', m'))"
    using assms(3,4,7) started chk(1) by (simp add: reconcile_instance_def bindE_def on_fst_def)
  from with_deferred_result[OF this, of "\<lambda>err w'. ds_Mode (status w') = dr_Mode dr
      \<and> ds_Status (status w') = (if s = ''failed'' \<or> err \<noteq> None then ''failed'' else s)"]
  have "ds_Mode (status w') = dr_Mode dr \<and> ds_Status (status w') = (if s = ''failed'' \<or>
      (case r of Inl e \<Rightarrow> if e = Panic then None else Some e | Inr err \<Rightarrow> err) \<noteq> None then ''failed'' else s)"
    using finish_switchover_run[OF assms(1,2)] by blast
  moreover have "((case r of Inl e \<Rightarrow> if e = Panic then None else Some e | Inr err \<Rightarrow> err) = None) \<longleftrightarrow> r = Inr None \<or> r = Inl Panic"
    by (cases r) auto
  ultimately show ?thesis using chk(2) by (auto split: if_splits)
qed

lemma sample_answering: "answering (''kafka'', ''ns'') ks_DisasterRecoveryStatus sample_serviceEnv"
  by (simp add: answering_def sample_serviceEnv_def obj_key_def)

theorem switchover_outcome_witness:
  "ds_Status (ks_DisasterRecoveryStatus (fst (snd (reconcile_instance sample_serviceEnv (sample_kafkaService ''active'' ''standby'')
     True ''s'' ''a'' (sample_kafkaService ''active'' ''standby'', \<lparr>km_ResourceHashes = [], km_ResourceVersions = [],
     km_controllerReferenceSet = False, km_globalSpecHash = []\<rparr>))))) = ''failed''"
proof -
  let ?cr = "sample_kafkaService ''active'' ''standby''" and ?dr = "sample_dr ''active''"
  let ?m = "\<lparr>km_ResourceHashes = [], km_ResourceVersions = [], km_controllerReferenceSet = False, km_globalSpecHash = []\<rparr>"
  have key: "obj_key ?cr = (''kafka'', ''ns'')" by (simp add: sample_kafkaService_def obj_key_def)
  have env: "answering (obj_key ?cr) ks_DisasterRecoveryStatus sample_serviceEnv" "ke_retryOnConflict sample_serviceEnv = DefaultRetry"
    using sample_answering unfolding key by (simp_all add: sample_serviceEnv_def)
  have due: "ks_DisasterRecovery ?cr = Some ?dr" "switchover_due ?cr ?dr"
    by (simp_all add: sample_kafkaService_def sample_dr_def switchover_due_def)
  obtain w1 where w1: "updateDisasterRecoveryStatus sample_serviceEnv ?cr ?dr ''running''
      ''The switchover process for Kafka has been started'' ?cr = (Inr (), w1)"
    using updateDisasterRecoveryStatus_run[OF env] by blast
  obtain r w' m' where run: "reconcile_instance sample_serviceEnv ?cr True ''s'' ''a'' (?cr, ?m) = (r, (w', m'))" by (metis prod.exhaust)
  have needed: "isCheckNeeded ?cr ?dr" by code_simp
  have lag: "fst (ke_replicationDone sample_serviceEnv ?cr w1) = Some (Inl (Err ''lag''))" by (simp add: sample_serviceEnv_def)
  have "ds_Status (ks_DisasterRecoveryStatus w') = ''failed''"
    using switchover_outcome[OF env due w1 _ run] needed lag by simp
  then show ?thesis by (simp add: run)
qed

text \<open>
  An interrupted switchover is completed without the replication check. Where a switch to the
  active mode needs the check, the resource already carries the new mode while the check runs. If the
  operator is restarted in that time, the switchover is due again, but the check is taken for not
  needed, the replication counts as checked, and the backup daemon restores nothing.
\<close>

theorem interrupted_switchover_unchecked:
  assumes "isCheckNeeded instnce dr"
  shows "switchover_due (set_switchover (dr_Mode dr) ''running'' msg instnce) dr
    \<and> switchover_check env (set_switchover (dr_Mode dr) ''running'' msg instnce) dr w =
        (Inr (''done'', ''Switchover mode has been changed without replication check'', True), w)
    \<and> \<not> switch_needed (set_switchover (dr_Mode dr) ''running'' msg instnce) dr"
proof -
  have "strings_ToLower (dr_Mode dr) = ''active''"
    using assms by (auto simp: isCheckNeeded_def Let_def split: if_splits)
  then have "\<not> isCheckNeeded (set_switchover (dr_Mode dr) ''running'' msg instnce) dr"
    by (simp add: isCheckNeeded_def set_switchover_def strings_ToLower_def to_lower_char_def Let_def)
  then show ?thesis
    by (simp add: switchover_due_def switchover_check_def switch_needed_def set_switchover_def returnE_def)
qed

theorem interrupted_switchover_unchecked_witness:
  "isCheckNeeded (sample_kafkaService ''active'' ''standby'') (sample_dr ''active'')
   \<and> switchover_check sample_serviceEnv (set_switchover ''active'' ''running'' [] (sample_kafkaService ''active'' ''standby''))
       (sample_dr ''active'') (sample_kafkaService ''active'' ''standby'') =
     (Inr (''done'', ''Switchover mode has been changed without replication check'', True), sample_kafkaService ''active'' ''standby'')"
proof -
  have needed: "isCheckNeeded (sample_kafkaService ''active'' ''standby'') (sample_dr ''active'')" by code_simp
  have "dr_Mode (sample_dr ''active'') = ''active''" by (simp add: sample_dr_def)
  with interrupted_switchover_unchecked[OF needed] needed show ?thesis by metis
qed

section \<open>The backup before the switch\<close>

text \<open>The requests to the backup daemon and the file system leave \<open>I\<close> alone.\<close>

definition quiet :: "('w \<Rightarrow> bool) \<Rightarrow> 'w serviceEnv \<Rightarrow> bool" where
  "quiet I env \<longleftrightarrow> (\<forall>request. keeps I (ke_Do env request)) \<and> (\<forall>file. keeps I (ke_ReadFile env file))"

lemma processRequest_keeps: "quiet I env \<Longrightarrow> keeps I (processRequest env r method url body)"
  unfolding processRequest_def Let_def quiet_def by (intro keeps_try) simp_all

lemma job_condition_keeps: "quiet I env \<Longrightarrow> keeps I (job_condition env r jobId)"
  unfolding job_condition_def by (intro keeps_try processRequest_keeps) auto

lemma job_condition_successful:
  assumes "job_condition env r jobId w = (Inr (Some ()), w')"
  shows "\<exists>request w1 response w2. ke_Do env request w1 = (Inr response, w2) \<and> ke_UnmarshalStatus env response = Inr ''Successful''"
  using assms by (auto simp: job_condition_def processRequest_def getBackupStatus_def tryE_def liftE_def returnE_def Let_def
      split: prod.splits sum.splits if_splits)



text \<open>
  C39. The backup that is restored is the newest one of another region: where the daemon answers the
  requests for the single backups, the result is the greatest identifier among the full backups whose
  region differs from that of this side, and empty when there is none.
\<close>

theorem getLastFullBackup_newest:
  assumes "\<And>b w. b \<in> set backups \<Longrightarrow> \<exists>response. processRequest env r ''GET'' (bd_backupDaemonUrl r @ ''/listbackups/'' @ b) None w = (Inr response, w)
      \<and> ke_UnmarshalInfo env response = Inr (info b)"
  shows "getLastFullBackup env r dr backups w =
    (Inr (let candidates = {b \<in> set backups. other_region dr (info b)} in if candidates = {} then [] else Max candidates), w)"
proof -
  have step: "first_full_backup env r dr (b # bs) w = (if other_region dr (info b) then returnE b else first_full_backup env r dr bs) w"
    if "b \<in> set backups" for b bs w
    using assms[OF that, of w] by (auto simp: bindE_def liftE_def)
  have "first_full_backup env r dr bs w =
      (Inr (let candidates = {b \<in> set bs. other_region dr (info b)} in if candidates = {} then [] else Max candidates), w)"
    if "sorted_wrt (\<ge>) bs" "set bs \<subseteq> set backups" for bs
    using that
  proof (induction bs)
    case (Cons b bs)
    have "{x \<in> set (b # bs). other_region dr (info x)} =
        (if other_region dr (info b) then insert b else id) {x \<in> set bs. other_region dr (info x)}" by auto
    moreover have "Max (insert b {x \<in> set bs. other_region dr (info x)}) = b"
      using Cons.prems by (intro Max_eqI) auto
    ultimately show ?case using Cons step[of b bs w]
      by (cases "other_region dr (info b)") (simp_all add: returnE_def Let_def del: first_full_backup.simps)
  qed (simp add: returnE_def)
  moreover have "sorted_wrt (\<ge>) (rev (sort backups))" by (simp add: sorted_wrt_rev)
  ultimately show ?thesis by (auto simp: getLastFullBackup_def)
qed

theorem getLastFullBackup_newest_witness:
  "getLastFullBackup sample_serviceEnv sample_backupDaemon (sample_dr ''active'')
     [''20240102'', ''20240104'', ''20240101'', ''20240103''] (sample_kafkaService ''active'' ''standby'') =
   (Inr ''20240102'', sample_kafkaService ''active'' ''standby'')"
proof -
  let ?backups = "[''20240102'', ''20240104'', ''20240101'', ''20240103'']"
  have answer: "\<exists>response. processRequest sample_serviceEnv sample_backupDaemon ''GET''
      (bd_backupDaemonUrl sample_backupDaemon @ ''/listbackups/'' @ b) None w = (Inr response, w)
      \<and> ke_UnmarshalInfo sample_serviceEnv response = Inr (sample_info b)" if "b \<in> set ?backups" for b w
  proof -
    have "takeWhile (\<lambda>c. c \<noteq> CHR ''/'') (rev b @ CHR ''/'' # x) = rev b" for x
      using that by (subst takeWhile_append2) auto
    then show ?thesis
      by (simp add: processRequest_def sample_serviceEnv_def tryE_def throwE_def returnE_def)
  qed
  have candidates: "{b \<in> set ?backups. other_region (sample_dr ''active'') (sample_info b)} = {''20240102'', ''20240101''}"
    by (auto simp: other_region_def sample_dr_def sample_info_def mstr_def)
  have "Max {''20240102'', ''20240101''} = ''20240102''" by code_simp
  moreover have "getLastFullBackup sample_serviceEnv sample_backupDaemon (sample_dr ''active'') ?backups
      (sample_kafkaService ''active'' ''standby'') =
    (Inr (let candidates = {b \<in> set ?backups. other_region (sample_dr ''active'') (sample_info b)} in
       if candidates = {} then [] else Max candidates), sample_kafkaService ''active'' ''standby'')"
    using answer by (rule getLastFullBackup_newest)
  ultimately show ?thesis unfolding candidates Let_def by (simp only: insert_not_empty if_False)
qed

end
