(* ===== verification/Spec2Isabelle.thy ===== *)
theory Spec2Isabelle
  imports Go_Prelude Operator_Util Float64 Partition_Reassign Kube_Objects Kube_Reconciler Kmm_Config Replication_Audit Worker_Pool
    Go_Url Kafka_User Akhq_Config Provider_Common Kafka_Provider Kafka_Cluster Kraft_Migration Service_Types Monitoring_Provider
    Akhq_Provider Mirror_Maker_Provider Service_Deployments Mirror_Maker_Text Monitoring_Metrics Kafka_Service
begin

text \<open>
  A verification library for the Kubernetes operator of Kafka (\<open>src/operator\<close>) and the metrics program of its
  monitoring agent (\<open>src/monitoring\<close>).

  \<^bold>\<open>The program.\<close> One process, the operator, runs a pool of workers (\<open>workers/pool.go\<close>). Each worker
  builds a controller manager and restarts it when it fails. The managers run five controllers, each of which brings
  the cluster in line with one kind of custom resource:
  \<^item> \<open>Kafka\<close> (\<open>controllers/kafka\<close>): brokers with their services, claims and deployments, SCRAM credentials,
    partition reassignment, scaling, the migration from ZooKeeper to KRaft;
  \<^item> \<open>KafkaService\<close> (\<open>controllers/kafkaservice\<close>): monitoring, AKHQ, Mirror Maker and its monitoring, integration
    tests, the backup daemon, and the switchover between two data centers with its replication audit;
  \<^item> \<open>KafkaUser\<close> (\<open>controllers/kafkauser\<close>): SCRAM users and access-control lists;
  \<^item> \<open>KmmConfig\<close> (\<open>controllers/kmmconfig\<close>): topics and transformations in the Mirror Maker configuration;
  \<^item> \<open>AkhqConfig\<close> (\<open>controllers/akhqconfig\<close>, \<open>controllers/akhqprotobuf\<close>): deserialization settings shared by all resources.
  The controllers share the operations on Kubernetes objects (\<open>controllers/reconciler.go\<close>), the providers that
  build objects from a resource (\<open>controllers/provider\<close>), the Kafka client (\<open>controllers/kafka_client.go\<close>) and helpers
  (\<open>util\<close>). They interact through the cluster only: the text of the Mirror Maker configuration that the \<open>KafkaService\<close>
  controller writes is read and changed by the \<open>KmmConfig\<close> controller and read by the audit.

  \<^bold>\<open>How the code is modelled.\<close> Definitions have the names of the Go functions; a prefix tells apart methods
  with the same name (\<open>ks_\<close>, \<open>kf_\<close>, \<open>ku_\<close>, \<open>kmm_\<close>, \<open>mm_\<close>, \<open>mmm_\<close>, \<open>mo_\<close>, \<open>le_\<close>, \<open>akhq_\<close>). A part of a long function
  that has its own definition has a name of its own. A structure is a record (fields of a pointer
  type are options), a map an association list in the order in which a loop visits it, and a function that can fail or
  change the cluster a computation \<open>'w \<Rightarrow> (go_error + 'a) \<times> 'w\<close> (\<open>Go_Prelude\<close>). A panic is the error \<open>Panic\<close>,
  which no error check of the code sees. Libraries are arguments, collected in environment
  records (\<open>kubeClient\<close>, \<open>operatorEnv\<close>, \<open>providerEnv\<close>, \<open>kafkaEnv\<close>, \<open>serviceEnv\<close>, \<open>clusterAdmin\<close>, \<open>saramaClient\<close>,
  \<open>metricsEnv\<close> and others): the Kubernetes client, sarama and kafka-go, hashes, JSON and YAML, regular expressions,
  HTTP, files, the clock, random numbers. What a theorem needs of them is a named hypothesis, and the witness of the theorem gives
  a concrete environment that satisfies it.

  \<^bold>\<open>The theories.\<close>
  \<^item> \<open>Go_Prelude\<close>: strings, maps, errors, effects and their program logic (\<open>valid\<close>, \<open>keeps\<close> with rule
    collections). \<open>Float64\<close>: rounding to binary64. \<open>Go_Url\<close>: escaping and parsing of addresses. \<open>Operator_Util\<close>:
    \<open>util\<close>, with the property-file parser.
  \<^item> \<open>Partition_Reassign\<close>: \<open>kafka_client.go\<close>. Every reassignment that is requested keeps the number and the distinctness of
    the replicas and moves at most one replica of a partition; the counts never become more uneven, in spite of rounding;
    waiting for brokers ends; describing topics ends exactly if an attempt succeeds. The locale \<open>slice_sort\<close>
    is the contract of \<open>sort.Slice\<close>.
  \<^item> \<open>Kube_Objects\<close>, \<open>Kube_Reconciler\<close>: the objects, and \<open>reconciler.go\<close> with conditions, status updates and restart annotations. The locale
    \<open>create_or_update\<close> is the contract of the operations that make an object exist as desired, with one interpretation
    for each kind of object; \<open>conflict_retry\<close> is that of the retry helper, and a sublocale gives the
    former for deployments.
  \<^item> \<open>Provider_Common\<close>, \<open>Kafka_Provider\<close>, \<open>Monitoring_Provider\<close>, \<open>Akhq_Provider\<close>, \<open>Mirror_Maker_Provider\<close>: \<open>controllers/provider\<close>.
    Which setting of the environment wins; deployments are well-formed (mounts, names, selectors) and services
    select the right pods; where the data is. \<open>Service_Deployments\<close> has the contract of a workload as the locale \<open>workload\<close>, with the four
    service deployments as its interpretations. \<open>Mirror_Maker_Text\<close> shows that the parser reads the text of the Mirror
    Maker configuration as it was meant.
  \<^item> \<open>Kafka_Cluster\<close>: \<open>controllers/kafka\<close>. The shell sees the credentials as they were; what the checks of the
    specification do not cover. \<open>Kraft_Migration\<close>: ZooKeeper is kept until the metadata has been migrated,
    and the recorded step of the migration only moves forward.
  \<^item> \<open>Service_Types\<close>, \<open>Kafka_Service\<close>: \<open>controllers/kafkaservice\<close> without the audit. How a switchover ends; the backup
    daemon is not stopped before its backup succeeded; the newest backup of another region is restored.
  \<^item> \<open>Replication_Audit\<close>: \<open>controllers/handlers\<close> and \<open>kafka_replication_auditor.go\<close>. A successful audit means that everything was
    replicated; the counting goroutines with their wait group as a step relation, and exactly when they join.
  \<^item> \<open>Kmm_Config\<close>, \<open>Kafka_User\<close>, \<open>Akhq_Config\<close>: the controllers of these resources. Round trips of what is written and read,
    frames (what a reconciliation leaves alone), the access-control lists of a role, and the refinement of the shared AKHQ
    configuration to a relation between resources and mappings.
  \<^item> \<open>Worker_Pool\<close>: \<open>workers\<close> and \<open>cfg\<close>. A crash loop stops after five runs; the pause is bounded at the width of
    64 bits; the managers do not share ports or leases, but for one pair.
  \<^item> \<open>Monitoring_Metrics\<close>: \<open>monitoring/main.go\<close>. One line per broker, with skews on the right side of zero.

  \<^bold>\<open>Loops.\<close> Loops over lists are structural recursion. Polling loops (\<open>PollImmediate\<close>, waiting for brokers) recurse on
  the number of attempts that the interval and the timeout allow, so they need no other bound. The restart after a
  resize of a claim pauses longer with every attempt; a pause beyond the limit of ten minutes that the code sets ends it, which is its measure. Loops without a bound are
  partial functions into options (\<open>describe_topics\<close>, \<open>waitUntilActiveMessagesFlushOut\<close>, \<open>job_loop\<close>), and where they end that
  is proved. \<open>DefaultRetry\<close> runs five times, as \<open>retry.DefaultRetry\<close> does.

  \<^bold>\<open>Not modelled.\<close> \<open>operator/main.go\<close> (flags and signals); \<open>scram_client.go\<close>, \<open>util/hash.go\<close> and \<open>util/password.go\<close>, which only call
  libraries; registration with the scheme and the manager, except for the event filters; generated deep copies (values are copied by
  being values); logging, except where it can panic. Numbers that the code never brings near an overflow are
  integers; widths are kept where a conversion or a clock is involved. Strings are lists of bytes, and case mapping is that of ASCII.
\<close>

end
